(* ===== verification/Elite_Prelude.thy ===== *)
theory Elite_Prelude
  imports Main "HOL-Library.Word" "HOL-Library.AList" "HOL-Library.Monad_Syntax"
begin

text \<open>
  Shared vocabulary of the development: the fixed-width integer types of the C sources,
  little-endian memory (the BPF objects are built for the \<open>bpfel\<close> target), bounds-checked
  byte loads, and the generic lemmas on lists, words and association lists that the
  component theories use through the simplifier and the collections declared here.
\<close>

unbundle bit_operations_syntax

type_synonym u8 = "8 word"
type_synonym u16 = "16 word"
type_synonym u32 = "32 word"
type_synonym u64 = "64 word"
type_synonym bytes = "u8 list"
type_synonym cpu = nat

text \<open>
  \<open>map_laws\<close>: what a BPF map access returns after an update or a delete;
  \<open>layout_simps\<close>: sizes and offsets of C structures.
\<close>

named_theorems map_laws
named_theorems layout_simps

section \<open>Little-endian integers in memory\<close>

primrec le_nat :: "bytes \<Rightarrow> nat" where
  "le_nat [] = 0"
| "le_nat (b # bs) = unat b + 256 * le_nat bs"

definition le_word :: "bytes \<Rightarrow> 'a::len word" where
  "le_word bs = word_of_nat (le_nat bs)"

primrec le_bytes :: "nat \<Rightarrow> 'a::len word \<Rightarrow> bytes" where
  "le_bytes 0 w = []"
| "le_bytes (Suc n) w = ucast w # le_bytes n (drop_bit 8 w)"

lemma length_le_bytes [simp]: "length (le_bytes n w) = n"
  by (induction n arbitrary: w) simp_all

lemma unat_ucast_byte: "unat (ucast (w :: 'a::len word) :: u8) = unat w mod 256"
  by (simp add: unsigned_ucast_eq take_bit_eq_mod)

lemma le_nat_drop: "le_nat bs div 256 ^ n = le_nat (drop n bs)"
proof (induction n arbitrary: bs)
  case (Suc n)
  show ?case
  proof (cases bs)
    case (Cons b bs')
    have "le_nat bs div 256 ^ Suc n = le_nat bs div 256 div 256 ^ n" by (simp add: div_mult2_eq)
    also have "le_nat bs div 256 = le_nat bs'"
      using Cons unsigned_less [of b, where ?'a = nat] by simp
    finally show ?thesis using Suc Cons by simp
  qed simp
qed simp

lemma le_nat_take: "le_nat (take n bs) = le_nat bs mod 256 ^ n"
proof (induction n arbitrary: bs)
  case (Suc n)
  show ?case
  proof (cases bs)
    case (Cons b bs')
    have "unat b < 256" using unsigned_less [of b, where ?'a = nat] by simp
    then have "(unat b + 256 * le_nat bs') mod (256 * 256 ^ n) = unat b + 256 * (le_nat bs' mod 256 ^ n)"
      by (simp add: mod_mult2_eq)
    with Suc Cons show ?thesis by simp
  qed simp
qed simp

lemma le_nat_less: "le_nat bs < 256 ^ length bs"
  using le_nat_take [of "length bs" bs] by (metis mod_less_divisor take_all_iff order_refl zero_less_power zero_less_numeral)

lemma unat_le_word:
  assumes "8 * length bs \<le> LENGTH('a :: len)"
  shows "unat (le_word bs :: 'a word) = le_nat bs"
proof -
  have "le_nat bs < 2 ^ (8 * length bs)" using le_nat_less [of bs] by (simp add: power_mult)
  also have "\<dots> \<le> 2 ^ LENGTH('a)" using assms by (rule power_increasing) simp
  finally show ?thesis by (simp add: le_word_def unat_of_nat take_bit_nat_eq_self)
qed

lemma le_nat_le_bytes: "le_nat (le_bytes n w) = unat w mod 256 ^ n"
proof (induction n arbitrary: w)
  case 0
  then show ?case by simp
next
  case (Suc n)
  have "unat (drop_bit 8 w) = unat w div 256"
    unfolding unat_drop_bit_eq by (simp add: drop_bit_eq_div)
  with Suc show ?case
    by (simp add: unat_ucast_byte mod_mult2_eq algebra_simps)
qed

lemma le_word_le_bytes [simp]:
  fixes w :: "'a::len word"
  assumes "8 * n = LENGTH('a)"
  shows "(le_word (le_bytes n w) :: 'a word) = w"
proof -
  have "(256 :: nat) ^ n = 2 ^ LENGTH('a)"
    by (simp flip: assms add: power_mult)
  then show ?thesis
    by (simp add: le_word_def le_nat_le_bytes)
qed

section \<open>Bounds of unsigned values\<close>

lemma unat_u16_less: "unat (a :: u16) < 2 ^ 16"
  by (rule order_less_le_trans [OF unsigned_less]) simp

lemma unat_u32_less: "unat (a :: u32) < 2 ^ 32"
  by (rule order_less_le_trans [OF unsigned_less]) simp

lemma unat_u64_less: "unat (a :: u64) < 2 ^ 64"
  by (rule order_less_le_trans [OF unsigned_less]) simp

lemma unat_ucast_up:
  assumes "LENGTH('a) \<le> LENGTH('b)"
  shows "unat (ucast (w :: 'a::len word) :: 'b::len word) = unat w"
proof -
  have "unat w < 2 ^ LENGTH('b)"
    by (rule less_le_trans [OF unsigned_less]) (simp add: assms)
  then show ?thesis by (simp add: unsigned_ucast_eq take_bit_nat_eq_self)
qed

lemma unat_ucast_u64 [simp]: "unat (ucast (a :: u32) :: u64) = unat a"
  using unat_u32_less [of a] by (simp add: unsigned_ucast_eq take_bit_nat_eq_self)

lemma unat_diff_le: "unat (b :: 'a::len word) \<le> unat a \<Longrightarrow> unat (a - b) = unat a - unat b"
  by (simp add: unat_sub_if')

lemma unat_add_small:
  "unat (a :: u64) + unat b < 2 ^ 64 \<Longrightarrow> unat (a + b) = unat a + unat b"
  by (simp add: unat_plus_if')

lemma unat_mult_small:
  "unat (a :: u64) * unat b < 2 ^ 64 \<Longrightarrow> unat (a * b) = unat a * unat b"
  by (simp add: unat_word_ariths)

lemma div_plus_div_le: "a div d + b div d \<le> (a + b) div (d :: nat)"
  by (subst div_add1_eq) simp

section \<open>Bounds-checked memory\<close>

text \<open>
  A buffer is the list of bytes between two addresses. A read that is not inside it is
  \<^term>\<open>None\<close>: the access the BPF verifier must be able to exclude.
\<close>

definition load :: "bytes \<Rightarrow> nat \<Rightarrow> nat \<Rightarrow> bytes option" where
  "load buf off n = (if off + n \<le> length buf then Some (take n (drop off buf)) else None)"

definition load8 :: "bytes \<Rightarrow> nat \<Rightarrow> u8 option" where
  "load8 buf off = (if off < length buf then Some (buf ! off) else None)"

definition load16 :: "bytes \<Rightarrow> nat \<Rightarrow> u16 option" where
  "load16 buf off = map_option le_word (load buf off 2)"

definition load32 :: "bytes \<Rightarrow> nat \<Rightarrow> u32 option" where
  "load32 buf off = map_option le_word (load buf off 4)"

definition load64 :: "bytes \<Rightarrow> nat \<Rightarrow> u64 option" where
  "load64 buf off = map_option le_word (load buf off 8)"

lemma load_in_bounds [simp]: "off + n \<le> length buf \<Longrightarrow> load buf off n = Some (take n (drop off buf))"
  by (simp add: load_def)

lemma load8_in_bounds [simp]: "off < length buf \<Longrightarrow> load8 buf off = Some (buf ! off)"
  by (simp add: load8_def)

lemma load16_in_bounds [simp]:
  "off + 2 \<le> length buf \<Longrightarrow> load16 buf off = Some (le_word (take 2 (drop off buf)))"
  by (simp add: load16_def)

lemma load32_in_bounds [simp]:
  "off + 4 \<le> length buf \<Longrightarrow> load32 buf off = Some (le_word (take 4 (drop off buf)))"
  by (simp add: load32_def)

lemma load64_in_bounds [simp]:
  "off + 8 \<le> length buf \<Longrightarrow> load64 buf off = Some (le_word (take 8 (drop off buf)))"
  by (simp add: load64_def)

lemma load_None_iff: "load buf off n = None \<longleftrightarrow> length buf < off + n"
  by (simp add: load_def)

section \<open>C structure layout\<close>

text \<open>
  A field is its name, the size of its type and the alignment of its type; the compiler
  places each field at the next multiple of its alignment and rounds the size up to the
  largest alignment. \<open>packed\<close> structures have every alignment 1.
\<close>

type_synonym c_field = "string \<times> nat \<times> nat"

definition align_up :: "nat \<Rightarrow> nat \<Rightarrow> nat" where
  "align_up a n = (if a = 0 then n else (n + a - 1) div a * a)"

fun c_offsets :: "nat \<Rightarrow> c_field list \<Rightarrow> (string \<times> nat) list" where
  "c_offsets at [] = []"
| "c_offsets at ((f, sz, al) # fs) = (f, align_up al at) # c_offsets (align_up al at + sz) fs"

fun c_end :: "nat \<Rightarrow> c_field list \<Rightarrow> nat" where
  "c_end at [] = at"
| "c_end at ((f, sz, al) # fs) = c_end (align_up al at + sz) fs"

definition c_alignof :: "c_field list \<Rightarrow> nat" where
  "c_alignof fs = fold (\<lambda>(f, sz, al). max al) fs 1"

definition c_sizeof :: "c_field list \<Rightarrow> nat" where
  "c_sizeof fs = align_up (c_alignof fs) (c_end 0 fs)"

lemmas [layout_simps] = align_up_def c_alignof_def c_sizeof_def

section \<open>Association lists\<close>

lemma map_of_filter_keys:
  "map_of (filter (\<lambda>(k, v). P k) xs) k = (if P k then map_of xs k else None)"
  by (induction xs) auto

lemma fst_set_filter_keys: "distinct (map fst xs) \<Longrightarrow> distinct (map fst (filter P xs))"
  by (rule distinct_map_filter)

lemma length_alist_update:
  "length (AList.update k v xs) = (if map_of xs k = None then Suc (length xs) else length xs)"
  by (induction xs) auto

lemma length_alist_delete_le: "length (AList.delete k xs) \<le> length xs"
  by (simp add: AList.delete_eq)

end
