(* ===== verification/Bpf_Maps.thy ===== *)
theory Bpf_Maps
  imports Elite_Prelude
begin

text \<open>
  The BPF maps the programs keep their state in, as the helper documentation of
  \<^verbatim>\<open>bpf/headers/bpf_helper_defs.h\<close> describes them. The kernel implements the maps; what it is
  free to choose is an argument of the operations: whether it can serve an update, which
  entries an LRU map evicts to make room, and what the slots of the other CPUs hold in a
  fresh entry of a per-CPU hash.

  The interface the programs rely on is the locale \<open>bpf_kv\<close>; \<open>bpf_hash\<close> adds that an
  update touches no other key, which LRU maps do not promise.
\<close>

section \<open>Map types and update flags\<close>

datatype bpf_map_type =
    BPF_MAP_TYPE_UNSPEC | BPF_MAP_TYPE_HASH | BPF_MAP_TYPE_ARRAY | BPF_MAP_TYPE_PROG_ARRAY
  | BPF_MAP_TYPE_PERF_EVENT_ARRAY | BPF_MAP_TYPE_PERCPU_HASH | BPF_MAP_TYPE_PERCPU_ARRAY
  | BPF_MAP_TYPE_STACK_TRACE | BPF_MAP_TYPE_CGROUP_ARRAY | BPF_MAP_TYPE_LRU_HASH
  | BPF_MAP_TYPE_LRU_PERCPU_HASH | BPF_MAP_TYPE_LPM_TRIE | BPF_MAP_TYPE_ARRAY_OF_MAPS
  | BPF_MAP_TYPE_HASH_OF_MAPS | BPF_MAP_TYPE_DEVMAP | BPF_MAP_TYPE_SOCKMAP
  | BPF_MAP_TYPE_CPUMAP | BPF_MAP_TYPE_XSKMAP | BPF_MAP_TYPE_SOCKHASH
  | BPF_MAP_TYPE_CGROUP_STORAGE | BPF_MAP_TYPE_REUSEPORT_SOCKARRAY
  | BPF_MAP_TYPE_PERCPU_CGROUP_STORAGE | BPF_MAP_TYPE_QUEUE | BPF_MAP_TYPE_STACK
  | BPF_MAP_TYPE_SK_STORAGE | BPF_MAP_TYPE_DEVMAP_HASH | BPF_MAP_TYPE_STRUCT_OPS
  | BPF_MAP_TYPE_RINGBUF | BPF_MAP_TYPE_INODE_STORAGE

definition bpf_map_types :: "bpf_map_type list" where
  "bpf_map_types =
    [BPF_MAP_TYPE_UNSPEC, BPF_MAP_TYPE_HASH, BPF_MAP_TYPE_ARRAY, BPF_MAP_TYPE_PROG_ARRAY,
     BPF_MAP_TYPE_PERF_EVENT_ARRAY, BPF_MAP_TYPE_PERCPU_HASH, BPF_MAP_TYPE_PERCPU_ARRAY,
     BPF_MAP_TYPE_STACK_TRACE, BPF_MAP_TYPE_CGROUP_ARRAY, BPF_MAP_TYPE_LRU_HASH,
     BPF_MAP_TYPE_LRU_PERCPU_HASH, BPF_MAP_TYPE_LPM_TRIE, BPF_MAP_TYPE_ARRAY_OF_MAPS,
     BPF_MAP_TYPE_HASH_OF_MAPS, BPF_MAP_TYPE_DEVMAP, BPF_MAP_TYPE_SOCKMAP,
     BPF_MAP_TYPE_CPUMAP, BPF_MAP_TYPE_XSKMAP, BPF_MAP_TYPE_SOCKHASH,
     BPF_MAP_TYPE_CGROUP_STORAGE, BPF_MAP_TYPE_REUSEPORT_SOCKARRAY,
     BPF_MAP_TYPE_PERCPU_CGROUP_STORAGE, BPF_MAP_TYPE_QUEUE, BPF_MAP_TYPE_STACK,
     BPF_MAP_TYPE_SK_STORAGE, BPF_MAP_TYPE_DEVMAP_HASH, BPF_MAP_TYPE_STRUCT_OPS,
     BPF_MAP_TYPE_RINGBUF, BPF_MAP_TYPE_INODE_STORAGE]"

text \<open>The kernel reads the numeric \<open>map_type\<close> of a map definition back as an enum value.\<close>

definition bpf_map_type_of_id :: "nat \<Rightarrow> bpf_map_type option" where
  "bpf_map_type_of_id n = (if n < length bpf_map_types then Some (bpf_map_types ! n) else None)"

datatype bpf_update_flag = BPF_ANY | BPF_NOEXIST | BPF_EXIST

fun bpf_update_flag_value :: "bpf_update_flag \<Rightarrow> u64" where
  "bpf_update_flag_value BPF_ANY = 0"
| "bpf_update_flag_value BPF_NOEXIST = 1"
| "bpf_update_flag_value BPF_EXIST = 2"

section \<open>Hash maps\<close>

type_synonym ('k, 'v) bpf_map = "('k \<times> 'v) list"

definition bpf_map_lookup_elem :: "('k, 'v) bpf_map \<Rightarrow> 'k \<Rightarrow> 'v option" where
  "bpf_map_lookup_elem m k = map_of m k"

text \<open>
  \<open>cap\<close> is the map's \<open>max_entries\<close>; \<open>ok\<close> is the kernel's answer (it may always fail, for
  lack of memory or a busy bucket). \<^term>\<open>None\<close> is a negative return code, which leaves the
  map as it was.
\<close>

definition bpf_map_update_elem ::
    "nat \<Rightarrow> bool \<Rightarrow> bpf_update_flag \<Rightarrow> 'k \<Rightarrow> 'v \<Rightarrow> ('k, 'v) bpf_map \<Rightarrow> ('k, 'v) bpf_map option" where
  "bpf_map_update_elem cap ok flag k v m =
     (if \<not> ok then None
      else if map_of m k \<noteq> None
           then (if flag = BPF_NOEXIST then None else Some (AList.update k v m))
      else if flag = BPF_EXIST \<or> cap \<le> length m then None
      else Some (AList.update k v m))"

definition bpf_map_delete_elem :: "'k \<Rightarrow> ('k, 'v) bpf_map \<Rightarrow> ('k, 'v) bpf_map" where
  "bpf_map_delete_elem k m = AList.delete k m"

text \<open>An update whose return code the program ignores.\<close>

definition hash_store ::
    "nat \<Rightarrow> bool \<Rightarrow> bpf_update_flag \<Rightarrow> 'k \<Rightarrow> 'v \<Rightarrow> ('k, 'v) bpf_map \<Rightarrow> ('k, 'v) bpf_map" where
  "hash_store cap ok flag k v m =
     (case bpf_map_update_elem cap ok flag k v m of None \<Rightarrow> m | Some m' \<Rightarrow> m')"

text \<open>A write through the pointer a successful lookup returned.\<close>

definition value_write :: "'k \<Rightarrow> 'v \<Rightarrow> ('k, 'v) bpf_map \<Rightarrow> ('k, 'v) bpf_map" where
  "value_write k v m = AList.update k v m"

definition hash_wf :: "nat \<Rightarrow> ('k, 'v) bpf_map \<Rightarrow> bool" where
  "hash_wf cap m \<longleftrightarrow> distinct (map fst m) \<and> length m \<le> cap"

section \<open>Array maps\<close>

text \<open>All entries of an array map exist; a key beyond the last index finds nothing.\<close>

definition array_lookup :: "'v list \<Rightarrow> u32 \<Rightarrow> 'v option" where
  "array_lookup xs k = (if unat k < length xs then Some (xs ! unat k) else None)"

definition array_write :: "u32 \<Rightarrow> 'v \<Rightarrow> 'v list \<Rightarrow> 'v list" where
  "array_write k v xs = xs[unat k := v]"

lemma length_array_write [simp]: "length (array_write k v xs) = length xs"
  by (simp add: array_write_def)

lemma array_lookup_write [simp]:
  "array_lookup (array_write k v xs) k' =
     (if k = k' \<and> unat k < length xs then Some v else array_lookup xs k')"
  by (auto simp: array_lookup_def array_write_def nth_list_update word_unat_eq_iff)

section \<open>LRU hash maps\<close>

record 'k lru_choice =
  lru_ok :: bool
  lru_evict :: "'k \<Rightarrow> bool"

definition lru_update_elem ::
    "nat \<Rightarrow> 'k lru_choice \<Rightarrow> 'k \<Rightarrow> 'v \<Rightarrow> ('k, 'v) bpf_map \<Rightarrow> ('k, 'v) bpf_map option" where
  "lru_update_elem cap ch k v m =
     (if \<not> lru_ok ch then None
      else if map_of m k \<noteq> None then Some (AList.update k v m)
      else let m' = filter (\<lambda>(k', _). \<not> lru_evict ch k') m
           in if cap \<le> length m' then None else Some (AList.update k v m'))"

section \<open>Per-CPU hash maps\<close>

text \<open>
  One key has one slot per CPU. Creating an entry on one CPU creates it for all of them
  (\<open>fill\<close> is what the other slots then hold), and deleting it deletes every slot.
\<close>

type_synonym ('k, 'v) percpu_map = "('k \<times> (cpu \<Rightarrow> 'v)) list"

definition percpu_lookup :: "cpu \<Rightarrow> ('k, 'v) percpu_map \<Rightarrow> 'k \<Rightarrow> 'v option" where
  "percpu_lookup c m k = map_option (\<lambda>slots. slots c) (map_of m k)"

definition percpu_update ::
    "nat \<Rightarrow> bool \<Rightarrow> 'v \<Rightarrow> bpf_update_flag \<Rightarrow> cpu \<Rightarrow> 'k \<Rightarrow> 'v \<Rightarrow>
     ('k, 'v) percpu_map \<Rightarrow> ('k, 'v) percpu_map option" where
  "percpu_update cap ok fill flag c k v m =
     bpf_map_update_elem cap ok flag k
       ((case map_of m k of None \<Rightarrow> (\<lambda>_. fill) | Some slots \<Rightarrow> slots)(c := v)) m"

definition percpu_store ::
    "nat \<Rightarrow> bool \<Rightarrow> 'v \<Rightarrow> bpf_update_flag \<Rightarrow> cpu \<Rightarrow> 'k \<Rightarrow> 'v \<Rightarrow>
     ('k, 'v) percpu_map \<Rightarrow> ('k, 'v) percpu_map" where
  "percpu_store cap ok fill flag c k v m =
     (case percpu_update cap ok fill flag c k v m of None \<Rightarrow> m | Some m' \<Rightarrow> m')"

section \<open>The interface\<close>

locale bpf_kv =
  fixes lookup :: "'m \<Rightarrow> 'k \<Rightarrow> 'v option"
    and update :: "'c \<Rightarrow> 'k \<Rightarrow> 'v \<Rightarrow> 'm \<Rightarrow> 'm option"
    and delete :: "'k \<Rightarrow> 'm \<Rightarrow> 'm"
    and invar :: "'m \<Rightarrow> bool"
    and entries :: "'m \<Rightarrow> nat"
    and max_entries :: nat
  assumes lookup_update: "update c k v m = Some m' \<Longrightarrow> lookup m' k = Some v"
    and lookup_update_other:
      "update c k v m = Some m' \<Longrightarrow> k' \<noteq> k \<Longrightarrow> lookup m' k' = lookup m k' \<or> lookup m' k' = None"
    and lookup_delete: "lookup (delete k m) k' = (if k' = k then None else lookup m k')"
    and invar_update: "invar m \<Longrightarrow> update c k v m = Some m' \<Longrightarrow> invar m'"
    and invar_delete: "invar m \<Longrightarrow> invar (delete k m)"
    and entries_bound: "invar m \<Longrightarrow> entries m \<le> max_entries"
begin

text \<open>An ignored return code: the new value is there, or the map is untouched.\<close>

lemma store_cases:
  "lookup (case update c k v m of None \<Rightarrow> m | Some m' \<Rightarrow> m') k \<in> {Some v, lookup m k}"
  by (auto split: option.split dest: lookup_update)

lemma store_other:
  assumes "k' \<noteq> k"
  shows "lookup (case update c k v m of None \<Rightarrow> m | Some m' \<Rightarrow> m') k' \<in> {lookup m k', None}"
  using assms by (auto split: option.split dest: lookup_update_other)

lemma store_invar: "invar m \<Longrightarrow> invar (case update c k v m of None \<Rightarrow> m | Some m' \<Rightarrow> m')"
  by (auto split: option.split dest: invar_update)

text \<open>A run of updates and deletes never exceeds the map's capacity.\<close>

lemma run_within_capacity:
  assumes "invar m"
  shows "entries (fold (\<lambda>(c, k, ov) m. case ov of None \<Rightarrow> delete k m
            | Some v \<Rightarrow> (case update c k v m of None \<Rightarrow> m | Some m' \<Rightarrow> m')) ops m) \<le> max_entries"
proof -
  have "invar (fold (\<lambda>(c, k, ov) m. case ov of None \<Rightarrow> delete k m
            | Some v \<Rightarrow> (case update c k v m of None \<Rightarrow> m | Some m' \<Rightarrow> m')) ops m)"
    using assms
  proof (induction ops arbitrary: m)
    case (Cons x xs)
    then show ?case
      by (auto split: prod.split option.split intro: invar_delete dest: invar_update)
  qed simp
  then show ?thesis by (rule entries_bound)
qed

end

locale bpf_hash = bpf_kv +
  assumes lookup_update_frame:
    "update c k v m = Some m' \<Longrightarrow> k' \<noteq> k \<Longrightarrow> lookup m' k' = lookup m k'"
begin

lemma store_frame:
  "k' \<noteq> k \<Longrightarrow> lookup (case update c k v m of None \<Rightarrow> m | Some m' \<Rightarrow> m') k' = lookup m k'"
  by (auto split: option.split dest: lookup_update_frame)

end

section \<open>The maps implement it\<close>

lemma hash_wf_update:
  "hash_wf cap m \<Longrightarrow> bpf_map_update_elem cap ok flag k v m = Some m' \<Longrightarrow> hash_wf cap m'"
  by (auto simp: hash_wf_def bpf_map_update_elem_def length_alist_update distinct_update
      split: if_splits)

lemma hash_wf_delete: "hash_wf cap m \<Longrightarrow> hash_wf cap (bpf_map_delete_elem k m)"
  using length_alist_delete_le [of k m]
  by (auto simp: hash_wf_def bpf_map_delete_elem_def distinct_delete)

lemma hash_wf_lru_update:
  "hash_wf cap m \<Longrightarrow> lru_update_elem cap ch k v m = Some m' \<Longrightarrow> hash_wf cap m'"
  by (auto simp: hash_wf_def lru_update_elem_def length_alist_update distinct_update Let_def
      distinct_map_filter split: if_splits)

interpretation hm: bpf_hash bpf_map_lookup_elem
  "\<lambda>ok. bpf_map_update_elem cap ok BPF_ANY" bpf_map_delete_elem "hash_wf cap" length cap
  for cap :: nat
  by unfold_locales
    (auto simp: bpf_map_lookup_elem_def bpf_map_update_elem_def bpf_map_delete_elem_def
      update_conv' delete_conv' hash_wf_def length_alist_update distinct_update distinct_delete
      intro: order_trans [OF length_alist_delete_le] split: if_splits)

interpretation lru: bpf_kv bpf_map_lookup_elem
  "lru_update_elem cap" bpf_map_delete_elem "hash_wf cap" length cap
  for cap :: nat
proof (unfold_locales, goal_cases)
  case (4 m c k v m')
  then show ?case by (rule hash_wf_lru_update)
next
  case (5 m k)
  then show ?case by (rule hash_wf_delete)
qed (auto simp: bpf_map_lookup_elem_def lru_update_elem_def bpf_map_delete_elem_def Let_def
      update_conv' delete_conv' map_of_filter_keys hash_wf_def split: if_splits)

interpretation pc: bpf_hash "percpu_lookup c"
  "\<lambda>(ok, fill). percpu_update cap ok fill BPF_ANY c" bpf_map_delete_elem "hash_wf cap" length cap
  for cap :: nat and c :: cpu
proof (unfold_locales, goal_cases)
  case (4 m ch k v m')
  then show ?case by (auto simp: percpu_update_def split: prod.splits dest: hash_wf_update)
next
  case (5 m k)
  then show ?case by (rule hash_wf_delete)
qed (auto simp: percpu_lookup_def percpu_update_def bpf_map_update_elem_def
      bpf_map_delete_elem_def update_conv' delete_conv' hash_wf_def
      split: if_splits prod.splits option.splits)

lemmas [map_laws] = bpf_map_lookup_elem_def value_write_def bpf_map_delete_elem_def
  update_conv' delete_conv' percpu_lookup_def

lemma hash_store_lookup [map_laws]:
  "map_of (hash_store cap ok flag k v m) =
     (if bpf_map_update_elem cap ok flag k v m = None then map_of m else (map_of m)(k \<mapsto> v))"
  by (auto simp: hash_store_def bpf_map_update_elem_def update_conv' split: option.splits if_splits)

lemma hash_store_wf: "hash_wf cap m \<Longrightarrow> hash_wf cap (hash_store cap ok flag k v m)"
  by (auto simp: hash_store_def split: option.split dest: hash_wf_update)

lemma value_write_wf:
  "hash_wf cap m \<Longrightarrow> map_of m k \<noteq> None \<Longrightarrow> hash_wf cap (value_write k v m)"
  by (auto simp: hash_wf_def value_write_def length_alist_update distinct_update)

text \<open>A map whose keys come from a set no larger than its capacity has room for a missing one.\<close>

lemma distinct_keys_room:
  assumes "distinct (map fst m)" "fst ` set m \<subseteq> U" "finite U" "k \<in> U" "map_of m k = None"
  shows "length m < card U"
proof -
  have "card (fst ` set m) = length m"
    using assms(1) by (metis distinct_card length_map set_map)
  moreover have "fst ` set m \<subset> U" using assms(2,4,5) by (auto simp: map_of_eq_None_iff)
  ultimately show ?thesis using psubset_card_mono [OF assms(3)] by metis
qed

end
