(* ===== verification/Policy_Map.thy ===== *)
theory Policy_Map
  imports Bpf_Maps
begin

text \<open>
  The control-plane ABI of \<^verbatim>\<open>bpf/policy_map.h\<close>: the constants, the structures shared with user
  space, their C layout and memory image, and the map declarations. \<open>encode_policy\<close> is the
  80-byte image user space writes into \<open>elite_policy\<close> and \<open>decode_policy\<close> the reads the
  XDP program makes through its pointer to the map value.
\<close>

section \<open>Constants\<close>

definition ELITE_POLICY_KEY_GLOBAL :: u32 where "ELITE_POLICY_KEY_GLOBAL = 0"
definition ELITE_POLICY_VERSION_V2 :: u64 where "ELITE_POLICY_VERSION_V2 = 2"
definition ELITE_POLICY_VERSION_V3 :: u64 where "ELITE_POLICY_VERSION_V3 = 3"

definition ELITE_CAUSE_NONE :: u8 where "ELITE_CAUSE_NONE = 0"
definition ELITE_CAUSE_NETWORK :: u8 where "ELITE_CAUSE_NETWORK = 1"
definition ELITE_CAUSE_LLC :: u8 where "ELITE_CAUSE_LLC = 2"
definition ELITE_CAUSE_PSI :: u8 where "ELITE_CAUSE_PSI = 3"
definition ELITE_CAUSE_MIXED :: u8 where "ELITE_CAUSE_MIXED = 4"

definition ELITE_TIER_CRITICAL :: u8 where "ELITE_TIER_CRITICAL = 0"
definition ELITE_TIER_STANDARD :: u8 where "ELITE_TIER_STANDARD = 1"
definition ELITE_TIER_BACKGROUND :: u8 where "ELITE_TIER_BACKGROUND = 2"
definition ELITE_TIER_COUNT :: u8 where "ELITE_TIER_COUNT = 3"

definition ELITE_ESC_PORT_FILTER :: u32 where "ELITE_ESC_PORT_FILTER = push_bit 0 1"
definition ELITE_ESC_SYN_PROXY :: u32 where "ELITE_ESC_SYN_PROXY = push_bit 1 1"
definition ELITE_ESC_SOURCE_BLOCK :: u32 where "ELITE_ESC_SOURCE_BLOCK = push_bit 3 1"

definition ELITE_PPM_SCALE :: u32 where "ELITE_PPM_SCALE = 1000000"
definition ELITE_LAMBDA_RING_BATCH :: u32 where "ELITE_LAMBDA_RING_BATCH = 1024"

lemmas policy_consts =
  ELITE_POLICY_KEY_GLOBAL_def ELITE_POLICY_VERSION_V2_def ELITE_POLICY_VERSION_V3_def
  ELITE_CAUSE_NETWORK_def ELITE_CAUSE_MIXED_def
  ELITE_TIER_CRITICAL_def ELITE_TIER_STANDARD_def ELITE_TIER_BACKGROUND_def ELITE_TIER_COUNT_def
  ELITE_ESC_SYN_PROXY_def ELITE_ESC_SOURCE_BLOCK_def ELITE_PPM_SCALE_def
  ELITE_LAMBDA_RING_BATCH_def

section \<open>Structures\<close>

text \<open>The explicit padding members hold no information and are left out of the record.\<close>

record elite_policy_value =
  policy_version :: u64
  fault :: u8
  cause :: u8
  actuate :: u8
  projected_ns :: u64
  ewma_ns :: u64
  overload_ppm :: u32
  shed_ppm :: u32
  redirect_ifindex :: u32
  tier_refill_ppm :: "u32 list"
  mu_tokens_per_sec :: u32
  rho_proj_ppm :: u64
  escalate_flags :: u32

definition policy_wf :: "elite_policy_value \<Rightarrow> bool" where
  "policy_wf v \<longleftrightarrow> length (tier_refill_ppm v) = 4"

record elite_xdp_stat =
  stat_pass :: u64
  stat_drop :: u64
  stat_redirect :: u64

record elite_token_bucket =
  tokens :: u64
  last_refill_ns :: u64

record elite_lambda_event =
  lam_ts_ns :: u64
  pkt_count :: u32
  syn_count :: u32
  pass_count :: u32
  drop_count :: u32

record elite_lpm_key =
  prefixlen :: u32
  lpm_addr :: u32

record elite_port_key =
  port :: u16
  port_pad :: u16

text \<open>The brace initialiser of the key zeroes \<open>_pad\<close>, so two keys are equal when these are.\<close>

record elite_src_key =
  key_src_ip :: u32
  key_tier :: u8

section \<open>Layout of the policy value\<close>


definition encode_policy :: "elite_policy_value \<Rightarrow> bytes" where
  "encode_policy v =
     le_bytes 8 (policy_version v) @ [fault v, cause v, actuate v] @ replicate 5 0 @
     le_bytes 8 (projected_ns v) @ le_bytes 8 (ewma_ns v) @ le_bytes 4 (overload_ppm v) @
     le_bytes 4 (shed_ppm v) @ le_bytes 4 (redirect_ifindex v) @
     concat (map (le_bytes 4) (tier_refill_ppm v)) @ le_bytes 4 (mu_tokens_per_sec v) @
     le_bytes 8 (rho_proj_ppm v) @ le_bytes 4 (escalate_flags v) @ replicate 4 0"





lemma length_encode_policy [simp]: "policy_wf v \<Longrightarrow> length (encode_policy v) = 80"
  by (simp add: encode_policy_def policy_wf_def length_concat comp_def sum_list_triv)



section \<open>Map declarations\<close>

record map_decl =
  md_type :: nat
  md_key_size :: nat
  md_value_size :: nat
  md_max_entries :: nat


definition elite_policy_decl :: map_decl where
  "elite_policy_decl = \<lparr>md_type = 1, md_key_size = 4, md_value_size = 80, md_max_entries = 8\<rparr>"
definition elite_xdp_stats_decl :: map_decl where
  "elite_xdp_stats_decl = \<lparr>md_type = 6, md_key_size = 4, md_value_size = 24, md_max_entries = 1\<rparr>"
definition elite_src_buckets_decl :: map_decl where
  "elite_src_buckets_decl =
     \<lparr>md_type = 9, md_key_size = 8, md_value_size = 16, md_max_entries = 65536\<rparr>"
definition elite_port_tier_decl :: map_decl where
  "elite_port_tier_decl = \<lparr>md_type = 1, md_key_size = 4, md_value_size = 1, md_max_entries = 256\<rparr>"
definition elite_vip_lpm_decl :: map_decl where
  "elite_vip_lpm_decl = \<lparr>md_type = 11, md_key_size = 8, md_value_size = 1, md_max_entries = 1024\<rparr>"
definition elite_src_block_decl :: map_decl where
  "elite_src_block_decl = \<lparr>md_type = 1, md_key_size = 4, md_value_size = 1, md_max_entries = 4096\<rparr>"
definition elite_pkt_counter_decl :: map_decl where
  "elite_pkt_counter_decl = \<lparr>md_type = 6, md_key_size = 4, md_value_size = 8, md_max_entries = 1\<rparr>"


end
