(* ===== verification/Bpf_Endian.thy ===== *)
theory Bpf_Endian
  imports Elite_Prelude
begin

text \<open>
  Byte-order conversion of \<^verbatim>\<open>bpf/headers/bpf/bpf_endian.h\<close>. The \<^verbatim>\<open>___bpf_swab\<close> macros move one
  byte at a time with \<^verbatim>\<open>___bpf_mvb\<close>; the conversions \<^verbatim>\<open>bpf_htons\<close> and friends expand to
  them on the little-endian target. The lemmas show that the shift-and-or form is the byte
  reversal of the value's memory image, hence an involution.
\<close>

definition bpf_mvb :: "'a::len word \<Rightarrow> nat \<Rightarrow> nat \<Rightarrow> 'a word" where
  "bpf_mvb x n m =
     push_bit (m * 8) (drop_bit (LENGTH('a) - 8) (push_bit (LENGTH('a) - (n + 1) * 8) x))"

definition bpf_swab16 :: "u16 \<Rightarrow> u16" where
  "bpf_swab16 x = bpf_mvb x 0 1 OR bpf_mvb x 1 0"

definition bpf_swab32 :: "u32 \<Rightarrow> u32" where
  "bpf_swab32 x = bpf_mvb x 0 3 OR bpf_mvb x 1 2 OR bpf_mvb x 2 1 OR bpf_mvb x 3 0"

definition bpf_swab64 :: "u64 \<Rightarrow> u64" where
  "bpf_swab64 x =
     bpf_mvb x 0 7 OR bpf_mvb x 1 6 OR bpf_mvb x 2 5 OR bpf_mvb x 3 4 OR
     bpf_mvb x 4 3 OR bpf_mvb x 5 2 OR bpf_mvb x 6 1 OR bpf_mvb x 7 0"

definition bpf_htons :: "u16 \<Rightarrow> u16" where "bpf_htons = bpf_swab16"
definition bpf_ntohs :: "u16 \<Rightarrow> u16" where "bpf_ntohs = bpf_swab16"
definition bpf_htonl :: "u32 \<Rightarrow> u32" where "bpf_htonl = bpf_swab32"
definition bpf_ntohl :: "u32 \<Rightarrow> u32" where "bpf_ntohl = bpf_swab32"
definition bpf_cpu_to_be64 :: "u64 \<Rightarrow> u64" where "bpf_cpu_to_be64 = bpf_swab64"
definition bpf_be64_to_cpu :: "u64 \<Rightarrow> u64" where "bpf_be64_to_cpu = bpf_swab64"

lemma bit_mvb:
  fixes x :: "'a::len word"
  assumes "n * 8 + 8 \<le> LENGTH('a)" and "m * 8 + 8 \<le> LENGTH('a)"
  shows "bit (bpf_mvb x n m) i \<longleftrightarrow> m * 8 \<le> i \<and> i < m * 8 + 8 \<and> bit x (i - m * 8 + n * 8)"
proof (cases "m * 8 \<le> i \<and> i < m * 8 + 8")
  case True
  then obtain j where "i = m * 8 + j" and "j < 8"
    by (metis le_iff_add add_less_cancel_left)
  moreover from this assms have "j + (LENGTH('a) - 8) - (LENGTH('a) - (n + 1) * 8) = j + n * 8"
    by simp
  ultimately show ?thesis
    using assms by (auto simp: bpf_mvb_def bit_simps add.commute)
next
  case False
  then show ?thesis
    by (auto simp: bpf_mvb_def bit_simps)
qed

lemmas swab_bits = bpf_swab16_def bpf_swab32_def bpf_swab64_def bit_mvb bit_or_iff

lemma le_bytes_unfold:
  "le_bytes 2 w = [ucast w, ucast (drop_bit 8 w)]"
  "le_bytes 4 w = [ucast w, ucast (drop_bit 8 w), ucast (drop_bit 16 w), ucast (drop_bit 24 w)]"
  "le_bytes 8 w = [ucast w, ucast (drop_bit 8 w), ucast (drop_bit 16 w), ucast (drop_bit 24 w),
     ucast (drop_bit 32 w), ucast (drop_bit 40 w), ucast (drop_bit 48 w), ucast (drop_bit 56 w)]"
  by (simp_all add: eval_nat_numeral(2,3))

lemma byte_swab16:
  "(ucast (bpf_swab16 x) :: u8) = ucast (drop_bit 8 x)"
  "(ucast (drop_bit 8 (bpf_swab16 x)) :: u8) = ucast x"
  by (rule bit_word_eqI; auto simp: swab_bits bit_simps add.commute)+

lemma byte_swab32:
  "(ucast (bpf_swab32 x) :: u8) = ucast (drop_bit 24 x)"
  "(ucast (drop_bit 8 (bpf_swab32 x)) :: u8) = ucast (drop_bit 16 x)"
  "(ucast (drop_bit 16 (bpf_swab32 x)) :: u8) = ucast (drop_bit 8 x)"
  "(ucast (drop_bit 24 (bpf_swab32 x)) :: u8) = ucast x"
  by (rule bit_word_eqI; auto simp: swab_bits bit_simps add.commute)+

lemma byte_swab64:
  "(ucast (bpf_swab64 x) :: u8) = ucast (drop_bit 56 x)"
  "(ucast (drop_bit 8 (bpf_swab64 x)) :: u8) = ucast (drop_bit 48 x)"
  "(ucast (drop_bit 16 (bpf_swab64 x)) :: u8) = ucast (drop_bit 40 x)"
  "(ucast (drop_bit 24 (bpf_swab64 x)) :: u8) = ucast (drop_bit 32 x)"
  "(ucast (drop_bit 32 (bpf_swab64 x)) :: u8) = ucast (drop_bit 24 x)"
  "(ucast (drop_bit 40 (bpf_swab64 x)) :: u8) = ucast (drop_bit 16 x)"
  "(ucast (drop_bit 48 (bpf_swab64 x)) :: u8) = ucast (drop_bit 8 x)"
  "(ucast (drop_bit 56 (bpf_swab64 x)) :: u8) = ucast x"
  by (rule bit_word_eqI; auto simp: swab_bits bit_simps add.commute)+

lemma le_bytes_swab16: "le_bytes 2 (bpf_swab16 x) = rev (le_bytes 2 x)"
  by (simp add: le_bytes_unfold byte_swab16)

lemma le_bytes_swab32: "le_bytes 4 (bpf_swab32 x) = rev (le_bytes 4 x)"
  by (simp add: le_bytes_unfold byte_swab32)

lemma le_bytes_swab64: "le_bytes 8 (bpf_swab64 x) = rev (le_bytes 8 x)"
  by (simp add: le_bytes_unfold byte_swab64)

lemma le_bytes_inject:
  assumes "8 * n = LENGTH('a::len)" and "le_bytes n (v :: 'a word) = le_bytes n w"
  shows "v = w"
  by (metis assms le_word_le_bytes)

lemma bpf_swab16_swab16 [simp]: "bpf_swab16 (bpf_swab16 x) = x"
  by (rule le_bytes_inject [of 2]) (simp_all add: le_bytes_swab16)

lemma bpf_swab32_swab32 [simp]: "bpf_swab32 (bpf_swab32 x) = x"
  by (rule le_bytes_inject [of 4]) (simp_all add: le_bytes_swab32)

lemma bpf_swab64_swab64 [simp]: "bpf_swab64 (bpf_swab64 x) = x"
  by (rule le_bytes_inject [of 8]) (simp_all add: le_bytes_swab64)

text \<open>
  The conversions put the host value's bytes in memory in network order, and
  converting to network order and back is the identity, at every width.
\<close>

lemma network_order_roundtrip:
  "le_bytes 2 (bpf_htons p) = rev (le_bytes 2 p) \<and> bpf_ntohs (bpf_htons p) = p \<and>
   le_bytes 4 (bpf_htonl a) = rev (le_bytes 4 a) \<and> bpf_ntohl (bpf_htonl a) = a \<and>
   le_bytes 8 (bpf_cpu_to_be64 v) = rev (le_bytes 8 v) \<and> bpf_be64_to_cpu (bpf_cpu_to_be64 v) = v"
  by (simp add: bpf_htons_def bpf_ntohs_def bpf_htonl_def bpf_ntohl_def bpf_cpu_to_be64_def
      bpf_be64_to_cpu_def le_bytes_swab16 le_bytes_swab32 le_bytes_swab64)

end
