(* ===== verification/Packet.thy ===== *)
theory Packet
  imports Bpf_Endian
begin

text \<open>
  Protocol headers of \<^verbatim>\<open>bpf/headers/amd64/vmlinux.h\<close> in a packet buffer. A buffer is the byte
  list from \<^verbatim>\<open>data\<close> to \<^verbatim>\<open>data_end\<close>; a header member is read at the offset its C layout gives
  it, as the little-endian machine reads it, and a read beyond the buffer is \<^term>\<open>None\<close>.
\<close>

section \<open>Layouts\<close>

definition ethhdr_fields :: "c_field list" where
  "ethhdr_fields = [(''h_dest'', 6, 1), (''h_source'', 6, 1), (''h_proto'', 2, 2)]"

definition iphdr_fields :: "c_field list" where
  "iphdr_fields =
    [(''ihl_version'', 1, 1), (''tos'', 1, 1), (''tot_len'', 2, 2), (''id'', 2, 2),
     (''frag_off'', 2, 2), (''ttl'', 1, 1), (''protocol'', 1, 1), (''check'', 2, 2),
     (''saddr'', 4, 4), (''daddr'', 4, 4)]"

definition tcphdr_fields :: "c_field list" where
  "tcphdr_fields =
    [(''source'', 2, 2), (''dest'', 2, 2), (''seq'', 4, 4), (''ack_seq'', 4, 4),
     (''flags'', 2, 2), (''window'', 2, 2), (''check'', 2, 2), (''urg_ptr'', 2, 2)]"

definition udphdr_fields :: "c_field list" where
  "udphdr_fields = [(''source'', 2, 2), (''dest'', 2, 2), (''len'', 2, 2), (''check'', 2, 2)]"

definition ipv6hdr_fields :: "c_field list" where
  "ipv6hdr_fields =
    [(''priority_version'', 1, 1), (''flow_lbl'', 3, 1), (''payload_len'', 2, 2),
     (''nexthdr'', 1, 1), (''hop_limit'', 1, 1), (''saddr'', 16, 4), (''daddr'', 16, 4)]"

definition offset_in :: "c_field list \<Rightarrow> string \<Rightarrow> nat" where
  "offset_in fs f = (case map_of (c_offsets 0 fs) f of Some n \<Rightarrow> n | None \<Rightarrow> 0)"

lemma header_sizes:
  "c_sizeof ethhdr_fields = 14" "c_sizeof iphdr_fields = 20" "c_sizeof tcphdr_fields = 20"
  "c_sizeof udphdr_fields = 8" "c_sizeof ipv6hdr_fields = 40"
  by code_simp+

lemma header_offsets:
  "offset_in ethhdr_fields ''h_proto'' = 12"
  "offset_in iphdr_fields ''ihl_version'' = 0" "offset_in iphdr_fields ''protocol'' = 9"
  "offset_in iphdr_fields ''saddr'' = 12" "offset_in iphdr_fields ''daddr'' = 16"
  "offset_in tcphdr_fields ''source'' = 0" "offset_in tcphdr_fields ''dest'' = 2"
  "offset_in tcphdr_fields ''flags'' = 12"
  "offset_in udphdr_fields ''source'' = 0" "offset_in udphdr_fields ''dest'' = 2"
  "offset_in ipv6hdr_fields ''nexthdr'' = 6" "offset_in ipv6hdr_fields ''saddr'' = 8"
  "offset_in ipv6hdr_fields ''daddr'' = 24"
  by (simp_all add: offset_in_def ethhdr_fields_def iphdr_fields_def tcphdr_fields_def
      udphdr_fields_def ipv6hdr_fields_def layout_simps)

section \<open>Members\<close>

text \<open>On the little-endian target the first bit-field of a storage unit is its low bits.\<close>

definition iph_ihl :: "u8 \<Rightarrow> u8" where "iph_ihl b = b AND 15"
definition iph_version :: "u8 \<Rightarrow> u8" where "iph_version b = drop_bit 4 b"
definition tcph_syn :: "u16 \<Rightarrow> bool" where "tcph_syn w = bit w 9"

definition eth_h_proto :: "bytes \<Rightarrow> nat \<Rightarrow> u16 option" where
  "eth_h_proto buf at = load16 buf (at + offset_in ethhdr_fields ''h_proto'')"
definition ip_first_byte :: "bytes \<Rightarrow> nat \<Rightarrow> u8 option" where
  "ip_first_byte buf at = load8 buf (at + offset_in iphdr_fields ''ihl_version'')"
definition ip_protocol :: "bytes \<Rightarrow> nat \<Rightarrow> u8 option" where
  "ip_protocol buf at = load8 buf (at + offset_in iphdr_fields ''protocol'')"
definition ip_saddr :: "bytes \<Rightarrow> nat \<Rightarrow> u32 option" where
  "ip_saddr buf at = load32 buf (at + offset_in iphdr_fields ''saddr'')"
definition ip_daddr :: "bytes \<Rightarrow> nat \<Rightarrow> u32 option" where
  "ip_daddr buf at = load32 buf (at + offset_in iphdr_fields ''daddr'')"
definition tcp_source :: "bytes \<Rightarrow> nat \<Rightarrow> u16 option" where
  "tcp_source buf at = load16 buf (at + offset_in tcphdr_fields ''source'')"
definition tcp_dest :: "bytes \<Rightarrow> nat \<Rightarrow> u16 option" where
  "tcp_dest buf at = load16 buf (at + offset_in tcphdr_fields ''dest'')"
definition tcp_flag_word :: "bytes \<Rightarrow> nat \<Rightarrow> u16 option" where
  "tcp_flag_word buf at = load16 buf (at + offset_in tcphdr_fields ''flags'')"
definition udp_source :: "bytes \<Rightarrow> nat \<Rightarrow> u16 option" where
  "udp_source buf at = load16 buf (at + offset_in udphdr_fields ''source'')"
definition udp_dest :: "bytes \<Rightarrow> nat \<Rightarrow> u16 option" where
  "udp_dest buf at = load16 buf (at + offset_in udphdr_fields ''dest'')"

lemmas member_defs = eth_h_proto_def ip_first_byte_def ip_protocol_def ip_saddr_def ip_daddr_def
  tcp_source_def tcp_dest_def tcp_flag_word_def udp_source_def udp_dest_def

lemma iph_ihl_le: "unat (iph_ihl b) \<le> 15"
proof -
  have "iph_ihl b \<le> 15" by (simp add: iph_ihl_def word_and_le1)
  then show ?thesis by (simp add: word_le_nat_alt)
qed

section \<open>Frames\<close>

text \<open>
  The other direction, to state what the parsers must find: the memory image of an
  Ethernet frame that carries an IPv4 packet with options and a transport header.
  Addresses are given as the machine word the program loads, ports and flags as the
  sender means them.
\<close>

record ip_packet =
  pk_macs :: bytes
  pk_ihl :: u8
  pk_ip_misc :: bytes
  pk_proto :: u8
  pk_check :: bytes
  pk_saddr :: u32
  pk_daddr :: u32
  pk_options :: bytes

definition ip_packet_wf :: "ip_packet \<Rightarrow> bool" where
  "ip_packet_wf p \<longleftrightarrow> length (pk_macs p) = 12 \<and> 5 \<le> unat (pk_ihl p) \<and> unat (pk_ihl p) \<le> 15 \<and>
     length (pk_ip_misc p) = 8 \<and> length (pk_check p) = 2 \<and>
     length (pk_options p) = 4 * unat (pk_ihl p) - 20"

definition ipv4_header :: "ip_packet \<Rightarrow> bytes" where
  "ipv4_header p =
     pk_macs p @ le_bytes 2 (bpf_htons 0x0800) @
     [push_bit 4 4 OR pk_ihl p] @ pk_ip_misc p @ [pk_proto p] @ pk_check p @
     le_bytes 4 (pk_saddr p) @ le_bytes 4 (pk_daddr p) @ pk_options p"

definition ipv4_frame :: "ip_packet \<Rightarrow> bytes \<Rightarrow> bytes" where
  "ipv4_frame p l4 = ipv4_header p @ l4"

definition tcp_segment :: "u16 \<Rightarrow> u16 \<Rightarrow> bytes \<Rightarrow> u16 \<Rightarrow> bytes \<Rightarrow> bytes \<Rightarrow> bytes" where
  "tcp_segment sport dport seqs flags rest payload =
     le_bytes 2 (bpf_htons sport) @ le_bytes 2 (bpf_htons dport) @ seqs @ le_bytes 2 flags @
     rest @ payload"

lemma length_ipv4_header:
  "ip_packet_wf p \<Longrightarrow> length (ipv4_header p) = 14 + 4 * unat (pk_ihl p)"
  by (auto simp: ipv4_header_def ip_packet_wf_def)

lemma length_ipv4_frame:
  "ip_packet_wf p \<Longrightarrow> length (ipv4_frame p l4) = 14 + 4 * unat (pk_ihl p) + length l4"
  by (simp add: ipv4_frame_def length_ipv4_header)

lemma drop_frame_l4:
  "ip_packet_wf p \<Longrightarrow> drop (14 + 4 * unat (pk_ihl p) + k) (ipv4_frame p l4) = drop k l4"
  by (simp add: ipv4_frame_def length_ipv4_header)

lemma version_ihl_byte:
  assumes "unat ihl \<le> 15"
  shows "iph_version (push_bit 4 4 OR ihl) = 4" and "iph_ihl (push_bit 4 4 OR ihl) = ihl"
proof -
  have "ihl < 2 ^ 4" using assms by (simp add: word_less_nat_alt)
  then have "take_bit 4 ihl = ihl" 
    by (simp add: word_eq_iff_unsigned [where ?'a = nat] word_less_nat_alt unsigned_take_bit_eq
        take_bit_nat_eq_self)
  then have hi: "\<not> bit ihl n" if "4 \<le> n" for n
    using that by (metis bit_take_bit_iff linorder_not_less)
  show "iph_version (push_bit 4 4 OR ihl) = 4"
    by (rule bit_word_eqI) (auto simp: iph_version_def bit_simps hi)
  show "iph_ihl (push_bit 4 4 OR ihl) = ihl"
  proof (rule bit_word_eqI)
    fix n :: nat assume "n < LENGTH(8)"
    then have "n \<in> {0, 1, 2, 3, 4, 5, 6, 7}" by auto
    then show "bit (iph_ihl (push_bit 4 4 OR ihl)) n = bit ihl n"
      by (elim insertE) (auto simp: iph_ihl_def bit_simps hi)
  qed
qed

end
