(* ===== verification/Xdp_Mitigator.thy ===== *)
theory Xdp_Mitigator
  imports Policy_Map Packet
begin

text \<open>
  The XDP admission program of \<^verbatim>\<open>bpf/xdp_mitigator.c\<close>. \<open>xdp_state\<close> is the maps of
  \<^verbatim>\<open>bpf/policy_map.h\<close> the program reads and writes, \<open>xdp_env\<close> is what the kernel's helpers
  answer during one invocation (clock readings, the random number, the outcome of an LRU
  insertion, ring buffer space, redirect return codes). Each function of the program is one
  definition; \<open>xdp_mitigator\<close> composes its four stages in the order of the source.
\<close>

section \<open>Constants, state and helpers\<close>

definition XDP_ABORTED :: u32 where "XDP_ABORTED = 0"
definition XDP_DROP :: u32 where "XDP_DROP = 1"
definition XDP_PASS :: u32 where "XDP_PASS = 2"
definition XDP_REDIRECT :: u32 where "XDP_REDIRECT = 4"
definition ETH_P_IP :: u16 where "ETH_P_IP = 0x0800"
definition IPPROTO_TCP :: u8 where "IPPROTO_TCP = 6"
definition TCP_FLAG_SYN :: u8 where "TCP_FLAG_SYN = 0x02"

lemmas xdp_consts = XDP_ABORTED_def XDP_DROP_def XDP_PASS_def XDP_REDIRECT_def

record xdp_state =
  elite_policy :: "u32 \<rightharpoonup> elite_policy_value"
  elite_port_tier :: "elite_port_key \<rightharpoonup> u8"
  elite_vip_lpm :: "elite_lpm_key \<rightharpoonup> u8"
  elite_src_block :: "u32 \<rightharpoonup> u8"
  elite_devmap :: "u32 \<rightharpoonup> u32"
  elite_src_buckets :: "(elite_src_key, elite_token_bucket) bpf_map"
  elite_xdp_stats :: "cpu \<Rightarrow> elite_xdp_stat list"
  elite_pkt_counter :: "cpu \<Rightarrow> u64 list"
  elite_lambda_ring :: "elite_lambda_event list"

record xdp_env =
  env_cpu :: cpu
  now_syn :: u64
  now_v3 :: u64
  now_emit :: u64
  prandom :: u32
  bucket_syn :: "elite_src_key lru_choice"
  bucket_v3 :: "elite_src_key lru_choice"
  ring_ok :: bool
  redirect_ret :: "u32 \<Rightarrow> u32"
  redirect_map_ret :: "u32 \<Rightarrow> u32"

section \<open>Statistics and the \<open>\<lambda>\<close> ring\<close>

definition bump_stat :: "u64 \<Rightarrow> u64 \<Rightarrow> u64 \<Rightarrow> elite_xdp_stat \<Rightarrow> elite_xdp_stat" where
  "bump_stat n_pass n_drop n_redir st =
     (let st = (if n_pass \<noteq> 0 then st\<lparr>stat_pass := stat_pass st + n_pass\<rparr> else st);
          st = (if n_drop \<noteq> 0 then st\<lparr>stat_drop := stat_drop st + n_drop\<rparr> else st)
      in if n_redir \<noteq> 0 then st\<lparr>stat_redirect := stat_redirect st + n_redir\<rparr> else st)"

definition xdp_bump_stat :: "xdp_env \<Rightarrow> u64 \<Rightarrow> u64 \<Rightarrow> u64 \<Rightarrow> xdp_state \<Rightarrow> xdp_state" where
  "xdp_bump_stat e n_pass n_drop n_redir s =
     (let c = env_cpu e; k = 0 in
      case array_lookup (elite_xdp_stats s c) k of
        None \<Rightarrow> s
      | Some st \<Rightarrow> s\<lparr>elite_xdp_stats := (elite_xdp_stats s)
          (c := array_write k (bump_stat n_pass n_drop n_redir st) (elite_xdp_stats s c))\<rparr>)"

definition maybe_emit_lambda :: "xdp_env \<Rightarrow> u32 \<Rightarrow> u32 \<Rightarrow> u32 \<Rightarrow> xdp_state \<Rightarrow> xdp_state" where
  "maybe_emit_lambda e syn n_pass n_drop s =
     (let c = env_cpu e; k = 0 in
      case array_lookup (elite_pkt_counter s c) k of
        None \<Rightarrow> s
      | Some cnt \<Rightarrow>
          let cnt = cnt + 1;
              s = s\<lparr>elite_pkt_counter := (elite_pkt_counter s)
                     (c := array_write k cnt (elite_pkt_counter s c))\<rparr>
          in if cnt mod ucast ELITE_LAMBDA_RING_BATCH \<noteq> 0 then s
             else if \<not> ring_ok e then s
             else s\<lparr>elite_lambda_ring := elite_lambda_ring s @
                [\<lparr>lam_ts_ns = now_emit e, pkt_count = ELITE_LAMBDA_RING_BATCH, syn_count = syn,
                  pass_count = n_pass, drop_count = n_drop\<rparr>]\<rparr>)"

section \<open>Tiers\<close>

definition port_tier :: "xdp_state \<Rightarrow> u16 \<Rightarrow> u8" where
  "port_tier s dport =
     (case elite_port_tier s \<lparr>port = dport, port_pad = 0\<rparr> of
        Some t \<Rightarrow> t | None \<Rightarrow> ELITE_TIER_STANDARD)"

definition vip_tier :: "xdp_state \<Rightarrow> u32 \<Rightarrow> u8" where
  "vip_tier s src_ip =
     (case elite_vip_lpm s \<lparr>prefixlen = 32, lpm_addr = src_ip\<rparr> of
        Some t \<Rightarrow> t | None \<Rightarrow> ELITE_TIER_COUNT)"

definition tier_drop_ppm :: "elite_policy_value \<Rightarrow> u8 \<Rightarrow> u32" where
  "tier_drop_ppm v tier =
     (let shed = shed_ppm v in
      if policy_version v < ELITE_POLICY_VERSION_V2 \<or> shed = 0 then 0
      else if tier = ELITE_TIER_CRITICAL then shed div 20
      else if tier = ELITE_TIER_STANDARD then shed div 4
      else shed)"

section \<open>Token buckets\<close>

definition refill_rate :: "elite_policy_value \<Rightarrow> u8 \<Rightarrow> u64" where
  "refill_rate v tier =
     (let mu = (if mu_tokens_per_sec v = 0 then 10000 else mu_tokens_per_sec v);
          ppm = (if tier < 4 then tier_refill_ppm v ! unat tier else ELITE_PPM_SCALE);
          ppm = (if ppm = 0 then ELITE_PPM_SCALE div 2 else ppm);
          rate = (ucast mu :: u64) * ucast ppm div ucast ELITE_PPM_SCALE
      in if rate = 0 then 1 else rate)"

definition bucket_refill :: "u64 \<Rightarrow> u64 \<Rightarrow> elite_token_bucket \<Rightarrow> elite_token_bucket" where
  "bucket_refill rate now b =
     (let elapsed = now - last_refill_ns b in
      if elapsed > 1000000000
      then let add = (elapsed div 1000000000) * rate;
               t = tokens b + add;
               t = (if t > rate * 10 then rate * 10 else t)
           in \<lparr>tokens = t, last_refill_ns = now\<rparr>
      else b)"

definition bucket_take :: "u64 \<Rightarrow> elite_token_bucket \<Rightarrow> bool \<times> elite_token_bucket" where
  "bucket_take cost b =
     (if tokens b \<ge> cost then (True, b\<lparr>tokens := tokens b - cost\<rparr>) else (False, b))"

definition token_consume ::
    "elite_policy_value \<Rightarrow> u32 \<Rightarrow> u8 \<Rightarrow> u64 \<Rightarrow> u64 \<Rightarrow> elite_src_key lru_choice \<Rightarrow>
     (elite_src_key, elite_token_bucket) bpf_map \<Rightarrow>
     bool \<times> (elite_src_key, elite_token_bucket) bpf_map" where
  "token_consume v src_ip tier cost now ch m =
     (let rate = refill_rate v tier;
          sk = \<lparr>key_src_ip = src_ip, key_tier = tier\<rparr>;
          m = (case bpf_map_lookup_elem m sk of
                 Some b \<Rightarrow> m
               | None \<Rightarrow>
                   (case lru_update_elem (md_max_entries elite_src_buckets_decl) ch sk
                           \<lparr>tokens = rate, last_refill_ns = now\<rparr> m of
                      Some m' \<Rightarrow> m' | None \<Rightarrow> m))
      in case bpf_map_lookup_elem m sk of
           None \<Rightarrow> (True, m)
         | Some b \<Rightarrow>
             let (ok, b') = bucket_take cost (bucket_refill rate now b)
             in (ok, value_write sk b' m))"

section \<open>Parsing\<close>

text \<open>The result is the return code and the three output parameters.\<close>

definition parse_ipv4_tcp ::
    "bytes \<Rightarrow> u32 \<Rightarrow> u16 \<Rightarrow> u8 \<Rightarrow> (int \<times> u32 \<times> u16 \<times> u8) option" where
  "parse_ipv4_tcp data src_ip dport tcp_flags =
     (if c_sizeof ethhdr_fields > length data then Some (-1, src_ip, dport, tcp_flags)
      else do {
        h_proto \<leftarrow> eth_h_proto data 0;
        if h_proto \<noteq> bpf_htons ETH_P_IP then Some (-1, src_ip, dport, tcp_flags)
        else let iph = c_sizeof ethhdr_fields in
        if iph + c_sizeof iphdr_fields > length data then Some (-1, src_ip, dport, tcp_flags)
        else do {
          vi \<leftarrow> ip_first_byte data iph;
          if iph_version vi \<noteq> 4 then Some (-1, src_ip, dport, tcp_flags)
          else do {
            proto \<leftarrow> ip_protocol data iph;
            if proto \<noteq> IPPROTO_TCP then Some (-1, src_ip, dport, tcp_flags)
            else let ihl = unat (iph_ihl vi) * 4 in
            if ihl < c_sizeof iphdr_fields then Some (-1, src_ip, dport, tcp_flags)
            else let tcp = iph + ihl in
            if tcp + c_sizeof tcphdr_fields > length data then Some (-1, src_ip, dport, tcp_flags)
            else do {
              saddr \<leftarrow> ip_saddr data iph;
              dest \<leftarrow> tcp_dest data tcp;
              fw \<leftarrow> tcp_flag_word data tcp;
              Some (0, saddr, bpf_ntohs dest, if tcph_syn fw then TCP_FLAG_SYN else 0)
            }
          }
        }
      })"

section \<open>The program\<close>

text \<open>Statistics, ring and return value: the way every decision of the program ends.\<close>

definition decide ::
    "xdp_env \<Rightarrow> u32 \<Rightarrow> u64 \<Rightarrow> u64 \<Rightarrow> u64 \<Rightarrow> u32 \<Rightarrow> xdp_state \<Rightarrow> u32 \<times> xdp_state" where
  "decide e syn p d r verdict s =
     (verdict, maybe_emit_lambda e syn (ucast p) (ucast d) (xdp_bump_stat e p d r s))"

text \<open>
  The block under \<open>parsed == 0\<close>: the tier, the source blocklist and the SYN gate. \<open>Inl\<close> is
  a return from the program, \<open>Inr\<close> the tier and state the later stages run with.
\<close>

definition packet_tier :: "xdp_state \<Rightarrow> u32 \<Rightarrow> u16 \<Rightarrow> u8" where
  "packet_tier s src_ip dport =
     (let tier = port_tier s dport; vt = vip_tier s src_ip
      in if vt < ELITE_TIER_COUNT then vt else tier)"

definition xdp_gate ::
    "xdp_env \<Rightarrow> elite_policy_value \<Rightarrow> u32 \<Rightarrow> u32 \<Rightarrow> u16 \<Rightarrow> u8 \<Rightarrow> xdp_state \<Rightarrow>
     (u32 \<times> xdp_state) + (u8 \<times> xdp_state)" where
  "xdp_gate e v syn src_ip dport tcp_flags s =
     (let tier = packet_tier s src_ip dport in
      if escalate_flags v AND ELITE_ESC_SOURCE_BLOCK \<noteq> 0 \<and> elite_src_block s src_ip \<noteq> None
      then Inl (decide e syn 0 1 0 XDP_DROP s)
      else if escalate_flags v AND ELITE_ESC_SYN_PROXY \<noteq> 0 \<and> tcp_flags AND TCP_FLAG_SYN \<noteq> 0
      then let (ok, m) = token_consume v src_ip tier 1 (now_syn e) (bucket_syn e)
                           (elite_src_buckets s);
               s = s\<lparr>elite_src_buckets := m\<rparr>
           in if \<not> ok then Inl (decide e syn 0 1 0 XDP_DROP s) else Inr (tier, s)
      else Inr (tier, s))"

definition xdp_v3 ::
    "xdp_env \<Rightarrow> elite_policy_value \<Rightarrow> u32 \<Rightarrow> u32 \<Rightarrow> u8 \<Rightarrow> xdp_state \<Rightarrow> u32 \<times> xdp_state" where
  "xdp_v3 e v syn src_ip tier s =
     (let (ok, m) = token_consume v src_ip tier 1 (now_v3 e) (bucket_v3 e) (elite_src_buckets s);
          s = s\<lparr>elite_src_buckets := m\<rparr>
      in if ok then decide e syn 1 0 0 XDP_PASS s
         else let drop_ppm = tier_drop_ppm v tier in
           if drop_ppm > 0 \<and> prandom e mod ELITE_PPM_SCALE < drop_ppm
           then let dev_k = 0 in
             if tier = ELITE_TIER_CRITICAL \<and>
                (case elite_devmap s dev_k of Some dev \<Rightarrow> dev > 0 | None \<Rightarrow> False)
             then decide e syn 0 0 1 (redirect_map_ret e dev_k) s
             else if redirect_ifindex v > 0 \<and> tier = ELITE_TIER_CRITICAL
             then decide e syn 0 0 1 (redirect_ret e (redirect_ifindex v)) s
             else decide e syn 0 1 0 XDP_DROP s
           else decide e syn 1 0 0 XDP_PASS s)"

definition xdp_v2 :: "xdp_env \<Rightarrow> elite_policy_value \<Rightarrow> u32 \<Rightarrow> xdp_state \<Rightarrow> u32 \<times> xdp_state" where
  "xdp_v2 e v syn s =
     (if prandom e mod ELITE_PPM_SCALE < shed_ppm v then decide e syn 0 1 0 XDP_DROP s
      else if redirect_ifindex v > 0
      then decide e syn 0 0 1 (redirect_ret e (redirect_ifindex v)) s
      else decide e syn 1 0 0 XDP_PASS s)"

definition xdp_legacy :: "xdp_env \<Rightarrow> elite_policy_value \<Rightarrow> u32 \<Rightarrow> xdp_state \<Rightarrow> u32 \<times> xdp_state" where
  "xdp_legacy e v syn s =
     (if fault v \<noteq> 0 \<and> (cause v = ELITE_CAUSE_NETWORK \<or> cause v = ELITE_CAUSE_MIXED)
      then decide e syn 0 1 0 XDP_DROP s
      else decide e syn 1 0 0 XDP_PASS s)"

text \<open>The stages after the gate, by policy version.\<close>

definition xdp_stages ::
    "xdp_env \<Rightarrow> elite_policy_value \<Rightarrow> u32 \<Rightarrow> int \<Rightarrow> u32 \<Rightarrow> u8 \<Rightarrow> xdp_state \<Rightarrow> u32 \<times> xdp_state" where
  "xdp_stages e v syn parsed src_ip tier s =
     (if policy_version v \<ge> ELITE_POLICY_VERSION_V3 \<and> parsed = 0
      then xdp_v3 e v syn src_ip tier s
      else if policy_version v \<ge> ELITE_POLICY_VERSION_V2 \<and> shed_ppm v > 0
      then xdp_v2 e v syn s
      else xdp_legacy e v syn s)"

definition syn_batch :: "int \<Rightarrow> u8 \<Rightarrow> u32" where
  "syn_batch parsed tcp_flags = (if parsed = 0 \<and> tcp_flags AND TCP_FLAG_SYN \<noteq> 0 then 1 else 0)"

definition xdp_admit ::
    "xdp_env \<Rightarrow> elite_policy_value \<Rightarrow> int \<times> u32 \<times> u16 \<times> u8 \<Rightarrow> xdp_state \<Rightarrow> u32 \<times> xdp_state" where
  "xdp_admit e v = (\<lambda>(parsed, src_ip, dport, tcp_flags) s.
     let syn = syn_batch parsed tcp_flags;
         gate = (if parsed = 0 then xdp_gate e v syn src_ip dport tcp_flags s
                 else Inr (ELITE_TIER_STANDARD, s))
     in case gate of
          Inl res \<Rightarrow> res
        | Inr (tier, s) \<Rightarrow> xdp_stages e v syn parsed src_ip tier s)"

definition xdp_mitigator :: "xdp_env \<Rightarrow> bytes \<Rightarrow> xdp_state \<Rightarrow> (u32 \<times> xdp_state) option" where
  "xdp_mitigator e data s =
     (case elite_policy s ELITE_POLICY_KEY_GLOBAL of
        None \<Rightarrow> Some (XDP_PASS, s)
      | Some v \<Rightarrow>
          if actuate v = 0 then Some (XDP_PASS, s)
          else map_option (\<lambda>p. xdp_admit e v p s) (parse_ipv4_tcp data 0 0 0))"

end
