(* ===== verification/Xdp_Parse.thy ===== *)
theory Xdp_Parse
  imports Xdp_Mitigator
begin

text \<open>
  Correctness of \<open>parse_ipv4_tcp\<close>: it never reads outside the packet, it accepts exactly the
  frames that hold a complete IPv4 TCP header, and on such a frame it returns the source
  address, the destination port in host order and the SYN flag the sender wrote.
\<close>

section \<open>What the parser accepts\<close>

definition tcp4_ihl :: "bytes \<Rightarrow> nat" where
  "tcp4_ihl data = unat (iph_ihl (data ! 14)) * 4"

definition tcp4_frame :: "bytes \<Rightarrow> bool" where
  "tcp4_frame data \<longleftrightarrow> 34 \<le> length data \<and>
     (le_word (take 2 (drop 12 data)) :: u16) = bpf_htons ETH_P_IP \<and>
     iph_version (data ! 14) = 4 \<and> data ! 23 = IPPROTO_TCP \<and>
     20 \<le> tcp4_ihl data \<and> 14 + tcp4_ihl data + 20 \<le> length data"

lemma parse_ipv4_tcp_spec:
  "parse_ipv4_tcp data src dport flags = Some
     (if tcp4_frame data
      then (0, le_word (take 4 (drop 26 data)),
            bpf_ntohs (le_word (take 2 (drop (14 + tcp4_ihl data + 2) data))),
            if tcph_syn (le_word (take 2 (drop (14 + tcp4_ihl data + 12) data)))
            then TCP_FLAG_SYN else 0)
      else (-1, src, dport, flags))"
  by (auto simp: parse_ipv4_tcp_def tcp4_frame_def tcp4_ihl_def member_defs header_sizes
      header_offsets Let_def)

text \<open>
  \<open>C5\<close>: on every byte string the parser returns (no read of it leaves the packet), its return
  code is 0 exactly on frames with a complete IPv4 header of at least 20 bytes and a complete
  TCP header behind it, and otherwise it is -1 and the output parameters keep their values.
\<close>

theorem parse_ipv4_tcp_safe:
  "\<exists>r src' dport' flags'.
     parse_ipv4_tcp data src dport flags = Some (r, src', dport', flags') \<and>
     (r = 0 \<longleftrightarrow> tcp4_frame data) \<and>
     (r = 0 \<or> r = -1 \<and> (src', dport', flags') = (src, dport, flags))"
  by (cases "tcp4_frame data") (simp_all add: parse_ipv4_tcp_spec)

lemma parse_ipv4_tcp_total: "\<exists>p. parse_ipv4_tcp data src dport flags = Some p"
  by (simp add: parse_ipv4_tcp_spec)

section \<open>Round trip\<close>

lemma frame_header:
  assumes "ip_packet_wf p"
  shows "take 2 (drop 12 (ipv4_frame p l4)) = le_bytes 2 (bpf_htons 0x0800)"
    and "ipv4_frame p l4 ! 14 = push_bit 4 4 OR pk_ihl p"
    and "ipv4_frame p l4 ! 23 = pk_proto p"
    and "take 4 (drop 26 (ipv4_frame p l4)) = le_bytes 4 (pk_saddr p)"
    and "take 4 (drop 30 (ipv4_frame p l4)) = le_bytes 4 (pk_daddr p)"
  using assms by (simp_all add: ip_packet_wf_def ipv4_frame_def ipv4_header_def nth_append)

lemma frame_ihl:
  "ip_packet_wf p \<Longrightarrow> tcp4_ihl (ipv4_frame p l4) = 4 * unat (pk_ihl p)"
  using frame_header(2) [of p l4] version_ihl_byte(2) [of "pk_ihl p"]
  by (simp add: tcp4_ihl_def ip_packet_wf_def)

lemma frame_tcp4:
  assumes "ip_packet_wf p" and "pk_proto p = IPPROTO_TCP" and "20 \<le> length l4"
  shows "tcp4_frame (ipv4_frame p l4)"
proof -
  from assms(1) have ihl: "5 \<le> unat (pk_ihl p)" "unat (pk_ihl p) \<le> 15"
    by (simp_all add: ip_packet_wf_def)
  show ?thesis
    unfolding tcp4_frame_def frame_ihl [OF assms(1)] frame_header [OF assms(1)]
      length_ipv4_frame [OF assms(1)]
    using ihl assms(2,3) version_ihl_byte(1) [OF ihl(2)]
    by (simp add: ETH_P_IP_def)
qed

lemma parse_frame:
  assumes "ip_packet_wf p" and "pk_proto p = IPPROTO_TCP"
    and "length seqs = 8" and "length rest = 6"
  shows "parse_ipv4_tcp (ipv4_frame p (tcp_segment sport dport seqs flags rest payload)) 0 0 0 =
           Some (0, pk_saddr p, dport, if tcph_syn flags then TCP_FLAG_SYN else 0)"
proof -
  let ?l4 = "tcp_segment sport dport seqs flags rest payload"
  have "tcp4_frame (ipv4_frame p ?l4)"
    using assms by (intro frame_tcp4) (simp_all add: tcp_segment_def)
  moreover have "take 2 (drop 2 ?l4) = le_bytes 2 (bpf_htons dport)"
    by (simp add: tcp_segment_def)
  moreover have "take 2 (drop 12 ?l4) = le_bytes 2 flags"
    using assms(3) by (simp add: tcp_segment_def)
  ultimately show ?thesis
    unfolding parse_ipv4_tcp_spec frame_ihl [OF assms(1)] drop_frame_l4 [OF assms(1)]
      frame_header [OF assms(1)]
    by (simp add: bpf_ntohs_def bpf_htons_def)
qed

text \<open>
  \<open>C4\<close>: parsing a well-formed frame returns what its sender put there, whatever the IPv4
  options, the other header fields and the payload are.
\<close>

theorem parse_ipv4_tcp_roundtrip:
  assumes "ip_packet_wf p" and "pk_proto p = IPPROTO_TCP"
    and "length seqs = 8" and "length rest = 6"
  shows "parse_ipv4_tcp (ipv4_frame p (tcp_segment sport dport seqs flags rest payload)) 0 0 0 =
           Some (0, pk_saddr p, dport, if tcph_syn flags then TCP_FLAG_SYN else 0)"
  using assms by (rule parse_frame)

theorem parse_ipv4_tcp_roundtrip_witness:
  "parse_ipv4_tcp (ipv4_frame \<lparr>pk_macs = replicate 12 0, pk_ihl = 6, pk_ip_misc = replicate 8 0,
      pk_proto = IPPROTO_TCP, pk_check = [0, 0], pk_saddr = 0x0100A8C0, pk_daddr = 0,
      pk_options = replicate 4 1\<rparr>
      (tcp_segment 40000 443 (replicate 8 0) 512 (replicate 6 0) [])) 0 0 0 =
   Some (0, 0x0100A8C0, 443, TCP_FLAG_SYN)"
  using parse_ipv4_tcp_roundtrip [of "\<lparr>pk_macs = replicate 12 0, pk_ihl = 6,
      pk_ip_misc = replicate 8 0, pk_proto = IPPROTO_TCP, pk_check = [0, 0],
      pk_saddr = 0x0100A8C0, pk_daddr = 0, pk_options = replicate 4 1\<rparr>" "replicate 8 0"
      "replicate 6 0" 40000 443 512 "[]"]
  by (simp add: ip_packet_wf_def tcph_syn_def)

end
