(* ===== verification/Token_Bucket.thy ===== *)
theory Token_Bucket
  imports Xdp_Mitigator
begin

text \<open>
  The token bucket of \<open>token_consume\<close> against its specification. \<open>spec_refill\<close> and
  \<open>spec_take\<close> are the bucket over unbounded naturals; the 64-bit code refines them as long
  as tier shares are parts per million and the clock is below \<open>2 ^ 61\<close> nanoseconds (73
  years of uptime). The locale \<open>metered\<close> is the contract of a rate limiter and holds the
  conformance bound; it is interpreted on \<open>token_consume\<close> itself.
\<close>

section \<open>The refill rate\<close>

definition policy_share :: "elite_policy_value \<Rightarrow> u8 \<Rightarrow> nat" where
  "policy_share v tier =
     (let ppm = (if tier < 4 then unat (tier_refill_ppm v ! unat tier) else 1000000)
      in if ppm = 0 then 500000 else ppm)"

definition policy_mu :: "elite_policy_value \<Rightarrow> nat" where
  "policy_mu v = (if mu_tokens_per_sec v = 0 then 10000 else unat (mu_tokens_per_sec v))"

lemma u32_product: "unat ((ucast (a :: u32) :: u64) * ucast (b :: u32)) = unat a * unat b"
proof -
  have "unat a * unat b < 2 ^ 32 * 2 ^ 32"
    by (intro mult_strict_mono unat_u32_less) simp_all
  then show ?thesis
    by (simp add: unat_word_ariths)
qed

lemma unat_refill_rate:
  "unat (refill_rate v tier) = max 1 (policy_mu v * policy_share v tier div 1000000)"
proof -
  define mu where "mu = (if mu_tokens_per_sec v = 0 then 10000 else mu_tokens_per_sec v)"
  define p where "p = (if tier < 4 then tier_refill_ppm v ! unat tier else 1000000)"
  define ppm where "ppm = (if p = 0 then 500000 else p)"
  define r where "r = (ucast mu :: u64) * ucast ppm div 1000000"
  have "unat mu = policy_mu v" by (simp add: mu_def policy_mu_def)
  moreover have "unat ppm = policy_share v tier"
    by (simp add: ppm_def p_def policy_share_def Let_def unat_eq_zero)
  ultimately have r: "unat r = policy_mu v * policy_share v tier div 1000000"
    by (simp add: r_def unat_div u32_product)
  have "refill_rate v tier = (if r = 0 then 1 else r)"
    by (simp add: refill_rate_def r_def mu_def ppm_def p_def Let_def ELITE_PPM_SCALE_def)
  then show ?thesis
    by (cases "r = 0") (simp_all flip: r add: max_def unat_eq_zero Suc_le_eq unat_gt_0)
qed

lemma refill_rate_pos: "1 \<le> unat (refill_rate v tier)"
  by (simp add: unat_refill_rate)

text \<open>Tier shares that are parts per million keep the rate at or below \<open>mu\<close>.\<close>

definition shares_ppm :: "elite_policy_value \<Rightarrow> bool" where
  "shares_ppm v \<longleftrightarrow> policy_wf v \<and> list_all (\<lambda>p. p \<le> 1000000) (tier_refill_ppm v)"

lemma refill_rate_le:
  assumes "shares_ppm v"
  shows "unat (refill_rate v tier) \<le> policy_mu v" and "unat (refill_rate v tier) < 2 ^ 32"
proof -
  have "policy_share v tier \<le> 1000000"
  proof (cases "tier < 4")
    case True
    then have "unat tier < 4" by (simp add: word_less_nat_alt)
    with assms have "tier_refill_ppm v ! unat tier \<le> 1000000"
      by (auto simp: shares_ppm_def policy_wf_def list_all_length)
    then have "unat (tier_refill_ppm v ! unat tier) \<le> 1000000"
      by (simp add: word_le_nat_alt)
    with True show ?thesis by (simp add: policy_share_def Let_def)
  next
    case False
    then show ?thesis by (simp add: policy_share_def)
  qed
  then have "policy_mu v * policy_share v tier div 1000000 \<le> policy_mu v * 1000000 div 1000000"
    by (intro div_le_mono mult_le_mono2)
  moreover have mu: "1 \<le> policy_mu v"
    by (simp add: policy_mu_def unat_gt_0 Suc_le_eq)
  ultimately show le: "unat (refill_rate v tier) \<le> policy_mu v"
    by (simp add: unat_refill_rate)
  have "policy_mu v < 2 ^ 32"
    using unat_u32_less [of "mu_tokens_per_sec v"] by (simp add: policy_mu_def)
  with le show "unat (refill_rate v tier) < 2 ^ 32" by (rule order_le_less_trans)
qed

section \<open>Specification and refinement\<close>

record spec_bucket =
  level :: nat
  stamp :: nat

definition spec_refill :: "nat \<Rightarrow> nat \<Rightarrow> spec_bucket \<Rightarrow> spec_bucket" where
  "spec_refill rate now b =
     (let elapsed = now - stamp b in
      if elapsed > 1000000000
      then \<lparr>level = min (level b + elapsed div 1000000000 * rate) (rate * 10), stamp = now\<rparr>
      else b)"

definition spec_take :: "nat \<Rightarrow> spec_bucket \<Rightarrow> bool \<times> spec_bucket" where
  "spec_take cost b = (if cost \<le> level b then (True, b\<lparr>level := level b - cost\<rparr>) else (False, b))"

definition abs_bucket :: "elite_token_bucket \<Rightarrow> spec_bucket" where
  "abs_bucket b = \<lparr>level = unat (tokens b), stamp = unat (last_refill_ns b)\<rparr>"

definition bucket_ok :: "nat \<Rightarrow> elite_token_bucket \<Rightarrow> bool" where
  "bucket_ok rate b \<longleftrightarrow> unat (tokens b) \<le> 10 * rate"

lemma refill_no_overflow:
  assumes "rate < 2 ^ 32" and "elapsed < 2 ^ 61" and "t \<le> 10 * rate"
  shows "t + elapsed div 1000000000 * rate < (2 :: nat) ^ 64"
proof -
  have "elapsed div 1000000000 \<le> 2 ^ 61 div 1000000000"
    using assms(2) by (intro div_le_mono) simp
  then have "elapsed div 1000000000 * rate \<le> 2305843009 * 2 ^ 32"
    using assms(1) by (intro mult_le_mono) simp_all
  with assms(1,3) show ?thesis by simp
qed

lemma bucket_refill_refines:
  assumes rate: "unat rate < 2 ^ 32" and now: "unat now < 2 ^ 61"
    and mono: "unat (last_refill_ns b) \<le> unat now" and ok: "bucket_ok (unat rate) b"
  shows "abs_bucket (bucket_refill rate now b) = spec_refill (unat rate) (unat now) (abs_bucket b)"
    and "bucket_ok (unat rate) (bucket_refill rate now b)"
proof -
  let ?el = "now - last_refill_ns b"
  have el: "unat ?el = unat now - unat (last_refill_ns b)"
    using mono by (rule unat_diff_le)
  have sum: "unat (tokens b) + unat ?el div 1000000000 * unat rate < 2 ^ 64"
    using rate now ok by (intro refill_no_overflow) (auto simp: bucket_ok_def el)
  then have add: "unat (?el div 1000000000 * rate) = unat ?el div 1000000000 * unat rate"
    by (subst unat_mult_small) (simp_all add: unat_div)
  with sum have tot: "unat (tokens b + ?el div 1000000000 * rate) =
      unat (tokens b) + unat ?el div 1000000000 * unat rate"
    by (subst unat_add_small) simp_all
  have ten: "unat (rate * 10) = unat rate * 10"
    using rate by (subst unat_mult_small) simp_all
  show "abs_bucket (bucket_refill rate now b) = spec_refill (unat rate) (unat now) (abs_bucket b)"
    using add tot ten el
    by (auto simp: bucket_refill_def spec_refill_def abs_bucket_def Let_def word_less_nat_alt
        min_def)
  show "bucket_ok (unat rate) (bucket_refill rate now b)"
    using ok tot ten
    by (auto simp: bucket_ok_def bucket_refill_def Let_def word_less_nat_alt)
qed

lemma bucket_take_refines:
  "bucket_take cost b = (ok, b') \<Longrightarrow>
     spec_take (unat cost) (abs_bucket b) = (ok, abs_bucket b') \<and>
     (bucket_ok rate b \<longrightarrow> bucket_ok rate b') \<and> last_refill_ns b' = last_refill_ns b"
  by (auto simp: bucket_take_def spec_take_def abs_bucket_def bucket_ok_def word_le_nat_alt
      unat_diff_le split: if_splits)

section \<open>The rate-limiter contract\<close>

text \<open>
  \<open>level\<close> is the credit a client has, \<open>stamp\<close> the time it was last refilled; a step may spend
  credit, and may earn \<open>rate\<close> for each whole second between two refills. \<open>meter_run\<close> is the
  total cost admitted by a sequence of requests.
\<close>

primrec meter_run :: "('q \<Rightarrow> 's \<Rightarrow> bool \<times> 's) \<Rightarrow> ('q \<Rightarrow> nat) \<Rightarrow> 'q list \<Rightarrow> 's \<Rightarrow> nat" where
  "meter_run step cost [] s = 0"
| "meter_run step cost (q # qs) s =
     (let (ok, s') = step q s in (if ok then cost q else 0) + meter_run step cost qs s')"

locale metered =
  fixes step :: "'q \<Rightarrow> 's \<Rightarrow> bool \<times> 's"
    and time :: "'q \<Rightarrow> nat"
    and cost :: "'q \<Rightarrow> nat"
    and valid :: "'q \<Rightarrow> bool"
    and good :: "'s \<Rightarrow> bool"
    and credit :: "'s \<Rightarrow> nat"
    and since :: "'s \<Rightarrow> nat"
    and rate :: nat
  assumes good_step:
      "good s \<Longrightarrow> valid q \<Longrightarrow> since s \<le> time q \<Longrightarrow> step q s = (ok, s') \<Longrightarrow> good s'"
    and since_step:
      "good s \<Longrightarrow> valid q \<Longrightarrow> since s \<le> time q \<Longrightarrow> step q s = (ok, s') \<Longrightarrow>
         since s \<le> since s' \<and> since s' \<le> time q"
    and credit_step:
      "good s \<Longrightarrow> valid q \<Longrightarrow> since s \<le> time q \<Longrightarrow> step q s = (ok, s') \<Longrightarrow>
         credit s' + (if ok then cost q else 0) \<le>
           credit s + (since s' - since s) div 1000000000 * rate"
begin

lemma conformance:
  assumes "good s" and "list_all valid qs" and "sorted (since s # map time qs @ [T])"
  shows "meter_run step cost qs s \<le> credit s + (T - since s) div 1000000000 * rate"
  using assms
proof (induction qs arbitrary: s)
  case (Cons q qs)
  obtain ok s' where st: "step q s = (ok, s')" by (cases "step q s")
  from Cons.prems have v: "valid q" and q: "since s \<le> time q" by auto
  note step = good_step [OF Cons.prems(1) v q st] since_step [OF Cons.prems(1) v q st]
    credit_step [OF Cons.prems(1) v q st]
  have "meter_run step cost qs s' \<le> credit s' + (T - since s') div 1000000000 * rate"
    using Cons.prems step(2) by (intro Cons.IH step(1)) auto
  with step(3) have "meter_run step cost (q # qs) s \<le> credit s +
      ((since s' - since s) div 1000000000 + (T - since s') div 1000000000) * rate"
    by (simp add: st algebra_simps)
  moreover have "(since s' - since s) div 1000000000 + (T - since s') div 1000000000
      \<le> (T - since s) div 1000000000"
    using div_plus_div_le [of "since s' - since s" 1000000000 "T - since s'"] step(2)
      Cons.prems(3) by auto
  ultimately show ?case
    by (meson add_left_mono mult_le_mono1 order_trans)
qed simp

end

section \<open>\<open>token_consume\<close> is a rate limiter\<close>

abbreviation src_key :: "u32 \<Rightarrow> u8 \<Rightarrow> elite_src_key" where
  "src_key src_ip tier \<equiv> \<lparr>key_src_ip = src_ip, key_tier = tier\<rparr>"

definition bucket_good ::
    "elite_policy_value \<Rightarrow> u32 \<Rightarrow> u8 \<Rightarrow> (elite_src_key, elite_token_bucket) bpf_map \<Rightarrow> bool" where
  "bucket_good v src_ip tier m \<longleftrightarrow> shares_ppm v \<and>
     (case map_of m (src_key src_ip tier) of
        None \<Rightarrow> False | Some b \<Rightarrow> bucket_ok (unat (refill_rate v tier)) b)"

definition bucket_level ::
    "u32 \<Rightarrow> u8 \<Rightarrow> (elite_src_key, elite_token_bucket) bpf_map \<Rightarrow> nat" where
  "bucket_level src_ip tier m =
     (case map_of m (src_key src_ip tier) of None \<Rightarrow> 0 | Some b \<Rightarrow> unat (tokens b))"

definition bucket_stamp ::
    "u32 \<Rightarrow> u8 \<Rightarrow> (elite_src_key, elite_token_bucket) bpf_map \<Rightarrow> nat" where
  "bucket_stamp src_ip tier m =
     (case map_of m (src_key src_ip tier) of None \<Rightarrow> 0 | Some b \<Rightarrow> unat (last_refill_ns b))"

lemma token_consume_present:
  assumes "map_of m (src_key src_ip tier) = Some b"
  shows "token_consume v src_ip tier cost now ch m =
     (let (ok, b') = bucket_take cost (bucket_refill (refill_rate v tier) now b)
      in (ok, AList.update (src_key src_ip tier) b' m))"
  using assms by (simp add: token_consume_def map_laws Let_def)

lemma token_consume_step:
  assumes good: "bucket_good v src_ip tier m" and now: "unat now < 2 ^ 61"
    and mono: "bucket_stamp src_ip tier m \<le> unat now"
    and res: "token_consume v src_ip tier cost now ch m = (ok, m')"
  shows "bucket_good v src_ip tier m'"
    and "bucket_stamp src_ip tier m \<le> bucket_stamp src_ip tier m' \<and>
         bucket_stamp src_ip tier m' \<le> unat now"
    and "bucket_level src_ip tier m' + (if ok then unat cost else 0) \<le>
         bucket_level src_ip tier m +
         (bucket_stamp src_ip tier m' - bucket_stamp src_ip tier m) div 1000000000 *
         unat (refill_rate v tier)"
proof -
  let ?rate = "refill_rate v tier"
  from good obtain b where b: "map_of m (src_key src_ip tier) = Some b"
    and ok: "bucket_ok (unat ?rate) b" and sh: "shares_ppm v"
    by (auto simp: bucket_good_def split: option.splits)
  from mono b have last: "unat (last_refill_ns b) \<le> unat now" by (simp add: bucket_stamp_def)
  let ?b1 = "bucket_refill ?rate now b"
  note ref = bucket_refill_refines [OF refill_rate_le(2) [OF sh] now last ok]
  from res obtain b2 where take: "bucket_take cost ?b1 = (ok, b2)"
    and m': "m' = AList.update (src_key src_ip tier) b2 m"
    by (auto simp: token_consume_present [OF b] Let_def split: prod.splits)
  note ref2 = bucket_take_refines [OF take, of "unat ?rate"]
  have b1: "unat (last_refill_ns ?b1) = stamp (spec_refill (unat ?rate) (unat now) (abs_bucket b))"
    "unat (tokens ?b1) = level (spec_refill (unat ?rate) (unat now) (abs_bucket b))"
    by (simp_all flip: ref(1)) (simp_all add: abs_bucket_def)
  have b2: "unat (tokens b2) + (if ok then unat cost else 0) = unat (tokens ?b1)"
    using ref2 by (auto simp: spec_take_def abs_bucket_def split: if_splits)
  show "bucket_good v src_ip tier m'"
    using sh ref(2) ref2 by (simp add: bucket_good_def m' update_conv')
  show "bucket_stamp src_ip tier m \<le> bucket_stamp src_ip tier m' \<and>
        bucket_stamp src_ip tier m' \<le> unat now"
    using ref2 last
    by (auto simp: bucket_stamp_def b m' update_conv' b1 spec_refill_def abs_bucket_def Let_def)
  show "bucket_level src_ip tier m' + (if ok then unat cost else 0) \<le>
         bucket_level src_ip tier m +
         (bucket_stamp src_ip tier m' - bucket_stamp src_ip tier m) div 1000000000 * unat ?rate"
    using ref2 unfolding bucket_level_def bucket_stamp_def b m' update_conv'
    by (simp add: b2 b1) (auto simp: spec_refill_def abs_bucket_def Let_def)
qed

interpretation tb: metered
  "\<lambda>(cost, now, ch). token_consume v src_ip tier cost now ch"
  "\<lambda>(cost, now, ch). unat now" "\<lambda>(cost, now, ch). unat cost"
  "\<lambda>(cost, now, ch). unat now < 2 ^ 61"
  "bucket_good v src_ip tier" "bucket_level src_ip tier" "bucket_stamp src_ip tier"
  "unat (refill_rate v tier)"
  for v :: elite_policy_value and src_ip :: u32 and tier :: u8
proof (unfold_locales, goal_cases)
  case (1 m q ok m')
  obtain cost now ch where q: "q = (cost, now, ch)" by (cases q)
  from 1 show ?case unfolding q prod.case by (rule token_consume_step(1))
next
  case (2 m q ok m')
  obtain cost now ch where q: "q = (cost, now, ch)" by (cases q)
  from 2 show ?case unfolding q prod.case by (rule token_consume_step(2))
next
  case (3 m q ok m')
  obtain cost now ch where q: "q = (cost, now, ch)" by (cases q)
  from 3 show ?case unfolding q prod.case by (rule token_consume_step(3))
qed

section \<open>Properties\<close>

text \<open>
  \<open>C1\<close>: a source cannot exceed its share. From a bucket within its cap, over any sequence of
  requests of that source and tier at non-decreasing times up to \<open>T\<close>, the cost admitted is at
  most the tokens held plus the tier's rate for each whole second since the last refill.
\<close>

theorem token_consume_conformance:
  assumes "bucket_good v src_ip tier m"
    and "list_all (\<lambda>(cost, now, ch). unat now < 2 ^ 61) qs"
    and "sorted (bucket_stamp src_ip tier m # map (\<lambda>(cost, now, ch). unat now) qs @ [T])"
  shows "meter_run (\<lambda>(cost, now, ch). token_consume v src_ip tier cost now ch)
           (\<lambda>(cost, now, ch). unat cost) qs m
         \<le> bucket_level src_ip tier m +
            (T - bucket_stamp src_ip tier m) div 1000000000 * unat (refill_rate v tier)"
  using assms by (rule tb.conformance)

text \<open>
  A concrete run: the standard tier of the default shares at 4 tokens per second earns 2
  per second; with one token left, three requests in the first second and one after three
  seconds are charged against \<open>1 + 3 * 2\<close>.
\<close>

definition demo_policy :: elite_policy_value where
  "demo_policy = \<lparr>policy_version = 3, fault = 0, cause = 0, actuate = 1, projected_ns = 0,
     ewma_ns = 0, overload_ppm = 0, shed_ppm = 0, redirect_ifindex = 0,
     tier_refill_ppm = [1000000, 500000, 100000, 0], mu_tokens_per_sec = 4, rho_proj_ppm = 0,
     escalate_flags = 0\<rparr>"

definition demo_choice :: "elite_src_key lru_choice" where
  "demo_choice = \<lparr>lru_ok = True, lru_evict = (\<lambda>_. False)\<rparr>"

lemma demo_shares: "shares_ppm demo_policy"
  by (simp add: shares_ppm_def policy_wf_def demo_policy_def)

lemma demo_rate: "unat (refill_rate demo_policy 1) = 2"
  by (simp add: unat_refill_rate policy_mu_def policy_share_def demo_policy_def)

theorem token_consume_conformance_witness:
  "meter_run (\<lambda>(cost, now, ch). token_consume demo_policy 9 1 cost now ch)
     (\<lambda>(cost, now, ch). unat cost)
     [(1, 10, demo_choice), (1, 20, demo_choice), (1, 30, demo_choice), (1, 3000000000, demo_choice)]
     [(src_key 9 1, \<lparr>tokens = 1, last_refill_ns = 0\<rparr>)] \<le> 7"
proof -
  let ?m = "[(src_key 9 1, \<lparr>tokens = 1, last_refill_ns = 0\<rparr>)]"
  have "bucket_good demo_policy 9 1 ?m"
    by (simp add: bucket_good_def demo_shares bucket_ok_def demo_rate)
  from token_consume_conformance [OF this, of "[(1, 10, demo_choice), (1, 20, demo_choice),
      (1, 30, demo_choice), (1, 3000000000, demo_choice)]" 3000000000]
  show ?thesis by (simp add: bucket_stamp_def bucket_level_def demo_rate)
qed

text \<open>
  \<open>C6\<close>: with the bucket present, one call of \<open>token_consume\<close> takes the specified step, refill
  to at most ten seconds' worth and then spend, without any 64-bit overflow, and it leaves the
  buckets of all other sources and tiers alone.
\<close>

theorem token_consume_refines_spec:
  assumes "shares_ppm v" and "map_of m (src_key src_ip tier) = Some b"
    and "bucket_ok (unat (refill_rate v tier)) b"
    and "unat (last_refill_ns b) \<le> unat now" and "unat now < 2 ^ 61"
  shows "\<exists>ok m' b'. token_consume v src_ip tier cost now ch m = (ok, m') \<and>
     map_of m' = (map_of m)(src_key src_ip tier \<mapsto> b') \<and>
     spec_take (unat cost)
       (spec_refill (unat (refill_rate v tier)) (unat now) (abs_bucket b)) = (ok, abs_bucket b') \<and>
     bucket_ok (unat (refill_rate v tier)) b'"
proof -
  obtain ok b' where take: "bucket_take cost (bucket_refill (refill_rate v tier) now b) = (ok, b')"
    by (cases "bucket_take cost (bucket_refill (refill_rate v tier) now b)")
  note ref = bucket_refill_refines [OF refill_rate_le(2) [OF assms(1)] assms(5,4,3)]
  from bucket_take_refines [OF take, of "unat (refill_rate v tier)"] ref show ?thesis
    by (simp add: token_consume_present [OF assms(2)] take update_conv') blast
qed

theorem token_consume_refines_spec_witness:
  "\<exists>ok m' b'. token_consume demo_policy 9 1 1 5000000000 demo_choice
       [(src_key 9 1, \<lparr>tokens = 0, last_refill_ns = 0\<rparr>)] = (ok, m') \<and>
     map_of m' (src_key 9 1) = Some b' \<and> ok \<and> level (abs_bucket b') = 9"
  using token_consume_refines_spec [of demo_policy
      "[(src_key 9 1, \<lparr>tokens = 0, last_refill_ns = 0\<rparr>)]" 9 1
      "\<lparr>tokens = 0, last_refill_ns = 0\<rparr>" 5000000000 1 demo_choice]
  by (auto simp: demo_shares bucket_ok_def demo_rate abs_bucket_def spec_refill_def
      spec_take_def)

text \<open>
  \<open>C12\<close>: a source without a bucket is always admitted. If the kernel can insert the bucket it
  starts with one second's tokens less the cost; if it cannot, nothing is charged at all.
\<close>

theorem token_consume_new_source:
  assumes "map_of m (src_key src_ip tier) = None" and "cost \<le> refill_rate v tier"
  shows "(lru_update_elem (md_max_entries elite_src_buckets_decl) ch (src_key src_ip tier)
             \<lparr>tokens = refill_rate v tier, last_refill_ns = now\<rparr> m = None \<and>
          token_consume v src_ip tier cost now ch m = (True, m)) \<or>
         (\<exists>m'. token_consume v src_ip tier cost now ch m = (True, m') \<and>
            map_of m' (src_key src_ip tier) =
              Some \<lparr>tokens = refill_rate v tier - cost, last_refill_ns = now\<rparr>)"
proof (cases "lru_update_elem (md_max_entries elite_src_buckets_decl) ch (src_key src_ip tier)
    \<lparr>tokens = refill_rate v tier, last_refill_ns = now\<rparr> m")
  case None
  with assms show ?thesis by (simp add: token_consume_def map_laws Let_def)
next
  case (Some m')
  from lru.lookup_update [OF Some]
  have "map_of m' (src_key src_ip tier) = Some \<lparr>tokens = refill_rate v tier, last_refill_ns = now\<rparr>"
    by (simp add: bpf_map_lookup_elem_def)
  with Some assms show ?thesis
    by (simp add: token_consume_def map_laws Let_def bucket_refill_def bucket_take_def)
qed

theorem token_consume_new_source_witness:
  "fst (token_consume demo_policy 9 1 1 77 demo_choice []) \<and>
   fst (token_consume demo_policy 9 1 1 77 (demo_choice\<lparr>lru_ok := False\<rparr>) [])"
proof -
  have "1 \<le> refill_rate demo_policy 1" by (simp add: word_le_nat_alt demo_rate)
  then show ?thesis
    using token_consume_new_source [of "[]" 9 1 1 demo_policy demo_choice 77]
      token_consume_new_source [of "[]" 9 1 1 demo_policy "demo_choice\<lparr>lru_ok := False\<rparr>" 77]
    by auto
qed

text \<open>
  The refill rate is the tier's share of \<open>mu\<close> for every policy value, with the source's
  defaults for zero entries; the 64-bit product of the two 32-bit factors never overflows,
  and the rate is never zero.
\<close>

lemma refill_rate_exact:
  "unat (refill_rate v tier) = max 1 (policy_mu v * policy_share v tier div 1000000)"
  by (rule unat_refill_rate)

end
