(* ===== verification/Prog_Run.thy ===== *)
theory Prog_Run
  imports Elite_Prelude
begin

text \<open>
  Sequences of program invocations. An invocation of a BPF program maps its input (context
  and kernel answers) and the state of its maps to an output and a new state, or to
  \<^term>\<open>None\<close> if it would access memory out of bounds. The locale \<open>prog\<close> is the contract
  of a program that keeps an invariant and always returns; \<open>tallied\<close> adds a counter that
  every invocation advances by an amount read off its input and output, and carries that
  law to sequences of invocations.
\<close>

fun prog_run :: "('i \<Rightarrow> 's \<Rightarrow> ('o \<times> 's) option) \<Rightarrow> 'i list \<Rightarrow> 's \<Rightarrow> ('o list \<times> 's) option" where
  "prog_run step [] s = Some ([], s)"
| "prog_run step (i # is) s = do {
     (v, s1) \<leftarrow> step i s;
     (vs, s2) \<leftarrow> prog_run step is s1;
     Some (v # vs, s2)
   }"

locale prog =
  fixes step :: "'i \<Rightarrow> 's \<Rightarrow> ('o \<times> 's) option"
    and inv :: "'s \<Rightarrow> bool"
    and ok :: "'i \<Rightarrow> bool"
  assumes progress: "inv s \<Longrightarrow> ok i \<Longrightarrow> \<exists>v s'. step i s = Some (v, s')"
    and preserve: "inv s \<Longrightarrow> ok i \<Longrightarrow> step i s = Some (v, s') \<Longrightarrow> inv s'"
begin

lemma run_returns:
  "inv s \<Longrightarrow> list_all ok is \<Longrightarrow>
   \<exists>vs s'. prog_run step is s = Some (vs, s') \<and> length vs = length is \<and> inv s'"
proof (induction "is" arbitrary: s)
  case (Cons i "is")
  then obtain v s1 where 1: "step i s = Some (v, s1)" using progress by fastforce
  moreover from 1 Cons.prems have "inv s1" by (auto intro: preserve)
  from Cons.IH [OF this] Cons.prems(2) obtain vs s2
    where "prog_run step is s1 = Some (vs, s2)" "length vs = length is" "inv s2" by auto
  ultimately show ?case by simp
qed simp

end

locale tallied = prog +
  fixes tally :: "'s \<Rightarrow> u64"
    and amount :: "'i \<Rightarrow> 'o \<Rightarrow> u64"
  assumes tally_step:
    "inv s \<Longrightarrow> ok i \<Longrightarrow> step i s = Some (v, s') \<Longrightarrow> tally s' = tally s + amount i v"
begin

lemma run_tally:
  "inv s \<Longrightarrow> list_all ok is \<Longrightarrow> prog_run step is s = Some (vs, s') \<Longrightarrow>
   tally s' = tally s + sum_list (map2 amount is vs)"
proof (induction "is" arbitrary: s vs)
  case (Cons i "is")
  then obtain v s1 vs1 where 1: "step i s = Some (v, s1)" "prog_run step is s1 = Some (vs1, s')"
    "vs = v # vs1"
    by (auto split: Option.bind_splits)
  have "inv s1" using preserve [OF _ _ 1(1)] Cons.prems by simp
  from Cons.IH [OF this _ 1(2)] tally_step [OF _ _ 1(1)] Cons.prems 1(3) show ?case
    by (simp add: ac_simps)
qed simp

end

text \<open>A tally of unit amounts counts.\<close>

lemma sum_list_indicator:
  "(\<Sum>(i, v)\<leftarrow>xs. if P i v then 1 else 0) = (of_nat (length (filter (case_prod P) xs)) :: 'a :: len word)"
  by (induction xs) auto

end
