(* ===== verification/Xdp_Admission.thy ===== *)
theory Xdp_Admission
  imports Xdp_Parse Token_Bucket Prog_Run
begin

text \<open>
  The decisions of \<open>xdp_mitigator\<close>: when it acts at all, that every packet it acts on is
  counted once under its verdict, what the \<open>\<lambda>\<close> ring reports, and the guarantees of the
  escalation flags and of the three policy generations. \<open>admit_decides\<close> reduces the
  program to one of three outcomes on a state whose buckets alone have changed; the
  locale \<open>tallied\<close> carries the per-packet law to sequences of packets.
\<close>

section \<open>One invocation\<close>

definition stats_wf :: "xdp_state \<Rightarrow> bool" where
  "stats_wf s \<longleftrightarrow> (\<forall>c. length (elite_xdp_stats s c) = 1 \<and> length (elite_pkt_counter s c) = 1)"

abbreviation stat_of :: "xdp_state \<Rightarrow> cpu \<Rightarrow> elite_xdp_stat" where
  "stat_of s c \<equiv> elite_xdp_stats s c ! 0"

abbreviation counter_of :: "xdp_state \<Rightarrow> cpu \<Rightarrow> u64" where
  "counter_of s c \<equiv> elite_pkt_counter s c ! 0"

definition active_policy :: "elite_policy_value \<Rightarrow> xdp_state \<Rightarrow> bool" where
  "active_policy v s \<longleftrightarrow> elite_policy s ELITE_POLICY_KEY_GLOBAL = Some v \<and> actuate v \<noteq> 0"

text \<open>The return codes the helper documentation gives for the XDP redirect helpers.\<close>

definition redirect_codes :: "xdp_env \<Rightarrow> bool" where
  "redirect_codes e \<longleftrightarrow>
     (\<forall>i. redirect_ret e i = XDP_REDIRECT \<or> redirect_ret e i = XDP_ABORTED) \<and>
     (\<forall>k. redirect_map_ret e k = XDP_REDIRECT \<or> redirect_map_ret e k = XDP_ABORTED)"

datatype outcome = Passed | Dropped | Redirected

fun outcome_decision :: "xdp_env \<Rightarrow> u32 \<Rightarrow> outcome \<Rightarrow> u32 \<Rightarrow> xdp_state \<Rightarrow> u32 \<times> xdp_state" where
  "outcome_decision e syn Passed verdict s = decide e syn 1 0 0 verdict s"
| "outcome_decision e syn Dropped verdict s = decide e syn 0 1 0 verdict s"
| "outcome_decision e syn Redirected verdict s = decide e syn 0 0 1 verdict s"

fun outcome_verdict :: "xdp_env \<Rightarrow> elite_policy_value \<Rightarrow> outcome \<Rightarrow> u32 \<Rightarrow> bool" where
  "outcome_verdict e v Passed verdict \<longleftrightarrow> verdict = XDP_PASS"
| "outcome_verdict e v Dropped verdict \<longleftrightarrow> verdict = XDP_DROP"
| "outcome_verdict e v Redirected verdict \<longleftrightarrow>
     verdict = redirect_map_ret e 0 \<or> verdict = redirect_ret e (redirect_ifindex v)"

definition decides ::
    "xdp_env \<Rightarrow> elite_policy_value \<Rightarrow> u32 \<Rightarrow> xdp_state \<Rightarrow> u32 \<times> xdp_state \<Rightarrow> bool" where
  "decides e v syn s res \<longleftrightarrow> (\<exists>m oc verdict. outcome_verdict e v oc verdict \<and>
     res = outcome_decision e syn oc verdict (s\<lparr>elite_src_buckets := m\<rparr>))"

lemma decidesI:
  "decides e v syn s (decide e syn 1 0 0 XDP_PASS (s\<lparr>elite_src_buckets := m\<rparr>))"
  "decides e v syn s (decide e syn 0 1 0 XDP_DROP (s\<lparr>elite_src_buckets := m\<rparr>))"
  "decides e v syn s (decide e syn 0 0 1 (redirect_map_ret e 0) (s\<lparr>elite_src_buckets := m\<rparr>))"
  "decides e v syn s
     (decide e syn 0 0 1 (redirect_ret e (redirect_ifindex v)) (s\<lparr>elite_src_buckets := m\<rparr>))"
  unfolding decides_def
  by (metis outcome_decision.simps outcome_verdict.simps)+

lemma decides_self:
  "decides e v syn s (decide e syn 1 0 0 XDP_PASS s)"
  "decides e v syn s (decide e syn 0 1 0 XDP_DROP s)"
  "decides e v syn s (decide e syn 0 0 1 (redirect_ret e (redirect_ifindex v)) s)"
  using decidesI(1,2,4) [of e v syn s "elite_src_buckets s"] by simp_all

lemma decides_buckets:
  "decides e v syn (s\<lparr>elite_src_buckets := m\<rparr>) res \<Longrightarrow> decides e v syn s res"
  by (auto simp: decides_def)

lemma v3_decides: "decides e v syn s (xdp_v3 e v syn src tier s)"
  by (auto simp: xdp_v3_def Let_def split: prod.split intro: decidesI)

lemma v2_decides: "decides e v syn s (xdp_v2 e v syn s)"
  by (auto simp: xdp_v2_def intro: decides_self)

lemma legacy_decides: "decides e v syn s (xdp_legacy e v syn s)"
  by (auto simp: xdp_legacy_def intro: decides_self)

lemma gate_cases:
  "case xdp_gate e v syn src dport flags s of
     Inl res \<Rightarrow> decides e v syn s res
   | Inr (tier, s') \<Rightarrow> tier = packet_tier s src dport \<and> (\<exists>m. s' = s\<lparr>elite_src_buckets := m\<rparr>)"
proof -
  have "\<exists>m. s = s\<lparr>elite_src_buckets := m\<rparr>"
    by (rule exI [of _ "elite_src_buckets s"]) simp
  then show ?thesis
    by (auto simp: xdp_gate_def Let_def split: prod.split intro: decidesI decides_self)
qed

lemma stages_decides: "decides e v syn s (xdp_stages e v syn parsed src tier s)"
  by (simp add: xdp_stages_def v3_decides v2_decides legacy_decides)

lemma admit_decides:
  "decides e v (syn_batch parsed flags) s (xdp_admit e v (parsed, src, dport, flags) s)"
  using gate_cases [of e v "syn_batch parsed flags" s src dport flags]
  by (auto simp: xdp_admit_def Let_def split: sum.splits if_splits
      intro: stages_decides decides_buckets [OF stages_decides])

lemma mitigator_decides:
  assumes "active_policy v s"
  obtains syn res where "xdp_mitigator e data s = Some res" and "decides e v syn s res"
    and "syn \<le> 1"
proof -
  obtain parsed src dport flags
    where p: "parse_ipv4_tcp data 0 0 0 = Some (parsed, src, dport, flags)"
    by (metis parse_ipv4_tcp_total prod_cases4)
  have "syn_batch parsed flags \<le> 1" by (simp add: syn_batch_def)
  with assms admit_decides [of e v parsed flags s src dport] show ?thesis
    by (intro that [of _ "syn_batch parsed flags"]) (auto simp: xdp_mitigator_def active_policy_def p)
qed

section \<open>Effects of a decision\<close>

lemma decide_fst [simp]: "fst (decide e syn p d r verdict s) = verdict"
  by (simp add: decide_def)

lemma bump_stat_simps [simp]:
  "bump_stat 1 0 0 st = st\<lparr>stat_pass := stat_pass st + 1\<rparr>"
  "bump_stat 0 1 0 st = st\<lparr>stat_drop := stat_drop st + 1\<rparr>"
  "bump_stat 0 0 1 st = st\<lparr>stat_redirect := stat_redirect st + 1\<rparr>"
  by (simp_all add: bump_stat_def)

lemma singleton_array: "length xs = 1 \<Longrightarrow> array_lookup xs 0 = Some (xs ! 0)"
  by (simp add: array_lookup_def)

lemma array_write_singleton: "length xs = 1 \<Longrightarrow> array_write 0 v xs = [v]"
  by (cases xs) (simp_all add: array_write_def)

lemma xdp_bump_stat_eq:
  assumes "stats_wf s"
  shows "xdp_bump_stat e p d r s = s\<lparr>elite_xdp_stats := (elite_xdp_stats s)
           (env_cpu e := [bump_stat p d r (stat_of s (env_cpu e))])\<rparr>"
proof -
  have len: "length (elite_xdp_stats s (env_cpu e)) = 1" using assms by (simp add: stats_wf_def)
  show ?thesis
    by (simp add: xdp_bump_stat_def Let_def singleton_array [OF len] array_write_singleton [OF len])
qed

definition lambda_event :: "xdp_env \<Rightarrow> u32 \<Rightarrow> u32 \<Rightarrow> u32 \<Rightarrow> elite_lambda_event" where
  "lambda_event e syn p d = \<lparr>lam_ts_ns = now_emit e, pkt_count = 1024, syn_count = syn,
     pass_count = p, drop_count = d\<rparr>"

lemma maybe_emit_lambda_eq:
  assumes "stats_wf s"
  shows "maybe_emit_lambda e syn p d s =
     s\<lparr>elite_pkt_counter := (elite_pkt_counter s)(env_cpu e := [counter_of s (env_cpu e) + 1]),
       elite_lambda_ring := elite_lambda_ring s @
         (if (counter_of s (env_cpu e) + 1) mod 1024 = 0 \<and> ring_ok e
          then [lambda_event e syn p d] else [])\<rparr>"
proof -
  have len: "length (elite_pkt_counter s (env_cpu e)) = 1" using assms by (simp add: stats_wf_def)
  show ?thesis
    by (simp add: maybe_emit_lambda_def Let_def singleton_array [OF len]
        array_write_singleton [OF len] ELITE_LAMBDA_RING_BATCH_def lambda_event_def)
qed

lemma decide_effect:
  assumes "stats_wf s" and "decide e syn p d r verdict s = (verdict', s')"
  shows "verdict' = verdict" and "stats_wf s'"
    and "elite_xdp_stats s' = (elite_xdp_stats s)
           (env_cpu e := [bump_stat p d r (stat_of s (env_cpu e))])"
    and "elite_pkt_counter s' = (elite_pkt_counter s)
           (env_cpu e := [counter_of s (env_cpu e) + 1])"
    and "elite_lambda_ring s' = elite_lambda_ring s @
         (if (counter_of s (env_cpu e) + 1) mod 1024 = 0 \<and> ring_ok e
          then [lambda_event e syn (ucast p) (ucast d)] else [])"
    and "elite_policy s' = elite_policy s" and "elite_port_tier s' = elite_port_tier s"
    and "elite_vip_lpm s' = elite_vip_lpm s" and "elite_src_block s' = elite_src_block s"
    and "elite_devmap s' = elite_devmap s" and "elite_src_buckets s' = elite_src_buckets s"
proof -
  have wf: "stats_wf (xdp_bump_stat e p d r s)"
    using assms(1) by (simp add: xdp_bump_stat_eq stats_wf_def)
  have "(verdict', s') = (verdict, maybe_emit_lambda e syn (ucast p) (ucast d)
          (xdp_bump_stat e p d r s))"
    using assms(2) by (simp add: decide_def)
  moreover note maybe_emit_lambda_eq [OF wf] xdp_bump_stat_eq [OF assms(1)]
  ultimately show "verdict' = verdict" and "stats_wf s'"
    and "elite_xdp_stats s' = (elite_xdp_stats s)
           (env_cpu e := [bump_stat p d r (stat_of s (env_cpu e))])"
    and "elite_pkt_counter s' = (elite_pkt_counter s)
           (env_cpu e := [counter_of s (env_cpu e) + 1])"
    and "elite_lambda_ring s' = elite_lambda_ring s @
         (if (counter_of s (env_cpu e) + 1) mod 1024 = 0 \<and> ring_ok e
          then [lambda_event e syn (ucast p) (ucast d)] else [])"
    and "elite_policy s' = elite_policy s" and "elite_port_tier s' = elite_port_tier s"
    and "elite_vip_lpm s' = elite_vip_lpm s" and "elite_src_block s' = elite_src_block s"
    and "elite_devmap s' = elite_devmap s" and "elite_src_buckets s' = elite_src_buckets s"
    using assms(1) by (simp_all add: stats_wf_def)
qed

section \<open>Accounting\<close>

text \<open>The counter a verdict belongs to: every redirect attempt counts as a redirect.\<close>

definition verdict_of :: "u32 \<Rightarrow> outcome" where
  "verdict_of verdict = (if verdict = XDP_PASS then Passed
     else if verdict = XDP_DROP then Dropped else Redirected)"

fun bump_outcome :: "outcome \<Rightarrow> elite_xdp_stat \<Rightarrow> elite_xdp_stat" where
  "bump_outcome Passed st = st\<lparr>stat_pass := stat_pass st + 1\<rparr>"
| "bump_outcome Dropped st = st\<lparr>stat_drop := stat_drop st + 1\<rparr>"
| "bump_outcome Redirected st = st\<lparr>stat_redirect := stat_redirect st + 1\<rparr>"

lemma redirect_not_decided:
  assumes "redirect_codes e"
  shows "verdict_of (redirect_ret e i) = Redirected" "verdict_of (redirect_map_ret e k) = Redirected"
proof -
  have "redirect_ret e i = XDP_REDIRECT \<or> redirect_ret e i = XDP_ABORTED"
    "redirect_map_ret e k = XDP_REDIRECT \<or> redirect_map_ret e k = XDP_ABORTED"
    using assms by (simp_all add: redirect_codes_def)
  then show "verdict_of (redirect_ret e i) = Redirected"
    "verdict_of (redirect_map_ret e k) = Redirected"
    by (auto simp: verdict_of_def xdp_consts)
qed

lemma verdict_of_decided [simp]: "verdict_of XDP_PASS = Passed" "verdict_of XDP_DROP = Dropped"
  by (simp_all add: verdict_of_def xdp_consts)

lemma outcome_verdict_of:
  "redirect_codes e \<Longrightarrow> outcome_verdict e v oc verdict \<Longrightarrow> verdict_of verdict = oc"
  by (cases oc) (auto simp: redirect_not_decided)

lemma outcome_decision_eq:
  "outcome_decision e syn oc verdict s =
     decide e syn (of_bool (oc = Passed)) (of_bool (oc = Dropped)) (of_bool (oc = Redirected))
       verdict s"
  "bump_stat (of_bool (oc = Passed)) (of_bool (oc = Dropped)) (of_bool (oc = Redirected)) =
     bump_outcome oc"
  by (cases oc; simp add: fun_eq_iff)+

text \<open>An invocation, and the states in which the program acts.\<close>

definition mitigate :: "xdp_env \<times> bytes \<Rightarrow> xdp_state \<Rightarrow> (u32 \<times> xdp_state) option" where
  "mitigate p s = xdp_mitigator (fst p) (snd p) s"

definition mitigating :: "elite_policy_value \<Rightarrow> xdp_state \<Rightarrow> bool" where
  "mitigating v s \<longleftrightarrow> stats_wf s \<and> active_policy v s"

definition unit_if :: "bool \<Rightarrow> u64" where
  "unit_if b = (if b then 1 else 0)"

fun stat_field :: "outcome \<Rightarrow> elite_xdp_stat \<Rightarrow> u64" where
  "stat_field Passed st = stat_pass st"
| "stat_field Dropped st = stat_drop st"
| "stat_field Redirected st = stat_redirect st"

lemma stat_field_bump:
  "stat_field oc (bump_outcome oc' st) = stat_field oc st + unit_if (oc' = oc)"
  by (cases oc; cases oc') (simp_all add: unit_if_def)

lemma mitigate_returns: "mitigating v s \<Longrightarrow> \<exists>verdict s'. mitigate p s = Some (verdict, s')"
  unfolding mitigating_def mitigate_def
  by (metis mitigator_decides [of v s "fst p" "snd p"] surj_pair)

lemma mitigate_effect:
  assumes mit: "mitigating v s" and codes: "redirect_codes (fst p)"
    and res: "mitigate p s = Some (verdict, s')"
  shows "mitigating v s'"
    and "elite_xdp_stats s' = (elite_xdp_stats s)
           (env_cpu (fst p) := [bump_outcome (verdict_of verdict) (stat_of s (env_cpu (fst p)))])"
    and "elite_pkt_counter s' = (elite_pkt_counter s)
           (env_cpu (fst p) := [counter_of s (env_cpu (fst p)) + 1])"
    and "\<exists>syn oc. syn \<le> 1 \<and> elite_lambda_ring s' = elite_lambda_ring s @
             (if (counter_of s (env_cpu (fst p)) + 1) mod 1024 = 0 \<and> ring_ok (fst p)
              then [lambda_event (fst p) syn (of_bool (oc = Passed)) (of_bool (oc = Dropped))]
              else [])"
proof -
  let ?e = "fst p"
  from mit have act: "active_policy v s" and wf: "stats_wf s" by (simp_all add: mitigating_def)
  from mitigator_decides [OF act, of ?e "snd p"] res obtain syn
    where d: "decides ?e v syn s (verdict, s')" and syn: "syn \<le> 1"
    by (auto simp: mitigate_def)
  from d obtain b oc w where ov: "outcome_verdict ?e v oc w"
    and w: "(verdict, s') = outcome_decision ?e syn oc w (s\<lparr>elite_src_buckets := b\<rparr>)"
    by (auto simp: decides_def)
  have wf': "stats_wf (s\<lparr>elite_src_buckets := b\<rparr>)" using wf by (simp add: stats_wf_def)
  note eff = decide_effect [OF wf' w [unfolded outcome_decision_eq, symmetric]]
  have oc: "verdict_of verdict = oc" using outcome_verdict_of [OF codes ov] eff(1) by simp
  show "mitigating v s'"
    using act eff(2,6) by (simp add: mitigating_def active_policy_def)
  show "elite_xdp_stats s' = (elite_xdp_stats s)
          (env_cpu ?e := [bump_outcome (verdict_of verdict) (stat_of s (env_cpu ?e))])"
    using eff(3) by (simp add: outcome_decision_eq(2) oc)
  show "elite_pkt_counter s' = (elite_pkt_counter s)
          (env_cpu ?e := [counter_of s (env_cpu ?e) + 1])"
    using eff(4) by simp
  show "\<exists>syn oc. syn \<le> 1 \<and> elite_lambda_ring s' = elite_lambda_ring s @
           (if (counter_of s (env_cpu ?e) + 1) mod 1024 = 0 \<and> ring_ok ?e
            then [lambda_event ?e syn (of_bool (oc = Passed)) (of_bool (oc = Dropped))] else [])"
    using eff(5) syn by (intro exI [of _ syn] exI [of _ oc]) simp
qed

interpretation xdp: tallied mitigate "mitigating v" "\<lambda>p. redirect_codes (fst p)"
  "\<lambda>s. stat_field oc (stat_of s c)"
  "\<lambda>p verdict. unit_if (env_cpu (fst p) = c \<and> verdict_of verdict = oc)"
  for v :: elite_policy_value and oc :: outcome and c :: cpu
proof (unfold_locales, goal_cases)
  case (3 s p verdict s')
  from mitigate_effect(2) [OF 3] show ?case
    by (simp add: stat_field_bump) (simp add: unit_if_def)
qed (auto intro: mitigate_returns mitigate_effect(1))

lemma unit_if_count:
  "sum_list (map2 (\<lambda>i w. unit_if (P i w)) xs ys) =
     of_nat (length (filter (\<lambda>(i, w). P i w) (zip xs ys)))"
  using sum_list_indicator [of P "zip xs ys"] by (simp add: unit_if_def)

section \<open>The \<open>\<lambda>\<close> ring\<close>

definition ring_ready :: "cpu \<Rightarrow> xdp_env \<times> bytes \<Rightarrow> bool" where
  "ring_ready c p \<longleftrightarrow> redirect_codes (fst p) \<and> ring_ok (fst p) \<and> env_cpu (fst p) = c"

definition lambda_sample :: "elite_lambda_event \<Rightarrow> bool" where
  "lambda_sample ev \<longleftrightarrow> pkt_count ev = 1024 \<and> syn_count ev \<le> 1 \<and>
     unat (pass_count ev) + unat (drop_count ev) \<le> 1"

lemma lambda_event_sample:
  "syn \<le> 1 \<Longrightarrow> lambda_sample (lambda_event e syn (of_bool (oc = Passed)) (of_bool (oc = Dropped)))"
  by (cases oc) (simp_all add: lambda_sample_def lambda_event_def)

lemma mod_word_1024: "(x :: u64) mod 1024 = 0 \<longleftrightarrow> unat x mod 1024 = 0"
  by (simp add: word_unat_eq_iff unat_mod)

lemma div_Suc_1024: "Suc n div 1024 = n div 1024 + (if Suc n mod 1024 = 0 then 1 else 0)"
  by (auto simp: div_Suc)

lemma mitigate_ring:
  assumes "mitigating v s" and "ring_ready c p" and "mitigate p s = Some (verdict, s')"
    and "unat (counter_of s c) + 1 < 2 ^ 64"
  shows "mitigating v s'" and "unat (counter_of s' c) = unat (counter_of s c) + 1"
    and "\<exists>evs. elite_lambda_ring s' = elite_lambda_ring s @ evs \<and> list_all lambda_sample evs \<and>
           length evs = unat (counter_of s' c) div 1024 - unat (counter_of s c) div 1024"
proof -
  from assms(2) have codes: "redirect_codes (fst p)" and c: "env_cpu (fst p) = c"
    and ring: "ring_ok (fst p)" by (simp_all add: ring_ready_def)
  note eff = mitigate_effect [OF assms(1) codes assms(3)]
  show "mitigating v s'" by (rule eff(1))
  show cnt: "unat (counter_of s' c) = unat (counter_of s c) + 1"
    using eff(3) c assms(4) by (simp add: unat_add_small)
  have cnt': "counter_of s' c = counter_of s c + 1" using eff(3) c by simp
  from eff(4) obtain syn oc where "syn \<le> 1" and r: "elite_lambda_ring s' = elite_lambda_ring s @
      (if counter_of s' c mod 1024 = 0
       then [lambda_event (fst p) syn (of_bool (oc = Passed)) (of_bool (oc = Dropped))] else [])"
    using c ring cnt' by auto
  then show "\<exists>evs. elite_lambda_ring s' = elite_lambda_ring s @ evs \<and> list_all lambda_sample evs \<and>
      length evs = unat (counter_of s' c) div 1024 - unat (counter_of s c) div 1024"
    by (intro exI [of _ "if counter_of s' c mod 1024 = 0 then [lambda_event (fst p) syn
          (of_bool (oc = Passed)) (of_bool (oc = Dropped))] else []"])
      (auto simp: lambda_event_sample mod_word_1024 cnt div_Suc_1024)
qed

lemma ring_run:
  "mitigating v s \<Longrightarrow> list_all (ring_ready c) ps \<Longrightarrow> prog_run mitigate ps s = Some (ws, s') \<Longrightarrow>
   unat (counter_of s c) + length ps < 2 ^ 64 \<Longrightarrow>
   \<exists>evs. elite_lambda_ring s' = elite_lambda_ring s @ evs \<and> list_all lambda_sample evs \<and>
     length evs = (unat (counter_of s c) + length ps) div 1024 - unat (counter_of s c) div 1024"
proof (induction ps arbitrary: s ws)
  case (Cons p ps)
  then obtain w s1 ws1 where 1: "mitigate p s = Some (w, s1)"
    "prog_run mitigate ps s1 = Some (ws1, s')"
    by (auto split: Option.bind_splits)
  from Cons.prems have 2: "unat (counter_of s c) + 1 < 2 ^ 64" and p: "ring_ready c p"
    and ps: "list_all (ring_ready c) ps" by simp_all
  note step = mitigate_ring [OF Cons.prems(1) p 1(1) 2]
  from step(3) obtain evs where evs: "elite_lambda_ring s1 = elite_lambda_ring s @ evs"
    "list_all lambda_sample evs"
    "length evs = (unat (counter_of s c) + 1) div 1024 - unat (counter_of s c) div 1024"
    using step(2) by auto
  from Cons.IH [OF step(1) ps 1(2)] Cons.prems(4) step(2) obtain evs'
    where "elite_lambda_ring s' = elite_lambda_ring s1 @ evs'" "list_all lambda_sample evs'"
    "length evs' = (unat (counter_of s c) + 1 + length ps) div 1024 -
       (unat (counter_of s c) + 1) div 1024" by auto
  moreover have "unat (counter_of s c) div 1024 \<le> (unat (counter_of s c) + 1) div 1024"
    "(unat (counter_of s c) + 1) div 1024 \<le> (unat (counter_of s c) + 1 + length ps) div 1024"
    by (intro div_le_mono; simp)+
  ultimately show ?case using evs by (intro exI [of _ "evs @ evs'"]) simp
qed simp

end
