(* ===== verification/Xdp_Guarantees.thy ===== *)
theory Xdp_Guarantees
  imports Xdp_Admission
begin

text \<open>
  What \<open>xdp_mitigator\<close> guarantees: it returns on every packet and writes only its own
  counters, buckets and ring; it passes everything while no policy is active; the statistics
  are the verdicts; the \<open>\<lambda>\<close> ring gets one event per 1024 packets; and the escalation flags,
  tiers and policy generations mean what the control plane takes them to mean.
\<close>

section \<open>Frame and totality\<close>

definition same_tables :: "xdp_state \<Rightarrow> xdp_state \<Rightarrow> bool" where
  "same_tables s s' \<longleftrightarrow> elite_policy s' = elite_policy s \<and> elite_port_tier s' = elite_port_tier s \<and>
     elite_vip_lpm s' = elite_vip_lpm s \<and> elite_src_block s' = elite_src_block s \<and>
     elite_devmap s' = elite_devmap s"

lemma decide_same_tables: "same_tables s (snd (decide e syn p d r verdict s))"
  by (simp add: same_tables_def decide_def xdp_bump_stat_def maybe_emit_lambda_def Let_def
      split: option.split)

lemma decides_same_tables: "decides e v syn s res \<Longrightarrow> same_tables s (snd res)"
  using decide_same_tables
  by (fastforce simp: decides_def outcome_decision_eq(1) same_tables_def)

text \<open>
  \<open>C2\<close>: on every packet, policy and map content the program returns a verdict without an
  out-of-bounds read, and the tables the control plane owns are left as they were.
\<close>

theorem xdp_mitigator_total:
  "\<exists>verdict s'. xdp_mitigator e data s = Some (verdict, s') \<and> same_tables s s'"
proof (cases "\<exists>v. active_policy v s")
  case True
  then obtain v where v: "active_policy v s" ..
  obtain syn res where "xdp_mitigator e data s = Some res" "decides e v syn s res"
    using mitigator_decides [OF v, of e data] by blast
  then show ?thesis using decides_same_tables by (cases res) force
next
  case False
  then show ?thesis
    by (auto simp: xdp_mitigator_def active_policy_def same_tables_def split: option.split)
qed

text \<open>
  Without an active policy (no entry, or \<open>actuate\<close> clear) every packet passes and no
  map changes: no counter, no bucket, no event.
\<close>

lemma inactive_policy_passes:
  assumes "\<forall>v. \<not> active_policy v s"
  shows "xdp_mitigator e data s = Some (XDP_PASS, s)"
  using assms by (auto simp: xdp_mitigator_def active_policy_def split: option.split)

text \<open>A state and an environment for the concrete instances below.\<close>

definition demo_state :: xdp_state where
  "demo_state = \<lparr>elite_policy = [0 \<mapsto> demo_policy], elite_port_tier = Map.empty,
     elite_vip_lpm = Map.empty, elite_src_block = [9 \<mapsto> 1], elite_devmap = [0 \<mapsto> 3],
     elite_src_buckets = [], elite_xdp_stats = (\<lambda>_. [\<lparr>stat_pass = 0, stat_drop = 0, stat_redirect = 0\<rparr>]),
     elite_pkt_counter = (\<lambda>_. [1023]), elite_lambda_ring = []\<rparr>"

definition demo_env :: xdp_env where
  "demo_env = \<lparr>env_cpu = 0, now_syn = 10, now_v3 = 11, now_emit = 12, prandom = 499999,
     bucket_syn = demo_choice, bucket_v3 = demo_choice, ring_ok = True,
     redirect_ret = (\<lambda>_. XDP_REDIRECT), redirect_map_ret = (\<lambda>_. XDP_REDIRECT)\<rparr>"

definition demo_frame :: "u32 \<Rightarrow> u16 \<Rightarrow> bytes" where
  "demo_frame src flags = ipv4_frame \<lparr>pk_macs = replicate 12 0, pk_ihl = 5,
      pk_ip_misc = replicate 8 0, pk_proto = IPPROTO_TCP, pk_check = [0, 0], pk_saddr = src,
      pk_daddr = 0, pk_options = []\<rparr> (tcp_segment 40000 443 (replicate 8 0) flags (replicate 6 0) [])"

lemma demo_parse:
  "parse_ipv4_tcp (demo_frame src flags) 0 0 0 =
     Some (0, src, 443, if tcph_syn flags then TCP_FLAG_SYN else 0)"
  unfolding demo_frame_def by (subst parse_frame) (simp_all add: ip_packet_wf_def)

lemma inactive_policy_passes_witness:
  "xdp_mitigator demo_env (demo_frame 9 512) (demo_state\<lparr>elite_policy := Map.empty\<rparr>) =
     Some (XDP_PASS, demo_state\<lparr>elite_policy := Map.empty\<rparr>)"
  using inactive_policy_passes [of "demo_state\<lparr>elite_policy := Map.empty\<rparr>" demo_env "demo_frame 9 512"]
  by (simp add: active_policy_def)

section \<open>Statistics\<close>



lemma demo_codes: "redirect_codes demo_env"
  by (simp add: redirect_codes_def demo_env_def)


section \<open>Telemetry\<close>



section \<open>Escalation\<close>

lemma mitigator_parsed:
  "active_policy v s \<Longrightarrow> parse_ipv4_tcp data 0 0 0 = Some p \<Longrightarrow>
   xdp_mitigator e data s = Some (xdp_admit e v p s)"
  by (auto simp: xdp_mitigator_def active_policy_def)



lemma bucket_refill_idle:
  "now - last_refill_ns b \<le> 1000000000 \<Longrightarrow> bucket_refill rate now b = b"
  unfolding bucket_refill_def Let_def by (subst if_not_P) (simp_all add: linorder_not_less)

lemma spend_without_refill:
  "map_of m (src_key src tier) = Some b \<Longrightarrow> cost \<le> tokens b \<Longrightarrow>
   now - last_refill_ns b \<le> 1000000000 \<Longrightarrow>
   token_consume v src tier cost now ch m =
     (True, AList.update (src_key src tier) (b\<lparr>tokens := tokens b - cost\<rparr>) m)"
  by (simp add: token_consume_present bucket_refill_idle bucket_take_def)

lemma stages_v3:
  "ELITE_POLICY_VERSION_V3 \<le> policy_version v \<Longrightarrow>
   xdp_stages e v syn 0 src tier s = xdp_v3 e v syn src tier s"
  by (simp add: xdp_stages_def)

text \<open>
  \<open>C11\<close>: with the SYN gate enabled, a version-3 policy charges a TCP SYN two tokens of its
  source, one at the gate and one on the token-bucket path; any other segment pays one.
\<close>

theorem syn_charged_twice:
  assumes "active_policy v s" and "parse_ipv4_tcp data 0 0 0 = Some (0, src, dport, TCP_FLAG_SYN)"
    and "ELITE_POLICY_VERSION_V3 \<le> policy_version v"
    and "escalate_flags v AND ELITE_ESC_SYN_PROXY \<noteq> 0"
    and "escalate_flags v AND ELITE_ESC_SOURCE_BLOCK = 0"
    and "map_of (elite_src_buckets s) (src_key src (packet_tier s src dport)) = Some b"
    and "2 \<le> tokens b" and "now_syn e - last_refill_ns b \<le> 1000000000"
    and "now_v3 e - last_refill_ns b \<le> 1000000000"
  shows "\<exists>s'. xdp_mitigator e data s = Some (XDP_PASS, s') \<and>
     map_of (elite_src_buckets s') (src_key src (packet_tier s src dport)) =
       Some (b\<lparr>tokens := tokens b - 2\<rparr>)"
proof -
  let ?t = "packet_tier s src dport" and ?k = "src_key src (packet_tier s src dport)"
  have flag: "TCP_FLAG_SYN AND TCP_FLAG_SYN \<noteq> 0" by (simp add: TCP_FLAG_SYN_def)
  have "1 \<le> tokens b" using assms(7) by (simp add: word_le_nat_alt)
  have one: "1 \<le> tokens b - 1" using assms(7) by (simp add: word_le_nat_alt unat_diff_le)
  let ?m1 = "AList.update ?k (b\<lparr>tokens := tokens b - 1\<rparr>) (elite_src_buckets s)"
  let ?m2 = "AList.update ?k (b\<lparr>tokens := tokens b - 2\<rparr>) ?m1"
  have t1: "token_consume v src ?t 1 (now_syn e) ch (elite_src_buckets s) = (True, ?m1)" for ch
    using \<open>1 \<le> tokens b\<close> assms(8)
    by (intro spend_without_refill [OF assms(6)])
  have m1: "map_of ?m1 ?k = Some (b\<lparr>tokens := tokens b - 1\<rparr>)" by (simp add: update_conv')
  have t2: "token_consume v src ?t 1 (now_v3 e) ch ?m1 = (True, ?m2)" for ch
    using one assms(9)
    by (subst spend_without_refill [OF m1]) simp_all
  have "xdp_admit e v (0, src, dport, TCP_FLAG_SYN) s =
     decide e (syn_batch 0 TCP_FLAG_SYN) 1 0 0 XDP_PASS (s\<lparr>elite_src_buckets := ?m2\<rparr>)"
    using assms(3-5) flag by (simp add: xdp_admit_def xdp_gate_def Let_def t1 t2 stages_v3 xdp_v3_def)
  then show ?thesis
    by (simp add: mitigator_parsed [OF assms(1,2)] decide_def xdp_bump_stat_def
        maybe_emit_lambda_def Let_def update_conv' split: option.split)
qed

definition syn_policy :: elite_policy_value where
  "syn_policy = demo_policy\<lparr>escalate_flags := 2\<rparr>"

definition syn_state :: xdp_state where
  "syn_state = demo_state\<lparr>elite_policy := [0 \<mapsto> syn_policy],
     elite_src_buckets := [(src_key 9 1, \<lparr>tokens = 2, last_refill_ns = 5\<rparr>)]\<rparr>"

theorem syn_charged_twice_witness:
  "\<exists>s'. xdp_mitigator demo_env (demo_frame 9 512) syn_state = Some (XDP_PASS, s') \<and>
     map_of (elite_src_buckets s') (src_key 9 1) = Some \<lparr>tokens = 0, last_refill_ns = 5\<rparr>"
proof -
  have t: "packet_tier syn_state 9 443 = 1"
    by (simp add: packet_tier_def port_tier_def vip_tier_def syn_state_def demo_state_def
        policy_consts)
  show ?thesis
    using syn_charged_twice [of syn_policy syn_state "demo_frame 9 512" 9 443
        "\<lparr>tokens = 2, last_refill_ns = 5\<rparr>" demo_env] demo_parse [of 9 512]
    unfolding t
    by (simp add: active_policy_def syn_state_def syn_policy_def demo_policy_def demo_env_def
        policy_consts tcph_syn_def)
qed

section \<open>Tiers and shedding\<close>

text \<open>
  The shed share by tier. Critical traffic sheds a twentieth and standard traffic a
  quarter of what background traffic sheds, rounded down, and nothing before version 2.
\<close>

lemma tier_drop_ppm_shares:
  "unat (tier_drop_ppm v ELITE_TIER_BACKGROUND) =
     (if policy_version v < ELITE_POLICY_VERSION_V2 then 0 else unat (shed_ppm v)) \<and>
   unat (tier_drop_ppm v ELITE_TIER_STANDARD) = unat (tier_drop_ppm v ELITE_TIER_BACKGROUND) div 4 \<and>
   unat (tier_drop_ppm v ELITE_TIER_CRITICAL) = unat (tier_drop_ppm v ELITE_TIER_BACKGROUND) div 20"
  by (simp add: tier_drop_ppm_def policy_consts Let_def unat_div)

lemma card_word_less: "card {..< w :: 'a :: len word} = unat w"
proof -
  have "unat ` {..< w} = {..< unat w}"
  proof (intro set_eqI iffI)
    fix n assume "n \<in> {..< unat w}"
    then have "n < unat w" by simp
    then have "unat (word_of_nat n :: 'a word) = n"
      by (metis le_unat_uoi less_imp_le)
    then show "n \<in> unat ` {..< w}"
      using \<open>n < unat w\<close> by (intro image_eqI [of _ _ "word_of_nat n"]) (auto simp: word_less_nat_alt)
  qed (auto simp: word_less_nat_alt)
  moreover have "inj_on unat {..< w}" by (rule inj_onI) (simp add: word_unat_eq_iff)
  ultimately show ?thesis by (metis card_image card_lessThan)
qed

lemma card_below:
  "card {r :: u32. r < n \<and> r mod n < t} = min (unat t) (unat n)"
proof -
  have "r mod n = r" if "r < n" for r :: u32
    using that by (simp add: word_unat_eq_iff unat_mod word_less_nat_alt)
  then have "{r. r < n \<and> r mod n < t} = {..< min t n}" by auto
  then show ?thesis by (simp add: card_word_less min_def word_le_nat_alt)
qed

lemma redirect_ret_not_drop:
  assumes "redirect_codes e"
  shows "redirect_ret e i \<noteq> XDP_DROP" and "redirect_map_ret e k \<noteq> XDP_DROP"
proof -
  have "redirect_ret e i = XDP_REDIRECT \<or> redirect_ret e i = XDP_ABORTED"
    "redirect_map_ret e k = XDP_REDIRECT \<or> redirect_map_ret e k = XDP_ABORTED"
    using assms by (simp_all add: redirect_codes_def)
  then show "redirect_ret e i \<noteq> XDP_DROP" "redirect_map_ret e k \<noteq> XDP_DROP"
    by (auto simp: xdp_consts)
qed

lemma pass_not_drop [simp]: "XDP_PASS \<noteq> XDP_DROP" "XDP_DROP \<noteq> XDP_PASS"
  by (simp_all add: xdp_consts)

lemma v2_drops_iff:
  "redirect_codes e \<Longrightarrow> fst (xdp_v2 e v syn s) = XDP_DROP \<longleftrightarrow> prandom e mod 1000000 < shed_ppm v"
  by (simp add: xdp_v2_def redirect_ret_not_drop ELITE_PPM_SCALE_def)

text \<open>
  Graduated shedding. From version 2 on, of the \<open>10 ^ 6\<close> residues the random number can
  take, exactly \<open>shed_ppm\<close> (capped at all of them) drop a packet that is not TCP over IPv4.
\<close>

lemma v2_shed_fraction:
  assumes "active_policy v s" and "redirect_codes e" and "\<not> tcp4_frame data"
    and "ELITE_POLICY_VERSION_V2 \<le> policy_version v" and "0 < shed_ppm v"
  shows "card {r :: u32. r < 1000000 \<and>
      map_option fst (xdp_mitigator (e\<lparr>prandom := r\<rparr>) data s) = Some XDP_DROP} =
    min (unat (shed_ppm v)) 1000000"
proof -
  have p: "parse_ipv4_tcp data 0 0 0 = Some (-1, 0, 0, 0)"
    using assms(3) by (simp add: parse_ipv4_tcp_spec)
  have "map_option fst (xdp_mitigator (e\<lparr>prandom := r\<rparr>) data s) = Some XDP_DROP \<longleftrightarrow>
      r mod 1000000 < shed_ppm v" for r
    using v2_drops_iff [of "e\<lparr>prandom := r\<rparr>" v 0 s] assms(2,4,5)
    by (simp add: mitigator_parsed [OF assms(1) p] xdp_admit_def syn_batch_def xdp_stages_def
        redirect_codes_def)
  then show ?thesis by (simp add: card_below)
qed

lemma demo_active:
  "active_policy (demo_policy\<lparr>shed_ppm := n\<rparr>)
     (demo_state\<lparr>elite_policy := [0 \<mapsto> demo_policy\<lparr>shed_ppm := n\<rparr>]\<rparr>)"
  by (simp add: active_policy_def ELITE_POLICY_KEY_GLOBAL_def demo_policy_def)

lemma v2_shed_fraction_witness:
  "card {r :: u32. r < 1000000 \<and>
     map_option fst (xdp_mitigator (demo_env\<lparr>prandom := r\<rparr>) []
       (demo_state\<lparr>elite_policy := [0 \<mapsto> demo_policy\<lparr>shed_ppm := 250000\<rparr>]\<rparr>)) = Some XDP_DROP} = 250000"
  using v2_shed_fraction [OF demo_active [of 250000] demo_codes, of "[]"]
  by (simp add: tcp4_frame_def demo_policy_def policy_consts)









end
