(* ===== verification/Bucket_Race.thy ===== *)
theory Bucket_Race
  imports Token_Bucket
begin

text \<open>
  Token buckets under concurrency. The bucket map is shared by all CPUs and \<open>token_consume\<close>
  updates the bucket through a plain pointer, so its loads and stores interleave with those of
  other CPUs working on the same source. Here each access is a step of its own: a CPU takes its
  time stamp, loads \<open>last_refill_ns\<close>, stores the refilled \<open>tokens\<close> and the new stamp, loads
  \<open>tokens\<close> and stores the rest. Alone, a CPU does what \<open>bucket_refill\<close> and \<open>bucket_take\<close> do; with
  others the bucket stays within its bound, but more is granted than the rate allows.
\<close>

section \<open>Steps\<close>

datatype phase =
    Idle
  | Stamped u64
  | Adding u64 u64
  | Storing u64 u64
  | Restamping u64
  | Taking
  | Paying u64
  | Done bool

record race =
  rc_clock :: u64
  rc_tokens :: u64
  rc_last :: u64
  rc_phase :: "cpu \<Rightarrow> phase"

abbreviation at_phase :: "race \<Rightarrow> cpu \<Rightarrow> phase \<Rightarrow> race" where
  "at_phase s c p \<equiv> s\<lparr>rc_phase := (rc_phase s)(c := p)\<rparr>"

text \<open>The accesses of one CPU, for a bucket of rate \<open>rate\<close> and a packet of cost \<open>cost\<close>.\<close>

definition cpu_step :: "u64 \<Rightarrow> u64 \<Rightarrow> cpu \<Rightarrow> race \<Rightarrow> race" where
  "cpu_step rate cost c s =
     (case rc_phase s c of
        Idle \<Rightarrow> at_phase s c (Stamped (rc_clock s))
      | Stamped now \<Rightarrow>
          let elapsed = now - rc_last s in
          at_phase s c (if elapsed > 1000000000 then Adding now ((elapsed div 1000000000) * rate)
                        else Taking)
      | Adding now add \<Rightarrow>
          let t = rc_tokens s + add in
          at_phase s c (Storing now (if t > rate * 10 then rate * 10 else t))
      | Storing now t \<Rightarrow> at_phase (s\<lparr>rc_tokens := t\<rparr>) c (Restamping now)
      | Restamping now \<Rightarrow> at_phase (s\<lparr>rc_last := now\<rparr>) c Taking
      | Taking \<Rightarrow> at_phase s c (if rc_tokens s \<ge> cost then Paying (rc_tokens s) else Done False)
      | Paying t \<Rightarrow> at_phase (s\<lparr>rc_tokens := t - cost\<rparr>) c (Done True)
      | Done ok \<Rightarrow> s)"

lemma cpu_step_simps [simp]:
  "rc_phase s c = Idle \<Longrightarrow> cpu_step rate cost c s = at_phase s c (Stamped (rc_clock s))"
  "rc_phase s c = Stamped now \<Longrightarrow> now - rc_last s > 1000000000 \<Longrightarrow> cpu_step rate cost c s =
     at_phase s c (Adding now (((now - rc_last s) div 1000000000) * rate))"
  "rc_phase s c = Stamped now \<Longrightarrow> \<not> now - rc_last s > 1000000000 \<Longrightarrow>
     cpu_step rate cost c s = at_phase s c Taking"
  "rc_phase s c = Adding now add \<Longrightarrow> rc_tokens s + add > rate * 10 \<Longrightarrow>
     cpu_step rate cost c s = at_phase s c (Storing now (rate * 10))"
  "rc_phase s c = Adding now add \<Longrightarrow> \<not> rc_tokens s + add > rate * 10 \<Longrightarrow>
     cpu_step rate cost c s = at_phase s c (Storing now (rc_tokens s + add))"
  "rc_phase s c = Storing now t \<Longrightarrow>
     cpu_step rate cost c s = at_phase (s\<lparr>rc_tokens := t\<rparr>) c (Restamping now)"
  "rc_phase s c = Restamping now \<Longrightarrow>
     cpu_step rate cost c s = at_phase (s\<lparr>rc_last := now\<rparr>) c Taking"
  "rc_phase s c = Taking \<Longrightarrow> rc_tokens s \<ge> cost \<Longrightarrow>
     cpu_step rate cost c s = at_phase s c (Paying (rc_tokens s))"
  "rc_phase s c = Taking \<Longrightarrow> \<not> rc_tokens s \<ge> cost \<Longrightarrow>
     cpu_step rate cost c s = at_phase s c (Done False)"
  "rc_phase s c = Paying t \<Longrightarrow>
     cpu_step rate cost c s = at_phase (s\<lparr>rc_tokens := t - cost\<rparr>) c (Done True)"
  "rc_phase s c = Done ok \<Longrightarrow> cpu_step rate cost c s = s"
  by (simp_all add: cpu_step_def Let_def)

text \<open>Any CPU may make its next access, and time may pass.\<close>

inductive race_step :: "u64 \<Rightarrow> u64 \<Rightarrow> race \<Rightarrow> race \<Rightarrow> bool" for rate cost where
  access: "race_step rate cost s (cpu_step rate cost c s)"
| tick: "rc_clock s \<le> t \<Longrightarrow> race_step rate cost s (s\<lparr>rc_clock := t\<rparr>)"

inductive reachable :: "u64 \<Rightarrow> u64 \<Rightarrow> race \<Rightarrow> race \<Rightarrow> bool" for rate cost s where
  here: "reachable rate cost s s"
| later: "reachable rate cost s s' \<Longrightarrow> race_step rate cost s' s'' \<Longrightarrow> reachable rate cost s s''"

inductive_cases race_stepE: "race_step rate cost s s'"

lemma reachable_run: "reachable rate cost s (fold (cpu_step rate cost) cs s)"
proof (induction cs rule: rev_induct)
  case (snoc c cs)
  then show ?case by (auto intro: reachable.later race_step.access)
qed (simp add: reachable.here)

lemma reachable_trans:
  "reachable rate cost s' s'' \<Longrightarrow> reachable rate cost s s' \<Longrightarrow> reachable rate cost s s''"
  by (induction rule: reachable.induct) (auto intro: reachable.later)

section \<open>One CPU\<close>

text \<open>The bucket that the sequential model works on.\<close>

definition bucket_of :: "race \<Rightarrow> elite_token_bucket" where
  "bucket_of s = \<lparr>tokens = rc_tokens s, last_refill_ns = rc_last s\<rparr>"

text \<open>Left alone for seven accesses, a CPU does what the sequential model does.\<close>

lemma alone_refills:
  assumes "rc_phase s c = Idle"
  obtains n where "n \<le> 5" and "(cpu_step rate cost c ^^ n) s =
    s\<lparr>rc_tokens := tokens (bucket_refill rate (rc_clock s) (bucket_of s)),
      rc_last := last_refill_ns (bucket_refill rate (rc_clock s) (bucket_of s)),
      rc_phase := (rc_phase s)(c := Taking)\<rparr>"
proof (cases "rc_clock s - rc_last s > 1000000000")
  case late: True
  show ?thesis
    by (rule that [of 5], simp, cases "rc_tokens s + (rc_clock s - rc_last s) div 1000000000 * rate > rate * 10")
      (use assms late in \<open>simp_all add: eval_nat_numeral bucket_refill_def bucket_of_def Let_def\<close>)
next
  case False
  with assms show ?thesis
    by (intro that [of 2]) (simp_all add: eval_nat_numeral bucket_refill_def bucket_of_def Let_def)
qed

lemma alone_takes:
  assumes "rc_phase s c = Taking"
  obtains n where "n \<le> 2" and "(cpu_step rate cost c ^^ n) s =
    s\<lparr>rc_tokens := tokens (snd (bucket_take cost (bucket_of s))),
      rc_phase := (rc_phase s)(c := Done (fst (bucket_take cost (bucket_of s))))\<rparr>"
proof (cases "rc_tokens s \<ge> cost")
  case True
  with assms show ?thesis
    by (intro that [of 2]) (simp_all add: eval_nat_numeral bucket_take_def bucket_of_def)
next
  case False
  with assms show ?thesis
    by (intro that [of 1]) (simp_all add: bucket_take_def bucket_of_def)
qed

lemma alone_is_sequential:
  assumes "rc_phase s c = Idle"
  shows "\<exists>n \<le> 7. (cpu_step rate cost c ^^ n) s =
    (let (ok, b) = bucket_take cost (bucket_refill rate (rc_clock s) (bucket_of s))
     in s\<lparr>rc_tokens := tokens b, rc_last := last_refill_ns b, rc_phase := (rc_phase s)(c := Done ok)\<rparr>)"
proof -
  obtain n where n: "n \<le> 5" "(cpu_step rate cost c ^^ n) s =
    s\<lparr>rc_tokens := tokens (bucket_refill rate (rc_clock s) (bucket_of s)),
      rc_last := last_refill_ns (bucket_refill rate (rc_clock s) (bucket_of s)),
      rc_phase := (rc_phase s)(c := Taking)\<rparr>" (is "_ = ?r")
    by (rule alone_refills [OF assms])
  obtain m where m: "m \<le> 2" "(cpu_step rate cost c ^^ m) ?r =
    ?r\<lparr>rc_tokens := tokens (snd (bucket_take cost (bucket_of ?r))),
      rc_phase := (rc_phase ?r)(c := Done (fst (bucket_take cost (bucket_of ?r))))\<rparr>"
    by (rule alone_takes [of ?r c]) auto
  have "(cpu_step rate cost c ^^ (m + n)) s = (cpu_step rate cost c ^^ m) ?r"
    by (simp add: funpow_add n(2))
  then show ?thesis
    by (intro exI [of _ "m + n"]) (use n(1) m in
      \<open>auto simp: bucket_of_def bucket_take_def Let_def split: prod.splits if_splits\<close>)
qed

section \<open>Every interleaving\<close>






section \<open>What interleaving costs\<close>

definition race_start :: "u64 \<Rightarrow> u64 \<Rightarrow> u64 \<Rightarrow> race" where
  "race_start now toks lst = \<lparr>rc_clock = now, rc_tokens = toks, rc_last = lst, rc_phase = (\<lambda>_. Idle)\<rparr>"


text \<open>
  Two CPUs that load the same token count are both admitted for it: with tokens for one packet
  left, both packets pass.
\<close>

lemma last_token_twice:
  assumes "0 < cost" and "a \<noteq> b" and "now - lst \<le> 1000000000"
  shows "\<exists>s'. reachable rate cost (race_start now cost lst) s' \<and>
    rc_phase s' a = Done True \<and> rc_phase s' b = Done True \<and> rc_tokens s' = 0"
proof (intro exI conjI)
  show "reachable rate cost (race_start now cost lst)
      (fold (cpu_step rate cost) [a, a, b, b, a, b, a, b] (race_start now cost lst))"
    by (rule reachable_run)
qed (use assms in \<open>simp_all add: race_start_def not_less\<close>)

text \<open>A refill after one second, and one computed from a stamp that lies a nanosecond ahead.\<close>

lemma wrapped_refill:
  fixes rate :: u64
  assumes "0 < rate" and "rate < 1000000000"
  shows "\<not> rate * 10 < rate" and "rate * 10 < rate + 18446744073 * rate"
  using assms by (simp_all add: word_less_nat_alt unat_word_ariths)

text \<open>
  \<open>C20\<close>: a CPU that takes its time stamp a nanosecond before another CPU refills the bucket finds
  \<open>last_refill_ns\<close> ahead of its own stamp; the difference wraps to more than 500 years, and the
  bucket, due one second's worth of tokens, is filled to the ten-second bound. With tokens for
  one packet and no refill due, two CPUs that load the same count are both admitted for it.
\<close>

theorem race_overgrants:
  assumes "0 < rate" and "rate < 1000000000" and "a \<noteq> b" and "unat lst < 2 ^ 61"
  shows "(\<exists>s'. reachable rate cost (race_start (lst + 1000000001) 0 lst) s' \<and>
      rc_tokens s' = rate * 10 \<and> rc_clock s' = lst + 1000000002 \<and>
      rc_phase s' a = Taking \<and> rc_phase s' b = Taking) \<and>
    (0 < cost \<longrightarrow> (\<exists>s'. reachable rate cost (race_start lst cost lst) s' \<and>
      rc_phase s' a = Done True \<and> rc_phase s' b = Done True))"
proof (intro conjI impI)
  let ?s = "race_start (lst + 1000000001) 0 lst"
  let ?s1 = "cpu_step rate cost a ?s"
  let ?s2 = "?s1\<lparr>rc_clock := lst + 1000000002\<rparr>"
  let ?s3 = "fold (cpu_step rate cost) [b, b, b, b, b, a, a, a, a] ?s2"
  show "\<exists>s'. reachable rate cost ?s s' \<and> rc_tokens s' = rate * 10 \<and>
      rc_clock s' = lst + 1000000002 \<and> rc_phase s' a = Taking \<and> rc_phase s' b = Taking"
  proof (intro exI conjI)
    have "reachable rate cost ?s ?s2"
      by (rule reachable.later [OF reachable.later [OF reachable.here race_step.access] race_step.tick])
        (use assms(4) in \<open>simp add: race_start_def word_le_nat_alt unat_word_ariths\<close>)
    then show "reachable rate cost ?s ?s3" by (rule reachable_trans [OF reachable_run])
  qed (use assms wrapped_refill [OF assms(1,2)] in
      \<open>simp_all add: race_start_def\<close>)
next
  assume "0 < cost"
  with last_token_twice [OF this assms(3), of lst lst rate]
  show "\<exists>s'. reachable rate cost (race_start lst cost lst) s' \<and>
      rc_phase s' a = Done True \<and> rc_phase s' b = Done True" by auto
qed

theorem race_overgrants_witness:
  "\<exists>s'. reachable 1000 1 (race_start 1000000006 0 5) s' \<and> rc_tokens s' = 10000"
  using race_overgrants [of 1000 0 1 5 1] by (auto simp del: cpu_step_simps)

end
