(* ===== verification/Kernel_Layout.thy ===== *)
theory Kernel_Layout
  imports Elite_Prelude
begin

text \<open>
  C structure layout as the BPF compiler and the kernel ABI compute it, with nested
  structures, unions, arrays and bit-fields, and the kernel structure \<open>struct sock\<close> in the two
  versions of \<^verbatim>\<open>bpf/headers/amd64/vmlinux.h\<close> and \<^verbatim>\<open>bpf/headers/arm64/vmlinux.h\<close>. The
  first is from a kernel in which \<open>sk_protocol\<close> is an 8-bit bit-field, the second from one in
  which it is a 16-bit member.
\<close>

section \<open>Layout\<close>

datatype ctype = Scalar nat | Arr nat ctype | Struct "cmember list" | Union "cmember list"
  and cmember = Member string ctype | Bitfield string nat nat

text \<open>
  \<open>Scalar\<close> carries the size, which is also the alignment; \<open>Bitfield\<close> the size in bytes of the
  declared type and the width in bits. An anonymous member has the empty name.
\<close>

definition larger :: "nat \<Rightarrow> nat \<Rightarrow> nat" where
  "larger a b = (if a < b then b else a)"

fun align_of :: "ctype \<Rightarrow> nat" and align_ofs :: "cmember list \<Rightarrow> nat" where
  "align_of (Scalar n) = n"
| "align_of (Arr n t) = align_of t"
| "align_of (Struct ms) = align_ofs ms"
| "align_of (Union ms) = align_ofs ms"
| "align_ofs [] = 1"
| "align_ofs (Member x t # ms) = larger (align_of t) (align_ofs ms)"
| "align_ofs (Bitfield x n w # ms) = larger n (align_ofs ms)"

definition member_start :: "nat \<Rightarrow> nat \<Rightarrow> nat" where
  "member_start al pos = 8 * align_up al ((pos + 7) div 8)"

text \<open>A bit-field continues its storage unit unless it would cross the unit's end.\<close>

definition bitfield_start :: "nat \<Rightarrow> nat \<Rightarrow> nat \<Rightarrow> nat" where
  "bitfield_start n w pos =
     (if pos div (8 * n) = (pos + w - 1) div (8 * n) then pos else align_up (8 * n) pos)"

fun size_of :: "ctype \<Rightarrow> nat" and end_of :: "nat \<Rightarrow> cmember list \<Rightarrow> nat"
  and widest :: "cmember list \<Rightarrow> nat" where
  "size_of (Scalar n) = n"
| "size_of (Arr n t) = n * size_of t"
| "size_of (Struct ms) = align_up (align_ofs ms) ((end_of 0 ms + 7) div 8)"
| "size_of (Union ms) = align_up (align_ofs ms) (widest ms)"
| "end_of pos [] = pos"
| "end_of pos (Member x t # ms) = end_of (member_start (align_of t) pos + 8 * size_of t) ms"
| "end_of pos (Bitfield x n w # ms) = end_of (bitfield_start n w pos + w) ms"
| "widest [] = 0"
| "widest (Member x t # ms) = larger (size_of t) (widest ms)"
| "widest (Bitfield x n w # ms) = larger ((w + 7) div 8) (widest ms)"

text \<open>Bit positions of the named members, those of anonymous members included.\<close>

fun bit_offsets :: "nat \<Rightarrow> cmember list \<Rightarrow> (string \<times> nat) list"
  and union_offsets :: "nat \<Rightarrow> cmember list \<Rightarrow> (string \<times> nat) list"
  and inner_offsets :: "nat \<Rightarrow> ctype \<Rightarrow> (string \<times> nat) list" where
  "bit_offsets pos [] = []"
| "bit_offsets pos (Member x t # ms) =
     (if x = [] then inner_offsets (member_start (align_of t) pos) t
      else [(x, member_start (align_of t) pos)]) @
     bit_offsets (member_start (align_of t) pos + 8 * size_of t) ms"
| "bit_offsets pos (Bitfield x n w # ms) =
     (x, bitfield_start n w pos) # bit_offsets (bitfield_start n w pos + w) ms"
| "union_offsets pos [] = []"
| "union_offsets pos (Member x t # ms) =
     (if x = [] then inner_offsets pos t else [(x, pos)]) @ union_offsets pos ms"
| "union_offsets pos (Bitfield x n w # ms) = (x, pos) # union_offsets pos ms"
| "inner_offsets pos (Scalar n) = []"
| "inner_offsets pos (Arr n t) = []"
| "inner_offsets pos (Struct ms) = map (\<lambda>(x, p). (x, pos + p)) (bit_offsets 0 ms)"
| "inner_offsets pos (Union ms) = union_offsets pos ms"

definition bit_offset :: "cmember list \<Rightarrow> string \<Rightarrow> nat option" where
  "bit_offset ms x = map_of (bit_offsets 0 ms) x"

text \<open>\<open>offsetof\<close>, defined for members that start at a byte.\<close>

definition byte_offset :: "cmember list \<Rightarrow> string \<Rightarrow> nat option" where
  "byte_offset ms x = (case bit_offset ms x of
     Some p \<Rightarrow> if p mod 8 = 0 then Some (p div 8) else None | None \<Rightarrow> None)"

section \<open>Kernel types\<close>

abbreviation ptr :: ctype where "ptr \<equiv> Scalar 8"

definition spinlock_t :: ctype where "spinlock_t = Scalar 4"
definition refcount_t :: ctype where "refcount_t = Scalar 4"
definition atomic_t :: ctype where "atomic_t = Scalar 4"

definition list_head :: ctype where
  "list_head = Struct [Member ''next'' ptr, Member ''prev'' ptr]"
definition hlist_node :: ctype where
  "hlist_node = Struct [Member ''next'' ptr, Member ''pprev'' ptr]"
definition callback_head :: ctype where
  "callback_head = Struct [Member ''next'' ptr, Member ''func'' ptr]"
definition wait_queue_head :: ctype where
  "wait_queue_head = Struct [Member ''lock'' spinlock_t, Member ''head'' list_head]"
definition in6_addr :: ctype where
  "in6_addr = Union [Member ''u6_addr8'' (Arr 16 (Scalar 1)), Member ''u6_addr16'' (Arr 8 (Scalar 2)),
     Member ''u6_addr32'' (Arr 4 (Scalar 4))]"
definition socket_lock_t :: ctype where
  "socket_lock_t = Struct [Member ''slock'' spinlock_t, Member ''owned'' (Scalar 4),
     Member ''wq'' wait_queue_head]"
definition sk_buff_head :: ctype where
  "sk_buff_head = Struct [Member ''next'' ptr, Member ''prev'' ptr, Member ''qlen'' (Scalar 4),
     Member ''lock'' spinlock_t]"
definition timer_list :: ctype where
  "timer_list = Struct [Member ''entry'' hlist_node, Member ''expires'' (Scalar 8),
     Member ''function'' ptr, Member ''flags'' (Scalar 4)]"
definition page_frag :: ctype where
  "page_frag = Struct [Member ''page'' ptr, Member ''offset'' (Scalar 4), Member ''size'' (Scalar 4)]"
definition rwlock_t :: ctype where
  "rwlock_t = Struct [Member ''cnts'' atomic_t, Member ''wait_lock'' spinlock_t]"
definition sock_cgroup_data :: ctype where
  "sock_cgroup_data = Union [Member [] (Struct [Member ''is_data'' (Scalar 1),
     Member ''padding'' (Scalar 1), Member ''prioidx'' (Scalar 2), Member ''classid'' (Scalar 4)]),
     Member ''val'' (Scalar 8)]"
definition sock_cgroup_data_arm64 :: ctype where
  "sock_cgroup_data_arm64 = Union [Member [] (Struct [Bitfield ''is_data'' 1 1,
     Bitfield ''no_refcnt'' 1 1, Bitfield ''unused'' 1 6, Member ''padding'' (Scalar 1),
     Member ''prioidx'' (Scalar 2), Member ''classid'' (Scalar 4)]), Member ''val'' (Scalar 8)]"

definition sock_common :: "cmember list" where
  "sock_common =
    [Member [] (Union [Member ''skc_addrpair'' (Scalar 8),
       Member [] (Struct [Member ''skc_daddr'' (Scalar 4), Member ''skc_rcv_saddr'' (Scalar 4)])]),
     Member [] (Union [Member ''skc_hash'' (Scalar 4), Member ''skc_u16hashes'' (Arr 2 (Scalar 2))]),
     Member [] (Union [Member ''skc_portpair'' (Scalar 4),
       Member [] (Struct [Member ''skc_dport'' (Scalar 2), Member ''skc_num'' (Scalar 2)])]),
     Member ''skc_family'' (Scalar 2), Member ''skc_state'' (Scalar 1),
     Bitfield ''skc_reuse'' 1 4, Bitfield ''skc_reuseport'' 1 1, Bitfield ''skc_ipv6only'' 1 1,
     Bitfield ''skc_net_refcnt'' 1 1, Member ''skc_bound_dev_if'' (Scalar 4),
     Member [] (Union [Member ''skc_bind_node'' hlist_node, Member ''skc_portaddr_node'' hlist_node]),
     Member ''skc_prot'' ptr, Member ''skc_net'' ptr, Member ''skc_v6_daddr'' in6_addr,
     Member ''skc_v6_rcv_saddr'' in6_addr, Member ''skc_cookie'' (Scalar 8),
     Member [] (Union [Member ''skc_flags'' (Scalar 8), Member ''skc_listener'' ptr,
       Member ''skc_tw_dr'' ptr]),
     Member ''skc_dontcopy_begin'' (Arr 0 (Scalar 4)),
     Member [] (Union [Member ''skc_node'' hlist_node, Member ''skc_nulls_node'' hlist_node]),
     Member ''skc_tx_queue_mapping'' (Scalar 2), Member ''skc_rx_queue_mapping'' (Scalar 2),
     Member [] (Union [Member ''skc_incoming_cpu'' (Scalar 4), Member ''skc_rcv_wnd'' (Scalar 4),
       Member ''skc_tw_rcv_nxt'' (Scalar 4)]),
     Member ''skc_refcnt'' refcount_t, Member ''skc_dontcopy_end'' (Arr 0 (Scalar 4)),
     Member [] (Union [Member ''skc_rxhash'' (Scalar 4), Member ''skc_window_clamp'' (Scalar 4),
       Member ''skc_tw_snd_nxt'' (Scalar 4)])]"

text \<open>The members both versions of \<open>struct sock\<close> share before the flag word, and after it.\<close>

definition sock_head :: "cmember list" where
  "sock_head =
    [Member ''__sk_common'' (Struct sock_common), Member ''sk_lock'' socket_lock_t,
     Member ''sk_drops'' atomic_t, Member ''sk_rcvlowat'' (Scalar 4),
     Member ''sk_error_queue'' sk_buff_head, Member ''sk_rx_skb_cache'' ptr,
     Member ''sk_receive_queue'' sk_buff_head,
     Member ''sk_backlog'' (Struct [Member ''rmem_alloc'' atomic_t, Member ''len'' (Scalar 4),
       Member ''head'' ptr, Member ''tail'' ptr]),
     Member ''sk_forward_alloc'' (Scalar 4), Member ''sk_ll_usec'' (Scalar 4),
     Member ''sk_napi_id'' (Scalar 4), Member ''sk_rcvbuf'' (Scalar 4), Member ''sk_filter'' ptr,
     Member [] (Union [Member ''sk_wq'' ptr, Member ''sk_wq_raw'' ptr]),
     Member ''sk_policy'' (Arr 2 ptr), Member ''sk_rx_dst'' ptr, Member ''sk_dst_cache'' ptr,
     Member ''sk_omem_alloc'' atomic_t, Member ''sk_sndbuf'' (Scalar 4),
     Member ''sk_wmem_queued'' (Scalar 4), Member ''sk_wmem_alloc'' refcount_t,
     Member ''sk_tsq_flags'' (Scalar 8),
     Member [] (Union [Member ''sk_send_head'' ptr, Member ''tcp_rtx_queue'' ptr]),
     Member ''sk_tx_skb_cache'' ptr, Member ''sk_write_queue'' sk_buff_head,
     Member ''sk_peek_off'' (Scalar 4), Member ''sk_write_pending'' (Scalar 4),
     Member ''sk_dst_pending_confirm'' (Scalar 4), Member ''sk_pacing_status'' (Scalar 4),
     Member ''sk_sndtimeo'' (Scalar 8), Member ''sk_timer'' timer_list,
     Member ''sk_priority'' (Scalar 4), Member ''sk_mark'' (Scalar 4),
     Member ''sk_pacing_rate'' (Scalar 8), Member ''sk_max_pacing_rate'' (Scalar 8),
     Member ''sk_frag'' page_frag, Member ''sk_route_caps'' (Scalar 8),
     Member ''sk_route_nocaps'' (Scalar 8), Member ''sk_route_forced_caps'' (Scalar 8),
     Member ''sk_gso_type'' (Scalar 4), Member ''sk_gso_max_size'' (Scalar 4),
     Member ''sk_allocation'' (Scalar 4), Member ''sk_txhash'' (Scalar 4)]"

definition sock_errors :: "cmember list" where
  "sock_errors =
    [Member ''sk_lingertime'' (Scalar 8), Member ''sk_prot_creator'' ptr,
     Member ''sk_callback_lock'' rwlock_t, Member ''sk_err'' (Scalar 4),
     Member ''sk_err_soft'' (Scalar 4), Member ''sk_ack_backlog'' (Scalar 4),
     Member ''sk_max_ack_backlog'' (Scalar 4), Member ''sk_uid'' (Scalar 4)]"

definition sock_tail :: "ctype \<Rightarrow> cmember list" where
  "sock_tail cgrp =
    [Member ''sk_peer_pid'' ptr, Member ''sk_peer_cred'' ptr, Member ''sk_rcvtimeo'' (Scalar 8),
     Member ''sk_stamp'' (Scalar 8), Member ''sk_tsflags'' (Scalar 2), Member ''sk_shutdown'' (Scalar 1),
     Member ''sk_tskey'' (Scalar 4), Member ''sk_zckey'' atomic_t, Member ''sk_clockid'' (Scalar 1),
     Bitfield ''sk_txtime_deadline_mode'' 1 1, Bitfield ''sk_txtime_report_errors'' 1 1,
     Bitfield ''sk_txtime_unused'' 1 6, Member ''sk_socket'' ptr, Member ''sk_user_data'' ptr,
     Member ''sk_security'' ptr, Member ''sk_cgrp_data'' cgrp, Member ''sk_memcg'' ptr,
     Member ''sk_state_change'' ptr, Member ''sk_data_ready'' ptr, Member ''sk_write_space'' ptr,
     Member ''sk_error_report'' ptr, Member ''sk_backlog_rcv'' ptr, Member ''sk_destruct'' ptr,
     Member ''sk_reuseport_cb'' ptr, Member ''sk_bpf_storage'' ptr, Member ''sk_rcu'' callback_head]"

definition sock_amd64 :: "cmember list" where
  "sock_amd64 = sock_head @
    [Member ''__sk_flags_offset'' (Arr 0 (Scalar 4)), Bitfield ''sk_padding'' 4 1,
     Bitfield ''sk_kern_sock'' 4 1, Bitfield ''sk_no_check_tx'' 4 1, Bitfield ''sk_no_check_rx'' 4 1,
     Bitfield ''sk_userlocks'' 4 4, Bitfield ''sk_protocol'' 4 8, Bitfield ''sk_type'' 4 16,
     Member ''sk_gso_max_segs'' (Scalar 2), Member ''sk_pacing_shift'' (Scalar 1)] @
    sock_errors @ sock_tail sock_cgroup_data"

definition sock_arm64 :: "cmember list" where
  "sock_arm64 = sock_head @
    [Bitfield ''sk_padding'' 1 1, Bitfield ''sk_kern_sock'' 1 1, Bitfield ''sk_no_check_tx'' 1 1,
     Bitfield ''sk_no_check_rx'' 1 1, Bitfield ''sk_userlocks'' 1 4,
     Member ''sk_pacing_shift'' (Scalar 1), Member ''sk_type'' (Scalar 2),
     Member ''sk_protocol'' (Scalar 2), Member ''sk_gso_max_segs'' (Scalar 2)] @
    sock_errors @ [Member ''sk_peer_lock'' spinlock_t] @ sock_tail sock_cgroup_data_arm64"

lemmas layout_defs = larger_def align_up_def member_start_def bitfield_start_def spinlock_t_def refcount_t_def
  atomic_t_def list_head_def hlist_node_def callback_head_def wait_queue_head_def in6_addr_def
  socket_lock_t_def sk_buff_head_def timer_list_def page_frag_def rwlock_t_def sock_cgroup_data_def

lemma sock_common_layout [layout_simps]:
  "align_ofs sock_common = 8" "end_of 0 sock_common = 8 * 136"
  by (simp_all add: layout_defs sock_common_def)

lemma bit_offsets_append:
  "bit_offsets pos (xs @ ys) = bit_offsets pos xs @ bit_offsets (end_of pos xs) ys"
proof (induction xs arbitrary: pos)
  case (Cons m ms)
  then show ?case by (cases m) simp_all
qed simp

text \<open>The names a structure declares do not depend on where its members lie.\<close>

fun names_in :: "cmember list \<Rightarrow> string list" and names_of :: "ctype \<Rightarrow> string list" where
  "names_in [] = []"
| "names_in (Member x t # ms) = (if x = [] then names_of t else [x]) @ names_in ms"
| "names_in (Bitfield x n w # ms) = x # names_in ms"
| "names_of (Scalar n) = []"
| "names_of (Arr n t) = []"
| "names_of (Struct ms) = names_in ms"
| "names_of (Union ms) = names_in ms"

lemma bit_offsets_names:
  "map fst (bit_offsets pos ms) = names_in ms"
  "map fst (union_offsets pos ms) = names_in ms"
  "map fst (inner_offsets pos t) = names_of t"
  by (induction pos ms and pos ms and pos t rule: bit_offsets_union_offsets_inner_offsets.induct)
    (simp_all add: comp_def case_prod_beta)

lemma bit_offsets_absent: "x \<notin> set (names_in ms) \<Longrightarrow> map_of (bit_offsets pos ms) x = None"
  using bit_offsets_names(1) [of pos ms] by (metis map_of_eq_None_iff set_map)

lemma sock_head_end [layout_simps]: "end_of 0 sock_head = 8 * 528"
  using sock_common_layout by (simp add: layout_defs sock_head_def)

lemma sock_head_names:
  "''sk_protocol'' \<notin> set (names_in sock_head)" "''sk_type'' \<notin> set (names_in sock_head)"
  "''sk_gso_max_segs'' \<notin> set (names_in sock_head)"
  by (simp_all add: sock_head_def)

text \<open>
  The flag word starts at byte 528 in both versions; what precedes \<open>sk_gso_max_segs\<close> by three
  bytes is \<open>sk_protocol\<close> in the first and the second byte of \<open>sk_type\<close> in the other.
\<close>

lemma bit_offsets_prefix:
  "map_of (bit_offsets pos xs) x = Some p \<Longrightarrow> map_of (bit_offsets pos (xs @ ys)) x = Some p"
  by (simp add: bit_offsets_append)

lemma sock_flags_offset:
  assumes "x \<notin> set (names_in sock_head)" and "map_of (bit_offsets (8 * 528) flags) x = Some p"
  shows "bit_offset (sock_head @ flags @ rest) x = Some p"
  unfolding bit_offset_def bit_offsets_append [of 0 sock_head] sock_head_end map_of_append
  using assms bit_offsets_prefix [OF assms(2), of rest] by (simp add: map_add_def bit_offsets_absent)

lemma sock_layout [layout_simps]:
  "bit_offset sock_amd64 ''sk_protocol'' = Some (8 * 529)"
  "bit_offset sock_amd64 ''sk_gso_max_segs'' = Some (8 * 532)"
  "bit_offset sock_arm64 ''sk_type'' = Some (8 * 530)"
  "bit_offset sock_arm64 ''sk_protocol'' = Some (8 * 532)"
  "bit_offset sock_arm64 ''sk_gso_max_segs'' = Some (8 * 534)"
  unfolding sock_amd64_def sock_arm64_def
  by (rule sock_flags_offset, rule sock_head_names,
      simp add: bitfield_start_def member_start_def align_up_def)+

lemma sock_flags_member [layout_simps]:
  "bit_offset sock_amd64 ''__sk_flags_offset'' = Some (8 * 528)"
  "bit_offset sock_arm64 ''__sk_flags_offset'' = None"
proof -
  have h: "''__sk_flags_offset'' \<notin> set (names_in sock_head)" by (simp add: sock_head_def)
  show "bit_offset sock_amd64 ''__sk_flags_offset'' = Some (8 * 528)"
    unfolding sock_amd64_def
    by (rule sock_flags_offset [OF h]) (simp add: member_start_def align_up_def)
  have "''__sk_flags_offset'' \<notin> set (names_in sock_arm64)"
    by (simp add: sock_arm64_def sock_head_def sock_errors_def sock_tail_def)
  then show "bit_offset sock_arm64 ''__sk_flags_offset'' = None"
    by (simp add: bit_offset_def bit_offsets_absent)
qed

end
