(* ===== verification/Inspector.thy ===== *)
theory Inspector
  imports Packet Kernel_Layout
begin

text \<open>
  The shared probe library of \<^verbatim>\<open>bpf/headers/inspector.h\<close>. Kernel objects are records of the
  members the probes read through \<open>BPF_CORE_READ\<close>, a null pointer is \<^term>\<open>None\<close>; the one
  access by address arithmetic, in \<open>get_sock_protocol\<close>, goes to the object's memory image
  under the layout of the running kernel. \<open>kread\<close> is \<open>bpf_probe_read_kernel\<close>: the return code
  and what the destination holds afterwards.
\<close>

section \<open>Kernel objects\<close>

record net_device =
  nd_netns :: u32
  nd_ifindex :: u32
  nd_mtu :: u32

record sock =
  sk_netns :: u32
  skc_family :: u16
  skc_num :: u16
  skc_dport :: u16
  skc_rcv_saddr :: u32
  skc_daddr :: u32
  skc_v6_rcv_saddr :: bytes
  skc_v6_daddr :: bytes
  skc_state :: u8
  sk_raw :: bytes

record sk_buff =
  skb_head :: u64
  network_header :: u16
  transport_header :: u16
  skb_len :: u32
  skb_mark :: u32
  skb_protocol :: u16
  skb_dev :: "net_device option"
  skb_sk :: "sock option"

text \<open>What the programs find in the kernel: readable memory, the objects at their addresses
  and the layout of \<open>struct sock\<close> in the running kernel.\<close>

record kernel =
  kread :: "u64 \<Rightarrow> nat \<Rightarrow> int \<times> bytes"
  k_skb :: "u64 \<Rightarrow> sk_buff"
  k_sk :: "u64 \<Rightarrow> sock"
  k_sock :: "cmember list"

section \<open>Event members\<close>

definition ETH_P_IPV4 :: u16 where "ETH_P_IPV4 = 0x800"
definition ETH_P_IPV6 :: u16 where "ETH_P_IPV6 = 0x86dd"
definition PF_INET6 :: u16 where "PF_INET6 = 10"
definition L4_TCP :: u8 where "L4_TCP = 6"
definition L4_UDP :: u8 where "L4_UDP = 17"

record flow_tuple_4 =
  ft_proto :: u8
  ft_src :: u32
  ft_dst :: u32
  ft_sport :: u16
  ft_dport :: u16

record skb_meta =
  md_netns :: u32
  md_mark :: u32
  md_ifindex :: u32
  md_len :: u32
  md_mtu :: u32
  md_sk_state :: u32
  md_protocol :: u16

record tuple =
  tp_saddr :: bytes
  tp_daddr :: bytes
  tp_sport :: u16
  tp_dport :: u16
  tp_l3_proto :: u16
  tp_l4_proto :: u8

text \<open>What the \<open>= {0}\<close> initialisers of the event structures give.\<close>

definition zero_flow_tuple :: flow_tuple_4 where
  "zero_flow_tuple = \<lparr>ft_proto = 0, ft_src = 0, ft_dst = 0, ft_sport = 0, ft_dport = 0\<rparr>"

definition zero_meta :: skb_meta where
  "zero_meta = \<lparr>md_netns = 0, md_mark = 0, md_ifindex = 0, md_len = 0, md_mtu = 0,
     md_sk_state = 0, md_protocol = 0\<rparr>"

definition zero_tuple :: tuple where
  "zero_tuple = \<lparr>tp_saddr = replicate 16 0, tp_daddr = replicate 16 0, tp_sport = 0,
     tp_dport = 0, tp_l3_proto = 0, tp_l4_proto = 0\<rparr>"

text \<open>A read of \<open>n\<close> bytes into the front of a member of the union \<open>addr\<close>.\<close>

definition read_into :: "kernel \<Rightarrow> u64 \<Rightarrow> nat \<Rightarrow> bytes \<Rightarrow> bytes" where
  "read_into k a n dst = snd (kread k a n) @ drop n dst"

definition store_into :: "bytes \<Rightarrow> bytes \<Rightarrow> bytes" where
  "store_into bs dst = bs @ drop (length bs) dst"

section \<open>Sockets and namespaces\<close>

definition KERNEL_VERSION :: "nat \<Rightarrow> nat \<Rightarrow> nat \<Rightarrow> nat" where
  "KERNEL_VERSION a b c = push_bit 16 a + push_bit 8 b + (if c > 255 then 255 else c)"

text \<open>The byte three before \<open>sk_gso_max_segs\<close>, and the member \<open>sk_protocol\<close> itself.\<close>

definition protocol_byte :: "kernel \<Rightarrow> sock \<Rightarrow> u16" where
  "protocol_byte k sk =
     (case bit_offset (k_sock k) ''sk_gso_max_segs'' of
        None \<Rightarrow> 0
      | Some p \<Rightarrow> (case load8 (sk_raw sk) (p div 8 - 3) of Some b \<Rightarrow> ucast b | None \<Rightarrow> 0))"

definition protocol_member :: "kernel \<Rightarrow> sock \<Rightarrow> u16" where
  "protocol_member k sk =
     (case bit_offset (k_sock k) ''sk_protocol'' of
        None \<Rightarrow> 0
      | Some p \<Rightarrow> (case load16 (sk_raw sk) (p div 8) of Some w \<Rightarrow> w | None \<Rightarrow> 0))"

text \<open>
  The three branches of the preprocessor conditional. The build defines neither \<open>CORE\<close> nor
  \<open>LINUX_VERSION_CODE\<close>, and an undefined identifier is 0 in a preprocessor condition.
\<close>

definition get_sock_protocol_in :: "bool \<Rightarrow> nat \<Rightarrow> kernel \<Rightarrow> sock \<Rightarrow> u16" where
  "get_sock_protocol_in core version_code k sk =
     (if \<not> core
      then if version_code < KERNEL_VERSION 5 6 0 then protocol_byte k sk else protocol_member k sk
      else if bit_offset (k_sock k) ''__sk_flags_offset'' \<noteq> None then protocol_byte k sk
      else protocol_member k sk)"

definition get_sock_protocol :: "kernel \<Rightarrow> sock \<Rightarrow> u16" where
  "get_sock_protocol = get_sock_protocol_in False 0"

definition get_sock_netns :: "sock \<Rightarrow> u32" where
  "get_sock_netns sk = sk_netns sk"

definition get_netns :: "sk_buff \<Rightarrow> u32" where
  "get_netns skb =
     (let netns = (case skb_dev skb of Some dev \<Rightarrow> nd_netns dev | None \<Rightarrow> 0)
      in if netns = 0
         then (case skb_sk skb of Some sk \<Rightarrow> sk_netns sk | None \<Rightarrow> netns)
         else netns)"

section \<open>Bounded loads\<close>

definition skb_load_u8 :: "kernel \<Rightarrow> sk_buff \<Rightarrow> u32 \<Rightarrow> int \<times> bytes option" where
  "skb_load_u8 k skb off =
     (if off \<ge> skb_len skb then (-1, None)
      else let (r, bs) = kread k (skb_head skb + ucast off) 1 in (r, Some bs))"

definition skb_load_bytes_bounded :: "kernel \<Rightarrow> sk_buff \<Rightarrow> u32 \<Rightarrow> u32 \<Rightarrow> int \<times> bytes option" where
  "skb_load_bytes_bounded k skb off sz =
     (if off > skb_len skb \<or> off + sz > skb_len skb then (-1, None)
      else let (r, bs) = kread k (skb_head skb + ucast off) (unat sz) in (r, Some bs))"

section \<open>Tuples\<close>

definition set_flow_tuple4 :: "bytes \<Rightarrow> flow_tuple_4 \<Rightarrow> bool \<Rightarrow> (int \<times> flow_tuple_4) option" where
  "set_flow_tuple4 data tuple port =
     (let eth = c_sizeof ethhdr_fields in
      if eth > length data then Some (-1, tuple)
      else do {
        h_proto \<leftarrow> eth_h_proto data 0;
        if h_proto = bpf_htons ETH_P_IPV4
        then if eth + c_sizeof iphdr_fields > length data then Some (-1, tuple)
        else do {
          src \<leftarrow> ip_saddr data eth;
          dst \<leftarrow> ip_daddr data eth;
          proto \<leftarrow> ip_protocol data eth;
          let tuple = tuple\<lparr>ft_src := src, ft_dst := dst, ft_proto := proto\<rparr> in
          if \<not> port then Some (0, tuple)
          else do {
            vi \<leftarrow> ip_first_byte data eth;
            let l4_off = eth + unat (iph_ihl vi) * 4 in
            if proto = L4_TCP
            then if l4_off + c_sizeof tcphdr_fields > length data then Some (-1, tuple)
              else do {
                sp \<leftarrow> tcp_source data l4_off;
                dp \<leftarrow> tcp_dest data l4_off;
                Some (0, tuple\<lparr>ft_sport := sp, ft_dport := dp\<rparr>)
              }
            else if proto = L4_UDP
            then if l4_off + c_sizeof udphdr_fields > length data then Some (-1, tuple)
              else do {
                sp \<leftarrow> udp_source data l4_off;
                dp \<leftarrow> udp_dest data l4_off;
                Some (0, tuple\<lparr>ft_sport := sp, ft_dport := dp\<rparr>)
              }
            else Some (0, tuple)
          }
        }
        else Some (0, tuple)
      })"

text \<open>The transport part of \<open>set_tuple\<close>; the offsets are 16 bits wide, the sums are not.\<close>

definition read_ports :: "kernel \<Rightarrow> u64 \<Rightarrow> c_field list \<Rightarrow> tuple \<Rightarrow> tuple" where
  "read_ports k a hdr tpl =
     tpl\<lparr>tp_sport := le_word (snd (kread k (a + of_nat (offset_in hdr ''source'')) 2)),
         tp_dport := le_word (snd (kread k (a + of_nat (offset_in hdr ''dest'')) 2))\<rparr>"

definition swap_ports :: "tuple \<Rightarrow> tuple" where
  "swap_ports tpl = tpl\<lparr>tp_sport := bpf_htons (tp_sport tpl), tp_dport := bpf_htons (tp_dport tpl)\<rparr>"

definition set_ports :: "kernel \<Rightarrow> sk_buff \<Rightarrow> u16 \<Rightarrow> tuple \<Rightarrow> int \<times> tuple" where
  "set_ports k skb l4_off tpl =
     (let len = unat (skb_len skb); l4 = skb_head skb + ucast l4_off in
      if unat l4_off \<ge> len then (-1, tpl)
      else if tp_l4_proto tpl = L4_TCP
      then if unat l4_off + c_sizeof tcphdr_fields > len then (-1, tpl)
           else (0, swap_ports (read_ports k l4 tcphdr_fields tpl))
      else if tp_l4_proto tpl = L4_UDP
      then if unat l4_off + c_sizeof udphdr_fields > len then (-1, tpl)
           else (0, swap_ports (read_ports k l4 udphdr_fields tpl))
      else (0, swap_ports tpl))"

definition set_tuple :: "kernel \<Rightarrow> sk_buff \<Rightarrow> tuple \<Rightarrow> int \<times> tuple" where
  "set_tuple k skb tpl =
     (let l3_off = network_header skb; len = unat (skb_len skb) in
      if l3_off = 0 \<or> unat l3_off \<ge> len then (-1, tpl)
      else
      let ip = skb_head skb + ucast l3_off;
          first = le_word (snd (kread k ip 1)) :: u8;
          ip_vsn = drop_bit 4 first; ihl = unat (first AND 15) in
      if ip_vsn = 4
      then if ihl < 5 \<or> ihl > 15 then (-1, tpl)
           else if unat l3_off + ihl * 4 > len then (-1, tpl)
           else set_ports k skb (word_of_nat (unat l3_off + ihl * 4))
             (tpl\<lparr>tp_saddr := read_into k (ip + of_nat (offset_in iphdr_fields ''saddr'')) 4 (tp_saddr tpl),
                  tp_daddr := read_into k (ip + of_nat (offset_in iphdr_fields ''daddr'')) 4 (tp_daddr tpl),
                  tp_l4_proto := le_word (snd (kread k (ip + of_nat (offset_in iphdr_fields ''protocol'')) 1)),
                  tp_l3_proto := ETH_P_IPV4\<rparr>)
      else if ip_vsn = 6
      then if unat l3_off + c_sizeof ipv6hdr_fields > len then (-1, tpl)
           else set_ports k skb (word_of_nat (unat l3_off + c_sizeof ipv6hdr_fields))
             (tpl\<lparr>tp_saddr := read_into k (ip + of_nat (offset_in ipv6hdr_fields ''saddr'')) 16 (tp_saddr tpl),
                  tp_daddr := read_into k (ip + of_nat (offset_in ipv6hdr_fields ''daddr'')) 16 (tp_daddr tpl),
                  tp_l4_proto := le_word (snd (kread k (ip + of_nat (offset_in ipv6hdr_fields ''nexthdr'')) 1)),
                  tp_l3_proto := ETH_P_IPV6\<rparr>)
      else (-1, tpl))"

definition set_meta :: "sk_buff \<Rightarrow> skb_meta \<Rightarrow> skb_meta" where
  "set_meta skb meta =
     (let meta = meta\<lparr>md_netns := get_netns skb, md_mark := skb_mark skb, md_len := skb_len skb,
                      md_protocol := skb_protocol skb\<rparr>
      in case skb_dev skb of
           None \<Rightarrow> meta
         | Some dev \<Rightarrow> meta\<lparr>md_ifindex := nd_ifindex dev, md_mtu := nd_mtu dev\<rparr>)"

definition set_meta_sock :: "kernel \<Rightarrow> sock \<Rightarrow> skb_meta \<Rightarrow> skb_meta" where
  "set_meta_sock k sk meta =
     meta\<lparr>md_netns := sk_netns sk, md_protocol := get_sock_protocol k sk\<rparr>"

definition set_tuple_sock :: "kernel \<Rightarrow> sock \<Rightarrow> tuple \<Rightarrow> tuple" where
  "set_tuple_sock k sk tpl =
     (let tpl = (if skc_family sk = PF_INET6
                 then tpl\<lparr>tp_saddr := store_into (take 16 (skc_v6_rcv_saddr sk)) (tp_saddr tpl),
                          tp_daddr := store_into (take 16 (skc_v6_daddr sk)) (tp_daddr tpl),
                          tp_l3_proto := ETH_P_IPV6\<rparr>
                 else tpl\<lparr>tp_saddr := store_into (le_bytes 4 (skc_rcv_saddr sk)) (tp_saddr tpl),
                          tp_daddr := store_into (le_bytes 4 (skc_daddr sk)) (tp_daddr tpl),
                          tp_l3_proto := ETH_P_IPV4\<rparr>)
      in tpl\<lparr>tp_sport := skc_num sk, tp_dport := skc_dport sk,
             tp_l4_proto := ucast (get_sock_protocol k sk)\<rparr>)"

end
