(* ===== verification/Probe_Env.thy ===== *)
theory Probe_Env
  imports Inspector Bpf_Maps
begin

text \<open>
  What a probe invocation gets from outside: the traced function's registers, read through the
  \<open>PT_REGS\<close> macros of \<^verbatim>\<open>bpf/headers/bpf_tracing.h\<close>, and the answers of the BPF helpers
  documented in \<^verbatim>\<open>bpf/headers/bpf_helper_defs.h\<close>, collected in \<open>henv\<close>.
\<close>

section \<open>Target selection\<close>

datatype bpf_target = X86 | S390 | Arm | Arm64 | Mips | Powerpc | Sparc

definition target_macros :: "(string \<times> bpf_target) list" where
  "target_macros =
    [(''__TARGET_ARCH_x86'', X86), (''__TARGET_ARCH_s390'', S390), (''__TARGET_ARCH_arm'', Arm),
     (''__TARGET_ARCH_arm64'', Arm64), (''__TARGET_ARCH_mips'', Mips),
     (''__TARGET_ARCH_powerpc'', Powerpc), (''__TARGET_ARCH_sparc'', Sparc)]"

definition compiler_macros :: "(string \<times> bpf_target) list" where
  "compiler_macros =
    [(''__x86_64__'', X86), (''__s390__'', S390), (''__arm__'', Arm), (''__aarch64__'', Arm64),
     (''__mips__'', Mips), (''__powerpc__'', Powerpc), (''__sparc__'', Sparc)]"

text \<open>An \<open>#if defined ... #elif\<close> chain takes the first macro that is defined.\<close>

definition first_defined :: "(string \<times> 'a) list \<Rightarrow> string list \<Rightarrow> 'a option" where
  "first_defined chain defs = map_option snd (List.find (\<lambda>(m, _). m \<in> set defs) chain)"

definition bpf_target_of :: "string list \<Rightarrow> bpf_target option" where
  "bpf_target_of defs =
     (case first_defined target_macros defs of
        Some t \<Rightarrow> Some t
      | None \<Rightarrow> first_defined compiler_macros defs)"

text \<open>The copy of the kernel types that \<^verbatim>\<open>bpf/headers/vmlinux.h\<close> includes.\<close>

definition vmlinux_of :: "string list \<Rightarrow> bpf_target option" where
  "vmlinux_of = first_defined
     [(''__TARGET_ARCH_arm64'', Arm64), (''__TARGET_ARCH_amd64'', X86), (''__TARGET_ARCH_x86'', X86)]"

section \<open>Registers\<close>

text \<open>
  A register is a member of the target's \<open>pt_regs\<close> structure, with an index for the targets
  that keep an array.
\<close>

type_synonym reg = "string \<times> nat"
type_synonym pt_regs = "reg \<Rightarrow> u64"

datatype pt_role = Parm1 | Parm2 | Parm3 | Parm4 | Parm5 | Ret | Fp | Rc | Sp | Ip

definition x86_regs :: "(pt_role \<times> reg) list" where
  "x86_regs = [(Parm1, (''di'', 0)), (Parm2, (''si'', 0)), (Parm3, (''dx'', 0)), (Parm4, (''cx'', 0)),
     (Parm5, (''r8'', 0)), (Ret, (''sp'', 0)), (Fp, (''bp'', 0)), (Rc, (''ax'', 0)), (Sp, (''sp'', 0)),
     (Ip, (''ip'', 0))]"

definition s390_regs :: "(pt_role \<times> reg) list" where
  "s390_regs = [(Parm1, (''gprs'', 2)), (Parm2, (''gprs'', 3)), (Parm3, (''gprs'', 4)),
     (Parm4, (''gprs'', 5)), (Parm5, (''gprs'', 6)), (Ret, (''gprs'', 14)), (Fp, (''gprs'', 11)),
     (Rc, (''gprs'', 2)), (Sp, (''gprs'', 15)), (Ip, (''psw.addr'', 0))]"

definition arm_regs :: "(pt_role \<times> reg) list" where
  "arm_regs = [(Parm1, (''uregs'', 0)), (Parm2, (''uregs'', 1)), (Parm3, (''uregs'', 2)),
     (Parm4, (''uregs'', 3)), (Parm5, (''uregs'', 4)), (Ret, (''uregs'', 14)), (Fp, (''uregs'', 11)),
     (Rc, (''uregs'', 0)), (Sp, (''uregs'', 13)), (Ip, (''uregs'', 12))]"

definition arm64_regs :: "(pt_role \<times> reg) list" where
  "arm64_regs = [(Parm1, (''regs'', 0)), (Parm2, (''regs'', 1)), (Parm3, (''regs'', 2)),
     (Parm4, (''regs'', 3)), (Parm5, (''regs'', 4)), (Ret, (''regs'', 30)), (Fp, (''regs'', 29)),
     (Rc, (''regs'', 0)), (Sp, (''sp'', 0)), (Ip, (''pc'', 0))]"

definition mips_regs :: "(pt_role \<times> reg) list" where
  "mips_regs = [(Parm1, (''regs'', 4)), (Parm2, (''regs'', 5)), (Parm3, (''regs'', 6)),
     (Parm4, (''regs'', 7)), (Parm5, (''regs'', 8)), (Ret, (''regs'', 31)), (Fp, (''regs'', 30)),
     (Rc, (''regs'', 2)), (Sp, (''regs'', 29)), (Ip, (''cp0_epc'', 0))]"

definition powerpc_regs :: "(pt_role \<times> reg) list" where
  "powerpc_regs = [(Parm1, (''gpr'', 3)), (Parm2, (''gpr'', 4)), (Parm3, (''gpr'', 5)),
     (Parm4, (''gpr'', 6)), (Parm5, (''gpr'', 7)), (Rc, (''gpr'', 3)), (Sp, (''sp'', 0)),
     (Ip, (''nip'', 0))]"

text \<open>On sparc the index is one of the kernel's \<open>UREG\<close> constants, given by name.\<close>

definition sparc_regs :: "(pt_role \<times> reg) list" where
  "sparc_regs = [(Parm1, (''u_regs.I0'', 0)), (Parm2, (''u_regs.I1'', 0)), (Parm3, (''u_regs.I2'', 0)),
     (Parm4, (''u_regs.I3'', 0)), (Parm5, (''u_regs.I4'', 0)), (Ret, (''u_regs.I7'', 0)),
     (Rc, (''u_regs.I0'', 0)), (Sp, (''u_regs.FP'', 0)), (Ip, (''pc'', 0))]"

fun target_regs :: "bpf_target \<Rightarrow> (pt_role \<times> reg) list" where
  "target_regs X86 = x86_regs"
| "target_regs S390 = s390_regs"
| "target_regs Arm = arm_regs"
| "target_regs Arm64 = arm64_regs"
| "target_regs Mips = mips_regs"
| "target_regs Powerpc = powerpc_regs"
| "target_regs Sparc = sparc_regs"

definition pt_read :: "bpf_target \<Rightarrow> pt_role \<Rightarrow> pt_regs \<Rightarrow> u64" where
  "pt_read t r ctx = (case map_of (target_regs t) r of Some reg \<Rightarrow> ctx reg | None \<Rightarrow> 0)"

abbreviation PT_REGS_PARM1 :: "bpf_target \<Rightarrow> pt_regs \<Rightarrow> u64" where "PT_REGS_PARM1 t \<equiv> pt_read t Parm1"
abbreviation PT_REGS_PARM2 :: "bpf_target \<Rightarrow> pt_regs \<Rightarrow> u64" where "PT_REGS_PARM2 t \<equiv> pt_read t Parm2"
abbreviation PT_REGS_PARM3 :: "bpf_target \<Rightarrow> pt_regs \<Rightarrow> u64" where "PT_REGS_PARM3 t \<equiv> pt_read t Parm3"

lemmas target_regs_defs = x86_regs_def s390_regs_def arm_regs_def arm64_regs_def mips_regs_def
  powerpc_regs_def sparc_regs_def

text \<open>
  On every target the five parameter accessors exist and read five different registers,
  and for the two architectures the kernel types are shipped for, the header that selects the
  types and the header that selects the registers agree. Under \<open>__TARGET_ARCH_amd64\<close> alone,
  which the first accepts, the second selects no target at all.
\<close>

lemma parameter_registers:
  "distinct (map (\<lambda>r. map_of (target_regs t) r) [Parm1, Parm2, Parm3, Parm4, Parm5]) \<and>
   None \<notin> set (map (\<lambda>r. map_of (target_regs t) r) [Parm1, Parm2, Parm3, Parm4, Parm5]) \<and>
   bpf_target_of [''__TARGET_ARCH_x86''] = vmlinux_of [''__TARGET_ARCH_x86''] \<and>
   bpf_target_of [''__TARGET_ARCH_arm64''] = vmlinux_of [''__TARGET_ARCH_arm64''] \<and>
   vmlinux_of [''__TARGET_ARCH_amd64''] = Some X86 \<and> bpf_target_of [''__TARGET_ARCH_amd64''] = None"
  by (cases t) (simp_all add: target_regs_defs bpf_target_of_def vmlinux_of_def first_defined_def
      target_macros_def compiler_macros_def)

section \<open>Helper answers\<close>

text \<open>
  \<open>he_clock i\<close> is the \<open>i\<close>-th answer of \<open>bpf_ktime_get_ns\<close> in the invocation; \<open>he_ok\<close> and
  \<open>he_lru\<close> are the kernel's choices for a map update, \<open>he_out\<close> whether an output helper finds
  room, \<open>he_fill\<close> what the other CPUs' slots of a fresh per-CPU entry hold.
\<close>

record henv =
  he_kernel :: kernel
  he_target :: bpf_target
  he_cpu :: u32
  he_pid_tgid :: u64
  he_comm :: bytes
  he_clock :: "nat \<Rightarrow> u64"
  he_ok :: bool
  he_lru :: "u64 lru_choice"
  he_fill :: u64
  he_out :: bool
  he_stackid :: u64

abbreviation bpf_ktime_get_ns :: "henv \<Rightarrow> u64" where "bpf_ktime_get_ns e \<equiv> he_clock e 0"

definition cur_pid :: "henv \<Rightarrow> u32" where "cur_pid e = ucast (drop_bit 32 (he_pid_tgid e))"
definition cur_tid :: "henv \<Rightarrow> u32" where "cur_tid e = ucast (he_pid_tgid e)"

definition parm1 :: "henv \<Rightarrow> pt_regs \<Rightarrow> u64" where "parm1 e ctx = PT_REGS_PARM1 (he_target e) ctx"
definition parm2 :: "henv \<Rightarrow> pt_regs \<Rightarrow> u64" where "parm2 e ctx = PT_REGS_PARM2 (he_target e) ctx"
definition parm3 :: "henv \<Rightarrow> pt_regs \<Rightarrow> u64" where "parm3 e ctx = PT_REGS_PARM3 (he_target e) ctx"

text \<open>The records a perf event array or ring buffer has been given, in order.\<close>

definition perf_event_output :: "henv \<Rightarrow> 'ev \<Rightarrow> 'ev list \<Rightarrow> 'ev list" where
  "perf_event_output e ev evs = (if he_out e then evs @ [ev] else evs)"

section \<open>Per-CPU feature switches\<close>

text \<open>The macro \<open>FEATURE_SWITCH\<close>: a per-CPU array of 16 bytes and its test.\<close>

definition is_enable :: "u8 list \<Rightarrow> u32 \<Rightarrow> bool" where
  "is_enable switch key = (case array_lookup switch key of Some val \<Rightarrow> val \<noteq> 0 | None \<Rightarrow> False)"

end
