(* ===== verification/Instances.thy ===== *)
theory Instances
  imports Probe_Env
begin

text \<open>
  Concrete kernel objects and helper answers, for the instances that show the hypotheses of the
  probe properties can hold.
\<close>

definition demo_skb :: "u32 \<Rightarrow> sk_buff" where
  "demo_skb len = \<lparr>skb_head = 0xFFFF888000000000, network_header = 78, transport_header = 98,
     skb_len = len, skb_mark = 0, skb_protocol = 8, skb_dev = None, skb_sk = None\<rparr>"

definition demo_sock :: sock where
  "demo_sock = \<lparr>sk_netns = 4026531992, skc_family = 2, skc_num = 8080, skc_dport = 0x5000,
     skc_rcv_saddr = 0x0100007F, skc_daddr = 0x0200007F, skc_v6_rcv_saddr = replicate 16 0,
     skc_v6_daddr = replicate 16 0, skc_state = 1,
     sk_raw = replicate 529 0 @ [6, 1, 0, 6] @ replicate 219 0\<rparr>"

text \<open>A kernel in which one buffer is readable and every other read fails.\<close>

definition buffer_kernel :: "u64 \<Rightarrow> bytes \<Rightarrow> cmember list \<Rightarrow> kernel" where
  "buffer_kernel base buf lay = \<lparr>kread = (\<lambda>a n. let off = unat (a - base) in
     if off + n \<le> length buf then (0, take n (drop off buf)) else (-14, replicate n 0)),
     k_skb = (\<lambda>_. demo_skb 224), k_sk = (\<lambda>_. demo_sock), k_sock = lay\<rparr>"

text \<open>An invocation at time \<open>t\<close> on CPU \<open>c\<close>, in thread 101 of process 100.\<close>

definition demo_henv :: "u64 \<Rightarrow> u32 \<Rightarrow> henv" where
  "demo_henv t c = \<lparr>he_kernel = buffer_kernel 0 [] sock_amd64, he_target = X86, he_cpu = c,
     he_pid_tgid = 0x6400000065, he_comm = replicate 20 65, he_clock = (\<lambda>_. t), he_ok = True,
     he_lru = \<lparr>lru_ok = True, lru_evict = (\<lambda>_. False)\<rparr>, he_fill = 0, he_out = True,
     he_stackid = 7\<rparr>"

definition demo_regs :: "u64 \<Rightarrow> pt_regs" where
  "demo_regs a = (\<lambda>_. a)"

lemma demo_regs_parm [simp]:
  "parm1 e (demo_regs a) = a" "parm2 e (demo_regs a) = a" "parm3 e (demo_regs a) = a"
  by (cases "he_target e"; simp add: parm1_def parm2_def parm3_def pt_read_def demo_regs_def
      target_regs_defs)+

lemma demo_henv_simps [simp]:
  "he_clock (demo_henv t c) i = t" "he_cpu (demo_henv t c) = c" "he_ok (demo_henv t c)"
  "he_out (demo_henv t c)" "he_fill (demo_henv t c) = 0" "he_stackid (demo_henv t c) = 7"
  "cur_tid (demo_henv t c) = 101" "cur_pid (demo_henv t c) = 100"
  "he_pid_tgid (demo_henv t c) = 0x6400000065"
  "he_kernel (demo_henv t c) = buffer_kernel 0 [] sock_amd64"
  "he_lru (demo_henv t c) = \<lparr>lru_ok = True, lru_evict = (\<lambda>_. False)\<rparr>"
  by (simp_all add: demo_henv_def cur_tid_def cur_pid_def)

end
