(* ===== verification/Interval.thy ===== *)
theory Interval
  imports Elite_Prelude
begin

text \<open>
  The measuring protocol most probes follow: one hook opens a measurement under a key, others
  add to it or give it up, and a last one closes it, reports it if it is worth a report and
  forgets it. \<open>interval_spec\<close> is the protocol on a plain partial function; the locale
  \<open>interval_probe\<close> is what the hooks of a program must satisfy to implement it, and shows that
  over any sequence of hook invocations the reports are exactly those of the specification.
\<close>

section \<open>Specification\<close>

datatype hook_kind = Opens | Begins | Marks | Forgets | Closes

text \<open>
  \<open>key\<close> is what an invocation measures under, \<open>initial\<close> the measurement it opens, \<open>mark\<close> what
  it adds to one, \<open>report\<close> the report it makes of one, if any. \<open>Opens\<close> replaces a measurement
  that is under way, \<open>Begins\<close> leaves it.
\<close>

fun interval_spec :: "('h \<Rightarrow> hook_kind) \<Rightarrow> ('h \<Rightarrow> 'k) \<Rightarrow> ('h \<Rightarrow> 'v) \<Rightarrow> ('h \<Rightarrow> 'v \<Rightarrow> 'v) \<Rightarrow>
    ('h \<Rightarrow> 'v \<Rightarrow> 'r option) \<Rightarrow> 'h list \<Rightarrow> ('k \<rightharpoonup> 'v) \<Rightarrow> 'r list \<times> ('k \<rightharpoonup> 'v)" where
  "interval_spec kind key initial mark report [] p = ([], p)"
| "interval_spec kind key initial mark report (h # hs) p =
     (case kind h of
        Opens \<Rightarrow> interval_spec kind key initial mark report hs (p(key h \<mapsto> initial h))
      | Begins \<Rightarrow> interval_spec kind key initial mark report hs
          (case p (key h) of None \<Rightarrow> p(key h \<mapsto> initial h) | Some _ \<Rightarrow> p)
      | Marks \<Rightarrow> interval_spec kind key initial mark report hs
          (p(key h := map_option (mark h) (p (key h))))
      | Forgets \<Rightarrow> interval_spec kind key initial mark report hs (p(key h := None))
      | Closes \<Rightarrow>
          (case p (key h) of
             None \<Rightarrow> interval_spec kind key initial mark report hs p
           | Some v \<Rightarrow>
               let (rs, p') = interval_spec kind key initial mark report hs (p(key h := None))
               in ((case report h v of None \<Rightarrow> [] | Some r \<Rightarrow> [r]) @ rs, p')))"

text \<open>The map accepts every measurement the run opens.\<close>

fun admitted :: "('h \<Rightarrow> 's \<Rightarrow> 's) \<Rightarrow> ('h \<Rightarrow> hook_kind) \<Rightarrow> ('h \<Rightarrow> 's \<Rightarrow> bool) \<Rightarrow> 'h list \<Rightarrow> 's \<Rightarrow> bool"
  where
  "admitted step kind admits [] s = True"
| "admitted step kind admits (h # hs) s \<longleftrightarrow>
     (kind h = Opens \<or> kind h = Begins \<longrightarrow> admits h s) \<and> admitted step kind admits hs (step h s)"

text \<open>Programs with one hook at each end, and what a plain time stamp reports.\<close>

datatype 'e hook = Start 'e | Stop 'e

fun hook_env :: "'e hook \<Rightarrow> 'e" where
  "hook_env (Start e) = e"
| "hook_env (Stop e) = e"

fun pair_kind :: "'e hook \<Rightarrow> hook_kind" where
  "pair_kind (Start e) = Opens"
| "pair_kind (Stop e) = Closes"

fun hook_step :: "('e \<Rightarrow> 's \<Rightarrow> 's) \<Rightarrow> ('e \<Rightarrow> 's \<Rightarrow> 's) \<Rightarrow> 'e hook \<Rightarrow> 's \<Rightarrow> 's" where
  "hook_step start stop (Start e) s = start e s"
| "hook_step start stop (Stop e) s = stop e s"

definition elapsed :: "(u64 \<Rightarrow> u64 \<Rightarrow> bool) \<Rightarrow> ('h \<Rightarrow> u64) \<Rightarrow> ('h \<Rightarrow> bool) \<Rightarrow> 'h \<Rightarrow> u64 \<Rightarrow> u64 option" where
  "elapsed slow clock emits h t = (if slow t (clock h) \<and> emits h then Some (clock h - t) else None)"

abbreviation unmarked :: "'h \<Rightarrow> 'v \<Rightarrow> 'v" where "unmarked \<equiv> \<lambda>_ v. v"

section \<open>Implementation\<close>

locale interval_probe =
  fixes step :: "'h \<Rightarrow> 's \<Rightarrow> 's"
    and kind :: "'h \<Rightarrow> hook_kind"
    and key :: "'h \<Rightarrow> 'k"
    and initial :: "'h \<Rightarrow> 'v"
    and mark :: "'h \<Rightarrow> 'v \<Rightarrow> 'v"
    and report :: "'h \<Rightarrow> 'v \<Rightarrow> 'r option"
    and ok :: "'h \<Rightarrow> bool"
    and admits :: "'h \<Rightarrow> 's \<Rightarrow> bool"
    and pending :: "'s \<Rightarrow> 'k \<rightharpoonup> 'v"
    and reported :: "'s \<Rightarrow> 'r list"
  assumes opens: "ok h \<Longrightarrow> kind h = Opens \<Longrightarrow> admits h s \<Longrightarrow>
      pending (step h s) = (pending s)(key h \<mapsto> initial h) \<and> reported (step h s) = reported s"
    and begins: "ok h \<Longrightarrow> kind h = Begins \<Longrightarrow> admits h s \<Longrightarrow>
      pending (step h s) = (case pending s (key h) of
          None \<Rightarrow> (pending s)(key h \<mapsto> initial h) | Some _ \<Rightarrow> pending s) \<and>
      reported (step h s) = reported s"
    and marks: "ok h \<Longrightarrow> kind h = Marks \<Longrightarrow>
      pending (step h s) = (pending s)(key h := map_option (mark h) (pending s (key h))) \<and>
      reported (step h s) = reported s"
    and forgets: "ok h \<Longrightarrow> kind h = Forgets \<Longrightarrow>
      pending (step h s) = (pending s)(key h := None) \<and> reported (step h s) = reported s"
    and closes_idle: "ok h \<Longrightarrow> kind h = Closes \<Longrightarrow> pending s (key h) = None \<Longrightarrow>
      pending (step h s) = pending s \<and> reported (step h s) = reported s"
    and closes: "ok h \<Longrightarrow> kind h = Closes \<Longrightarrow> pending s (key h) = Some v \<Longrightarrow>
      pending (step h s) = (pending s)(key h := None) \<and>
      reported (step h s) = reported s @ (case report h v of None \<Rightarrow> [] | Some r \<Rightarrow> [r])"
begin

abbreviation spec :: "'h list \<Rightarrow> ('k \<rightharpoonup> 'v) \<Rightarrow> 'r list \<times> ('k \<rightharpoonup> 'v)" where
  "spec \<equiv> interval_spec kind key initial mark report"

lemma run_refines:
  "list_all ok hs \<Longrightarrow> admitted step kind admits hs s \<Longrightarrow>
   reported (fold step hs s) = reported s @ fst (spec hs (pending s)) \<and>
   pending (fold step hs s) = snd (spec hs (pending s))"
proof (induction hs arbitrary: s)
  case (Cons h hs)
  then have ok: "ok h" and ih: "reported (fold step hs (step h s)) =
      reported (step h s) @ fst (spec hs (pending (step h s)))"
      "pending (fold step hs (step h s)) = snd (spec hs (pending (step h s)))" by simp_all
  show ?case
  proof (cases "kind h")
    case Opens
    with Cons.prems opens [OF ok Opens, of s] ih show ?thesis by (simp del: fun_upd_apply)
  next
    case Begins
    with Cons.prems begins [OF ok Begins, of s] ih show ?thesis
      by (cases "pending s (key h)") (simp_all del: fun_upd_apply)
  next
    case Marks
    with marks [OF ok Marks, of s] ih show ?thesis by (simp del: fun_upd_apply)
  next
    case Forgets
    with forgets [OF ok Forgets, of s] ih show ?thesis by (simp del: fun_upd_apply)
  next
    case Closes
    show ?thesis
    proof (cases "pending s (key h)")
      case None
      with Closes closes_idle [OF ok Closes None] ih show ?thesis by simp
    next
      case (Some v)
      with Closes closes [OF ok Closes Some] ih show ?thesis
        by (simp del: fun_upd_apply split: prod.split)
    qed
  qed
qed simp

end

section \<open>One measurement\<close>

lemma interval_spec_append:
  "interval_spec kind key initial mark report (hs @ hs') p =
     (let (rs, p') = interval_spec kind key initial mark report hs p;
          (rs', p'') = interval_spec kind key initial mark report hs' p'
      in (rs @ rs', p''))"
proof (induction hs arbitrary: p)
  case (Cons h hs)
  then show ?case
    by (cases "kind h"; cases "p (key h)") (simp_all del: fun_upd_apply split: prod.split)
qed simp

text \<open>
  Whatever happens under other keys, and whatever marks are added under its own, a measurement
  once opened is still there when it is closed.
\<close>

lemma interval_spec_marked:
  assumes "list_all (\<lambda>h. key h = k \<longrightarrow> kind h = Marks) hs" and "p k = Some v"
  shows "snd (interval_spec kind key initial mark report hs p) k =
     Some (fold mark (filter (\<lambda>h. key h = k) hs) v)"
  using assms
proof (induction hs arbitrary: p v)
  case (Cons h hs)
  then show ?case
    by (cases "kind h"; cases "p (key h)") (auto simp: case_prod_beta)
qed simp

lemma interval_spec_one:
  assumes "kind h1 = Opens" "key h1 = k" "kind h2 = Closes" "key h2 = k"
    and mid: "list_all (\<lambda>h. key h = k \<longrightarrow> kind h = Marks) hs"
    and "report h2 (fold mark (filter (\<lambda>h. key h = k) hs) (initial h1)) = Some r"
  shows "\<exists>rs. fst (interval_spec kind key initial mark report (h1 # hs @ [h2]) p) = rs @ [r]"
  using assms interval_spec_marked [OF mid, of "p(k \<mapsto> initial h1)" "initial h1" initial mark report]
  by (auto simp: interval_spec_append split: prod.split)

context interval_probe
begin

lemma measurement_reported:
  assumes "kind h1 = Opens" "key h1 = k" "kind h2 = Closes" "key h2 = k"
    and "list_all (\<lambda>h. key h = k \<longrightarrow> kind h = Marks) hs"
    and "report h2 (fold mark (filter (\<lambda>h. key h = k) hs) (initial h1)) = Some r"
    and "list_all ok (h1 # hs @ [h2])" and "admitted step kind admits (h1 # hs @ [h2]) s"
  shows "\<exists>rs. reported (fold step (h1 # hs @ [h2]) s) = reported s @ rs @ [r]"
  using run_refines [OF assms(7,8)]
    interval_spec_one [where kind = kind and key = key and initial = initial and mark = mark
      and report = report and p = "pending s", OF assms(1-6)]
  by auto

end

end
