(* ===== verification/Block_Virt.thy ===== *)
theory Block_Virt
  imports Instances Interval
begin

text \<open>
  Two latency probes that follow the measuring protocol directly: block requests
  (\<^verbatim>\<open>bpf/tracebiolatency.c\<close>) under the request's address, and virtio-net commands
  (\<^verbatim>\<open>bpf/virtcmdlatency.c\<close>) under the thread id, in a per-CPU map. Both implement the
  protocol; the second does so only while the thread stays on its CPU.
\<close>

section \<open>Block requests\<close>

record insp_biolat_entry_t =
  bl_target :: bytes
  bl_disk :: bytes
  bl_pid :: u32
  bl_start :: u64
  bl_latency :: u64

record insp_biolat_event_t =
  be_target :: bytes
  be_disk :: bytes
  be_pid :: u32
  be_latency :: u64

record biolat_state =
  insp_biolat_entry :: "(u64, insp_biolat_entry_t) bpf_map"
  insp_biolat_evts :: "insp_biolat_event_t list"

definition biolat_cap :: nat where "biolat_cap = 10000"
definition BIOLAT_THRESH :: u64 where "BIOLAT_THRESH = 10000000"

definition biolat_new :: "henv \<Rightarrow> insp_biolat_entry_t" where
  "biolat_new e = \<lparr>bl_target = he_comm e, bl_disk = replicate 20 0, bl_pid = cur_pid e,
     bl_start = bpf_ktime_get_ns e, bl_latency = 0\<rparr>"

definition biolat_start :: "henv \<times> pt_regs \<Rightarrow> biolat_state \<Rightarrow> biolat_state" where
  "biolat_start = (\<lambda>(e, ctx) s.
     let rq = parm1 e ctx in
     s\<lparr>insp_biolat_entry := hash_store biolat_cap (he_ok e) BPF_ANY rq (biolat_new e)
         (insp_biolat_entry s)\<rparr>)"

definition biolat_finish :: "henv \<times> pt_regs \<Rightarrow> biolat_state \<Rightarrow> biolat_state" where
  "biolat_finish = (\<lambda>(e, ctx) s.
     let rq = parm1 e ctx in
     case bpf_map_lookup_elem (insp_biolat_entry s) rq of
       None \<Rightarrow> s
     | Some biot \<Rightarrow>
         let now = bpf_ktime_get_ns e;
             latency = now - bl_start biot;
             s = (if latency > BIOLAT_THRESH
                  then s\<lparr>insp_biolat_evts := perf_event_output e
                      \<lparr>be_target = bl_target biot, be_disk = replicate 20 0, be_pid = bl_pid biot,
                       be_latency = latency\<rparr> (insp_biolat_evts s)\<rparr>
                  else s)
         in s\<lparr>insp_biolat_entry := bpf_map_delete_elem rq (insp_biolat_entry s)\<rparr>)"

definition biolat_step :: "(henv \<times> pt_regs) hook \<Rightarrow> biolat_state \<Rightarrow> biolat_state" where
  "biolat_step = hook_step biolat_start biolat_finish"

definition biolat_key :: "(henv \<times> pt_regs) hook \<Rightarrow> u64" where
  "biolat_key h = (case hook_env h of (e, ctx) \<Rightarrow> parm1 e ctx)"

fun biolat_admits :: "(henv \<times> pt_regs) hook \<Rightarrow> biolat_state \<Rightarrow> bool" where
  "biolat_admits (Start (e, ctx)) s \<longleftrightarrow> bpf_map_update_elem biolat_cap (he_ok e) BPF_ANY (parm1 e ctx)
     (biolat_new e) (insp_biolat_entry s) \<noteq> None"
| "biolat_admits (Stop _) s \<longleftrightarrow> True"

definition env_clock :: "(henv \<times> 'c) hook \<Rightarrow> u64" where
  "env_clock h = bpf_ktime_get_ns (fst (hook_env h))"
definition env_out :: "(henv \<times> 'c) hook \<Rightarrow> bool" where
  "env_out h = he_out (fst (hook_env h))"

definition over :: "u64 \<Rightarrow> u64 \<Rightarrow> u64 \<Rightarrow> bool" where
  "over thresh t now \<longleftrightarrow> now - t > thresh"

definition biolat_pending :: "biolat_state \<Rightarrow> u64 \<rightharpoonup> u64" where
  "biolat_pending s = map_option bl_start \<circ> map_of (insp_biolat_entry s)"

definition biolat_reported :: "biolat_state \<Rightarrow> u64 list" where
  "biolat_reported s = map be_latency (insp_biolat_evts s)"

lemmas biolat_defs = biolat_start_def biolat_finish_def biolat_key_def biolat_step_def
  biolat_pending_def biolat_reported_def env_clock_def env_out_def over_def elapsed_def

interpretation bio: interval_probe biolat_step pair_kind biolat_key env_clock unmarked
  "elapsed (over BIOLAT_THRESH) env_clock env_out" "\<lambda>_. True" biolat_admits biolat_pending
  biolat_reported
proof (unfold_locales, goal_cases)
  case (1 h s)
  then show ?case
    by (cases h) (auto simp: biolat_defs map_laws Let_def fun_eq_iff biolat_new_def)
next
  case (5 h s)
  then show ?case by (cases h) (auto simp: biolat_defs map_laws Let_def)
next
  case (6 h s v)
  then show ?case
    by (cases h) (auto simp: biolat_defs map_laws Let_def fun_eq_iff perf_event_output_def)
qed (auto elim: pair_kind.elims)

text \<open>
  \<open>C39\<close>: over any sequence of request starts and completions the map takes, the block probe
  reports exactly the latencies above the threshold, each the time from a request's last start
  to its completion, in order, and keeps stamps only of requests that are in flight.
\<close>

theorem biolat_refines:
  assumes "admitted biolat_step pair_kind biolat_admits hs s"
  shows "biolat_reported (fold biolat_step hs s) = biolat_reported s @
       fst (interval_spec pair_kind biolat_key env_clock unmarked
         (elapsed (over BIOLAT_THRESH) env_clock env_out) hs (biolat_pending s)) \<and>
     biolat_pending (fold biolat_step hs s) =
       snd (interval_spec pair_kind biolat_key env_clock unmarked
         (elapsed (over BIOLAT_THRESH) env_clock env_out) hs (biolat_pending s))"
  using bio.run_refines [OF _ assms] by (simp add: list_all_iff)

theorem biolat_refines_witness:
  "biolat_reported (fold biolat_step
     [Start (demo_henv 5 0, demo_regs 1), Start (demo_henv 6 0, demo_regs 2),
      Stop (demo_henv 20000005 0, demo_regs 1), Stop (demo_henv 9 0, demo_regs 2)]
     \<lparr>insp_biolat_entry = [], insp_biolat_evts = []\<rparr>) = [20000000]"
  using biolat_refines [of "[Start (demo_henv 5 0, demo_regs 1), Start (demo_henv 6 0, demo_regs 2),
      Stop (demo_henv 20000005 0, demo_regs 1), Stop (demo_henv 9 0, demo_regs 2)]"
      "\<lparr>insp_biolat_entry = [], insp_biolat_evts = []\<rparr>"]
  by (simp add: biolat_defs bpf_map_update_elem_def biolat_cap_def BIOLAT_THRESH_def
      hash_store_def)

section \<open>Virtio-net commands\<close>

record insp_virtcmdlat_event_t =
  ve_pid :: u32
  ve_cpu :: u32
  ve_latency :: u64

record virtcmd_state =
  insp_virtcmdlat :: "(u32, u64) percpu_map"
  insp_virtcmdlat_events :: "insp_virtcmdlat_event_t list"

definition virtcmd_cap :: nat where "virtcmd_cap = 1024"
definition VIRTCMDLAT_THRESH :: u64 where "VIRTCMDLAT_THRESH = 10000000"

abbreviation this_cpu :: "henv \<Rightarrow> cpu" where "this_cpu e \<equiv> unat (he_cpu e)"

definition report_virtcmdlat_events :: "henv \<Rightarrow> u64 \<Rightarrow> virtcmd_state \<Rightarrow> virtcmd_state" where
  "report_virtcmdlat_events e latency s = s\<lparr>insp_virtcmdlat_events := perf_event_output e
     \<lparr>ve_pid = cur_pid e, ve_cpu = he_cpu e, ve_latency = latency\<rparr> (insp_virtcmdlat_events s)\<rparr>"

definition trace_virtcmd :: "henv \<Rightarrow> virtcmd_state \<Rightarrow> virtcmd_state" where
  "trace_virtcmd e s =
     (let key = cur_tid e; ts = bpf_ktime_get_ns e in
      s\<lparr>insp_virtcmdlat := percpu_store virtcmd_cap (he_ok e) (he_fill e) BPF_ANY (this_cpu e) key ts
          (insp_virtcmdlat s)\<rparr>)"

definition trace_virtcmdret :: "henv \<Rightarrow> virtcmd_state \<Rightarrow> virtcmd_state" where
  "trace_virtcmdret e s =
     (let key = cur_tid e; ts = bpf_ktime_get_ns e in
      case percpu_lookup (this_cpu e) (insp_virtcmdlat s) key of
        None \<Rightarrow> s
      | Some tsp \<Rightarrow>
          let latency = ts - tsp;
              s = (if latency > VIRTCMDLAT_THRESH then report_virtcmdlat_events e latency s else s)
          in s\<lparr>insp_virtcmdlat := bpf_map_delete_elem key (insp_virtcmdlat s)\<rparr>)"

definition virtcmd_step :: "henv hook \<Rightarrow> virtcmd_state \<Rightarrow> virtcmd_state" where
  "virtcmd_step = hook_step trace_virtcmd trace_virtcmdret"

definition virtcmd_admits :: "henv hook \<Rightarrow> virtcmd_state \<Rightarrow> bool" where
  "virtcmd_admits h s \<longleftrightarrow> (let e = hook_env h in percpu_update virtcmd_cap (he_ok e) (he_fill e) BPF_ANY
     (this_cpu e) (cur_tid e) (bpf_ktime_get_ns e) (insp_virtcmdlat s) \<noteq> None)"

definition virtcmd_pending :: "cpu \<Rightarrow> virtcmd_state \<Rightarrow> u32 \<rightharpoonup> u64" where
  "virtcmd_pending c s = percpu_lookup c (insp_virtcmdlat s)"

definition virtcmd_reported :: "virtcmd_state \<Rightarrow> u64 list" where
  "virtcmd_reported s = map ve_latency (insp_virtcmdlat_events s)"

lemma percpu_store_lookup:
  assumes "percpu_update cap ok fill flag c k v m \<noteq> None"
  shows "percpu_lookup c' (percpu_store cap ok fill flag c k v m) k' =
    (if k' = k then Some (if c' = c then v else (case map_of m k of None \<Rightarrow> fill | Some sl \<Rightarrow> sl c'))
     else percpu_lookup c' m k')"
  using assms
  by (auto simp: percpu_store_def percpu_update_def percpu_lookup_def bpf_map_update_elem_def
      update_conv' split: if_splits option.splits)

lemma percpu_delete_lookup:
  "percpu_lookup c (bpf_map_delete_elem k m) k' = (if k' = k then None else percpu_lookup c m k')"
  by (simp add: percpu_lookup_def bpf_map_delete_elem_def delete_conv')

lemmas virtcmd_defs = virtcmd_step_def trace_virtcmd_def trace_virtcmdret_def virtcmd_admits_def
  virtcmd_pending_def virtcmd_reported_def over_def elapsed_def report_virtcmdlat_events_def

interpretation vc: interval_probe virtcmd_step pair_kind "cur_tid \<circ> hook_env"
  "bpf_ktime_get_ns \<circ> hook_env" unmarked
  "elapsed (over VIRTCMDLAT_THRESH) (bpf_ktime_get_ns \<circ> hook_env) (he_out \<circ> hook_env)"
  "\<lambda>h. this_cpu (hook_env h) = c" virtcmd_admits "virtcmd_pending c" virtcmd_reported
  for c :: cpu
proof (unfold_locales, goal_cases)
  case (1 h s)
  then show ?case by (cases h) (auto simp: virtcmd_defs Let_def fun_eq_iff percpu_store_lookup)
next
  case (5 h s)
  then show ?case by (cases h) (auto simp: virtcmd_defs Let_def)
next
  case (6 h s v)
  then show ?case
    by (cases h) (auto simp: virtcmd_defs Let_def fun_eq_iff perf_event_output_def percpu_delete_lookup)
qed (auto elim: pair_kind.elims)

text \<open>
  While every thread enters and leaves a command on the same CPU, the virtio probe reports
  exactly the command times above its threshold.
\<close>

lemma virtcmd_refines:
  assumes "list_all (\<lambda>h. this_cpu (hook_env h) = c) hs"
    and "admitted virtcmd_step pair_kind virtcmd_admits hs s"
  shows "virtcmd_reported (fold virtcmd_step hs s) = virtcmd_reported s @
      fst (interval_spec pair_kind (cur_tid \<circ> hook_env) (bpf_ktime_get_ns \<circ> hook_env) unmarked
        (elapsed (over VIRTCMDLAT_THRESH) (bpf_ktime_get_ns \<circ> hook_env) (he_out \<circ> hook_env)) hs
        (virtcmd_pending c s))"
  using vc.run_refines [OF assms] by simp

lemma virtcmd_refines_witness:
  "virtcmd_reported (fold virtcmd_step
     [Start (demo_henv 5 0), Stop (demo_henv 20000005 0), Stop (demo_henv 20000006 0)]
     \<lparr>insp_virtcmdlat = [], insp_virtcmdlat_events = []\<rparr>) = [20000000]"
  using virtcmd_refines [of 0 "[Start (demo_henv 5 0), Stop (demo_henv 20000005 0),
      Stop (demo_henv 20000006 0)]" "\<lparr>insp_virtcmdlat = [], insp_virtcmdlat_events = []\<rparr>"]
  by (simp add: virtcmd_defs percpu_update_def bpf_map_update_elem_def virtcmd_cap_def
      percpu_lookup_def VIRTCMDLAT_THRESH_def)

text \<open>
  \<open>C40\<close>: a thread that is moved to another CPU inside the command is measured from whatever the
  other CPU's slot of its entry holds: with the zero the kernel fills in, the probe reports the
  uptime of the machine as the command's latency.
\<close>

theorem virtcmd_migrated:
  assumes "map_of (insp_virtcmdlat s) (cur_tid e1) = None" and "cur_tid e2 = cur_tid e1"
    and "this_cpu e2 \<noteq> this_cpu e1" and "virtcmd_admits (Start e1) s" and "he_fill e1 = 0" and "he_out e2"
    and "bpf_ktime_get_ns e2 > VIRTCMDLAT_THRESH"
  shows "virtcmd_reported (trace_virtcmdret e2 (trace_virtcmd e1 s)) =
     virtcmd_reported s @ [bpf_ktime_get_ns e2]"
  using assms
  by (simp add: trace_virtcmd_def trace_virtcmdret_def virtcmd_admits_def virtcmd_reported_def Let_def
      percpu_store_lookup perf_event_output_def report_virtcmdlat_events_def)

theorem virtcmd_migrated_witness:
  "virtcmd_reported (trace_virtcmdret (demo_henv 86400000000005 1) (trace_virtcmd
     (demo_henv 86400000000000 0) \<lparr>insp_virtcmdlat = [], insp_virtcmdlat_events = []\<rparr>)) =
   [86400000000005]"
  using virtcmd_migrated [of "\<lparr>insp_virtcmdlat = [], insp_virtcmdlat_events = []\<rparr>"
      "demo_henv 86400000000000 0" "demo_henv 86400000000005 1"]
  by (simp add: virtcmd_admits_def percpu_update_def bpf_map_update_elem_def virtcmd_cap_def
      virtcmd_reported_def VIRTCMDLAT_THRESH_def)

end
