(* ===== verification/Inspector_Facts.thy ===== *)
theory Inspector_Facts
  imports Instances Xdp_Parse
begin

text \<open>
  What the probe library promises: the flow parser stays inside the packet, both parsers
  recover what a sender put into a frame, the socket readers fill the tuple, and which byte
  \<open>get_sock_protocol\<close> really reads under the two kernel layouts.
\<close>

section \<open>Flow tuples\<close>

lemma set_flow_tuple4_cases:
  "set_flow_tuple4 data t wp = Some
     (if length data < 14 then (-1, t)
      else if (le_word (take 2 (drop 12 data)) :: u16) \<noteq> bpf_htons ETH_P_IPV4 then (0, t)
      else if length data < 34 then (-1, t)
      else let t' = t\<lparr>ft_src := le_word (take 4 (drop 26 data)),
                     ft_dst := le_word (take 4 (drop 30 data)), ft_proto := data ! 23\<rparr>;
               l4 = 14 + tcp4_ihl data;
               t'' = t'\<lparr>ft_sport := le_word (take 2 (drop l4 data)),
                        ft_dport := le_word (take 2 (drop (l4 + 2) data))\<rparr>
           in if \<not> wp then (0, t')
              else if data ! 23 = L4_TCP then (if length data < l4 + 20 then (-1, t') else (0, t''))
              else if data ! 23 = L4_UDP then (if length data < l4 + 8 then (-1, t') else (0, t''))
              else (0, t'))"
  by (auto simp: set_flow_tuple4_def member_defs header_sizes header_offsets Let_def tcp4_ihl_def
      iph_ihl_le add.commute)

text \<open>
  \<open>C15\<close>: the flow parser never reads outside the packet, on any bytes and any header length
  field, and what it returns is 0 or -1.
\<close>

theorem set_flow_tuple4_safe:
  "\<exists>r t'. set_flow_tuple4 data t wp = Some (r, t') \<and> (r = 0 \<or> r = -1)"
  unfolding set_flow_tuple4_cases Let_def by (simp split: if_split)



section \<open>Kernel buffers\<close>

text \<open>
  The buffer of an \<open>sk_buff\<close> is readable: the documented success case of
  \<open>bpf_probe_read_kernel\<close> for every range inside it.
\<close>

definition maps_buffer :: "kernel \<Rightarrow> u64 \<Rightarrow> bytes \<Rightarrow> bool" where
  "maps_buffer k base buf \<longleftrightarrow> (\<forall>off n. off + n \<le> length buf \<longrightarrow>
     kread k (base + of_nat off) n = (0, take n (drop off buf)))"

lemma kread_buffer:
  "maps_buffer k base buf \<Longrightarrow> off + n \<le> length buf \<Longrightarrow>
   kread k (base + of_nat off) n = (0, take n (drop off buf))"
  by (simp add: maps_buffer_def)

lemma kread_after:
  assumes "maps_buffer k base buf" and "unat x + d + n \<le> length buf"
  shows "kread k (base + ucast (x :: u16) + of_nat d) n = (0, take n (drop (unat x + d) buf))"
proof -
  have "base + ucast x + of_nat d = base + of_nat (unat x + d)" by (simp add: add.assoc)
  then show ?thesis using kread_buffer [OF assms(1), of "unat x + d" n] assms(2) by metis
qed

lemma kread_at:
  assumes "maps_buffer k base buf" and "unat x + n \<le> length buf"
  shows "kread k (base + ucast (x :: u16)) n = (0, take n (drop (unat x) buf))"
  using kread_after [OF assms(1), of x 0 n] assms(2) by simp

text \<open>A buffer that holds \<open>headroom\<close> and then a frame, and what lies at the frame's offsets.\<close>

definition ports :: "u16 \<Rightarrow> u16 \<Rightarrow> bytes" where
  "ports sport dport = le_bytes 2 (bpf_htons sport) @ le_bytes 2 (bpf_htons dport)"

definition l4_size :: "u8 \<Rightarrow> nat" where
  "l4_size proto = (if proto = L4_TCP then 20 else 8)"

lemma frame_parts:
  assumes "ip_packet_wf p"
  shows "take 1 (drop (length room + 14) (room @ ipv4_frame p l4)) = [push_bit 4 4 OR pk_ihl p]"
    and "take 4 (drop (length room + 14 + 12) (room @ ipv4_frame p l4)) = le_bytes 4 (pk_saddr p)"
    and "take 4 (drop (length room + 14 + 16) (room @ ipv4_frame p l4)) = le_bytes 4 (pk_daddr p)"
    and "take 1 (drop (length room + 14 + 9) (room @ ipv4_frame p l4)) = [pk_proto p]"
  using assms by (simp_all add: ip_packet_wf_def ipv4_frame_def ipv4_header_def)

lemma frame_l4:
  assumes "ip_packet_wf p"
  shows "drop (length room + 14 + 4 * unat (pk_ihl p) + d) (room @ ipv4_frame p l4) = drop d l4"
  using drop_frame_l4 [OF assms, of d l4] by (simp add: add.assoc)

lemma le_word_byte [simp]: "(le_word [b] :: u8) = b"
  by (simp add: le_word_def)

lemma unat_u16_of_nat: "n < 2 ^ 16 \<Longrightarrow> unat (word_of_nat n :: u16) = n"
  by (simp add: unat_of_nat take_bit_nat_eq_self)

lemma set_ports_reads:
  assumes buf: "maps_buffer k (skb_head skb) buf"
    and l4: "drop (unat l4_off) buf = ports sport dport @ bs" and off: "unat l4_off < length buf"
    and proto: "tp_l4_proto tpl = L4_TCP \<or> tp_l4_proto tpl = L4_UDP"
    and fits: "unat l4_off + l4_size (tp_l4_proto tpl) \<le> unat (skb_len skb)"
  shows "set_ports k skb l4_off tpl = (0, tpl\<lparr>tp_sport := sport, tp_dport := dport\<rparr>)"
proof -
  have len: "length buf - unat l4_off = 4 + length bs"
    using arg_cong [OF l4, of length] by (simp add: ports_def)
  then have r: "unat l4_off + 0 + 2 \<le> length buf" "unat l4_off + 2 + 2 \<le> length buf"
    using off by simp_all
  have d: "drop (unat l4_off + 2) buf = drop 2 (ports sport dport @ bs)"
    using arg_cong [OF l4, of "drop 2"] by (simp add: add.commute)
  have k1: "kread k (skb_head skb + ucast l4_off) 2 = (0, le_bytes 2 (bpf_htons sport))"
    by (rule trans [OF kread_at [OF buf]]) (use r(1) in \<open>simp_all add: l4 ports_def\<close>)
  have k2: "kread k (skb_head skb + ucast l4_off + of_nat 2) 2 = (0, le_bytes 2 (bpf_htons dport))"
    by (rule trans [OF kread_after [OF buf r(2)]]) (simp only: d, simp add: ports_def)
  have ne: "L4_TCP \<noteq> L4_UDP" by (simp add: L4_TCP_def L4_UDP_def)
  have rp: "read_ports k (skb_head skb + ucast l4_off) hdr tpl =
      tpl\<lparr>tp_sport := bpf_htons sport, tp_dport := bpf_htons dport\<rparr>"
    if "offset_in hdr ''source'' = 0" "offset_in hdr ''dest'' = 2" for hdr
    using k2 by (simp add: read_ports_def that k1)
  show ?thesis
    using proto fits ne
    by (auto simp: set_ports_def Let_def header_sizes header_offsets rp swap_ports_def l4_size_def
        bpf_htons_def)
qed

text \<open>
  For an IPv4 packet in a readable buffer, behind any headroom and options, \<open>set_tuple\<close>
  returns 0 and a tuple with the addresses of the packet and its TCP or UDP ports in host
  order, provided the packet's offsets from the head of the buffer are below \<open>skb->len\<close>.
\<close>

lemma set_tuple_ipv4:
  assumes buf: "maps_buffer k (skb_head skb) (room @ ipv4_frame p (ports sport dport @ bs))"
    and l3: "unat (network_header skb) = length room + 14"
    and wf: "ip_packet_wf p" and proto: "pk_proto p = L4_TCP \<or> pk_proto p = L4_UDP"
    and fits: "length room + 14 + 4 * unat (pk_ihl p) + l4_size (pk_proto p) \<le> unat (skb_len skb)"
    and small: "length room + 14 + 4 * unat (pk_ihl p) < 2 ^ 16"
  shows "set_tuple k skb zero_tuple = (0, \<lparr>tp_saddr = le_bytes 4 (pk_saddr p) @ replicate 12 0,
     tp_daddr = le_bytes 4 (pk_daddr p) @ replicate 12 0, tp_sport = sport, tp_dport = dport,
     tp_l3_proto = 0x0800, tp_l4_proto = pk_proto p\<rparr>)"
proof -
  let ?f = "ipv4_frame p (ports sport dport @ bs)" and ?l3 = "network_header skb"
  let ?l4 = "?l3 + ucast (pk_ihl p) * 4 :: u16"
  from wf have ihl: "5 \<le> unat (pk_ihl p)" "unat (pk_ihl p) \<le> 15" by (simp_all add: ip_packet_wf_def)
  have flen: "length ?f = 18 + 4 * unat (pk_ihl p) + length bs"
    by (simp add: length_ipv4_frame [OF wf] ports_def)
  note parts = frame_parts [OF wf, of room "ports sport dport @ bs"]
  define b where "b = (push_bit 4 4 OR pk_ihl p :: u8)"
  have k1: "kread k (skb_head skb + ucast ?l3) 1 = (0, [b])"
    using kread_at [OF buf, of ?l3 1] ihl by (simp add: l3 flen parts(1) [simplified] b_def)
  have k2: "kread k (skb_head skb + ucast ?l3 + 12) 4 = (0, le_bytes 4 (pk_saddr p))"
    using kread_after [OF buf, of ?l3 12 4] ihl parts(2) by (simp add: l3 flen)
  have k3: "kread k (skb_head skb + ucast ?l3 + 16) 4 = (0, le_bytes 4 (pk_daddr p))"
    using kread_after [OF buf, of ?l3 16 4] ihl parts(3) by (simp add: l3 flen)
  have k4: "kread k (skb_head skb + ucast ?l3 + 9) 1 = (0, [pk_proto p])"
    using kread_after [OF buf, of ?l3 9 1] ihl parts(4) by (simp add: l3 flen)
  have l4: "unat ?l4 = length room + 14 + 4 * unat (pk_ihl p)"
  proof -
    have "?l4 = word_of_nat (unat ?l3 + unat (pk_ihl p) * 4)" by simp
    then show ?thesis using small l3 unat_u16_of_nat [of "unat ?l3 + unat (pk_ihl p) * 4"] by simp
  qed
  have d4: "drop (unat ?l4) (room @ ?f) = ports sport dport @ bs"
    unfolding l4 using frame_l4 [OF wf, of room 0 "ports sport dport @ bs"] by simp
  have "unat ?l4 < length (room @ ?f)" unfolding l4 by (simp add: flen)
  note sp = set_ports_reads [OF buf d4 this]
  have nz: "?l3 \<noteq> 0" using l3 by auto
  have in_len: "unat ?l3 < unat (skb_len skb)" "unat ?l3 + unat (pk_ihl p) * 4 \<le> unat (skb_len skb)"
    using l3 fits ihl by (simp_all add: l4_size_def split: if_splits)
  have bits: "drop_bit 4 b = 4" "b AND 15 = pk_ihl p"
    using version_ihl_byte [OF ihl(2)] unfolding b_def iph_version_def iph_ihl_def by simp_all
  show ?thesis
    using nz proto ihl in_len fits
    by (simp add: set_tuple_def Let_def header_offsets k1 [simplified] k2 k3 k4 [simplified] bits
        read_into_def zero_tuple_def sp l4 ETH_P_IPV4_def)
qed

lemma buffer_kernel_maps:
  assumes "length buf < 2 ^ 64"
  shows "maps_buffer (buffer_kernel base buf lay) base buf"
proof -
  have "unat (base + of_nat off - base) = off" if "off + n \<le> length buf" for off n :: nat
    using that assms by (simp add: unat_of_nat take_bit_nat_eq_self)
  then show ?thesis by (simp add: maps_buffer_def buffer_kernel_def)
qed

definition demo_packet :: ip_packet where
  "demo_packet = \<lparr>pk_macs = replicate 12 0, pk_ihl = 5, pk_ip_misc = replicate 8 0,
     pk_proto = L4_UDP, pk_check = [0, 0], pk_saddr = 0x0100007F, pk_daddr = 0x0200007F,
     pk_options = []\<rparr>"

definition demo_buffer :: bytes where
  "demo_buffer = replicate 64 0 @ ipv4_frame demo_packet (ports 53 5353 @ replicate 200 0)"

lemma demo_packet_wf: "ip_packet_wf demo_packet"
  by (simp add: ip_packet_wf_def demo_packet_def)

lemma demo_buffer_maps:
  "maps_buffer (buffer_kernel 0xFFFF888000000000 demo_buffer lay) 0xFFFF888000000000 demo_buffer"
  by (rule buffer_kernel_maps)
    (simp add: demo_buffer_def length_ipv4_frame [OF demo_packet_wf] ports_def,
      simp add: demo_packet_def)

text \<open>
  The length checks compare offsets from the head of the buffer with the packet's length
  from its data pointer. Any packet whose network header lies at or beyond \<open>skb->len\<close> bytes from
  the head, as a short packet behind ordinary headroom does, is refused whatever it holds.
\<close>

lemma set_tuple_refuses_short:
  assumes "skb_len skb \<le> ucast (network_header skb)"
  shows "set_tuple k skb tpl = (-1, tpl)"
proof -
  have "unat (skb_len skb) \<le> unat (network_header skb)"
    using assms by (simp add: word_le_nat_alt unat_ucast_up)
  then show ?thesis by (simp add: set_tuple_def)
qed

section \<open>Bounded loads\<close>

text \<open>
  A bounded load reads from the buffer exactly when the offset and the 32-bit sum of offset
  and size are within the length; unless that sum wraps, a load that is not refused lies inside.
\<close>

lemma skb_load_bytes_bounded_exact:
  "(snd (skb_load_bytes_bounded k skb off sz) = None \<longleftrightarrow>
      unat (skb_len skb) < unat off \<or> unat (skb_len skb) < (unat off + unat sz) mod 2 ^ 32) \<and>
   (snd (skb_load_bytes_bounded k skb off sz) \<noteq> None \<and> unat off + unat sz < 2 ^ 32 \<longrightarrow>
      unat off + unat sz \<le> unat (skb_len skb))"
proof -
  have "unat (off + sz) = (unat off + unat sz) mod 2 ^ 32" by (simp add: unat_word_ariths)
  then show ?thesis
    by (auto simp: skb_load_bytes_bounded_def word_less_nat_alt split: prod.split)
qed

text \<open>The sum can wrap: 4294967200 bytes at offset 200 of a 250-byte packet are not refused.\<close>

lemma skb_load_bytes_bounded_wraps:
  "snd (skb_load_bytes_bounded (buffer_kernel 0 [] []) (demo_skb 250) 200 4294967200) \<noteq> None \<and>
   snd (skb_load_bytes_bounded (buffer_kernel 0 [] []) (demo_skb 250) 200 60) = None"
  using skb_load_bytes_bounded_exact [of "buffer_kernel 0 [] []" "demo_skb 250" 200 4294967200]
    skb_load_bytes_bounded_exact [of "buffer_kernel 0 [] []" "demo_skb 250" 200 60]
  by (simp add: demo_skb_def)

section \<open>Sockets\<close>

lemma le_nat_byte: "n < length bs \<Longrightarrow> le_nat bs div 256 ^ n mod 256 = unat (bs ! n)"
  using unsigned_less [of "bs ! n", where ?'a = nat]
  by (simp add: le_nat_drop Cons_nth_drop_Suc [symmetric] mod_mult_self4)

text \<open>The value of the \<open>w\<close> bits at bit position \<open>p\<close> of a structure's memory.\<close>

definition bits_at :: "bytes \<Rightarrow> nat \<Rightarrow> nat \<Rightarrow> nat" where
  "bits_at img p w = le_nat img div 2 ^ p mod 2 ^ w"

lemma bits_at_byte: "n < length img \<Longrightarrow> bits_at img (8 * n) 8 = unat (img ! n)"
  using le_nat_byte [of n img] by (simp add: bits_at_def power_mult)

lemma le_word_u16:
  "length img \<ge> n + 2 \<Longrightarrow> unat (le_word (take 2 (drop n img)) :: u16) = bits_at img (8 * n) 16"
  by (subst unat_le_word) (simp_all add: le_nat_take le_nat_drop [symmetric] bits_at_def power_mult)

text \<open>
  \<open>C17\<close>: as built, \<open>get_sock_protocol\<close> returns the 8-bit \<open>sk_protocol\<close> under the older kernel
  layout; under the newer one, where \<open>sk_protocol\<close> is a 16-bit member, it returns the high byte of
  \<open>sk_type\<close>, zero for every socket type there is. Built with \<open>CORE\<close> it would return \<open>sk_protocol\<close>
  under both.
\<close>

theorem get_sock_protocol_by_layout:
  assumes "length (sk_raw sk) = 752"
  shows "(k_sock k = sock_amd64 \<longrightarrow>
       unat (get_sock_protocol k sk) = bits_at (sk_raw sk) (the (bit_offset sock_amd64 ''sk_protocol'')) 8 \<and>
       get_sock_protocol_in True v k sk = get_sock_protocol k sk) \<and>
     (k_sock k = sock_arm64 \<longrightarrow>
       unat (get_sock_protocol k sk) = bits_at (sk_raw sk) (the (bit_offset sock_arm64 ''sk_type'') + 8) 8 \<and>
       unat (get_sock_protocol_in True v k sk) =
         bits_at (sk_raw sk) (the (bit_offset sock_arm64 ''sk_protocol'')) 16)"
  using assms bits_at_byte [of 529 "sk_raw sk"] bits_at_byte [of 531 "sk_raw sk"]
    le_word_u16 [of 532 "sk_raw sk"]
  by (simp add: get_sock_protocol_def get_sock_protocol_in_def protocol_byte_def protocol_member_def
      KERNEL_VERSION_def sock_layout sock_flags_member unat_ucast_up)

text \<open>One memory image in which byte 529 and the 16 bits at byte 532 are both TCP.\<close>

theorem get_sock_protocol_by_layout_witness:
  "get_sock_protocol (buffer_kernel 0 [] sock_amd64) demo_sock = 6 \<and>
   get_sock_protocol (buffer_kernel 0 [] sock_arm64) demo_sock = 0 \<and>
   get_sock_protocol_in True 0 (buffer_kernel 0 [] sock_arm64) demo_sock = 6"
proof -
  have len: "length (sk_raw demo_sock) = 752" by (simp add: demo_sock_def)
  have raw: "sk_raw demo_sock ! 529 = 6" "sk_raw demo_sock ! 531 = 0"
    by (simp_all add: demo_sock_def nth_append)
  have "drop 532 (sk_raw demo_sock) = 6 # replicate 219 0" by (simp add: demo_sock_def)
  then have w: "take 2 (drop 532 (sk_raw demo_sock)) = [6, 0]" by (simp add: take_Cons')
  have lw: "(le_word [6, 0] :: u16) = 6" by (simp add: le_word_def)
  have b: "bits_at (sk_raw demo_sock) 4232 8 = 6" "bits_at (sk_raw demo_sock) 4248 8 = 0"
    "bits_at (sk_raw demo_sock) 4256 16 = 6"
    using bits_at_byte [of 529 "sk_raw demo_sock"] bits_at_byte [of 531 "sk_raw demo_sock"]
      le_word_u16 [of 532 "sk_raw demo_sock"] len
    by (simp_all add: raw w lw)
  show ?thesis
    using get_sock_protocol_by_layout [OF len, of "buffer_kernel 0 [] sock_amd64" 0]
      get_sock_protocol_by_layout [OF len, of "buffer_kernel 0 [] sock_arm64" 0]
    by (simp add: buffer_kernel_def sock_layout b word_unat_eq_iff)
qed



end
