(* ===== verification/Flow.thy ===== *)
theory Flow
  imports Inspector_Facts Prog_Run
begin

text \<open>
  The flow accounting program \<^verbatim>\<open>bpf/flow.c\<close>: two traffic-control hooks that count packets and
  bytes per IPv4 flow in a per-CPU LRU map. While the map holds all flows, its totals over the
  CPUs are exactly the frames and bytes seen.
\<close>

section \<open>Model\<close>

definition TC_ACT_OK :: int where "TC_ACT_OK = 0"

record flow_metrics =
  fm_packets :: u64
  fm_bytes :: u64
  fm_drops :: u32
  fm_retrans :: u32

record flow_state =
  insp_flow4_metrics :: "(flow_tuple_4, flow_metrics) percpu_map"
  insp_flow_feature_switch :: "cpu \<Rightarrow> u8 list"

definition flow_cap :: nat where "flow_cap = 65535"

text \<open>The packet a hook gets, and the kernel's choices for the one map update it may make.\<close>

record flow_input =
  fl_data :: bytes
  fl_len :: u32
  fl_cpu :: cpu
  fl_lru :: "flow_tuple_4 lru_choice"
  fl_fill :: flow_metrics

definition lru_percpu_store ::
    "nat \<Rightarrow> 'k lru_choice \<Rightarrow> 'v \<Rightarrow> cpu \<Rightarrow> 'k \<Rightarrow> 'v \<Rightarrow> ('k, 'v) percpu_map \<Rightarrow> ('k, 'v) percpu_map" where
  "lru_percpu_store cap ch fill c k v m =
     (case lru_update_elem cap ch k
          ((case map_of m k of None \<Rightarrow> (\<lambda>_. fill) | Some slots \<Rightarrow> slots)(c := v)) m of
        None \<Rightarrow> m | Some m' \<Rightarrow> m')"

definition do_flow :: "flow_input \<Rightarrow> flow_state \<Rightarrow> (int \<times> flow_state) option" where
  "do_flow i s =
     (let enable_flow_port = is_enable (insp_flow_feature_switch s (fl_cpu i)) 0 in do {
        (r, tuple) \<leftarrow> set_flow_tuple4 (fl_data i) zero_flow_tuple enable_flow_port;
        Some (TC_ACT_OK,
          if r < 0 then s
          else case map_of (insp_flow4_metrics s) tuple of
              Some slots \<Rightarrow>
                let metric = slots (fl_cpu i);
                    metric = metric\<lparr>fm_packets := fm_packets metric + 1\<rparr>;
                    metric = metric\<lparr>fm_bytes := fm_bytes metric + ucast (fl_len i)\<rparr>
                in s\<lparr>insp_flow4_metrics := value_write tuple (slots(fl_cpu i := metric))
                    (insp_flow4_metrics s)\<rparr>
            | None \<Rightarrow>
                let m = \<lparr>fm_packets = 1, fm_bytes = ucast (fl_len i), fm_drops = 0, fm_retrans = 0\<rparr>
                in s\<lparr>insp_flow4_metrics := lru_percpu_store flow_cap (fl_lru i) (fl_fill i) (fl_cpu i)
                    tuple m (insp_flow4_metrics s)\<rparr>)
      })"

datatype tc_hook = Ingress flow_input | Egress flow_input

definition tc_ingress :: "flow_input \<Rightarrow> flow_state \<Rightarrow> (int \<times> flow_state) option" where
  "tc_ingress i s = do_flow i s"
definition tc_egress :: "flow_input \<Rightarrow> flow_state \<Rightarrow> (int \<times> flow_state) option" where
  "tc_egress i s = do_flow i s"

fun tc_input :: "tc_hook \<Rightarrow> flow_input" where
  "tc_input (Ingress i) = i"
| "tc_input (Egress i) = i"

fun tc_step :: "tc_hook \<Rightarrow> flow_state \<Rightarrow> (int \<times> flow_state) option" where
  "tc_step (Ingress i) s = tc_ingress i s"
| "tc_step (Egress i) s = tc_egress i s"

section \<open>Accounting\<close>

text \<open>The flow a frame is counted under, if it is counted.\<close>

definition flow_key :: "(cpu \<Rightarrow> u8 list) \<Rightarrow> flow_input \<Rightarrow> flow_tuple_4 option" where
  "flow_key sw i =
     (case set_flow_tuple4 (fl_data i) zero_flow_tuple (is_enable (sw (fl_cpu i)) 0) of
        Some (r, tuple) \<Rightarrow> if r < 0 then None else Some tuple
      | None \<Rightarrow> None)"

definition zero_metrics :: flow_metrics where
  "zero_metrics = \<lparr>fm_packets = 0, fm_bytes = 0, fm_drops = 0, fm_retrans = 0\<rparr>"

text \<open>What user space reads: the sum over the CPUs of one member of a flow's entry.\<close>

definition flow_total :: "nat \<Rightarrow> (flow_metrics \<Rightarrow> u64) \<Rightarrow> flow_tuple_4 \<Rightarrow> flow_state \<Rightarrow> u64" where
  "flow_total n f t s =
     (case map_of (insp_flow4_metrics s) t of
        None \<Rightarrow> 0
      | Some slots \<Rightarrow> (\<Sum>c\<leftarrow>[0..<n]. f (slots c)))"

definition flow_inv :: "(cpu \<Rightarrow> u8 list) \<Rightarrow> flow_tuple_4 set \<Rightarrow> flow_state \<Rightarrow> bool" where
  "flow_inv sw U s \<longleftrightarrow> insp_flow_feature_switch s = sw \<and> finite U \<and> card U \<le> flow_cap \<and>
     distinct (map fst (insp_flow4_metrics s)) \<and> fst ` set (insp_flow4_metrics s) \<subseteq> U"

text \<open>
  The kernel serves the update without evicting, zeroes the slots of a fresh entry, and the
  frame belongs to one of the flows \<open>U\<close>.
\<close>

definition flow_ok :: "(cpu \<Rightarrow> u8 list) \<Rightarrow> flow_tuple_4 set \<Rightarrow> nat \<Rightarrow> flow_input \<Rightarrow> bool" where
  "flow_ok sw U n i \<longleftrightarrow> fl_cpu i < n \<and> lru_ok (fl_lru i) \<and> lru_evict (fl_lru i) = (\<lambda>_. False) \<and>
     fl_fill i = zero_metrics \<and> (case flow_key sw i of None \<Rightarrow> True | Some t \<Rightarrow> t \<in> U)"

lemma sum_list_slot:
  assumes "c < n"
  shows "(\<Sum>c'\<leftarrow>[0..<n]. f (if c' = c then v else slots c')) =
     (\<Sum>c'\<leftarrow>[0..<n]. f (slots c')) - f (slots c) + (f v :: u64)"
proof -
  have "sum (\<lambda>c'. f (if c' = c then v else slots c')) {..<n} =
      f v + sum (\<lambda>c'. f (slots c')) ({..<n} - {c})"
    using assms by (subst sum.remove [of _ c]) (auto intro: sum.cong)
  moreover have "sum (\<lambda>c'. f (slots c')) {..<n} = f (slots c) + sum (\<lambda>c'. f (slots c')) ({..<n} - {c})"
    using assms by (subst sum.remove [of _ c]) auto
  ultimately show ?thesis by (simp add: interv_sum_list_conv_sum_set_nat atLeast0LessThan)
qed

lemma lru_percpu_store_fresh:
  assumes "map_of m k = None" "length m < cap" "lru_ok ch" "lru_evict ch = (\<lambda>_. False)"
  shows "lru_percpu_store cap ch fill c k v m = AList.update k ((\<lambda>_. fill)(c := v)) m"
  using assms by (simp add: lru_percpu_store_def lru_update_elem_def Let_def case_prod_beta)

lemma do_flow_returns: "\<exists>s'. do_flow i s = Some (TC_ACT_OK, s')"
  using set_flow_tuple4_cases [of "fl_data i" zero_flow_tuple]
  by (auto simp: do_flow_def Let_def case_prod_beta)

lemma flow_inv_update:
  "flow_inv sw U s \<Longrightarrow> t \<in> U \<Longrightarrow>
   flow_inv sw U (s\<lparr>insp_flow4_metrics := AList.update t v (insp_flow4_metrics s)\<rparr>)"
  by (simp add: flow_inv_def distinct_update dom_update)

text \<open>One frame, under the invariant: the entry of its flow grows, nothing else changes.\<close>

lemma do_flow_effect:
  assumes inv: "flow_inv sw U s" and ok: "flow_ok sw U n i" and step: "do_flow i s = Some (v, s')"
  shows "v = TC_ACT_OK \<and> flow_inv sw U s' \<and>
    map_of (insp_flow4_metrics s') = (case flow_key sw i of
       None \<Rightarrow> map_of (insp_flow4_metrics s)
     | Some t \<Rightarrow> (let slots = (case map_of (insp_flow4_metrics s) t of
                                 None \<Rightarrow> \<lambda>_. zero_metrics | Some slots \<Rightarrow> slots);
                       old = slots (fl_cpu i)
                   in (map_of (insp_flow4_metrics s))(t \<mapsto> slots(fl_cpu i :=
                        old\<lparr>fm_packets := fm_packets old + 1,
                            fm_bytes := fm_bytes old + ucast (fl_len i)\<rparr>))))"
proof -
  let ?m = "insp_flow4_metrics s"
  obtain r t where tup: "set_flow_tuple4 (fl_data i) zero_flow_tuple
      (is_enable (sw (fl_cpu i)) 0) = Some (r, t)"
    using set_flow_tuple4_cases by (metis surj_pair)
  from inv have sw: "insp_flow_feature_switch s = sw" by (simp add: flow_inv_def)
  show ?thesis
  proof (cases "r < 0")
    case True
    with step tup sw inv show ?thesis by (auto simp: do_flow_def flow_key_def)
  next
    case False
    with tup have key: "flow_key sw i = Some t" by (simp add: flow_key_def)
    with ok have t: "t \<in> U" and lru: "lru_ok (fl_lru i)" "lru_evict (fl_lru i) = (\<lambda>_. False)"
      and fill: "fl_fill i = zero_metrics" by (simp_all add: flow_ok_def)
    show ?thesis
    proof (cases "map_of ?m t")
      case None
      have room: "length ?m < flow_cap"
        using distinct_keys_room [OF _ _ _ t None] inv by (auto simp: flow_inv_def)
      from step tup sw False None lru_percpu_store_fresh [OF None room lru] fill key
        flow_inv_update [OF inv t]
      show ?thesis by (auto simp: do_flow_def update_conv' zero_metrics_def Let_def)
    next
      case (Some slots)
      from step tup sw False Some key flow_inv_update [OF inv t] show ?thesis
        by (auto simp: do_flow_def update_conv' Let_def value_write_def)
    qed
  qed
qed

lemma tc_step_eq: "tc_step h s = do_flow (tc_input h) s"
  by (cases h) (simp_all add: tc_ingress_def tc_egress_def)

lemma tc_prog:
  "prog tc_step (flow_inv sw U) (\<lambda>h. flow_ok sw U n (tc_input h))"
proof
  fix s h assume "flow_inv sw U s" "flow_ok sw U n (tc_input h)"
  show "\<exists>v s'. tc_step h s = Some (v, s')" using do_flow_returns [of "tc_input h" s] by (auto simp: tc_step_eq)
next
  fix s h v s' assume "flow_inv sw U s" "flow_ok sw U n (tc_input h)" "tc_step h s = Some (v, s')"
  then show "flow_inv sw U s'" using do_flow_effect by (auto simp: tc_step_eq)
qed

text \<open>What one frame adds to the two totals of flow \<open>t\<close>.\<close>

lemma do_flow_total:
  assumes "flow_inv sw U s" "flow_ok sw U n i" "do_flow i s = Some (v, s')"
    and f: "\<And>m p b. f (m\<lparr>fm_packets := p, fm_bytes := b\<rparr>) = g p b" "\<And>m. f m = g (fm_packets m) (fm_bytes m)"
    and g: "\<And>p b d. g (p + 1) (b + d) = g p b + h d" "g 0 0 = 0"
  shows "flow_total n f t s' =
    flow_total n f t s + (if flow_key sw i = Some t then h (ucast (fl_len i)) else 0)"
proof -
  from assms(2) have c: "fl_cpu i < n" by (simp add: flow_ok_def)
  have z: "f zero_metrics = 0" using f(2) g(2) by (simp add: zero_metrics_def)
  show ?thesis
    using do_flow_effect [OF assms(1-3)]
    by (cases "flow_key sw i"; cases "map_of (insp_flow4_metrics s) t")
      (auto simp: flow_total_def Let_def fun_upd_def sum_list_slot [OF c] f(1) g(1) z
        f(2) [symmetric] split: if_splits)
qed

interpretation packets: tallied tc_step "flow_inv sw U" "\<lambda>h. flow_ok sw U n (tc_input h)"
  "flow_total n fm_packets t" "\<lambda>h v. if flow_key sw (tc_input h) = Some t then 1 else 0"
  for sw U n t
proof (intro tallied.intro tc_prog tallied_axioms.intro)
  fix s h v s' assume "flow_inv sw U s" "flow_ok sw U n (tc_input h)" "tc_step h s = Some (v, s')"
  from do_flow_total [OF this(1,2) this(3) [unfolded tc_step_eq], of fm_packets "\<lambda>p _. p" "\<lambda>_. 1" t]
  show "flow_total n fm_packets t s' =
      flow_total n fm_packets t s + (if flow_key sw (tc_input h) = Some t then 1 else 0)" by simp
qed

interpretation octets: tallied tc_step "flow_inv sw U" "\<lambda>h. flow_ok sw U n (tc_input h)"
  "flow_total n fm_bytes t"
  "\<lambda>h v. if flow_key sw (tc_input h) = Some t then ucast (fl_len (tc_input h)) else 0"
  for sw U n t
proof (intro tallied.intro tc_prog tallied_axioms.intro)
  fix s h v s' assume "flow_inv sw U s" "flow_ok sw U n (tc_input h)" "tc_step h s = Some (v, s')"
  from do_flow_total [OF this(1,2) this(3) [unfolded tc_step_eq], of fm_bytes "\<lambda>_ b. b" "\<lambda>d. d" t]
  show "flow_total n fm_bytes t s' = flow_total n fm_bytes t s +
      (if flow_key sw (tc_input h) = Some t then ucast (fl_len (tc_input h)) else 0)" by simp
qed

text \<open>
  \<open>C26\<close>: over any sequence of frames on both hooks and any CPUs, while the map has room for all
  flows, the program returns on every frame and the totals of a flow grow by exactly the number
  of its frames and by the sum of their lengths.
\<close>

theorem flow_accounting:
  assumes "flow_inv sw U s" and "list_all (\<lambda>h. flow_ok sw U n (tc_input h)) hs"
  shows "\<exists>vs s'. prog_run tc_step hs s = Some (vs, s') \<and> flow_inv sw U s' \<and>
    flow_total n fm_packets t s' = flow_total n fm_packets t s +
      of_nat (length (filter (\<lambda>h. flow_key sw (tc_input h) = Some t) hs)) \<and>
    flow_total n fm_bytes t s' = flow_total n fm_bytes t s +
      (\<Sum>h\<leftarrow>filter (\<lambda>h. flow_key sw (tc_input h) = Some t) hs. ucast (fl_len (tc_input h)))"
proof -
  obtain vs s' where run: "prog_run tc_step hs s = Some (vs, s')" "length vs = length hs"
    "flow_inv sw U s'"
    using packets.run_returns [OF assms] by auto
  have p: "(\<Sum>(h, v)\<leftarrow>zip hs vs. if flow_key sw (tc_input h) = Some t then 1 else (0 :: u64)) =
      of_nat (length (filter (\<lambda>h. flow_key sw (tc_input h) = Some t) hs))"
    using run(2) by (induction hs vs rule: list_induct2') auto
  have b: "(\<Sum>(h, v)\<leftarrow>zip hs vs. if flow_key sw (tc_input h) = Some t
        then ucast (fl_len (tc_input h)) else (0 :: u64)) =
      (\<Sum>h\<leftarrow>filter (\<lambda>h. flow_key sw (tc_input h) = Some t) hs. ucast (fl_len (tc_input h)))"
    using run(2) by (induction hs vs rule: list_induct2') auto
  from run packets.run_tally [OF assms run(1), of t] octets.run_tally [OF assms run(1), of t] p b
  show ?thesis by simp
qed

text \<open>
  Frames that are not IPv4 are counted too, all under the tuple of zeros: \<open>set_flow_tuple4\<close>
  returns success without touching the tuple.
\<close>

definition demo_input :: "bytes \<Rightarrow> cpu \<Rightarrow> flow_input" where
  "demo_input d c = \<lparr>fl_data = d, fl_len = of_nat (length d), fl_cpu = c,
     fl_lru = \<lparr>lru_ok = True, lru_evict = (\<lambda>_. False)\<rparr>, fl_fill = zero_metrics\<rparr>"

definition arp_frame :: bytes where
  "arp_frame = replicate 12 0 @ [8, 6] @ replicate 28 0"

lemma arp_key: "flow_key sw (demo_input arp_frame c) = Some zero_flow_tuple"
  by (simp add: flow_key_def demo_input_def arp_frame_def set_flow_tuple4_cases ETH_P_IPV4_def
      bpf_htons_def bpf_swab16_def bpf_mvb_def le_word_def)

theorem flow_accounting_witness:
  "\<exists>vs s'. prog_run tc_step [Ingress (demo_input arp_frame 0), Egress (demo_input arp_frame 1)]
      \<lparr>insp_flow4_metrics = [], insp_flow_feature_switch = (\<lambda>_. replicate 16 0)\<rparr> = Some (vs, s') \<and>
    flow_total 2 fm_packets zero_flow_tuple s' = 2 \<and> flow_total 2 fm_bytes zero_flow_tuple s' = 84"
  using flow_accounting [of "\<lambda>_. replicate 16 0" "{zero_flow_tuple}"
      "\<lparr>insp_flow4_metrics = [], insp_flow_feature_switch = (\<lambda>_. replicate 16 0)\<rparr>" 2
      "[Ingress (demo_input arp_frame 0), Egress (demo_input arp_frame 1)]" zero_flow_tuple]
  by (auto simp: flow_inv_def flow_ok_def flow_cap_def arp_key flow_total_def)
    (auto simp: demo_input_def arp_frame_def)

end
