(* ===== verification/Kernel_Latency.thy ===== *)
theory Kernel_Latency
  imports Instances Interval
begin

text \<open>
  The network-stack latency probe \<^verbatim>\<open>bpf/kernellatency.c\<close>: four hooks stamp a packet on its
  way up the stack, four on its way down, two drop the stamps of a packet that is freed. The
  two directions share the hooks' event stream and each implements the measuring protocol with
  the four stamps as the measurement.
\<close>

section \<open>Model\<close>

definition RX_KLATENCY :: u32 where "RX_KLATENCY = 1"
definition TX_KLATENCY :: u32 where "TX_KLATENCY = 2"
definition THRESH :: u64 where "THRESH = 10000000"

record txlatency_t =
  tx_queuexmit :: u64
  tx_local :: u64
  tx_output :: u64
  tx_finish :: u64

record rxlatency_t =
  rx_rcv :: u64
  rx_rcvfinish :: u64
  rx_local :: u64
  rx_localfinish :: u64

record insp_kl_event_t =
  ke_target :: bytes
  ke_tuple :: tuple
  ke_skb_meta :: skb_meta
  ke_pid :: u32
  ke_cpu :: u32
  ke_direction :: u32
  ke_latency :: u64
  ke_point1 :: u64
  ke_point2 :: u64
  ke_point3 :: u64
  ke_point4 :: u64

record kl_state =
  insp_kernelrx_entry :: "(u64, rxlatency_t) bpf_map"
  insp_kerneltx_entry :: "(u64, txlatency_t) bpf_map"
  insp_klatency_event :: "insp_kl_event_t list"

definition kl_cap :: nat where "kl_cap = 10000"

definition update_rxlat :: "henv \<Rightarrow> u64 \<Rightarrow> rxlatency_t \<Rightarrow> kl_state \<Rightarrow> kl_state" where
  "update_rxlat e skb lat s =
     (if rx_localfinish lat > rx_rcv lat
      then let latency = rx_localfinish lat - rx_rcv lat in
        if latency > THRESH
        then s\<lparr>insp_klatency_event := perf_event_output e
            \<lparr>ke_target = he_comm e,
             ke_tuple = snd (set_tuple (he_kernel e) (k_skb (he_kernel e) skb) zero_tuple),
             ke_skb_meta = set_meta (k_skb (he_kernel e) skb) zero_meta,
             ke_pid = cur_pid e, ke_cpu = he_cpu e, ke_direction = RX_KLATENCY, ke_latency = latency,
             ke_point1 = rx_rcv lat, ke_point2 = rx_rcvfinish lat, ke_point3 = rx_local lat,
             ke_point4 = rx_localfinish lat\<rparr> (insp_klatency_event s)\<rparr>
        else s
      else s)"

definition update_txlat :: "henv \<Rightarrow> u64 \<Rightarrow> txlatency_t \<Rightarrow> kl_state \<Rightarrow> kl_state" where
  "update_txlat e skb lat s =
     (if tx_finish lat > tx_queuexmit lat
      then let latency = tx_finish lat - tx_queuexmit lat in
        if latency > THRESH
        then s\<lparr>insp_klatency_event := perf_event_output e
            \<lparr>ke_target = he_comm e,
             ke_tuple = snd (set_tuple (he_kernel e) (k_skb (he_kernel e) skb) zero_tuple),
             ke_skb_meta = set_meta (k_skb (he_kernel e) skb) zero_meta,
             ke_pid = cur_pid e, ke_cpu = he_cpu e, ke_direction = TX_KLATENCY, ke_latency = latency,
             ke_point1 = tx_queuexmit lat, ke_point2 = tx_local lat, ke_point3 = tx_output lat,
             ke_point4 = tx_finish lat\<rparr> (insp_klatency_event s)\<rparr>
        else s
      else s)"

text \<open>A write of one stamp through the pointer a lookup returned, if it returned one.\<close>

definition stamp :: "'k \<Rightarrow> ('v \<Rightarrow> 'v) \<Rightarrow> ('k, 'v) bpf_map \<Rightarrow> ('k, 'v) bpf_map" where
  "stamp k f m = (case bpf_map_lookup_elem m k of None \<Rightarrow> m | Some lat \<Rightarrow> value_write k (f lat) m)"

definition klatency_ip_rcv :: "henv \<Rightarrow> pt_regs \<Rightarrow> kl_state \<Rightarrow> kl_state" where
  "klatency_ip_rcv e ctx s =
     (let skb = parm1 e ctx;
          lat = \<lparr>rx_rcv = bpf_ktime_get_ns e, rx_rcvfinish = 0, rx_local = 0, rx_localfinish = 0\<rparr>
      in s\<lparr>insp_kernelrx_entry := hash_store kl_cap (he_ok e) BPF_ANY skb lat (insp_kernelrx_entry s)\<rparr>)"

definition klatency_ip_rcv_finish :: "henv \<Rightarrow> pt_regs \<Rightarrow> kl_state \<Rightarrow> kl_state" where
  "klatency_ip_rcv_finish e ctx s =
     (let skb = parm3 e ctx in
      s\<lparr>insp_kernelrx_entry := stamp skb (\<lambda>lat. lat\<lparr>rx_rcvfinish := bpf_ktime_get_ns e\<rparr>)
          (insp_kernelrx_entry s)\<rparr>)"

definition klatency_ip_local_deliver :: "henv \<Rightarrow> pt_regs \<Rightarrow> kl_state \<Rightarrow> kl_state" where
  "klatency_ip_local_deliver e ctx s =
     (let skb = parm1 e ctx in
      s\<lparr>insp_kernelrx_entry := stamp skb (\<lambda>lat. lat\<lparr>rx_local := bpf_ktime_get_ns e\<rparr>)
          (insp_kernelrx_entry s)\<rparr>)"

definition klatency_ip_local_deliver_finish :: "henv \<Rightarrow> pt_regs \<Rightarrow> kl_state \<Rightarrow> kl_state" where
  "klatency_ip_local_deliver_finish e ctx s =
     (let skb = parm3 e ctx in
      case bpf_map_lookup_elem (insp_kernelrx_entry s) skb of
        None \<Rightarrow> s
      | Some lat \<Rightarrow>
          let lat = lat\<lparr>rx_localfinish := bpf_ktime_get_ns e\<rparr>;
              s = s\<lparr>insp_kernelrx_entry := value_write skb lat (insp_kernelrx_entry s)\<rparr>;
              s = update_rxlat e skb lat s
          in s\<lparr>insp_kernelrx_entry := bpf_map_delete_elem skb (insp_kernelrx_entry s)\<rparr>)"

definition klatency_ip_queue_xmit :: "henv \<Rightarrow> pt_regs \<Rightarrow> kl_state \<Rightarrow> kl_state" where
  "klatency_ip_queue_xmit e ctx s =
     (let skb = parm2 e ctx;
          lat = \<lparr>tx_queuexmit = bpf_ktime_get_ns e, tx_local = 0, tx_output = 0, tx_finish = 0\<rparr>
      in s\<lparr>insp_kerneltx_entry := hash_store kl_cap (he_ok e) BPF_ANY skb lat (insp_kerneltx_entry s)\<rparr>)"

definition klatency_ip_local :: "henv \<Rightarrow> pt_regs \<Rightarrow> kl_state \<Rightarrow> kl_state" where
  "klatency_ip_local e ctx s =
     (let skb = parm3 e ctx in
      s\<lparr>insp_kerneltx_entry := stamp skb (\<lambda>lat. lat\<lparr>tx_local := bpf_ktime_get_ns e\<rparr>)
          (insp_kerneltx_entry s)\<rparr>)"

definition klatency_ip_output :: "henv \<Rightarrow> pt_regs \<Rightarrow> kl_state \<Rightarrow> kl_state" where
  "klatency_ip_output e ctx s =
     (let skb = parm3 e ctx in
      s\<lparr>insp_kerneltx_entry := stamp skb (\<lambda>lat. lat\<lparr>tx_output := bpf_ktime_get_ns e\<rparr>)
          (insp_kerneltx_entry s)\<rparr>)"

definition klatency_ip_finish_output2 :: "henv \<Rightarrow> pt_regs \<Rightarrow> kl_state \<Rightarrow> kl_state" where
  "klatency_ip_finish_output2 e ctx s =
     (let skb = parm3 e ctx in
      case bpf_map_lookup_elem (insp_kerneltx_entry s) skb of
        None \<Rightarrow> s
      | Some lat \<Rightarrow>
          let lat = lat\<lparr>tx_finish := bpf_ktime_get_ns e\<rparr>;
              s = s\<lparr>insp_kerneltx_entry := value_write skb lat (insp_kerneltx_entry s)\<rparr>;
              s = update_txlat e skb lat s
          in s\<lparr>insp_kerneltx_entry := bpf_map_delete_elem skb (insp_kerneltx_entry s)\<rparr>)"

definition report_kfree :: "henv \<Rightarrow> pt_regs \<Rightarrow> kl_state \<Rightarrow> kl_state" where
  "report_kfree e ctx s =
     (let skb = parm1 e ctx;
          s = (case bpf_map_lookup_elem (insp_kernelrx_entry s) skb of
                 None \<Rightarrow> s
               | Some _ \<Rightarrow> s\<lparr>insp_kernelrx_entry := bpf_map_delete_elem skb (insp_kernelrx_entry s)\<rparr>)
      in case bpf_map_lookup_elem (insp_kerneltx_entry s) skb of
           None \<Rightarrow> s
         | Some _ \<Rightarrow> s\<lparr>insp_kerneltx_entry := bpf_map_delete_elem skb (insp_kerneltx_entry s)\<rparr>)"

definition report_consume :: "henv \<Rightarrow> pt_regs \<Rightarrow> kl_state \<Rightarrow> kl_state" where
  "report_consume e ctx s =
     (let skb = parm1 e ctx;
          s = (case bpf_map_lookup_elem (insp_kernelrx_entry s) skb of
                 None \<Rightarrow> s
               | Some _ \<Rightarrow> s\<lparr>insp_kernelrx_entry := bpf_map_delete_elem skb (insp_kernelrx_entry s)\<rparr>)
      in case bpf_map_lookup_elem (insp_kerneltx_entry s) skb of
           None \<Rightarrow> s
         | Some _ \<Rightarrow> s\<lparr>insp_kerneltx_entry := bpf_map_delete_elem skb (insp_kerneltx_entry s)\<rparr>)"

section \<open>The hooks as one program\<close>

datatype kl_point = Ip_rcv | Ip_rcv_finish | Local_deliver | Local_deliver_finish
  | Queue_xmit | Local_out | Output | Finish_output | Kfree | Consume

type_synonym kl_hook = "kl_point \<times> henv \<times> pt_regs"

fun kl_step :: "kl_hook \<Rightarrow> kl_state \<Rightarrow> kl_state" where
  "kl_step (Ip_rcv, e, ctx) = klatency_ip_rcv e ctx"
| "kl_step (Ip_rcv_finish, e, ctx) = klatency_ip_rcv_finish e ctx"
| "kl_step (Local_deliver, e, ctx) = klatency_ip_local_deliver e ctx"
| "kl_step (Local_deliver_finish, e, ctx) = klatency_ip_local_deliver_finish e ctx"
| "kl_step (Queue_xmit, e, ctx) = klatency_ip_queue_xmit e ctx"
| "kl_step (Local_out, e, ctx) = klatency_ip_local e ctx"
| "kl_step (Output, e, ctx) = klatency_ip_output e ctx"
| "kl_step (Finish_output, e, ctx) = klatency_ip_finish_output2 e ctx"
| "kl_step (Kfree, e, ctx) = report_kfree e ctx"
| "kl_step (Consume, e, ctx) = report_consume e ctx"

text \<open>The packet a hook is about: the argument of the traced function that holds it.\<close>

fun kl_skb :: "kl_hook \<Rightarrow> u64" where
  "kl_skb (p, e, ctx) =
     (if p \<in> {Ip_rcv, Local_deliver, Kfree, Consume} then parm1 e ctx
      else if p = Queue_xmit then parm2 e ctx else parm3 e ctx)"

definition kl_clock :: "kl_hook \<Rightarrow> u64" where "kl_clock h = bpf_ktime_get_ns (fst (snd h))"
definition kl_out :: "kl_hook \<Rightarrow> bool" where "kl_out h = he_out (fst (snd h))"

text \<open>Each direction in terms of the measuring protocol. A report is the latency and its points.\<close>

definition rx_kind :: "kl_hook \<Rightarrow> hook_kind" where
  "rx_kind h = (if fst h = Ip_rcv then Opens else if fst h = Local_deliver_finish then Closes
     else if fst h \<in> {Kfree, Consume} then Forgets else Marks)"
definition tx_kind :: "kl_hook \<Rightarrow> hook_kind" where
  "tx_kind h = (if fst h = Queue_xmit then Opens else if fst h = Finish_output then Closes
     else if fst h \<in> {Kfree, Consume} then Forgets else Marks)"

definition first_point :: "kl_hook \<Rightarrow> u64 list" where "first_point h = [kl_clock h, 0, 0, 0]"
definition rx_mark :: "kl_hook \<Rightarrow> u64 list \<Rightarrow> u64 list" where
  "rx_mark h ps = (if fst h = Ip_rcv_finish then ps[1 := kl_clock h]
     else if fst h = Local_deliver then ps[2 := kl_clock h] else ps)"
definition tx_mark :: "kl_hook \<Rightarrow> u64 list \<Rightarrow> u64 list" where
  "tx_mark h ps = (if fst h = Local_out then ps[1 := kl_clock h]
     else if fst h = Output then ps[2 := kl_clock h] else ps)"
definition kl_report :: "kl_hook \<Rightarrow> u64 list \<Rightarrow> (u64 \<times> u64 list) option" where
  "kl_report h ps = (if kl_clock h > ps ! 0 \<and> kl_clock h - ps ! 0 > THRESH \<and> kl_out h
     then Some (kl_clock h - ps ! 0, ps[3 := kl_clock h]) else None)"

definition rx_points :: "rxlatency_t \<Rightarrow> u64 list" where
  "rx_points lat = [rx_rcv lat, rx_rcvfinish lat, rx_local lat, rx_localfinish lat]"
definition tx_points :: "txlatency_t \<Rightarrow> u64 list" where
  "tx_points lat = [tx_queuexmit lat, tx_local lat, tx_output lat, tx_finish lat]"

definition rx_pending :: "kl_state \<Rightarrow> u64 \<rightharpoonup> u64 list" where
  "rx_pending s = map_option rx_points \<circ> map_of (insp_kernelrx_entry s)"
definition tx_pending :: "kl_state \<Rightarrow> u64 \<rightharpoonup> u64 list" where
  "tx_pending s = map_option tx_points \<circ> map_of (insp_kerneltx_entry s)"

definition kl_reported :: "u32 \<Rightarrow> kl_state \<Rightarrow> (u64 \<times> u64 list) list" where
  "kl_reported dir s = map (\<lambda>ev. (ke_latency ev, [ke_point1 ev, ke_point2 ev, ke_point3 ev, ke_point4 ev]))
     (filter (\<lambda>ev. ke_direction ev = dir) (insp_klatency_event s))"

definition rx_admits :: "kl_hook \<Rightarrow> kl_state \<Rightarrow> bool" where
  "rx_admits h s \<longleftrightarrow> he_ok (fst (snd h)) \<and>
     (map_of (insp_kernelrx_entry s) (kl_skb h) \<noteq> None \<or> length (insp_kernelrx_entry s) < kl_cap)"
definition tx_admits :: "kl_hook \<Rightarrow> kl_state \<Rightarrow> bool" where
  "tx_admits h s \<longleftrightarrow> he_ok (fst (snd h)) \<and>
     (map_of (insp_kerneltx_entry s) (kl_skb h) \<noteq> None \<or> length (insp_kerneltx_entry s) < kl_cap)"

lemma stamp_lookup [map_laws]:
  "map_of (stamp k f m) = (map_of m)(k := map_option f (map_of m k))"
  by (auto simp: stamp_def map_laws fun_eq_iff split: option.split)

lemmas kl_hook_defs = klatency_ip_rcv_def klatency_ip_rcv_finish_def klatency_ip_local_deliver_def
  klatency_ip_local_deliver_finish_def klatency_ip_queue_xmit_def klatency_ip_local_def
  klatency_ip_output_def klatency_ip_finish_output2_def report_kfree_def report_consume_def
  update_rxlat_def update_txlat_def

lemmas kl_spec_defs = rx_kind_def tx_kind_def first_point_def rx_mark_def tx_mark_def kl_report_def
  rx_points_def tx_points_def rx_pending_def tx_pending_def kl_reported_def rx_admits_def tx_admits_def
  kl_clock_def kl_out_def

text \<open>Each hook's effect on the two maps and the reports, hook by hook.\<close>

lemma rx_effect:
  "rx_pending (kl_step h s) =
     (case rx_kind h of
        Opens \<Rightarrow> if rx_admits h s then (rx_pending s)(kl_skb h \<mapsto> first_point h) else rx_pending s
      | Marks \<Rightarrow> (rx_pending s)(kl_skb h := map_option (rx_mark h) (rx_pending s (kl_skb h)))
      | _ \<Rightarrow> (rx_pending s)(kl_skb h := None))"
  by (cases h; cases "fst h")
    (auto simp: kl_hook_defs kl_spec_defs map_laws Let_def fun_eq_iff bpf_map_update_elem_def
      map_option_case split: option.splits)

lemma tx_effect:
  "tx_pending (kl_step h s) =
     (case tx_kind h of
        Opens \<Rightarrow> if tx_admits h s then (tx_pending s)(kl_skb h \<mapsto> first_point h) else tx_pending s
      | Marks \<Rightarrow> (tx_pending s)(kl_skb h := map_option (tx_mark h) (tx_pending s (kl_skb h)))
      | _ \<Rightarrow> (tx_pending s)(kl_skb h := None))"
  by (cases h; cases "fst h")
    (auto simp: kl_hook_defs kl_spec_defs map_laws Let_def fun_eq_iff bpf_map_update_elem_def
      map_option_case split: option.splits)

lemma rx_report_effect:
  "kl_reported RX_KLATENCY (kl_step h s) = kl_reported RX_KLATENCY s @
     (if rx_kind h = Closes then (case Option.bind (rx_pending s (kl_skb h)) (kl_report h) of
        None \<Rightarrow> [] | Some r \<Rightarrow> [r]) else [])"
  by (cases h; cases "fst h")
    (auto simp: kl_hook_defs kl_spec_defs map_laws Let_def perf_event_output_def RX_KLATENCY_def
      TX_KLATENCY_def split: option.splits)

lemma tx_report_effect:
  "kl_reported TX_KLATENCY (kl_step h s) = kl_reported TX_KLATENCY s @
     (if tx_kind h = Closes then (case Option.bind (tx_pending s (kl_skb h)) (kl_report h) of
        None \<Rightarrow> [] | Some r \<Rightarrow> [r]) else [])"
  by (cases h; cases "fst h")
    (auto simp: kl_hook_defs kl_spec_defs map_laws Let_def perf_event_output_def RX_KLATENCY_def
      TX_KLATENCY_def split: option.splits)

lemma kl_never_begins: "rx_kind h \<noteq> Begins" "tx_kind h \<noteq> Begins"
  by (simp_all add: rx_kind_def tx_kind_def)

interpretation krx: interval_probe kl_step rx_kind kl_skb first_point rx_mark kl_report "\<lambda>_. True"
  rx_admits rx_pending "kl_reported RX_KLATENCY"
  by unfold_locales (simp_all add: rx_effect rx_report_effect fun_upd_idem kl_never_begins)

interpretation ktx: interval_probe kl_step tx_kind kl_skb first_point tx_mark kl_report "\<lambda>_. True"
  tx_admits tx_pending "kl_reported TX_KLATENCY"
  by unfold_locales (simp_all add: tx_effect tx_report_effect fun_upd_idem kl_never_begins)

section \<open>Properties\<close>

text \<open>
  \<open>C21\<close>: over any interleaving of the ten hooks for any packets, the receive and the transmit
  reports are exactly those of the measuring protocol: one per packet that finishes slowly, with
  the stamps of the stages it went through, and none for packets freed on the way.
\<close>

theorem klatency_refines:
  assumes "admitted kl_step rx_kind rx_admits hs s" and "admitted kl_step tx_kind tx_admits hs s"
  shows "kl_reported RX_KLATENCY (fold kl_step hs s) = kl_reported RX_KLATENCY s @
      fst (interval_spec rx_kind kl_skb first_point rx_mark kl_report hs (rx_pending s)) \<and>
    kl_reported TX_KLATENCY (fold kl_step hs s) = kl_reported TX_KLATENCY s @
      fst (interval_spec tx_kind kl_skb first_point tx_mark kl_report hs (tx_pending s))"
  using krx.run_refines [OF _ assms(1)] ktx.run_refines [OF _ assms(2)] by (simp add: list_all_iff)

definition empty_kl :: kl_state where
  "empty_kl = \<lparr>insp_kernelrx_entry = [], insp_kerneltx_entry = [], insp_klatency_event = []\<rparr>"

definition at_point :: "kl_point \<Rightarrow> u64 \<Rightarrow> u64 \<Rightarrow> kl_hook" where
  "at_point p skb t = (p, demo_henv t 0, demo_regs skb)"

lemmas kl_demo_defs = empty_kl_def at_point_def kl_cap_def THRESH_def hash_store_def
  bpf_map_update_elem_def bpf_map_lookup_elem_def bpf_map_delete_elem_def stamp_def
  perf_event_output_def value_write_def

theorem klatency_refines_witness:
  "kl_reported RX_KLATENCY (fold kl_step [at_point Ip_rcv 1 5, at_point Queue_xmit 2 6,
      at_point Ip_rcv_finish 1 7, at_point Kfree 2 8, at_point Local_deliver_finish 1 20000005] empty_kl) =
     [(20000000, [5, 7, 0, 20000005])]"
  using klatency_refines [of "[at_point Ip_rcv 1 5, at_point Queue_xmit 2 6,
      at_point Ip_rcv_finish 1 7, at_point Kfree 2 8, at_point Local_deliver_finish 1 20000005]" empty_kl]
  by (simp add: kl_demo_defs kl_hook_defs kl_spec_defs)

text \<open>
  \<open>C22\<close>: no slow packet is missed. If a received packet is neither received again nor freed nor
  delivered before its delivery finishes, more than the threshold after its reception, and the
  event buffer has room, its latency is the next receive report, whatever other packets do in
  between.
\<close>

theorem klatency_slow_reported:
  assumes hs: "hs = at_rcv # mid @ [at_finish]"
    and "fst at_rcv = Ip_rcv" "fst at_finish = Local_deliver_finish" "kl_skb at_finish = kl_skb at_rcv"
    and mid: "list_all (\<lambda>h. kl_skb h = kl_skb at_rcv \<longrightarrow> rx_kind h = Marks) mid"
    and "admitted kl_step rx_kind rx_admits hs s" and "kl_out at_finish"
    and "kl_clock at_rcv < kl_clock at_finish" and "kl_clock at_finish - kl_clock at_rcv > THRESH"
  shows "\<exists>rs ps. kl_reported RX_KLATENCY (fold kl_step hs s) = kl_reported RX_KLATENCY s @ rs @
     [(kl_clock at_finish - kl_clock at_rcv, ps)]"
proof -
  let ?ps = "fold rx_mark (filter (\<lambda>h. kl_skb h = kl_skb at_rcv) mid) (first_point at_rcv)"
  have "fold rx_mark xs ps ! 0 = ps ! 0" for xs ps
    by (induction xs arbitrary: ps) (simp_all add: rx_mark_def)
  then have "?ps ! 0 = kl_clock at_rcv" by (simp add: first_point_def)
  with assms have "kl_report at_finish ?ps =
      Some (kl_clock at_finish - kl_clock at_rcv, ?ps[3 := kl_clock at_finish])"
    by (simp add: kl_report_def)
  from krx.measurement_reported [OF _ _ _ _ mid this, of s] assms show ?thesis
    by (auto simp: rx_kind_def list_all_iff)
qed

theorem klatency_slow_reported_witness:
  "\<exists>rs ps. kl_reported RX_KLATENCY (fold kl_step [at_point Ip_rcv 1 5, at_point Ip_rcv 2 6,
      at_point Local_deliver 1 9, at_point Local_deliver_finish 1 20000005] empty_kl) =
     rs @ [(20000000, ps)]"
  using klatency_slow_reported [of _ "at_point Ip_rcv 1 5" "[at_point Ip_rcv 2 6,
      at_point Local_deliver 1 9]" "at_point Local_deliver_finish 1 20000005" empty_kl]
  by (auto simp: kl_demo_defs kl_hook_defs kl_spec_defs)

end
