(* ===== verification/Tracepoint.thy ===== *)
theory Tracepoint
  imports Kernel_Layout
begin

text \<open>
  Tracepoint contexts. A tracepoint hands the program the bytes of its record; the programs
  read them through argument structures they declare themselves, the kernel writes them through
  its \<open>trace_event_raw\<close> structures. The declarations of the probes are compared with the
  kernel's, member by member.
\<close>

section \<open>Reading a member\<close>

fun member_size :: "cmember list \<Rightarrow> string \<Rightarrow> nat" where
  "member_size [] x = 0"
| "member_size (Member y t # ms) x = (if y = x then size_of t else member_size ms x)"
| "member_size (Bitfield y n w # ms) x = member_size ms x"

definition tp_read :: "cmember list \<Rightarrow> string \<Rightarrow> bytes \<Rightarrow> bytes option" where
  "tp_read ms x ctx =
     (case byte_offset ms x of None \<Rightarrow> None | Some off \<Rightarrow> load ctx off (member_size ms x))"

definition tp_word :: "cmember list \<Rightarrow> string \<Rightarrow> bytes \<Rightarrow> 'a :: len word" where
  "tp_word ms x ctx = (case tp_read ms x ctx of Some bs \<Rightarrow> le_word bs | None \<Rightarrow> 0)"

text \<open>The attribute \<open>packed\<close>: members follow each other without padding.\<close>

fun packed :: "cmember list \<Rightarrow> cmember list" where
  "packed [] = []"
| "packed (Member x t # ms) = Member x (Arr (size_of t) (Scalar 1)) # packed ms"
| "packed (Bitfield x n w # ms) = Bitfield x n w # packed ms"

section \<open>Declarations of the probes\<close>

definition net_dev_queue_args :: "cmember list" where
  "net_dev_queue_args = [Member ''unused'' (Scalar 8), Member ''skbaddr'' ptr,
     Member ''len'' (Scalar 4), Member ''name'' (Scalar 4)]"

definition net_dev_start_xmit_args :: "cmember list" where
  "net_dev_start_xmit_args = [Member ''unused'' (Scalar 8), Member ''name'' (Scalar 4),
     Member ''queue_mapping'' (Scalar 2), Member ''skbaddr'' ptr, Member ''vlan_tagged'' (Scalar 1),
     Member ''vlan_proto'' (Scalar 2), Member ''vlan_tci'' (Scalar 2), Member ''protocol'' (Scalar 2),
     Member ''ip_summed'' (Scalar 1), Member ''len'' (Scalar 4), Member ''data_len'' (Scalar 4),
     Member ''network_offset'' (Scalar 4), Member ''transport_offset_valid'' (Scalar 1),
     Member ''transport_offset'' (Scalar 4), Member ''tx_flags'' (Scalar 1),
     Member ''gso_size'' (Scalar 2), Member ''gso_segs'' (Scalar 2), Member ''gso_type'' (Scalar 2)]"

definition net_dev_xmit_args :: "cmember list" where
  "net_dev_xmit_args = [Member ''unused'' (Scalar 8), Member ''skbaddr'' ptr,
     Member ''len'' (Scalar 4), Member ''rc'' (Scalar 4), Member ''name'' (Scalar 4)]"

definition softirq_args :: "cmember list" where
  "softirq_args = [Member ''pad'' (Scalar 8), Member ''vec'' (Scalar 4)]"

definition kfree_skb_args :: "cmember list" where
  "kfree_skb_args = [Member ''pad'' (Scalar 8), Member ''skb'' ptr, Member ''location'' ptr,
     Member ''protocol'' (Scalar 2)]"

definition receive_reset_args :: "cmember list" where
  "receive_reset_args = packed [Member ''pad'' (Scalar 8), Member ''skaddr'' ptr,
     Member ''sport'' (Scalar 2), Member ''dport'' (Scalar 2), Member ''saddr'' (Arr 4 (Scalar 1)),
     Member ''daddr'' (Arr 4 (Scalar 1)), Member ''saddr_v6'' (Arr 16 (Scalar 1)),
     Member ''daddr_v6'' (Arr 16 (Scalar 1)), Member ''sock_cookie'' (Scalar 8)]"

definition send_reset_args :: "cmember list" where
  "send_reset_args = [Member ''pad'' (Scalar 8), Member ''skbaddr'' ptr, Member ''skaddr'' ptr,
     Member ''state'' (Scalar 4), Member ''sport'' (Scalar 2), Member ''dport'' (Scalar 2),
     Member ''saddr'' (Arr 4 (Scalar 1)), Member ''daddr'' (Arr 4 (Scalar 1)),
     Member ''saddr_v6'' (Arr 16 (Scalar 1)), Member ''daddr_v6'' (Arr 16 (Scalar 1))]"

definition tp_tcp_retransmit_skb_args :: "cmember list" where
  "tp_tcp_retransmit_skb_args = [Member ''unused'' (Scalar 8), Member ''skbaddr'' ptr,
     Member ''skaddr'' ptr, Member ''state'' (Scalar 4), Member ''sport'' (Scalar 2),
     Member ''dport'' (Scalar 2), Member ''saddr'' (Arr 4 (Scalar 1)),
     Member ''daddr'' (Arr 4 (Scalar 1)), Member ''saddr_v6'' (Arr 16 (Scalar 1)),
     Member ''daddr_v6'' (Arr 16 (Scalar 1))]"

section \<open>Declarations of the kernel\<close>

definition trace_entry :: ctype where
  "trace_entry = Struct [Member ''type'' (Scalar 2), Member ''flags'' (Scalar 1),
     Member ''preempt_count'' (Scalar 1), Member ''pid'' (Scalar 4)]"

abbreviation traced :: "cmember list \<Rightarrow> cmember list" where
  "traced ms \<equiv> Member ''ent'' trace_entry # ms @ [Member ''__data'' (Arr 0 (Scalar 1))]"

definition trace_event_raw_net_dev_template :: "cmember list" where
  "trace_event_raw_net_dev_template = traced [Member ''skbaddr'' ptr, Member ''len'' (Scalar 4),
     Member ''__data_loc_name'' (Scalar 4)]"

definition trace_event_raw_net_dev_start_xmit :: "cmember list" where
  "trace_event_raw_net_dev_start_xmit = traced [Member ''__data_loc_name'' (Scalar 4),
     Member ''queue_mapping'' (Scalar 2), Member ''skbaddr'' ptr, Member ''vlan_tagged'' (Scalar 1),
     Member ''vlan_proto'' (Scalar 2), Member ''vlan_tci'' (Scalar 2), Member ''protocol'' (Scalar 2),
     Member ''ip_summed'' (Scalar 1), Member ''len'' (Scalar 4), Member ''data_len'' (Scalar 4),
     Member ''network_offset'' (Scalar 4), Member ''transport_offset_valid'' (Scalar 1),
     Member ''transport_offset'' (Scalar 4), Member ''tx_flags'' (Scalar 1),
     Member ''gso_size'' (Scalar 2), Member ''gso_segs'' (Scalar 2), Member ''gso_type'' (Scalar 2)]"

definition trace_event_raw_net_dev_xmit :: "cmember list" where
  "trace_event_raw_net_dev_xmit = traced [Member ''skbaddr'' ptr, Member ''len'' (Scalar 4),
     Member ''rc'' (Scalar 4), Member ''__data_loc_name'' (Scalar 4)]"

definition trace_event_raw_softirq :: "cmember list" where
  "trace_event_raw_softirq = traced [Member ''vec'' (Scalar 4)]"

definition trace_event_raw_kfree_skb :: "cmember list" where
  "trace_event_raw_kfree_skb = traced [Member ''skbaddr'' ptr, Member ''location'' ptr,
     Member ''protocol'' (Scalar 2)]"

definition trace_event_raw_tcp_event_sk_skb :: "cmember list" where
  "trace_event_raw_tcp_event_sk_skb = traced [Member ''skbaddr'' ptr, Member ''skaddr'' ptr,
     Member ''state'' (Scalar 4), Member ''sport'' (Scalar 2), Member ''dport'' (Scalar 2),
     Member ''saddr'' (Arr 4 (Scalar 1)), Member ''daddr'' (Arr 4 (Scalar 1)),
     Member ''saddr_v6'' (Arr 16 (Scalar 1)), Member ''daddr_v6'' (Arr 16 (Scalar 1))]"

definition trace_event_raw_tcp_event_sk :: "cmember list" where
  "trace_event_raw_tcp_event_sk = traced [Member ''skaddr'' ptr, Member ''sport'' (Scalar 2),
     Member ''dport'' (Scalar 2), Member ''saddr'' (Arr 4 (Scalar 1)),
     Member ''daddr'' (Arr 4 (Scalar 1)), Member ''saddr_v6'' (Arr 16 (Scalar 1)),
     Member ''daddr_v6'' (Arr 16 (Scalar 1)), Member ''sock_cookie'' (Scalar 8)]"

definition trace_event_raw_sys_exit :: "cmember list" where
  "trace_event_raw_sys_exit = traced [Member ''id'' (Scalar 8), Member ''ret'' (Scalar 8)]"

section \<open>Agreement\<close>

definition member_place :: "cmember list \<Rightarrow> string \<Rightarrow> nat option \<times> nat" where
  "member_place ms x = (byte_offset ms x, member_size ms x)"

text \<open>
  Pairs of a probe's declaration and the kernel's record for the same tracepoint, with the
  members of the first and their names in the second.
\<close>

definition tracepoint_members :: "(cmember list \<times> cmember list \<times> (string \<times> string) list) list" where
  "tracepoint_members =
    [(net_dev_queue_args, trace_event_raw_net_dev_template,
       [(''skbaddr'', ''skbaddr''), (''len'', ''len''), (''name'', ''__data_loc_name'')]),
     (net_dev_start_xmit_args, trace_event_raw_net_dev_start_xmit,
       (''name'', ''__data_loc_name'') # map (\<lambda>x. (x, x)) [''queue_mapping'', ''skbaddr'',
         ''vlan_tagged'', ''vlan_proto'', ''vlan_tci'', ''protocol'', ''ip_summed'', ''len'',
         ''data_len'', ''network_offset'', ''transport_offset_valid'', ''transport_offset'',
         ''tx_flags'', ''gso_size'', ''gso_segs'', ''gso_type'']),
     (net_dev_xmit_args, trace_event_raw_net_dev_xmit,
       [(''skbaddr'', ''skbaddr''), (''len'', ''len''), (''rc'', ''rc''),
        (''name'', ''__data_loc_name'')]),
     (softirq_args, trace_event_raw_softirq, [(''vec'', ''vec'')]),
     (kfree_skb_args, trace_event_raw_kfree_skb,
       [(''skb'', ''skbaddr''), (''location'', ''location''), (''protocol'', ''protocol'')]),
     (send_reset_args, trace_event_raw_tcp_event_sk_skb,
       map (\<lambda>x. (x, x)) [''skbaddr'', ''skaddr'', ''state'', ''sport'', ''dport'', ''saddr'',
         ''daddr'', ''saddr_v6'', ''daddr_v6'']),
     (tp_tcp_retransmit_skb_args, trace_event_raw_tcp_event_sk_skb,
       map (\<lambda>x. (x, x)) [''skbaddr'', ''skaddr'', ''state'', ''sport'', ''dport'', ''saddr'',
         ''daddr'', ''saddr_v6'', ''daddr_v6'']),
     (receive_reset_args, trace_event_raw_tcp_event_sk,
       map (\<lambda>x. (x, x)) [''skaddr'', ''sport'', ''dport'', ''saddr'', ''daddr'', ''saddr_v6'',
         ''daddr_v6''])]"

lemmas tracepoint_defs = net_dev_queue_args_def net_dev_start_xmit_args_def net_dev_xmit_args_def
  softirq_args_def kfree_skb_args_def receive_reset_args_def send_reset_args_def
  tp_tcp_retransmit_skb_args_def trace_entry_def trace_event_raw_net_dev_template_def
  trace_event_raw_net_dev_start_xmit_def trace_event_raw_net_dev_xmit_def trace_event_raw_softirq_def
  trace_event_raw_kfree_skb_def trace_event_raw_tcp_event_sk_skb_def trace_event_raw_tcp_event_sk_def
  trace_event_raw_sys_exit_def

lemmas place_defs = member_place_def byte_offset_def bit_offset_def larger_def align_up_def
  member_start_def

text \<open>The offsets the programs use.\<close>

lemma tp_places [layout_simps]:
  "member_place net_dev_queue_args ''skbaddr'' = (Some 8, 8)"
  "member_place net_dev_start_xmit_args ''skbaddr'' = (Some 16, 8)"
  "member_place net_dev_xmit_args ''skbaddr'' = (Some 8, 8)"
  "member_place softirq_args ''vec'' = (Some 8, 4)"
  "member_place kfree_skb_args ''skb'' = (Some 8, 8)"
  "member_place kfree_skb_args ''location'' = (Some 16, 8)"
  "member_place trace_event_raw_kfree_skb ''skbaddr'' = (Some 8, 8)"
  "member_place trace_event_raw_kfree_skb ''location'' = (Some 16, 8)"
  "member_place receive_reset_args ''skaddr'' = (Some 8, 8)"
  "member_place tp_tcp_retransmit_skb_args ''sport'' = (Some 28, 2)"
  "member_place tp_tcp_retransmit_skb_args ''dport'' = (Some 30, 2)"
  "member_place tp_tcp_retransmit_skb_args ''saddr_v6'' = (Some 40, 16)"
  "member_place tp_tcp_retransmit_skb_args ''daddr_v6'' = (Some 56, 16)"
  "member_place trace_event_raw_sys_exit ''ret'' = (Some 16, 8)"
  by (simp_all add: tracepoint_defs place_defs)

lemma tp_read_place:
  "member_place ms x = (Some off, n) \<Longrightarrow> tp_read ms x ctx = load ctx off n"
  by (simp add: tp_read_def member_place_def)

lemma tp_read_agree:
  "member_place d x = member_place k y \<Longrightarrow> tp_read d x ctx = tp_read k y ctx"
  by (auto simp: tp_read_def member_place_def split: option.split)

lemmas tp_reads = tp_places [THEN tp_read_place]

lemma places_agree:
  "list_all (\<lambda>(d, k, xs). list_all (\<lambda>(x, y). member_place d x = member_place k y \<and>
     fst (member_place d x) \<noteq> None) xs) tracepoint_members"
  unfolding tracepoint_members_def
  by (simp add: tracepoint_defs place_defs)

text \<open>
  \<open>C30\<close>: every member of every tracepoint argument structure the probes declare lies where the
  kernel's record has it, with the same size, so a read through either declaration gives the
  same bytes of any record. The one exception is \<open>sock_cookie\<close> of the packed
  \<open>receive_reset_args\<close>, four bytes before the kernel's.
\<close>

theorem tracepoint_reads_agree:
  "list_all (\<lambda>(d, k, xs). list_all (\<lambda>(x, y). byte_offset d x \<noteq> None \<and>
     tp_read d x ctx = tp_read k y ctx) xs) tracepoint_members \<and>
   byte_offset receive_reset_args ''sock_cookie'' = Some 60 \<and>
   byte_offset trace_event_raw_tcp_event_sk ''sock_cookie'' = Some 64"
proof
  show "list_all (\<lambda>(d, k, xs). list_all (\<lambda>(x, y). byte_offset d x \<noteq> None \<and>
      tp_read d x ctx = tp_read k y ctx) xs) tracepoint_members"
    by (rule list.pred_mono_strong [OF places_agree])
      (auto elim!: list.pred_mono_strong intro: tp_read_agree simp: member_place_def)
  show "byte_offset receive_reset_args ''sock_cookie'' = Some 60 \<and>
     byte_offset trace_event_raw_tcp_event_sk ''sock_cookie'' = Some 64"
    by (simp add: tracepoint_defs place_defs)
qed

end
