(* ===== verification/Netif_Tx.thy ===== *)
theory Netif_Tx
  imports Instances Interval Tracepoint
begin

text \<open>
  The transmit-queue latency probe \<^verbatim>\<open>bpf/netiftxlatency.c\<close>. The driver stage, from
  \<open>net_dev_start_xmit\<close> to \<open>net_dev_xmit\<close>, follows the measuring protocol. The queueing stage does
  not: its stamps are never deleted, so its map fills up, and once full the probe is blind to
  every packet it has not seen before.
\<close>

section \<open>Model\<close>

definition TX_THRESH :: u64 where "TX_THRESH = 100 * 1000 * 1000"
definition ACTION_QDISC :: u32 where "ACTION_QDISC = 1"
definition ACTION_XMIT :: u32 where "ACTION_XMIT = 2"

record insp_nftxlat_event_t =
  ne_target :: bytes
  ne_type :: u32
  ne_tuple :: tuple
  ne_skb_meta :: skb_meta
  ne_pid :: u32
  ne_cpu :: u32
  ne_latency :: u64
  ne_stack_id :: u64

record nftx_state =
  insp_txq :: "(u64, u64) bpf_map"
  insp_txs :: "(u64, u64) bpf_map"
  insp_sklat_event :: "insp_nftxlat_event_t list"

definition txq_cap :: nat where "txq_cap = 10000"
definition txs_cap :: nat where "txs_cap = 10000"

definition report_txlat_events :: "henv \<Rightarrow> u64 \<Rightarrow> u64 \<Rightarrow> u32 \<Rightarrow> nftx_state \<Rightarrow> nftx_state" where
  "report_txlat_events e skb latency action s = s\<lparr>insp_sklat_event := perf_event_output e
     \<lparr>ne_target = he_comm e, ne_type = action,
      ne_tuple = snd (set_tuple (he_kernel e) (k_skb (he_kernel e) skb) zero_tuple),
      ne_skb_meta = set_meta (k_skb (he_kernel e) skb) zero_meta,
      ne_pid = cur_pid e, ne_cpu = he_cpu e, ne_latency = latency, ne_stack_id = 0\<rparr>
     (insp_sklat_event s)\<rparr>"

definition net_dev_queue :: "henv \<Rightarrow> bytes \<Rightarrow> nftx_state \<Rightarrow> nftx_state" where
  "net_dev_queue e ctx s =
     (let ts = bpf_ktime_get_ns e; skb = tp_word net_dev_queue_args ''skbaddr'' ctx in
      s\<lparr>insp_txq := hash_store txq_cap (he_ok e) BPF_ANY skb ts (insp_txq s)\<rparr>)"

definition net_dev_start_xmit :: "henv \<Rightarrow> bytes \<Rightarrow> nftx_state \<Rightarrow> nftx_state" where
  "net_dev_start_xmit e ctx s =
     (let skb = tp_word net_dev_start_xmit_args ''skbaddr'' ctx in
      case bpf_map_lookup_elem (insp_txq s) skb of
        None \<Rightarrow> s
      | Some tsp \<Rightarrow>
          let ts = bpf_ktime_get_ns e;
              latency = ts - tsp;
              s = (if latency > TX_THRESH then report_txlat_events e skb latency ACTION_QDISC s else s)
          in s\<lparr>insp_txs := hash_store txs_cap (he_ok e) BPF_ANY skb ts (insp_txs s)\<rparr>)"

definition net_dev_xmit :: "henv \<Rightarrow> bytes \<Rightarrow> nftx_state \<Rightarrow> nftx_state" where
  "net_dev_xmit e ctx s =
     (let skb = tp_word net_dev_xmit_args ''skbaddr'' ctx in
      case bpf_map_lookup_elem (insp_txs s) skb of
        None \<Rightarrow> s
      | Some tsp \<Rightarrow>
          let ts = bpf_ktime_get_ns e;
              latency = ts - tsp;
              s = (if latency > TX_THRESH then report_txlat_events e skb latency ACTION_XMIT s else s)
          in s\<lparr>insp_txs := bpf_map_delete_elem skb (insp_txs s)\<rparr>)"

datatype nftx_point = Dev_queue | Dev_start_xmit | Dev_xmit

type_synonym nftx_hook = "nftx_point \<times> henv \<times> bytes"

fun nftx_step :: "nftx_hook \<Rightarrow> nftx_state \<Rightarrow> nftx_state" where
  "nftx_step (Dev_queue, e, ctx) = net_dev_queue e ctx"
| "nftx_step (Dev_start_xmit, e, ctx) = net_dev_start_xmit e ctx"
| "nftx_step (Dev_xmit, e, ctx) = net_dev_xmit e ctx"

fun nftx_skb :: "nftx_hook \<Rightarrow> u64" where
  "nftx_skb (Dev_queue, e, ctx) = tp_word net_dev_queue_args ''skbaddr'' ctx"
| "nftx_skb (Dev_start_xmit, e, ctx) = tp_word net_dev_start_xmit_args ''skbaddr'' ctx"
| "nftx_skb (Dev_xmit, e, ctx) = tp_word net_dev_xmit_args ''skbaddr'' ctx"

section \<open>The driver stage\<close>

definition nftx_clock :: "nftx_hook \<Rightarrow> u64" where "nftx_clock h = bpf_ktime_get_ns (fst (snd h))"
definition nftx_out :: "nftx_hook \<Rightarrow> bool" where "nftx_out h = he_out (fst (snd h))"

definition xmit_kind :: "nftx_hook \<Rightarrow> hook_kind" where
  "xmit_kind h = (case fst h of Dev_queue \<Rightarrow> Marks | Dev_start_xmit \<Rightarrow> Opens | Dev_xmit \<Rightarrow> Closes)"

definition xmit_admits :: "nftx_hook \<Rightarrow> nftx_state \<Rightarrow> bool" where
  "xmit_admits h s \<longleftrightarrow> map_of (insp_txq s) (nftx_skb h) \<noteq> None \<and> he_ok (fst (snd h)) \<and>
     (map_of (insp_txs s) (nftx_skb h) \<noteq> None \<or> length (insp_txs s) < txs_cap)"

definition nftx_reported :: "u32 \<Rightarrow> nftx_state \<Rightarrow> u64 list" where
  "nftx_reported action s = map ne_latency (filter (\<lambda>ev. ne_type ev = action) (insp_sklat_event s))"

definition slow_tx :: "u64 \<Rightarrow> u64 \<Rightarrow> bool" where "slow_tx t now \<longleftrightarrow> now - t > TX_THRESH"

lemmas nftx_defs = net_dev_queue_def net_dev_start_xmit_def net_dev_xmit_def report_txlat_events_def
  nftx_clock_def nftx_out_def xmit_kind_def xmit_admits_def nftx_reported_def slow_tx_def elapsed_def
  ACTION_QDISC_def ACTION_XMIT_def

interpretation xmit: interval_probe nftx_step xmit_kind nftx_skb nftx_clock unmarked
  "elapsed slow_tx nftx_clock nftx_out" "\<lambda>_. True" xmit_admits "map_of \<circ> insp_txs"
  "nftx_reported ACTION_XMIT"
proof (unfold_locales, goal_cases)
  case (1 h s)
  then show ?case
    by (cases h; cases "fst h") (auto simp: nftx_defs map_laws Let_def bpf_map_update_elem_def
        perf_event_output_def)
next
  case (2 h s)
  then show ?case by (simp add: xmit_kind_def split: nftx_point.splits)
next
  case (3 h s)
  then show ?case by (cases h; cases "fst h") (auto simp: nftx_defs map_laws Let_def option.map_ident)
next
  case (4 h s)
  then show ?case by (simp add: xmit_kind_def split: nftx_point.splits)
next
  case (5 h s)
  then show ?case by (cases h; cases "fst h") (auto simp: nftx_defs map_laws Let_def)
next
  case (6 h s v)
  then show ?case
    by (cases h; cases "fst h") (auto simp: nftx_defs map_laws Let_def perf_event_output_def)
qed

text \<open>
  Over any sequence of the three hooks in which every packet that starts transmission was
  queued before and the maps take it, the driver-stage reports are exactly the transmissions
  slower than the threshold.
\<close>

lemma netif_xmit_refines:
  assumes "admitted nftx_step xmit_kind xmit_admits hs s"
  shows "nftx_reported ACTION_XMIT (fold nftx_step hs s) = nftx_reported ACTION_XMIT s @
    fst (interval_spec xmit_kind nftx_skb nftx_clock unmarked (elapsed slow_tx nftx_clock nftx_out) hs
      (map_of (insp_txs s)))"
  using xmit.run_refines [OF _ assms] by (simp add: list_all_iff)

section \<open>The queueing stage\<close>

text \<open>A packet the probe can say nothing about: no stamp in either map, no room for one.\<close>

definition blind_to :: "u64 \<Rightarrow> nftx_state \<Rightarrow> bool" where
  "blind_to skb s \<longleftrightarrow> map_of (insp_txq s) skb = None \<and> map_of (insp_txs s) skb = None \<and>
     txq_cap \<le> length (insp_txq s)"

text \<open>The packets of a sequence of events, as the hooks that report them see them.\<close>

fun reports_of :: "u64 \<Rightarrow> nftx_hook list \<Rightarrow> nftx_state \<Rightarrow> insp_nftxlat_event_t list" where
  "reports_of skb [] s = []"
| "reports_of skb (h # hs) s =
     (if nftx_skb h = skb then drop (length (insp_sklat_event s)) (insp_sklat_event (nftx_step h s)) else [])
     @ reports_of skb hs (nftx_step h s)"

lemma txq_never_shrinks:
  "length (insp_txq s) \<le> length (insp_txq (nftx_step h s))"
  by (cases h; cases "fst h")
    (auto simp: nftx_defs Let_def hash_store_def bpf_map_update_elem_def length_alist_update
      split: option.splits)

lemma blind_step:
  assumes "blind_to skb s"
  shows "blind_to skb (nftx_step h s) \<and>
    (nftx_skb h = skb \<longrightarrow> insp_sklat_event (nftx_step h s) = insp_sklat_event s)"
  using assms txq_never_shrinks [of s h]
  by (cases h; cases "fst h")
    (auto simp: blind_to_def nftx_defs map_laws Let_def bpf_map_update_elem_def split: option.splits)

text \<open>
  \<open>C38\<close>: stamps of the queueing stage are never removed, so once the map holds 10000 of them the
  probe never again reports anything about a packet whose buffer address it does not already
  hold, however slow it is and whatever else happens.
\<close>

theorem txq_full_blind:
  assumes "blind_to skb s"
  shows "reports_of skb hs s = [] \<and> blind_to skb (fold nftx_step hs s)"
  using assms blind_step by (induction hs arbitrary: s) simp_all

definition skb_ctx :: "u64 \<Rightarrow> bytes" where
  "skb_ctx a = replicate 8 0 @ le_bytes 8 a @ le_bytes 8 a @ replicate 64 0"

lemma skb_ctx_reads [simp]:
  "tp_word net_dev_queue_args ''skbaddr'' (skb_ctx a) = a"
  "tp_word net_dev_start_xmit_args ''skbaddr'' (skb_ctx a) = a"
  "tp_word net_dev_xmit_args ''skbaddr'' (skb_ctx a) = a"
  by (simp_all add: tp_word_def tp_reads load_in_bounds skb_ctx_def)

definition at_tx :: "nftx_point \<Rightarrow> u64 \<Rightarrow> u64 \<Rightarrow> nftx_hook" where
  "at_tx p a t = (p, demo_henv t 0, skb_ctx a)"

lemma netif_xmit_refines_witness:
  "nftx_reported ACTION_XMIT (fold nftx_step [at_tx Dev_queue 1 5, at_tx Dev_start_xmit 1 6,
      at_tx Dev_xmit 1 200000006] \<lparr>insp_txq = [], insp_txs = [], insp_sklat_event = []\<rparr>) = [200000000]"
  using netif_xmit_refines [of "[at_tx Dev_queue 1 5, at_tx Dev_start_xmit 1 6,
      at_tx Dev_xmit 1 200000006]" "\<lparr>insp_txq = [], insp_txs = [], insp_sklat_event = []\<rparr>"]
  by (simp add: at_tx_def nftx_defs txq_cap_def txs_cap_def hash_store_def bpf_map_update_elem_def
      bpf_map_lookup_elem_def TX_THRESH_def)

text \<open>A map that 10000 different packets have filled.\<close>

definition full_txq :: "(u64, u64) bpf_map" where
  "full_txq = map (\<lambda>i. (of_nat (Suc i), 0)) [0..<10000]"

lemma full_txq_blind:
  "blind_to 0 \<lparr>insp_txq = full_txq, insp_txs = [], insp_sklat_event = []\<rparr>"
proof -
  have "unat (of_nat (Suc i) :: u64) = Suc i" if "i < 10000" for i
    using that by (simp add: unat_of_nat take_bit_nat_eq_self del: of_nat_Suc)
  then have "(of_nat (Suc i) :: u64) \<noteq> 0" if "i < 10000" for i
    using that by (metis nat.distinct(1) unat_0)
  then have "map_of full_txq 0 = None"
    by (auto simp: full_txq_def map_of_eq_None_iff simp del: of_nat_Suc)
  moreover have "length full_txq = 10000" by (simp add: full_txq_def)
  ultimately show ?thesis by (simp add: blind_to_def txq_cap_def)
qed

theorem txq_full_blind_witness:
  "reports_of 0 [at_tx Dev_queue 0 5, at_tx Dev_start_xmit 0 900000000]
     \<lparr>insp_txq = full_txq, insp_txs = [], insp_sklat_event = []\<rparr> = []"
  using txq_full_blind [OF full_txq_blind] by blast

end
