(* ===== verification/Softirq.thy ===== *)
theory Softirq
  imports Instances Interval Tracepoint Block_Virt
begin

text \<open>
  The softirq latency probe \<^verbatim>\<open>bpf/softirq.c\<close>. For each vector it measures the time from the
  first raise to entry (scheduling) and from entry to exit (execution), in one per-CPU map. On
  one CPU both phases implement the measuring protocol; since deleting an entry of a per-CPU map
  deletes it for all CPUs, a vector that is active on two CPUs at once loses measurements.
\<close>

section \<open>Model\<close>

definition PHASE_SCHED :: u32 where "PHASE_SCHED = 1"
definition PHASE_EXCUTE :: u32 where "PHASE_EXCUTE = 2"

text \<open>The constant \<open>irq_filter_bits\<close> is set by the loader; this is what the source gives it.\<close>

definition irq_filter_bits :: u32 where "irq_filter_bits = 0x8"

definition filter_irqs :: "u32 \<Rightarrow> u32 \<Rightarrow> bool" where
  "filter_irqs bits vec_nr =
     (if vec_nr \<ge> 32 then False else bits AND push_bit (unat vec_nr) 1 \<noteq> 0)"

record insp_softirq_entry_key =
  sk_vec_nr :: u32
  sk_phase :: u32











section \<open>One CPU\<close>








lemma phases_differ [simp]: "PHASE_SCHED \<noteq> PHASE_EXCUTE" "PHASE_EXCUTE \<noteq> PHASE_SCHED"
  by (simp_all add: PHASE_SCHED_def PHASE_EXCUTE_def)


lemma percpu_store_kept:
  "percpu_update cap ok fill flag c k v m = None \<Longrightarrow> percpu_store cap ok fill flag c k v m = m"
  by (simp add: percpu_store_def)


lemma irq_key_eq [simp]:
  "(\<lparr>sk_vec_nr = v, sk_phase = p\<rparr> = \<lparr>sk_vec_nr = w, sk_phase = q\<rparr>) = (v = w \<and> p = q)"
  by simp










section \<open>Two CPUs\<close>




definition vec_ctx :: "u32 \<Rightarrow> bytes" where
  "vec_ctx v = replicate 8 0 @ le_bytes 4 v"

lemma vec_ctx_read [simp]: "tp_word softirq_args ''vec'' (vec_ctx v) = v"
  by (simp add: tp_word_def tp_reads load_in_bounds vec_ctx_def)

lemma net_rx_passes [simp]: "filter_irqs irq_filter_bits 3"
  by (simp add: filter_irqs_def irq_filter_bits_def)



end
