(* ===== verification/Tcp_Trace.thy ===== *)
theory Tcp_Trace
  imports Inspector_Facts Tracepoint
begin

text \<open>
  The event probes for lost packets (\<^verbatim>\<open>bpf/packetloss.c\<close>), TCP resets
  (\<^verbatim>\<open>bpf/tcpreset.c\<close>) and TCP retransmissions (\<^verbatim>\<open>bpf/tcpretrans.c\<close>). They keep no state
  between invocations: each maps its context to at most one event.
\<close>

section \<open>Lost packets\<close>

record insp_pl_event_t =
  pl_tuple :: tuple
  pl_location :: u64
  pl_stack_id :: u64

text \<open>
  The record is read through the running kernel's own structure if its type information has
  one (\<open>bpf_core_type_exists\<close>), and otherwise through the probe's declaration.
\<close>

definition kfree_skb_fields :: "cmember list option \<Rightarrow> bytes \<Rightarrow> u64 \<times> u64" where
  "kfree_skb_fields raw ctx =
     (case raw of
        Some args \<Rightarrow> (tp_word args ''skbaddr'' ctx, tp_word args ''location'' ctx)
      | None \<Rightarrow> (tp_word kfree_skb_args ''skb'' ctx, tp_word kfree_skb_args ''location'' ctx))"

definition kfree_skb :: "cmember list option \<Rightarrow> (cpu \<Rightarrow> u8 list) \<Rightarrow> henv \<Rightarrow> bytes \<Rightarrow>
    insp_pl_event_t list \<Rightarrow> insp_pl_event_t list" where
  "kfree_skb raw switch e ctx evs =
     (let (skb, location) = kfree_skb_fields raw ctx in
      if skb = 0 then evs
      else let (r, tuple) = set_tuple (he_kernel e) (k_skb (he_kernel e) skb) zero_tuple in
        if r < 0 then evs
        else perf_event_output e
          \<lparr>pl_tuple = tuple, pl_location = location,
           pl_stack_id = (if is_enable (switch (unat (he_cpu e))) 0 then he_stackid e else 0)\<rparr> evs)"

lemma kfree_skb_branches_agree:
  "kfree_skb_fields (Some trace_event_raw_kfree_skb) ctx = kfree_skb_fields None ctx"
  by (simp add: kfree_skb_fields_def tp_word_def tp_reads)

definition kfree_ctx :: "u64 \<Rightarrow> u64 \<Rightarrow> bytes" where
  "kfree_ctx skb loc = replicate 8 0 @ le_bytes 8 skb @ le_bytes 8 loc @ replicate 8 0"

lemma kfree_ctx_fields [simp]:
  "kfree_skb_fields None (kfree_ctx skb loc) = (skb, loc)"
  by (simp add: kfree_skb_fields_def tp_word_def tp_reads load_in_bounds kfree_ctx_def)

text \<open>
  \<open>C31\<close>: a dropped IPv4 packet whose headers lie below \<open>skb->len\<close> from the head of its readable
  buffer is reported with its addresses, ports and drop location, and with a stack id exactly
  when the feature switch is on, whether or not the kernel exports the record's type.
\<close>

theorem kfree_skb_reports:
  assumes raw: "raw = None \<or> raw = Some trace_event_raw_kfree_skb"
    and ctx: "kfree_skb_fields None ctx = (a, loc)" and "a \<noteq> 0" and "skb = k_skb (he_kernel e) a"
    and "maps_buffer (he_kernel e) (skb_head skb) (room @ ipv4_frame p (ports sport dport @ bs))"
    and "unat (network_header skb) = length room + 14" and "ip_packet_wf p"
    and "pk_proto p = L4_TCP \<or> pk_proto p = L4_UDP"
    and "length room + 14 + 4 * unat (pk_ihl p) + l4_size (pk_proto p) \<le> unat (skb_len skb)"
    and "length room + 14 + 4 * unat (pk_ihl p) < 2 ^ 16" and "he_out e"
  shows "kfree_skb raw switch e ctx evs = evs @
    [\<lparr>pl_tuple = \<lparr>tp_saddr = le_bytes 4 (pk_saddr p) @ replicate 12 0,
        tp_daddr = le_bytes 4 (pk_daddr p) @ replicate 12 0, tp_sport = sport, tp_dport = dport,
        tp_l3_proto = 0x0800, tp_l4_proto = pk_proto p\<rparr>,
      pl_location = loc,
      pl_stack_id = (if is_enable (switch (unat (he_cpu e))) 0 then he_stackid e else 0)\<rparr>]"
  using set_tuple_ipv4 [OF assms(5-10)] raw ctx kfree_skb_branches_agree [of ctx] assms(3,4,11)
  by (auto simp: kfree_skb_def perf_event_output_def)

definition loss_henv :: "u32 \<Rightarrow> henv" where
  "loss_henv len = (demo_henv 0 0)\<lparr>he_kernel :=
     (buffer_kernel 0xFFFF888000000000 demo_buffer [])\<lparr>k_skb := \<lambda>_. demo_skb len\<rparr>\<rparr>"

lemma loss_henv_maps:
  "maps_buffer (he_kernel (loss_henv len)) 0xFFFF888000000000 demo_buffer"
  using demo_buffer_maps [of "[]"] by (simp add: maps_buffer_def loss_henv_def)

theorem kfree_skb_reports_witness:
  "\<exists>t. kfree_skb None (\<lambda>_. replicate 16 0) (loss_henv 224) (kfree_ctx 7 0xFFFFFFFF81000000) [] =
     [\<lparr>pl_tuple = t, pl_location = 0xFFFFFFFF81000000, pl_stack_id = 0\<rparr>] \<and>
     tp_sport t = 53 \<and> tp_dport t = 5353 \<and> take 4 (tp_daddr t) = le_bytes 4 (0x0200007F :: u32)"
  using kfree_skb_reports [where raw = None and ctx = "kfree_ctx 7 0xFFFFFFFF81000000" and a = 7
      and e = "loss_henv 224" and room = "replicate 64 0" and p = demo_packet and sport = 53
      and dport = 5353 and bs = "replicate 200 0" and switch = "\<lambda>_. replicate 16 0" and evs = "[]"]
    demo_packet_wf loss_henv_maps [of 224]
  by (simp add: demo_skb_def demo_packet_def l4_size_def L4_TCP_def L4_UDP_def demo_buffer_def
      loss_henv_def demo_henv_def is_enable_def array_lookup_def)

text \<open>
  \<open>C32\<close>: a dropped packet whose network header lies \<open>skb->len\<close> or more bytes behind the head of its
  buffer, as that of a short packet behind ordinary headroom does, is never reported.
\<close>

theorem kfree_skb_misses_short:
  assumes "fst (kfree_skb_fields raw ctx) = a"
    and "skb_len (k_skb (he_kernel e) a) \<le> ucast (network_header (k_skb (he_kernel e) a))"
  shows "kfree_skb raw switch e ctx evs = evs"
  using assms set_tuple_refuses_short [OF assms(2)] by (auto simp: kfree_skb_def case_prod_beta)

theorem kfree_skb_misses_short_witness:
  "kfree_skb None (\<lambda>_. replicate 16 1) (loss_henv 68) (kfree_ctx 7 0xFFFFFFFF81000000) [] = []"
  using kfree_skb_misses_short [of None "kfree_ctx 7 0xFFFFFFFF81000000" 7 "loss_henv 68"
      "\<lambda>_. replicate 16 1" "[]"]
  by (simp add: loss_henv_def demo_skb_def)

section \<open>Resets\<close>

definition RESET_NOSOCK :: u32 where "RESET_NOSOCK = 1"
definition RESET_ACTIVE :: u32 where "RESET_ACTIVE = 2"
definition RESET_PROCESS :: u32 where "RESET_PROCESS = 4"
definition RESET_RECEIVE :: u32 where "RESET_RECEIVE = 8"

record insp_tcpreset_event_t =
  rs_type :: u32
  rs_state :: u8
  rs_tuple :: tuple
  rs_skb_meta :: skb_meta
  rs_stack_id :: u64

type_synonym reset_events = "insp_tcpreset_event_t list"

definition trace_sendreset :: "henv \<Rightarrow> pt_regs \<Rightarrow> reset_events \<Rightarrow> reset_events" where
  "trace_sendreset e ctx evs =
     (let sk = parm1 e ctx; skb = k_skb (he_kernel e) (parm2 e ctx);
          (ty, state) = (if sk \<noteq> 0 then (RESET_PROCESS, skc_state (k_sk (he_kernel e) sk))
                         else (RESET_NOSOCK, 0))
      in perf_event_output e
           \<lparr>rs_type = ty, rs_state = state, rs_tuple = snd (set_tuple (he_kernel e) skb zero_tuple),
            rs_skb_meta = set_meta skb zero_meta, rs_stack_id = he_stackid e\<rparr> evs)"

definition trace_sendactive :: "henv \<Rightarrow> pt_regs \<Rightarrow> reset_events \<Rightarrow> reset_events" where
  "trace_sendactive e ctx evs =
     (let sk = parm1 e ctx in
      if sk = 0 then evs
      else let sock = k_sk (he_kernel e) sk in
        perf_event_output e
           \<lparr>rs_type = RESET_ACTIVE, rs_state = skc_state sock,
            rs_tuple = set_tuple_sock (he_kernel e) sock zero_tuple,
            rs_skb_meta = set_meta_sock (he_kernel e) sock zero_meta, rs_stack_id = 0\<rparr> evs)"

text \<open>The test \<open>(int)event.stack_id < 0\<close> looks at the low 32 bits.\<close>

definition int_negative :: "u64 \<Rightarrow> bool" where
  "int_negative w \<longleftrightarrow> sint (ucast w :: u32) < 0"

definition insp_rstrx :: "henv \<Rightarrow> bytes \<Rightarrow> reset_events \<Rightarrow> reset_events" where
  "insp_rstrx e ctx evs =
     (if int_negative (he_stackid e) then evs
      else let sk = tp_word receive_reset_args ''skaddr'' ctx in
        if sk = 0 then evs
        else let sock = k_sk (he_kernel e) sk in
          perf_event_output e
           \<lparr>rs_type = RESET_RECEIVE, rs_state = skc_state sock,
            rs_tuple = set_tuple_sock (he_kernel e) sock zero_tuple,
            rs_skb_meta = set_meta_sock (he_kernel e) sock zero_meta, rs_stack_id = he_stackid e\<rparr> evs)"

datatype reset_hook = Sendreset henv pt_regs | Sendactive henv pt_regs | Rstrx henv bytes

fun reset_step :: "reset_hook \<Rightarrow> reset_events \<Rightarrow> reset_events" where
  "reset_step (Sendreset e ctx) = trace_sendreset e ctx"
| "reset_step (Sendactive e ctx) = trace_sendactive e ctx"
| "reset_step (Rstrx e ctx) = insp_rstrx e ctx"

text \<open>
  What a hook reports, if it reports: the kind of reset, the socket's state and the stack id. A
  stack id is documented to be a nonnegative number or a negative error.
\<close>

definition stack_stored :: "henv \<Rightarrow> bool" where "stack_stored e \<longleftrightarrow> 0 \<le> sint (he_stackid e)"

fun reset_report :: "reset_hook \<Rightarrow> (u32 \<times> u8 \<times> u64) option" where
  "reset_report (Sendreset e ctx) =
     (if \<not> he_out e then None
      else if parm1 e ctx = 0 then Some (RESET_NOSOCK, 0, he_stackid e)
      else Some (RESET_PROCESS, skc_state (k_sk (he_kernel e) (parm1 e ctx)), he_stackid e))"
| "reset_report (Sendactive e ctx) =
     (if he_out e \<and> parm1 e ctx \<noteq> 0
      then Some (RESET_ACTIVE, skc_state (k_sk (he_kernel e) (parm1 e ctx)), 0) else None)"
| "reset_report (Rstrx e ctx) =
     (let sk = tp_word trace_event_raw_tcp_event_sk ''skaddr'' ctx in
      if he_out e \<and> sk \<noteq> 0 \<and> stack_stored e
      then Some (RESET_RECEIVE, skc_state (k_sk (he_kernel e) sk), he_stackid e) else None)"

fun reset_env :: "reset_hook \<Rightarrow> henv" where
  "reset_env (Sendreset e ctx) = e"
| "reset_env (Sendactive e ctx) = e"
| "reset_env (Rstrx e ctx) = e"

definition stackid_int :: "henv \<Rightarrow> bool" where
  "stackid_int e \<longleftrightarrow> - (2 ^ 31) \<le> sint (he_stackid e) \<and> sint (he_stackid e) < 2 ^ 31"

lemma int_negative_iff:
  assumes "stackid_int e"
  shows "int_negative (he_stackid e) \<longleftrightarrow> \<not> stack_stored e"
proof -
  let ?w = "he_stackid e"
  have "sint (ucast ?w :: u32) < 0 \<longleftrightarrow> bit ?w 31"
    by (simp add: sint_uint bit_ucast_iff bit_uint_iff)
  also have "\<dots> \<longleftrightarrow> bit (sint ?w) 31" by (simp add: bit_sint_iff)
  also have "\<dots> \<longleftrightarrow> signed_take_bit 31 (sint ?w) < 0" by simp
  also have "signed_take_bit 31 (sint ?w) = sint ?w"
    using assms by (simp add: stackid_int_def signed_take_bit_int_eq_self)
  finally show ?thesis by (simp add: int_negative_def stack_stored_def not_le)
qed

lemma sk_reset_place:
  "tp_word receive_reset_args ''skaddr'' ctx = tp_word trace_event_raw_tcp_event_sk ''skaddr'' ctx"
proof -
  have "member_place trace_event_raw_tcp_event_sk ''skaddr'' = (Some 8, 8)"
    by (simp add: tracepoint_defs place_defs)
  then show ?thesis by (simp add: tp_word_def tp_read_place tp_places)
qed

lemma reset_step_reports:
  assumes "stackid_int (reset_env h)"
  shows "map (\<lambda>ev. (rs_type ev, rs_state ev, rs_stack_id ev)) (reset_step h evs) =
    map (\<lambda>ev. (rs_type ev, rs_state ev, rs_stack_id ev)) evs @
      (case reset_report h of None \<Rightarrow> [] | Some r \<Rightarrow> [r])"
  using assms
  by (cases h) (auto simp: trace_sendreset_def trace_sendactive_def insp_rstrx_def Let_def
      perf_event_output_def int_negative_iff sk_reset_place)

text \<open>
  \<open>C33\<close>: over any sequence of resets the probe reports, in order and with the socket's state, every
  reset sent with or without a socket, every active reset of a socket, and exactly those received
  resets for which a stack trace could be stored: a received reset whose stack trace collides in
  the stack map is lost, while a sent one is reported with the error as its stack id.
\<close>

theorem tcpreset_reports:
  assumes "list_all (\<lambda>h. stackid_int (reset_env h)) hs"
  shows "map (\<lambda>ev. (rs_type ev, rs_state ev, rs_stack_id ev)) (fold reset_step hs evs) =
    map (\<lambda>ev. (rs_type ev, rs_state ev, rs_stack_id ev)) evs @ List.map_filter reset_report hs"
  using assms reset_step_reports
  by (induction hs arbitrary: evs) (auto simp: List.map_filter_def split: option.split)

definition sk_ctx :: "u64 \<Rightarrow> bytes" where "sk_ctx a = replicate 8 0 @ le_bytes 8 a @ replicate 56 0"

lemma sk_ctx_read: "tp_word trace_event_raw_tcp_event_sk ''skaddr'' (sk_ctx a) = a"
  unfolding sk_reset_place [symmetric]
  by (simp add: tp_word_def tp_reads load_in_bounds sk_ctx_def)

theorem tcpreset_reports_witness:
  "map (\<lambda>ev. (rs_type ev, rs_state ev, rs_stack_id ev)) (fold reset_step
     [Sendreset (demo_henv 1 0) (demo_regs 0),
      Rstrx ((demo_henv 2 0)\<lparr>he_stackid := - 17\<rparr>) (sk_ctx 5), Rstrx (demo_henv 3 0) (sk_ctx 5),
      Sendreset ((demo_henv 2 0)\<lparr>he_stackid := - 17\<rparr>) (demo_regs 5)] []) =
    [(1, 0, 7), (8, 1, 7), (4, 1, - 17)]"
  using tcpreset_reports [of "[Sendreset (demo_henv 1 0) (demo_regs 0),
      Rstrx ((demo_henv 2 0)\<lparr>he_stackid := - 17\<rparr>) (sk_ctx 5), Rstrx (demo_henv 3 0) (sk_ctx 5),
      Sendreset ((demo_henv 2 0)\<lparr>he_stackid := - 17\<rparr>) (demo_regs 5)]" "[]"]
  by (simp add: stackid_int_def stack_stored_def sk_ctx_read List.map_filter_def demo_henv_def
      buffer_kernel_def demo_sock_def RESET_NOSOCK_def RESET_RECEIVE_def RESET_PROCESS_def
      del: reset_step.simps)

section \<open>Retransmissions\<close>

record insp_tcpretrans_event_t =
  rt_tuple :: tuple
  rt_stack_id :: u64

definition tcpretrans :: "henv \<Rightarrow> bytes \<Rightarrow> insp_tcpretrans_event_t list \<Rightarrow> insp_tcpretrans_event_t list" where
  "tcpretrans e args evs =
     (let tuple = zero_tuple\<lparr>tp_sport := tp_word tp_tcp_retransmit_skb_args ''sport'' args,
          tp_dport := tp_word tp_tcp_retransmit_skb_args ''dport'' args, tp_l4_proto := L4_TCP\<rparr>;
        tuple = tuple\<lparr>tp_saddr := store_into (case tp_read tp_tcp_retransmit_skb_args ''saddr_v6'' args of
              Some bs \<Rightarrow> bs | None \<Rightarrow> replicate 16 0) (tp_saddr tuple),
          tp_daddr := store_into (case tp_read tp_tcp_retransmit_skb_args ''daddr_v6'' args of
              Some bs \<Rightarrow> bs | None \<Rightarrow> replicate 16 0) (tp_daddr tuple)\<rparr>
      in perf_event_output e \<lparr>rt_tuple = tuple, rt_stack_id = he_stackid e\<rparr> evs)"

text \<open>The record the kernel writes for a retransmission.\<close>

definition retransmit_record :: "bytes \<Rightarrow> u16 \<Rightarrow> u16 \<Rightarrow> bytes \<Rightarrow> bytes \<Rightarrow> bytes \<Rightarrow> bytes" where
  "retransmit_record front sport dport v4 saddr6 daddr6 =
     front @ le_bytes 2 sport @ le_bytes 2 dport @ v4 @ saddr6 @ daddr6"

text \<open>
  Ports and the IPv6 form of both addresses arrive in the event as the kernel wrote them; the
  network protocol stays 0 for every retransmission.
\<close>

lemma tcpretrans_roundtrip:
  assumes "length front = 28" "length v4 = 8" "length saddr6 = 16" "length daddr6 = 16" "he_out e"
  shows "tcpretrans e (retransmit_record front sport dport v4 saddr6 daddr6) evs = evs @
    [\<lparr>rt_tuple = \<lparr>tp_saddr = saddr6, tp_daddr = daddr6, tp_sport = sport, tp_dport = dport,
       tp_l3_proto = 0, tp_l4_proto = L4_TCP\<rparr>, rt_stack_id = he_stackid e\<rparr>]"
  using assms
  by (simp add: tcpretrans_def tp_word_def tp_reads load_in_bounds retransmit_record_def Let_def
      perf_event_output_def store_into_def zero_tuple_def)

end
