(* ===== verification/Socket_Latency.thy ===== *)
theory Socket_Latency
  imports Instances Prog_Run
begin

text \<open>
  The socket latency probe \<^verbatim>\<open>bpf/socketlatency.c\<close>. Per socket it keeps the last time data
  arrived and the last time the application wrote; when the application reads, or the stack
  sends, it classifies the time since then, counts it in a histogram and reports the slow ones.
\<close>

section \<open>Model\<close>

definition LAT_THRESH_NS :: u64 where "LAT_THRESH_NS = 1000 * 1000"
definition LAT_THRESH_NS_100MS :: u64 where "LAT_THRESH_NS_100MS = 100 * 1000 * 1000"
definition ACTION_READ :: u32 where "ACTION_READ = 1"
definition ACTION_WRITE :: u32 where "ACTION_WRITE = 2"
definition BUCKET100MS :: u32 where "BUCKET100MS = 1"
definition BUCKET1MS :: u32 where "BUCKET1MS = 4"

record sklat_key_t =
  createat :: u64
  lastreceive :: u64
  lastread :: u64
  lastwrite :: u64
  lastsend :: u64

record insp_sklat_event_t =
  ls_target :: bytes
  ls_tuple :: tuple
  ls_skb_meta :: skb_meta
  ls_pid :: u32
  ls_cpu :: u32
  ls_direction :: u32
  ls_latency :: u64

record insp_sklat_metric_t =
  lm_netns :: u32
  lm_pid :: u32
  lm_cpu :: u32
  lm_bucket :: u32
  lm_action :: u32

record sklat_state =
  insp_sklat_entry :: "(u64, sklat_key_t) bpf_map"
  insp_sklat_metric :: "(insp_sklat_metric_t, u64) bpf_map"
  insp_sklat_events :: "insp_sklat_event_t list"

definition sklat_entry_cap :: nat where "sklat_entry_cap = 10000"
definition sklat_metric_cap :: nat where "sklat_metric_cap = 4096"

definition report_events :: "henv \<Rightarrow> u64 \<Rightarrow> u64 \<Rightarrow> u32 \<Rightarrow> sklat_state \<Rightarrow> sklat_state" where
  "report_events e sk latency direction s =
     (let k = he_kernel e; sock = k_sk k sk in
      s\<lparr>insp_sklat_events := perf_event_output e
        \<lparr>ls_target = he_comm e, ls_tuple = set_tuple_sock k sock zero_tuple,
         ls_skb_meta = set_meta_sock k sock zero_meta, ls_pid = cur_pid e, ls_cpu = he_cpu e,
         ls_direction = direction, ls_latency = latency\<rparr> (insp_sklat_events s)\<rparr>)"

text \<open>The counting part that \<open>sock_read\<close> and \<open>sock_send\<close> have in common.\<close>

definition metric_add :: "henv \<Rightarrow> insp_sklat_metric_t \<Rightarrow> sklat_state \<Rightarrow> sklat_state" where
  "metric_add e metric s =
     (case bpf_map_lookup_elem (insp_sklat_metric s) metric of
        Some mtrv \<Rightarrow> s\<lparr>insp_sklat_metric := value_write metric (mtrv + 1) (insp_sklat_metric s)\<rparr>
      | None \<Rightarrow> s\<lparr>insp_sklat_metric := hash_store sklat_metric_cap (he_ok e) BPF_ANY metric 1
          (insp_sklat_metric s)\<rparr>)"

definition measure_latency :: "henv \<Rightarrow> u64 \<Rightarrow> u64 \<Rightarrow> u32 \<Rightarrow> sklat_state \<Rightarrow> sklat_state" where
  "measure_latency e sk latency action s =
     (if latency > LAT_THRESH_NS
      then let metric = \<lparr>lm_netns = get_sock_netns (k_sk (he_kernel e) sk), lm_pid = cur_pid e,
                 lm_cpu = he_cpu e, lm_bucket = BUCKET1MS, lm_action = action\<rparr>;
             (metric, s) = (if latency > LAT_THRESH_NS_100MS
                then (metric\<lparr>lm_bucket := BUCKET100MS\<rparr>, report_events e sk latency action s)
                else (metric, s))
           in metric_add e metric s
      else s)"

definition sock_create :: "henv \<Rightarrow> pt_regs \<Rightarrow> sklat_state \<Rightarrow> sklat_state" where
  "sock_create e ctx s =
     (let sk = parm1 e ctx;
          ski = \<lparr>createat = bpf_ktime_get_ns e, lastreceive = 0, lastread = 0, lastwrite = 0,
            lastsend = 0\<rparr>
      in case lru_update_elem sklat_entry_cap (he_lru e) sk ski (insp_sklat_entry s) of
           None \<Rightarrow> s | Some m \<Rightarrow> s\<lparr>insp_sklat_entry := m\<rparr>)"

definition sock_receive :: "henv \<Rightarrow> pt_regs \<Rightarrow> sklat_state \<Rightarrow> sklat_state" where
  "sock_receive e ctx s =
     (let sk = parm1 e ctx in
      case bpf_map_lookup_elem (insp_sklat_entry s) sk of
        None \<Rightarrow> s
      | Some ski \<Rightarrow> s\<lparr>insp_sklat_entry := value_write sk (ski\<lparr>lastreceive := bpf_ktime_get_ns e\<rparr>)
          (insp_sklat_entry s)\<rparr>)"

definition sock_read :: "henv \<Rightarrow> pt_regs \<Rightarrow> sklat_state \<Rightarrow> sklat_state" where
  "sock_read e ctx s =
     (let sk = parm1 e ctx in
      case bpf_map_lookup_elem (insp_sklat_entry s) sk of
        None \<Rightarrow> s
      | Some ski \<Rightarrow>
          let now = bpf_ktime_get_ns e;
              s = (if lastreceive ski > 0
                   then measure_latency e sk (now - lastreceive ski) ACTION_READ s else s)
          in s\<lparr>insp_sklat_entry := value_write sk (ski\<lparr>lastread := now\<rparr>) (insp_sklat_entry s)\<rparr>)"

definition sock_write :: "henv \<Rightarrow> pt_regs \<Rightarrow> sklat_state \<Rightarrow> sklat_state" where
  "sock_write e ctx s =
     (let sk = parm1 e ctx in
      case bpf_map_lookup_elem (insp_sklat_entry s) sk of
        None \<Rightarrow> s
      | Some ski \<Rightarrow> s\<lparr>insp_sklat_entry := value_write sk (ski\<lparr>lastwrite := bpf_ktime_get_ns e\<rparr>)
          (insp_sklat_entry s)\<rparr>)"

definition sock_send :: "henv \<Rightarrow> pt_regs \<Rightarrow> sklat_state \<Rightarrow> sklat_state" where
  "sock_send e ctx s =
     (let sk = parm1 e ctx in
      case bpf_map_lookup_elem (insp_sklat_entry s) sk of
        None \<Rightarrow> s
      | Some ski \<Rightarrow>
          let now = bpf_ktime_get_ns e;
              s = (if lastwrite ski > 0
                   then measure_latency e sk (now - lastwrite ski) ACTION_WRITE s else s)
          in s\<lparr>insp_sklat_entry := value_write sk (ski\<lparr>lastsend := now\<rparr>) (insp_sklat_entry s)\<rparr>)"

definition sock_destroy :: "henv \<Rightarrow> pt_regs \<Rightarrow> sklat_state \<Rightarrow> sklat_state" where
  "sock_destroy e ctx s =
     (let sk = parm1 e ctx in
      s\<lparr>insp_sklat_entry := bpf_map_delete_elem sk (insp_sklat_entry s)\<rparr>)"

datatype sklat_point = Sk_create | Sk_receive | Sk_read | Sk_write | Sk_send | Sk_destroy

type_synonym sklat_hook = "sklat_point \<times> henv \<times> pt_regs"

fun sklat_step :: "sklat_hook \<Rightarrow> sklat_state \<Rightarrow> sklat_state" where
  "sklat_step (Sk_create, e, ctx) = sock_create e ctx"
| "sklat_step (Sk_receive, e, ctx) = sock_receive e ctx"
| "sklat_step (Sk_read, e, ctx) = sock_read e ctx"
| "sklat_step (Sk_write, e, ctx) = sock_write e ctx"
| "sklat_step (Sk_send, e, ctx) = sock_send e ctx"
| "sklat_step (Sk_destroy, e, ctx) = sock_destroy e ctx"

section \<open>Measurements\<close>

text \<open>
  What the hooks should measure, on an ideal table of the sockets alive and the last times of
  arrival and of writing (0 for none so far).
\<close>

type_synonym sk_table = "u64 \<rightharpoonup> u64 \<times> u64"

fun sk_table_step :: "sklat_hook \<Rightarrow> sk_table \<Rightarrow> sk_table" where
  "sk_table_step (p, e, ctx) T =
     (let k = parm1 e ctx; now = bpf_ktime_get_ns e in
      case p of
        Sk_create \<Rightarrow> T(k \<mapsto> (0, 0))
      | Sk_receive \<Rightarrow> T(k := map_option (\<lambda>(r, w). (now, w)) (T k))
      | Sk_write \<Rightarrow> T(k := map_option (\<lambda>(r, w). (r, now)) (T k))
      | Sk_destroy \<Rightarrow> T(k := None)
      | _ \<Rightarrow> T)"

fun sk_measured :: "sklat_hook \<Rightarrow> sk_table \<Rightarrow> (u32 \<times> u64) option" where
  "sk_measured (p, e, ctx) T =
     (case T (parm1 e ctx) of
        None \<Rightarrow> None
      | Some (r, w) \<Rightarrow>
          if p = Sk_read \<and> r > 0 then Some (ACTION_READ, bpf_ktime_get_ns e - r)
          else if p = Sk_send \<and> w > 0 then Some (ACTION_WRITE, bpf_ktime_get_ns e - w)
          else None)"

text \<open>The measurements of a run, each with the invocation that makes it.\<close>

fun sk_measurements :: "sklat_hook list \<Rightarrow> sk_table \<Rightarrow> (sklat_hook \<times> u32 \<times> u64) list" where
  "sk_measurements [] T = []"
| "sk_measurements (h # hs) T =
     (case sk_measured h T of None \<Rightarrow> [] | Some m \<Rightarrow> [(h, m)]) @ sk_measurements hs (sk_table_step h T)"

text \<open>The histogram cell of a measurement: none up to a millisecond.\<close>

fun sk_cell :: "sklat_hook \<times> u32 \<times> u64 \<Rightarrow> insp_sklat_metric_t option" where
  "sk_cell ((p, e, ctx), action, latency) =
     (if latency > LAT_THRESH_NS
      then Some \<lparr>lm_netns = get_sock_netns (k_sk (he_kernel e) (parm1 e ctx)), lm_pid = cur_pid e,
        lm_cpu = he_cpu e, lm_bucket = (if latency > LAT_THRESH_NS_100MS then BUCKET100MS else BUCKET1MS),
        lm_action = action\<rparr>
      else None)"

fun sk_slow :: "sklat_hook \<times> u32 \<times> u64 \<Rightarrow> bool" where
  "sk_slow ((p, e, ctx), action, latency) \<longleftrightarrow> latency > LAT_THRESH_NS_100MS \<and> he_out e"

definition sk_table_of :: "sklat_state \<Rightarrow> sk_table" where
  "sk_table_of s = map_option (\<lambda>ski. (lastreceive ski, lastwrite ski)) \<circ> map_of (insp_sklat_entry s)"

definition sk_count :: "insp_sklat_metric_t \<Rightarrow> sklat_state \<Rightarrow> u64" where
  "sk_count K s = (case map_of (insp_sklat_metric s) K of None \<Rightarrow> 0 | Some n \<Rightarrow> n)"

definition sk_reported :: "sklat_state \<Rightarrow> (u32 \<times> u64) list" where
  "sk_reported s = map (\<lambda>ev. (ls_direction ev, ls_latency ev)) (insp_sklat_events s)"

text \<open>The histogram has room for the cells \<open>U\<close>.\<close>

definition sk_inv :: "insp_sklat_metric_t set \<Rightarrow> sklat_state \<Rightarrow> bool" where
  "sk_inv U s \<longleftrightarrow> finite U \<and> card U \<le> sklat_metric_cap \<and> distinct (map fst (insp_sklat_metric s)) \<and>
     fst ` set (insp_sklat_metric s) \<subseteq> U"

definition sk_keys :: "sklat_state \<Rightarrow> bool" where
  "sk_keys s \<longleftrightarrow> distinct (map fst (insp_sklat_entry s))"

text \<open>
  The invocations considered: the kernel serves every update and evicts no socket from the LRU
  map, which has room, and the measurement's cell is one of \<open>U\<close>.
\<close>

fun sk_ok :: "insp_sklat_metric_t set \<Rightarrow> sklat_hook \<Rightarrow> sk_table \<Rightarrow> bool" where
  "sk_ok U (p, e, ctx) T \<longleftrightarrow> he_ok e \<and> lru_ok (he_lru e) \<and> lru_evict (he_lru e) = (\<lambda>_. False) \<and>
     (p = Sk_create \<longrightarrow> card (dom T) < sklat_entry_cap) \<and>
     (case sk_measured (p, e, ctx) T of None \<Rightarrow> True
      | Some m \<Rightarrow> (case sk_cell ((p, e, ctx), m) of None \<Rightarrow> True | Some K \<Rightarrow> K \<in> U))"

fun sk_all_ok :: "insp_sklat_metric_t set \<Rightarrow> sklat_hook list \<Rightarrow> sk_table \<Rightarrow> bool" where
  "sk_all_ok U [] T = True"
| "sk_all_ok U (h # hs) T \<longleftrightarrow> sk_ok U h T \<and> sk_all_ok U hs (sk_table_step h T)"

lemma metric_add_count:
  assumes "sk_inv U s" "K \<in> U" "he_ok e"
  shows "sk_inv U (metric_add e K s)"
    and "sk_count K' (metric_add e K s) = sk_count K' s + (if K' = K then 1 else 0)"
    and "insp_sklat_entry (metric_add e K s) = insp_sklat_entry s"
    and "insp_sklat_events (metric_add e K s) = insp_sklat_events s"
proof -
  let ?m = "insp_sklat_metric s"
  have inv: "sk_inv U (s\<lparr>insp_sklat_metric := AList.update K v ?m\<rparr>)" for v
    using assms(1,2) by (simp add: sk_inv_def distinct_update dom_update)
  have st: "metric_add e K s = s\<lparr>insp_sklat_metric := AList.update K (sk_count K s + 1) ?m\<rparr>"
  proof (cases "map_of ?m K")
    case None
    then have "length ?m < sklat_metric_cap"
      using distinct_keys_room [of ?m U K] assms(1,2) by (simp add: sk_inv_def)
    with None assms(3) show ?thesis
      by (simp add: metric_add_def bpf_map_lookup_elem_def hash_store_def bpf_map_update_elem_def sk_count_def)
  next
    case (Some n)
    then show ?thesis by (simp add: metric_add_def bpf_map_lookup_elem_def value_write_def sk_count_def)
  qed
  show "sk_inv U (metric_add e K s)" using inv st by simp
  show "sk_count K' (metric_add e K s) = sk_count K' s + (if K' = K then 1 else 0)"
    by (simp add: st sk_count_def update_conv')
  show "insp_sklat_entry (metric_add e K s) = insp_sklat_entry s"
    "insp_sklat_events (metric_add e K s) = insp_sklat_events s"
    by (simp_all add: st)
qed

text \<open>A measurement counts its cell, if it has one, and is reported if it is slow.\<close>

lemma measure_effect:
  fixes p e ctx action latency s
  defines "x \<equiv> ((p, e, ctx), action, latency)"
  defines "s' \<equiv> measure_latency e (parm1 e ctx) latency action s"
  assumes "sk_inv U s" "he_ok e" "case sk_cell x of None \<Rightarrow> True | Some K \<Rightarrow> K \<in> U"
  shows "sk_inv U s'" and "insp_sklat_entry s' = insp_sklat_entry s"
    and "sk_count K' s' = sk_count K' s + (if sk_cell x = Some K' then 1 else 0)"
    and "sk_reported s' = sk_reported s @ (if sk_slow x then [(action, latency)] else [])"
proof -
  let ?r = "report_events e (parm1 e ctx) latency action s"
  have r: "sk_inv U ?r" "sk_count K' ?r = sk_count K' s" "insp_sklat_entry ?r = insp_sklat_entry s"
    "sk_reported ?r = sk_reported s @ (if he_out e then [(action, latency)] else [])"
    using assms(3) by (simp_all add: report_events_def sk_inv_def sk_count_def sk_reported_def
        perf_event_output_def Let_def)
  have le: "LAT_THRESH_NS < latency" if "LAT_THRESH_NS_100MS < latency"
    by (rule less_trans [OF _ that]) (simp add: LAT_THRESH_NS_def LAT_THRESH_NS_100MS_def)
  note add = metric_add_count [OF assms(3) _ assms(4)] metric_add_count [OF r(1) _ assms(4)]
  show "sk_inv U s'" "insp_sklat_entry s' = insp_sklat_entry s"
    "sk_count K' s' = sk_count K' s + (if sk_cell x = Some K' then 1 else 0)"
    "sk_reported s' = sk_reported s @ (if sk_slow x then [(action, latency)] else [])"
    using assms(5) add r(2-4) le assms(3)
    by (auto simp: s'_def x_def measure_latency_def Let_def sk_reported_def split: if_splits)
qed

lemma sk_table_write:
  "map_option (\<lambda>ski. (lastreceive ski, lastwrite ski)) \<circ> map_of (AList.update k ski m) =
     (map_option (\<lambda>ski. (lastreceive ski, lastwrite ski)) \<circ> map_of m)
       (k \<mapsto> (lastreceive ski, lastwrite ski))"
  by (auto simp: update_conv')

lemma sk_inv_entry [simp]: "sk_inv U (s\<lparr>insp_sklat_entry := m\<rparr>) = sk_inv U s"
  by (simp add: sk_inv_def)
lemma sk_count_entry [simp]: "sk_count K (s\<lparr>insp_sklat_entry := m\<rparr>) = sk_count K s"
  by (simp add: sk_count_def)
lemma sk_reported_entry [simp]: "sk_reported (s\<lparr>insp_sklat_entry := m\<rparr>) = sk_reported s"
  by (simp add: sk_reported_def)

lemmas sk_hook_defs = sock_create_def sock_receive_def sock_read_def sock_write_def sock_send_def
  sock_destroy_def bpf_map_lookup_elem_def value_write_def bpf_map_delete_elem_def

text \<open>One invocation: the table, the histogram and the reports.\<close>

lemma measure_entry [simp]:
  "insp_sklat_entry (measure_latency e k l a s) = insp_sklat_entry s"
  by (auto simp: measure_latency_def metric_add_def report_events_def Let_def split: option.split)

lemma sklat_step_keys: "sk_keys s \<Longrightarrow> sk_keys (sklat_step h s)"
  by (cases h; cases "fst h")
    (auto simp: sk_keys_def sk_hook_defs Let_def lru_update_elem_def distinct_update distinct_delete
      distinct_map_filter split: option.split)

lemma sk_table_card: "sk_keys s \<Longrightarrow> card (dom (sk_table_of s)) = length (insp_sklat_entry s)"
proof -
  assume "sk_keys s"
  then have "card (fst ` set (insp_sklat_entry s)) = length (insp_sklat_entry s)"
    unfolding sk_keys_def by (metis distinct_card length_map set_map)
  moreover have "dom (sk_table_of s) = dom (map_of (insp_sklat_entry s))"
    by (auto simp: sk_table_of_def)
  ultimately show ?thesis by (simp add: dom_map_of_conv_image_fst)
qed

lemma sklat_step_table:
  assumes keys: "sk_keys s" and ok: "sk_ok U h (sk_table_of s)"
  shows "sk_table_of (sklat_step h s) = sk_table_step h (sk_table_of s)"
proof -
  obtain p e ctx where h: "h = (p, e, ctx)" by (cases h)
  have room: "p = Sk_create \<Longrightarrow> length (insp_sklat_entry s) < sklat_entry_cap"
    using ok sk_table_card [OF keys] h by simp
  have lru: "lru_ok (he_lru e)" "lru_evict (he_lru e) = (\<lambda>_. False)" using ok h by simp_all
  show ?thesis
    using room lru
    by (cases p; cases "map_of (insp_sklat_entry s) (parm1 e ctx)")
      (auto simp: h sk_hook_defs sk_table_of_def sk_table_write Let_def lru_update_elem_def
        case_prod_beta delete_conv' fun_eq_iff)
qed

text \<open>Apart from the entry map, an invocation does what its measurement does.\<close>

lemma sklat_step_measures:
  "\<exists>m. sklat_step (p, e, ctx) s =
     (case sk_measured (p, e, ctx) (sk_table_of s) of
        None \<Rightarrow> s
      | Some (a, l) \<Rightarrow> measure_latency e (parm1 e ctx) l a s)\<lparr>insp_sklat_entry := m\<rparr>"
proof -
  have id: "\<exists>m. s = s\<lparr>insp_sklat_entry := m\<rparr>" by (rule exI [of _ "insp_sklat_entry s"]) simp
  show ?thesis
  proof (cases "map_of (insp_sklat_entry s) (parm1 e ctx)")
    case None
    with id show ?thesis
      by (cases p) (auto simp: sk_hook_defs sk_table_of_def Let_def split: option.split)
  next
    case (Some ski)
    with id show ?thesis
      by (cases p) (auto simp: sk_hook_defs sk_table_of_def Let_def split: option.split)
  qed
qed

lemma sklat_step_counts:
  assumes inv: "sk_inv U s" and ok: "sk_ok U h (sk_table_of s)"
  shows "sk_inv U (sklat_step h s) \<and>
    sk_count K (sklat_step h s) = sk_count K s + of_nat (length (filter (\<lambda>x. sk_cell x = Some K)
      (case sk_measured h (sk_table_of s) of None \<Rightarrow> [] | Some m \<Rightarrow> [(h, m)]))) \<and>
    sk_reported (sklat_step h s) = sk_reported s @ map snd (filter sk_slow
      (case sk_measured h (sk_table_of s) of None \<Rightarrow> [] | Some m \<Rightarrow> [(h, m)]))"
proof -
  obtain p e ctx where h: "h = (p, e, ctx)" by (cases h)
  have e: "he_ok e" using ok h by simp
  obtain m where m: "sklat_step h s = (case sk_measured h (sk_table_of s) of None \<Rightarrow> s
      | Some (a, l) \<Rightarrow> measure_latency e (parm1 e ctx) l a s)\<lparr>insp_sklat_entry := m\<rparr>"
    using sklat_step_measures [of p e ctx s] h by blast
  show ?thesis
  proof (cases "sk_measured h (sk_table_of s)")
    case None
    with m inv show ?thesis by simp
  next
    case (Some al)
    obtain a l where al: "al = (a, l)" by (cases al)
    have "case sk_cell ((p, e, ctx), a, l) of None \<Rightarrow> True | Some K \<Rightarrow> K \<in> U"
      using ok Some by (simp add: h al del: sk_measured.simps sk_cell.simps)
    from measure_effect [OF inv e this] m Some show ?thesis
      by (simp add: h al del: sk_measured.simps sk_cell.simps sk_slow.simps sklat_step.simps)
  qed
qed

section \<open>Properties\<close>

text \<open>
  \<open>C25\<close>: over any run in which the maps have room, every cell of the histogram grows by exactly the
  number of measurements that fall into it, above one millisecond and up to a hundred or above a
  hundred, and the reports are exactly the measurements above a hundred, in order; a
  measurement is the time since the last arrival at a read, or since the last write at a send.
\<close>

theorem sklat_accounts:
  assumes "sk_inv U s" and "sk_keys s" and "sk_all_ok U hs (sk_table_of s)"
  shows "sk_count K (fold sklat_step hs s) = sk_count K s +
      of_nat (length (filter (\<lambda>x. sk_cell x = Some K) (sk_measurements hs (sk_table_of s)))) \<and>
    sk_reported (fold sklat_step hs s) = sk_reported s @
      map snd (filter sk_slow (sk_measurements hs (sk_table_of s)))"
  using assms
proof (induction hs arbitrary: s)
  case (Cons h hs)
  then have inv: "sk_inv U s" and keys: "sk_keys s" and ok: "sk_ok U h (sk_table_of s)" by simp_all
  from Cons.IH [of "sklat_step h s"] Cons.prems sklat_step_counts [OF inv ok, of K]
    sklat_step_table [OF keys ok] sklat_step_keys [OF keys, of h] show ?case
    by (simp add: ac_simps)
qed simp

text \<open>A socket that receives once and is read twice, half a second and a second later.\<close>

definition sk_demo :: "sklat_hook list" where
  "sk_demo = [(Sk_create, demo_henv 1 0, demo_regs 9), (Sk_receive, demo_henv 5 0, demo_regs 9),
     (Sk_read, demo_henv 500000005 0, demo_regs 9), (Sk_read, demo_henv 1000000005 0, demo_regs 9)]"

definition sk_demo_cell :: insp_sklat_metric_t where
  "sk_demo_cell = \<lparr>lm_netns = 4026531992, lm_pid = 100, lm_cpu = 0, lm_bucket = 1, lm_action = 1\<rparr>"

theorem sklat_accounts_witness:
  "sk_reported (fold sklat_step sk_demo
      \<lparr>insp_sklat_entry = [], insp_sklat_metric = [], insp_sklat_events = []\<rparr>) =
     [(1, 500000000), (1, 1000000000)] \<and>
   sk_count sk_demo_cell (fold sklat_step sk_demo
      \<lparr>insp_sklat_entry = [], insp_sklat_metric = [], insp_sklat_events = []\<rparr>) = 2"
  using sklat_accounts [of "{sk_demo_cell}"
      "\<lparr>insp_sklat_entry = [], insp_sklat_metric = [], insp_sklat_events = []\<rparr>" sk_demo sk_demo_cell]
  by (simp add: sk_demo_def sk_inv_def sk_keys_def sklat_metric_cap_def sk_table_of_def
      sklat_entry_cap_def sk_demo_cell_def LAT_THRESH_NS_def LAT_THRESH_NS_100MS_def BUCKET100MS_def
      BUCKET1MS_def ACTION_READ_def buffer_kernel_def demo_sock_def get_sock_netns_def
      sk_reported_def sk_count_def Let_def del: sklat_step.simps)

text \<open>
  A read does not consume the arrival it is measured from: without a new arrival, every
  further read of the socket is measured again from the same arrival, so an idle interval of the
  application is reported as latency of data it read long before.
\<close>

lemma sklat_read_repeats:
  assumes "sk_table_of s (parm1 e ctx) = Some (r, w)" and "0 < r"
    and "sk_keys s" and "sk_ok U (Sk_read, e, ctx) (sk_table_of s)"
    and "parm1 e' ctx' = parm1 e ctx"
  shows "sk_measured (Sk_read, e', ctx') (sk_table_of (sklat_step (Sk_read, e, ctx) s)) =
    Some (ACTION_READ, bpf_ktime_get_ns e' - r)"
  using sklat_step_table [OF assms(3,4)] assms(1,2,5) by simp

lemma sklat_read_repeats_witness:
  "sk_measured (Sk_read, demo_henv 86400000000005 0, demo_regs 9) (sk_table_of (sklat_step
      (Sk_read, demo_henv 6 0, demo_regs 9)
      \<lparr>insp_sklat_entry = [(9, \<lparr>createat = 1, lastreceive = 5, lastread = 0, lastwrite = 0,
        lastsend = 0\<rparr>)], insp_sklat_metric = [], insp_sklat_events = []\<rparr>)) =
    Some (1, 86400000000000)"
  using sklat_read_repeats [of "\<lparr>insp_sklat_entry = [(9, \<lparr>createat = 1, lastreceive = 5, lastread = 0,
        lastwrite = 0, lastsend = 0\<rparr>)], insp_sklat_metric = [], insp_sklat_events = []\<rparr>"
      "demo_henv 6 0" "demo_regs 9" 5 0 "{}" "demo_henv 86400000000005 0" "demo_regs 9"]
  by (simp add: sk_table_of_def sk_keys_def LAT_THRESH_NS_def ACTION_READ_def del: sklat_step.simps)

end
