(* ===== verification/Connect_Trace.thy ===== *)
theory Connect_Trace
  imports Instances Interval Prog_Run Tracepoint
begin

text \<open>
  The connect latency probe \<^verbatim>\<open>bpf/connect_trace.c\<close>: it stamps the entry of the system call per
  thread and, when the call succeeds, counts its duration per network namespace and puts an event
  into a ring buffer. The exit hook reads its stamp after it has deleted the map entry; what the
  freed entry then holds is the kernel's choice, an argument of the model.
\<close>

section \<open>Model\<close>

record insp_connect_event_t =
  ce_ts_ns :: u64
  ce_pid :: u32
  ce_netns :: u32
  ce_daddr :: u32
  ce_dport :: u16
  ce_latency_ns :: u64
  ce_comm :: bytes

record insp_connect_metric_t =
  connect_total :: u64
  lat_1ms :: u64
  lat_10ms :: u64
  lat_100ms :: u64

record connect_state =
  insp_connect_start :: "(u64, u64) bpf_map"
  insp_connect_metrics :: "(u32, insp_connect_metric_t) bpf_map"
  insp_connect_events :: "insp_connect_event_t list"

definition connect_start_cap :: nat where "connect_start_cap = 8192"
definition connect_metrics_cap :: nat where "connect_metrics_cap = 256"

text \<open>The current task as far as the probe follows its pointers; a null pointer is \<^term>\<open>None\<close>.\<close>

record nsproxy = net_ns :: "u32 option"
record task_struct = task_nsproxy :: "nsproxy option"

text \<open>
  An invocation: the helpers' answers, the current task, and what the freed entry holds if
  another CPU has reused it.
\<close>

record connect_env =
  cn_henv :: henv
  cn_task :: "task_struct option"
  cn_reused :: "u64 option"

definition task_netns :: "task_struct option \<Rightarrow> u32" where
  "task_netns task =
     (case task of None \<Rightarrow> 0
      | Some t \<Rightarrow> (case task_nsproxy t of None \<Rightarrow> 0
         | Some ns \<Rightarrow> (case net_ns ns of None \<Rightarrow> 0 | Some inum \<Rightarrow> inum)))"

definition zero_connect_metric :: insp_connect_metric_t where
  "zero_connect_metric = \<lparr>connect_total = 0, lat_1ms = 0, lat_10ms = 0, lat_100ms = 0\<rparr>"

definition add_latency :: "u64 \<Rightarrow> insp_connect_metric_t \<Rightarrow> insp_connect_metric_t" where
  "add_latency latency_ns mtr =
     (let mtr = mtr\<lparr>connect_total := connect_total mtr + 1\<rparr> in
      if latency_ns \<ge> 100000000 then mtr\<lparr>lat_100ms := lat_100ms mtr + 1\<rparr>
      else if latency_ns \<ge> 10000000 then mtr\<lparr>lat_10ms := lat_10ms mtr + 1\<rparr>
      else if latency_ns \<ge> 1000000 then mtr\<lparr>lat_1ms := lat_1ms mtr + 1\<rparr>
      else mtr)"

definition record_latency :: "henv \<Rightarrow> u32 \<Rightarrow> u64 \<Rightarrow> connect_state \<Rightarrow> connect_state" where
  "record_latency e netns latency_ns s =
     (let m = insp_connect_metrics s;
          m = (case bpf_map_lookup_elem m netns of
                 Some _ \<Rightarrow> m
               | None \<Rightarrow> hash_store connect_metrics_cap (he_ok e) BPF_ANY netns zero_connect_metric m)
      in case bpf_map_lookup_elem m netns of
           None \<Rightarrow> s\<lparr>insp_connect_metrics := m\<rparr>
         | Some mtr \<Rightarrow> s\<lparr>insp_connect_metrics := value_write netns (add_latency latency_ns mtr) m\<rparr>)"

definition trace_sys_enter_connect :: "connect_env \<Rightarrow> connect_state \<Rightarrow> connect_state" where
  "trace_sys_enter_connect ce s =
     (let e = cn_henv ce; ts = bpf_ktime_get_ns e in
      s\<lparr>insp_connect_start := hash_store connect_start_cap (he_ok e) BPF_ANY (he_pid_tgid e) ts
          (insp_connect_start s)\<rparr>)"

definition trace_sys_exit_connect :: "connect_env \<Rightarrow> bytes \<Rightarrow> connect_state \<Rightarrow> connect_state" where
  "trace_sys_exit_connect ce ctx s =
     (let e = cn_henv ce; pid_tgid = he_pid_tgid e;
          ret = tp_word trace_event_raw_sys_exit ''ret'' ctx :: u64 in
      case bpf_map_lookup_elem (insp_connect_start s) pid_tgid of
        None \<Rightarrow> s
      | Some start_ts \<Rightarrow>
          let s = s\<lparr>insp_connect_start := bpf_map_delete_elem pid_tgid (insp_connect_start s)\<rparr>;
              freed = (case cn_reused ce of None \<Rightarrow> start_ts | Some v \<Rightarrow> v)
          in if ret \<noteq> 0 then s
             else let latency_ns = he_clock e 0 - freed;
                netns = task_netns (cn_task ce);
                s = record_latency e netns latency_ns s
              in if \<not> he_out e then s
                 else s\<lparr>insp_connect_events := insp_connect_events s @
                   [\<lparr>ce_ts_ns = he_clock e 1, ce_pid = ucast (drop_bit 32 pid_tgid), ce_netns = netns,
                     ce_daddr = 0, ce_dport = 0, ce_latency_ns = latency_ns, ce_comm = he_comm e\<rparr>]\<rparr>)"

datatype connect_hook = Connect_enter connect_env | Connect_exit connect_env bytes

fun connect_step :: "connect_hook \<Rightarrow> connect_state \<Rightarrow> connect_state" where
  "connect_step (Connect_enter ce) s = trace_sys_enter_connect ce s"
| "connect_step (Connect_exit ce ctx) s = trace_sys_exit_connect ce ctx s"

section \<open>Events\<close>

fun connect_env_of :: "connect_hook \<Rightarrow> connect_env" where
  "connect_env_of (Connect_enter ce) = ce"
| "connect_env_of (Connect_exit ce ctx) = ce"

fun connect_kind :: "connect_hook \<Rightarrow> hook_kind" where
  "connect_kind (Connect_enter ce) = Opens"
| "connect_kind (Connect_exit ce ctx) = Closes"

definition connect_tid :: "connect_hook \<Rightarrow> u64" where
  "connect_tid h = he_pid_tgid (cn_henv (connect_env_of h))"
definition connect_clock :: "connect_hook \<Rightarrow> u64" where
  "connect_clock h = he_clock (cn_henv (connect_env_of h)) 0"

fun connect_succeeds :: "connect_hook \<Rightarrow> bool" where
  "connect_succeeds (Connect_enter ce) = False"
| "connect_succeeds (Connect_exit ce ctx) \<longleftrightarrow> tp_word trace_event_raw_sys_exit ''ret'' ctx = (0 :: u64)"

definition connect_emits :: "connect_hook \<Rightarrow> bool" where
  "connect_emits h \<longleftrightarrow> connect_succeeds h \<and> he_out (cn_henv (connect_env_of h))"

definition not_reused :: "connect_hook \<Rightarrow> bool" where
  "not_reused h \<longleftrightarrow> cn_reused (connect_env_of h) = None"

definition connect_admits :: "connect_hook \<Rightarrow> connect_state \<Rightarrow> bool" where
  "connect_admits h s \<longleftrightarrow> he_ok (cn_henv (connect_env_of h)) \<and>
     (map_of (insp_connect_start s) (connect_tid h) \<noteq> None \<or>
      length (insp_connect_start s) < connect_start_cap)"

definition connect_latencies :: "connect_state \<Rightarrow> u64 list" where
  "connect_latencies s = map ce_latency_ns (insp_connect_events s)"

definition any_latency :: "u64 \<Rightarrow> u64 \<Rightarrow> bool" where "any_latency t now = True"

lemma record_latency_frame [simp]:
  "insp_connect_start (record_latency e ns l s) = insp_connect_start s"
  "insp_connect_events (record_latency e ns l s) = insp_connect_events s"
  by (simp_all add: record_latency_def Let_def split: option.split)

lemmas connect_defs = trace_sys_enter_connect_def trace_sys_exit_connect_def connect_tid_def
  connect_clock_def connect_emits_def not_reused_def connect_admits_def connect_latencies_def
  elapsed_def any_latency_def

interpretation con: interval_probe connect_step connect_kind connect_tid connect_clock unmarked
  "elapsed any_latency connect_clock connect_emits" not_reused connect_admits
  "map_of \<circ> insp_connect_start" connect_latencies
proof (unfold_locales, goal_cases)
  case (1 h s)
  then show ?case by (cases h) (auto simp: connect_defs map_laws Let_def bpf_map_update_elem_def)
next
  case (5 h s)
  then show ?case by (cases h) (auto simp: connect_defs map_laws Let_def)
next
  case (6 h s v)
  then show ?case by (cases h) (auto simp: connect_defs map_laws Let_def)
qed (auto elim: connect_kind.elims)

text \<open>
  \<open>C23\<close>: as long as no freed entry is reused before it is read, the events are exactly the
  durations of the successful connects, in order of their completion; failed connects leave
  neither an event nor a stamp.
\<close>

theorem connect_refines:
  assumes "list_all not_reused hs" and "admitted connect_step connect_kind connect_admits hs s"
  shows "connect_latencies (fold connect_step hs s) = connect_latencies s @
      fst (interval_spec connect_kind connect_tid connect_clock unmarked
        (elapsed any_latency connect_clock connect_emits) hs (map_of (insp_connect_start s))) \<and>
    map_of (insp_connect_start (fold connect_step hs s)) =
      snd (interval_spec connect_kind connect_tid connect_clock unmarked
        (elapsed any_latency connect_clock connect_emits) hs (map_of (insp_connect_start s)))"
  using con.run_refines [OF assms] by simp

definition connect_demo :: "u64 \<Rightarrow> u64 option \<Rightarrow> connect_env" where
  "connect_demo t r = \<lparr>cn_henv = demo_henv t 0,
     cn_task = Some \<lparr>task_nsproxy = Some \<lparr>net_ns = Some 4026531992\<rparr>\<rparr>, cn_reused = r\<rparr>"

definition ret_ctx :: "u64 \<Rightarrow> bytes" where
  "ret_ctx r = replicate 16 0 @ le_bytes 8 r"

lemma ret_ctx_read [simp]: "tp_word trace_event_raw_sys_exit ''ret'' (ret_ctx r) = r"
  by (simp add: tp_word_def tp_reads load_in_bounds ret_ctx_def)

definition empty_connect :: connect_state where
  "empty_connect = \<lparr>insp_connect_start = [], insp_connect_metrics = [], insp_connect_events = []\<rparr>"

theorem connect_refines_witness:
  "connect_latencies (fold connect_step [Connect_enter (connect_demo 5 None),
      Connect_exit (connect_demo 3000005 None) (ret_ctx 0)] empty_connect) = [3000000]"
  using connect_refines [of "[Connect_enter (connect_demo 5 None),
      Connect_exit (connect_demo 3000005 None) (ret_ctx 0)]" empty_connect]
  by (simp add: connect_tid_def connect_clock_def connect_emits_def not_reused_def connect_admits_def
      connect_latencies_def elapsed_def any_latency_def empty_connect_def connect_demo_def
      connect_start_cap_def del: connect_step.simps)

section \<open>Counters\<close>

text \<open>What an invocation measures: the namespace and the duration of a successful connect.\<close>

fun connect_measured :: "connect_hook \<Rightarrow> connect_state \<Rightarrow> (u32 \<times> u64) option" where
  "connect_measured (Connect_enter ce) s = None"
| "connect_measured (Connect_exit ce ctx) s =
     (case map_of (insp_connect_start s) (he_pid_tgid (cn_henv ce)) of
        None \<Rightarrow> None
      | Some t \<Rightarrow> if connect_succeeds (Connect_exit ce ctx)
          then Some (task_netns (cn_task ce), he_clock (cn_henv ce) 0 -
            (case cn_reused ce of None \<Rightarrow> t | Some v \<Rightarrow> v)) else None)"

text \<open>The four counters and the durations each of them counts.\<close>

datatype connect_class = Class_total | Class_1ms | Class_10ms | Class_100ms

fun class_counter :: "connect_class \<Rightarrow> insp_connect_metric_t \<Rightarrow> u64" where
  "class_counter Class_total = connect_total"
| "class_counter Class_1ms = lat_1ms"
| "class_counter Class_10ms = lat_10ms"
| "class_counter Class_100ms = lat_100ms"

fun in_class :: "connect_class \<Rightarrow> u64 \<Rightarrow> bool" where
  "in_class Class_total l \<longleftrightarrow> True"
| "in_class Class_1ms l \<longleftrightarrow> 10 ^ 6 \<le> unat l \<and> unat l < 10 ^ 7"
| "in_class Class_10ms l \<longleftrightarrow> 10 ^ 7 \<le> unat l \<and> unat l < 10 ^ 8"
| "in_class Class_100ms l \<longleftrightarrow> 10 ^ 8 \<le> unat l"

lemma add_latency_counts:
  "class_counter cls (add_latency l mtr) = class_counter cls mtr + (if in_class cls l then 1 else 0)"
  by (cases cls) (simp_all add: add_latency_def Let_def word_le_nat_alt)

definition connect_count :: "connect_class \<Rightarrow> u32 \<Rightarrow> connect_state \<Rightarrow> u64" where
  "connect_count cls ns s =
     (case map_of (insp_connect_metrics s) ns of None \<Rightarrow> 0 | Some m \<Rightarrow> class_counter cls m)"

definition connect_inv :: "u32 set \<Rightarrow> connect_state \<Rightarrow> bool" where
  "connect_inv U s \<longleftrightarrow> finite U \<and> card U \<le> connect_metrics_cap \<and>
     distinct (map fst (insp_connect_metrics s)) \<and> fst ` set (insp_connect_metrics s) \<subseteq> U"

text \<open>The kernel serves the update, and the task's namespace is one of \<open>U\<close>.\<close>

definition connect_ok :: "u32 set \<Rightarrow> connect_hook \<Rightarrow> bool" where
  "connect_ok U h \<longleftrightarrow> he_ok (cn_henv (connect_env_of h)) \<and> task_netns (cn_task (connect_env_of h)) \<in> U"

definition connect_prog :: "connect_hook \<Rightarrow> connect_state \<Rightarrow> ((u32 \<times> u64) option \<times> connect_state) option" where
  "connect_prog h s = Some (connect_measured h s, connect_step h s)"

lemma record_latency_counts:
  assumes inv: "connect_inv U s" and ns: "ns \<in> U" and ok: "he_ok e"
  shows "connect_inv U (record_latency e ns l s)"
    and "connect_count cls ns' (record_latency e ns l s) =
      connect_count cls ns' s + (if ns' = ns \<and> in_class cls l then 1 else 0)"
proof -
  let ?m = "insp_connect_metrics s"
  define v where "v = add_latency l (case map_of ?m ns of None \<Rightarrow> zero_connect_metric | Some m \<Rightarrow> m)"
  have z: "class_counter cls zero_connect_metric = 0" by (cases cls) (simp_all add: zero_connect_metric_def)
  have st: "\<exists>m. record_latency e ns l s = s\<lparr>insp_connect_metrics := AList.update ns v m\<rparr> \<and>
      map_of (AList.update ns v m) = (map_of ?m)(ns \<mapsto> v) \<and> distinct (map fst m) \<and> fst ` set m \<subseteq> U"
  proof (cases "map_of ?m ns")
    case None
    then have "length ?m < connect_metrics_cap"
      using distinct_keys_room [of ?m U ns] inv ns by (simp add: connect_inv_def)
    with None ok inv ns show ?thesis
      by (intro exI [of _ "AList.update ns zero_connect_metric ?m"])
        (simp add: record_latency_def hash_store_def bpf_map_update_elem_def v_def connect_inv_def
          bpf_map_lookup_elem_def value_write_def update_conv' distinct_update dom_update)
  next
    case (Some m)
    with inv show ?thesis
      by (intro exI [of _ ?m]) (simp add: record_latency_def v_def connect_inv_def
          bpf_map_lookup_elem_def value_write_def update_conv')
  qed
  then obtain m where "record_latency e ns l s = s\<lparr>insp_connect_metrics := AList.update ns v m\<rparr>"
    "distinct (map fst m)" "fst ` set m \<subseteq> U" by blast
  then show "connect_inv U (record_latency e ns l s)"
    using inv ns by (simp add: connect_inv_def distinct_update dom_update)
  from st show "connect_count cls ns' (record_latency e ns l s) =
      connect_count cls ns' s + (if ns' = ns \<and> in_class cls l then 1 else 0)"
    by (cases "ns' = ns"; cases "map_of ?m ns")
      (auto simp: connect_count_def v_def add_latency_counts z)
qed

lemma connect_step_counts:
  assumes inv: "connect_inv U s" and ok: "connect_ok U h"
  shows "connect_inv U (connect_step h s) \<and> connect_count cls ns (connect_step h s) =
    connect_count cls ns s + (case connect_measured h s of None \<Rightarrow> 0
      | Some (ns', l) \<Rightarrow> if ns = ns' \<and> in_class cls l then 1 else 0)"
proof (cases h)
  case (Connect_enter ce)
  with inv show ?thesis by (simp add: trace_sys_enter_connect_def connect_inv_def connect_count_def Let_def)
next
  case (Connect_exit ce ctx)
  let ?e = "cn_henv ce" and ?ns = "task_netns (cn_task ce)"
  have sub: "connect_inv U (s\<lparr>insp_connect_start := m\<rparr>)"
    "connect_count cls ns (s\<lparr>insp_connect_start := m\<rparr>) = connect_count cls ns s" for m
    using inv by (simp_all add: connect_inv_def connect_count_def)
  have ev: "connect_inv U (t\<lparr>insp_connect_events := x\<rparr>) = connect_inv U t"
    "connect_count cls ns (t\<lparr>insp_connect_events := x\<rparr>) = connect_count cls ns t" for t x
    by (simp_all add: connect_inv_def connect_count_def)
  from ok Connect_exit have ns: "?ns \<in> U" and e: "he_ok ?e" by (simp_all add: connect_ok_def)
  note rec = record_latency_counts [OF sub(1) ns e]
  show ?thesis
    using inv by (auto simp: Connect_exit trace_sys_exit_connect_def Let_def bpf_map_lookup_elem_def
        ev rec sub split: option.split)
qed

interpretation counts: tallied connect_prog "connect_inv U" "connect_ok U" "connect_count cls ns"
  "\<lambda>h v. case v of None \<Rightarrow> 0 | Some (ns', l) \<Rightarrow> if ns = ns' \<and> in_class cls l then 1 else 0"
  for U cls ns
  by unfold_locales (use connect_step_counts in \<open>auto simp: connect_prog_def\<close>)

text \<open>
  \<open>C24\<close>: over any run in which the namespaces fit the map, the total of a namespace grows by the
  number of its successful connects, and the three latency counters by those that took
  \<open>[1, 10)\<close>, \<open>[10, 100)\<close> and at least 100 milliseconds. The counters are thus exclusive classes,
  not cumulative ones.
\<close>

theorem connect_counters_exact:
  assumes "connect_inv U s" and "list_all (connect_ok U) hs"
  shows "\<exists>ms. prog_run connect_prog hs s = Some (ms, fold connect_step hs s) \<and>
    connect_count cls ns (fold connect_step hs s) = connect_count cls ns s +
      of_nat (length (filter (\<lambda>m. \<exists>l. m = Some (ns, l) \<and> in_class cls l) ms))"
proof -
  obtain ms s' where run: "prog_run connect_prog hs s = Some (ms, s')" "length ms = length hs"
    using counts.run_returns [OF assms] by auto
  have s': "s' = fold connect_step hs s"
    using run(1) by (induction hs arbitrary: s ms) (auto simp: connect_prog_def split: Option.bind_splits)
  have "(\<Sum>(h, v)\<leftarrow>zip hs ms. case v of None \<Rightarrow> 0
        | Some (ns', l) \<Rightarrow> if ns = ns' \<and> in_class cls l then 1 else (0 :: u64)) =
      of_nat (length (filter (\<lambda>m. \<exists>l. m = Some (ns, l) \<and> in_class cls l) ms))"
    using run(2) by (induction hs ms rule: list_induct2') (auto split: option.splits)
  with counts.run_tally [OF assms run(1), of cls ns] run(1) s' show ?thesis by simp
qed

theorem connect_counters_exact_witness:
  "\<exists>ms s'. prog_run connect_prog [Connect_enter (connect_demo 5 None),
      Connect_exit (connect_demo 200000005 None) (ret_ctx 0)] empty_connect = Some (ms, s') \<and>
    connect_count Class_100ms 4026531992 s' = 1 \<and> connect_count Class_10ms 4026531992 s' = 0"
  using connect_counters_exact [of "{4026531992}" empty_connect "[Connect_enter (connect_demo 5 None),
      Connect_exit (connect_demo 200000005 None) (ret_ctx 0)]" Class_100ms 4026531992]
    connect_counters_exact [of "{4026531992}" empty_connect "[Connect_enter (connect_demo 5 None),
      Connect_exit (connect_demo 200000005 None) (ret_ctx 0)]" Class_10ms 4026531992]
  by (auto simp: connect_inv_def connect_ok_def empty_connect_def connect_demo_def task_netns_def
      connect_metrics_cap_def connect_prog_def connect_count_def trace_sys_enter_connect_def
      hash_store_def bpf_map_update_elem_def connect_start_cap_def)

text \<open>
  If the freed entry is reused by a connect that starts on another CPU before it is read, the
  event carries the time since that other connect instead.
\<close>

lemma connect_reads_freed_entry:
  assumes "map_of (insp_connect_start s) (he_pid_tgid (cn_henv ce)) = Some t"
    and "connect_succeeds (Connect_exit ce ctx)" and "he_out (cn_henv ce)" and "cn_reused ce = Some t'"
  shows "connect_latencies (trace_sys_exit_connect ce ctx s) =
    connect_latencies s @ [he_clock (cn_henv ce) 0 - t']"
  using assms by (simp add: connect_defs bpf_map_lookup_elem_def Let_def)

lemma connect_reads_freed_entry_witness:
  "connect_latencies (trace_sys_exit_connect (connect_demo 500000005 (Some 500000000)) (ret_ctx 0)
      (empty_connect\<lparr>insp_connect_start := [(0x6400000065, 5)]\<rparr>)) = [5]"
  using connect_reads_freed_entry [of "empty_connect\<lparr>insp_connect_start := [(0x6400000065, 5)]\<rparr>"
      "connect_demo 500000005 (Some 500000000)" 5 "ret_ctx 0" 500000000]
  by (simp add: connect_demo_def empty_connect_def connect_latencies_def)

end
