(* ===== verification/Core_Read.thy ===== *)
theory Core_Read
  imports Inspector_Facts
begin

text \<open>
  The relocatable read macros of \<^verbatim>\<open>bpf/headers/bpf_core_read.h\<close>. The preprocessor's variadic machinery is list processing: an
  argument list is a list, a macro family indexed by the number of arguments a function on lists
  of that length. An accessor stands for the offset of the member it names.
\<close>

section \<open>Variadic helpers\<close>

text \<open>\<open>___nth\<close> picks the twelfth of its arguments, which gives \<open>___narg\<close> and \<open>___empty\<close>.\<close>

definition nth12 :: "'a list \<Rightarrow> 'a option" where
  "nth12 xs = (if 12 \<le> length xs then Some (xs ! 11) else None)"

definition narg :: "'a list \<Rightarrow> nat option" where
  "narg args = nth12 (0 # map (\<lambda>_. 0) args @ [10, 9, 8, 7, 6, 5, 4, 3, 2, 1, 0])"

definition empty_args :: "'a list \<Rightarrow> bool option" where
  "empty_args args = nth12 (False # map (\<lambda>_. False) args @ replicate 10 False @ [True])"

text \<open>The families \<open>___last1\<close> to \<open>___last10\<close> and \<open>___nolast2\<close> to \<open>___nolast10\<close>.\<close>

definition last_arg :: "'a list \<Rightarrow> 'a option" where
  "last_arg args = (case narg args of
     Some n \<Rightarrow> if 1 \<le> n \<and> n \<le> 10 then Some (last args) else None | None \<Rightarrow> None)"

definition nolast :: "'a list \<Rightarrow> 'a list option" where
  "nolast args = (case narg args of
     Some n \<Rightarrow> if 2 \<le> n \<and> n \<le> 10 then Some (butlast args) else None | None \<Rightarrow> None)"

section \<open>Pointer chasing\<close>

text \<open>
  A read helper gets an address and a size and gives its status and what it leaves in the
  destination. The macros take the helper for the final read, \<open>fn\<close>, and the one for the pointers
  on the way, \<open>fn_ptr\<close>, as arguments.
\<close>

type_synonym reader = "u64 \<Rightarrow> nat \<Rightarrow> int \<times> bytes"

definition read_ptr :: "reader \<Rightarrow> u64 \<Rightarrow> u64 \<Rightarrow> u64" where
  "read_ptr fn_ptr t a = le_word (snd (fn_ptr (t + a) 8))"

text \<open>
  \<open>___rd_p1\<close> to \<open>___rd_p9\<close>: the expansion for \<open>n\<close> accessors is the expansion for the accessors
  without the last, then a read of the last from the pointer that left. The first argument of
  the list is the source pointer, as in the macros.
\<close>

fun rd_p :: "reader \<Rightarrow> nat \<Rightarrow> u64 list \<Rightarrow> u64 option" where
  "rd_p fn_ptr 0 args = None"
| "rd_p fn_ptr (Suc n) args =
     (if n = 0 then (case args of [src, a] \<Rightarrow> Some (read_ptr fn_ptr src a) | _ \<Rightarrow> None)
      else if 9 \<le> n then None
      else do {
        front \<leftarrow> nolast args;
        t \<leftarrow> rd_p fn_ptr n front;
        a \<leftarrow> last_arg args;
        Some (read_ptr fn_ptr t a)
      })"

definition read_ptrs :: "reader \<Rightarrow> u64 \<Rightarrow> u64 list \<Rightarrow> u64 option" where
  "read_ptrs fn_ptr src accs = do { n \<leftarrow> narg accs; rd_p fn_ptr n (src # accs) }"

text \<open>
  \<open>___core_read\<close> chooses \<open>___core_read0\<close> or \<open>___core_readN\<close> by whether more than one accessor is
  given; the last read has the size of the destination. \<^term>\<open>None\<close> is an expansion that does not
  compile.
\<close>

definition core_read :: "reader \<Rightarrow> reader \<Rightarrow> nat \<Rightarrow> u64 \<Rightarrow> u64 list \<Rightarrow> (int \<times> bytes) option" where
  "core_read fn fn_ptr sz src accs =
     (case accs of
        [] \<Rightarrow> None
      | a # rest \<Rightarrow> do {
          e \<leftarrow> empty_args rest;
          if e then Some (fn (src + a) sz)
          else do {
            front \<leftarrow> nolast accs;
            t \<leftarrow> read_ptrs fn_ptr src front;
            l \<leftarrow> last_arg accs;
            Some (fn (t + l) sz)
          }
        })"

text \<open>
  The kernel's read helpers. With \<open>bpf_core_read\<close> and its kin the accessor's offset is relocated for
  the running kernel, with the helpers themselves it is the one compiled in.
\<close>

record read_helpers =
  bpf_probe_read :: reader
  bpf_probe_read_kernel :: reader
  bpf_probe_read_user :: reader
  bpf_probe_read_str :: reader
  bpf_probe_read_kernel_str :: reader
  bpf_probe_read_user_str :: reader

type_synonym read_macro = "nat \<Rightarrow> u64 \<Rightarrow> u64 list \<Rightarrow> (int \<times> bytes) option"

definition BPF_CORE_READ_INTO :: "read_helpers \<Rightarrow> read_macro" where
  "BPF_CORE_READ_INTO h = core_read (bpf_probe_read_kernel h) (bpf_probe_read_kernel h)"

definition BPF_CORE_READ_USER_INTO :: "read_helpers \<Rightarrow> read_macro" where
  "BPF_CORE_READ_USER_INTO h = core_read (bpf_probe_read_user h) (bpf_probe_read_user h)"

definition BPF_PROBE_READ_INTO :: "read_helpers \<Rightarrow> read_macro" where
  "BPF_PROBE_READ_INTO h = core_read (bpf_probe_read h) (bpf_probe_read h)"

definition BPF_PROBE_READ_USER_INTO :: "read_helpers \<Rightarrow> read_macro" where
  "BPF_PROBE_READ_USER_INTO h = core_read (bpf_probe_read_user h) (bpf_probe_read_user h)"

definition BPF_CORE_READ_STR_INTO :: "read_helpers \<Rightarrow> read_macro" where
  "BPF_CORE_READ_STR_INTO h = core_read (bpf_probe_read_kernel_str h) (bpf_probe_read_kernel h)"

definition BPF_CORE_READ_USER_STR_INTO :: "read_helpers \<Rightarrow> read_macro" where
  "BPF_CORE_READ_USER_STR_INTO h = core_read (bpf_probe_read_user_str h) (bpf_probe_read_user h)"

definition BPF_PROBE_READ_STR_INTO :: "read_helpers \<Rightarrow> read_macro" where
  "BPF_PROBE_READ_STR_INTO h = core_read (bpf_probe_read_str h) (bpf_probe_read h)"

definition BPF_PROBE_READ_USER_STR_INTO :: "read_helpers \<Rightarrow> read_macro" where
  "BPF_PROBE_READ_USER_STR_INTO h = core_read (bpf_probe_read_user_str h) (bpf_probe_read_user h)"

text \<open>
  The variants that are expressions declare a variable of the type of the expression, \<open>___arrow\<close>
  of source and accessors with at most ten arguments, read into it and give its value.
\<close>

definition read_value :: "read_macro \<Rightarrow> nat \<Rightarrow> u64 \<Rightarrow> u64 list \<Rightarrow> bytes option" where
  "read_value into sz src accs = do {
     n \<leftarrow> narg (src # accs);
     r \<leftarrow> (if 1 \<le> n \<and> n \<le> 10 then into sz src accs else None);
     Some (snd r)
   }"

definition BPF_CORE_READ :: "read_helpers \<Rightarrow> nat \<Rightarrow> u64 \<Rightarrow> u64 list \<Rightarrow> bytes option" where
  "BPF_CORE_READ h = read_value (BPF_CORE_READ_INTO h)"

definition BPF_CORE_READ_USER :: "read_helpers \<Rightarrow> nat \<Rightarrow> u64 \<Rightarrow> u64 list \<Rightarrow> bytes option" where
  "BPF_CORE_READ_USER h = read_value (BPF_CORE_READ_USER_INTO h)"

definition BPF_PROBE_READ :: "read_helpers \<Rightarrow> nat \<Rightarrow> u64 \<Rightarrow> u64 list \<Rightarrow> bytes option" where
  "BPF_PROBE_READ h = read_value (BPF_PROBE_READ_INTO h)"

definition BPF_PROBE_READ_USER :: "read_helpers \<Rightarrow> nat \<Rightarrow> u64 \<Rightarrow> u64 list \<Rightarrow> bytes option" where
  "BPF_PROBE_READ_USER h = read_value (BPF_PROBE_READ_USER_INTO h)"

lemmas read_into_defs = BPF_CORE_READ_INTO_def BPF_CORE_READ_USER_INTO_def BPF_PROBE_READ_INTO_def
  BPF_PROBE_READ_USER_INTO_def BPF_CORE_READ_STR_INTO_def BPF_CORE_READ_USER_STR_INTO_def
  BPF_PROBE_READ_STR_INTO_def BPF_PROBE_READ_USER_STR_INTO_def

lemmas read_value_defs = BPF_CORE_READ_def BPF_CORE_READ_USER_def BPF_PROBE_READ_def
  BPF_PROBE_READ_USER_def

text \<open>What the expression \<open>s->a->b->c\<close> means: follow the pointers from left to right.\<close>

definition arrow :: "reader \<Rightarrow> reader \<Rightarrow> nat \<Rightarrow> u64 \<Rightarrow> u64 list \<Rightarrow> int \<times> bytes" where
  "arrow fn fn_ptr sz src accs = fn (fold (\<lambda>a t. read_ptr fn_ptr t a) (butlast accs) src + last accs) sz"

lemma narg_length: "length args \<le> 10 \<Longrightarrow> narg args = Some (length args)"
  by (auto simp: narg_def nth12_def nth_append nth_Cons' le_Suc_eq numeral_nat)

lemma empty_args_iff: "length args \<le> 10 \<Longrightarrow> empty_args args = Some (args = [])"
  by (cases args) (auto simp: empty_args_def nth12_def nth_append nth_Cons' nth_replicate)

lemma nolast_butlast: "2 \<le> length args \<Longrightarrow> length args \<le> 10 \<Longrightarrow> nolast args = Some (butlast args)"
  by (simp add: nolast_def narg_length)

lemma last_arg_last: "1 \<le> length args \<Longrightarrow> length args \<le> 10 \<Longrightarrow> last_arg args = Some (last args)"
  by (simp add: last_arg_def narg_length)

lemma narg_many: "10 < length args \<Longrightarrow> narg args = Some 0"
  by (simp add: narg_def nth12_def nth_append nth_Cons')

lemma empty_args_many: "args \<noteq> [] \<Longrightarrow> empty_args args = Some False"
  by (cases "length args \<le> 10")
    (simp_all add: empty_args_iff empty_args_def nth12_def nth_append nth_Cons')

lemma rd_p_chase:
  "accs \<noteq> [] \<Longrightarrow> length accs \<le> 9 \<Longrightarrow>
   rd_p fn_ptr (length accs) (src # accs) = Some (fold (\<lambda>a t. read_ptr fn_ptr t a) accs src)"
proof (induction accs rule: rev_induct)
  case (snoc a accs)
  show ?case
  proof (cases "accs = []")
    case False
    with snoc show ?thesis
      by (simp add: nolast_butlast last_arg_last)
  qed simp
qed simp

lemma core_read_arrow:
  "core_read fn fn_ptr sz src accs =
     (if 1 \<le> length accs \<and> length accs \<le> 10 then Some (arrow fn fn_ptr sz src accs) else None)"
proof -
  consider "accs = []" | a where "accs = [a]" | "2 \<le> length accs" "length accs \<le> 10" | "10 < length accs"
    by (cases "length accs \<le> 10"; cases accs; cases "tl accs") auto
  then show ?thesis
  proof cases
    case 3
    then obtain a rest where accs: "accs = a # rest" "rest \<noteq> []"
      by (cases accs; cases "tl accs") auto
    have "read_ptrs fn_ptr src (butlast accs) = Some (fold (\<lambda>a t. read_ptr fn_ptr t a) (butlast accs) src)"
      using rd_p_chase [of "butlast accs" fn_ptr src] 3 accs
      by (simp add: read_ptrs_def narg_length del: rd_p.simps)
    with 3 accs show ?thesis
      by (simp add: core_read_def empty_args_many nolast_butlast last_arg_last arrow_def)
  next
    case 4
    then obtain a rest where accs: "accs = a # rest" "rest \<noteq> []"
      by (cases accs; cases "tl accs") auto
    with 4 show ?thesis
      by (simp add: core_read_def empty_args_many nolast_def narg_many)
  qed (simp_all add: core_read_def empty_args_iff arrow_def)
qed

lemma read_value_arrow:
  assumes "\<And>sz src accs. into sz src accs = core_read fn fn_ptr sz src accs"
  shows "read_value into sz src accs =
     (if 1 \<le> length accs \<and> length accs \<le> 9 then Some (snd (arrow fn fn_ptr sz src accs)) else None)"
  by (cases "length accs \<le> 9") (simp_all add: read_value_def assms core_read_arrow narg_length narg_many)

text \<open>
  \<open>C27\<close>: for one to nine accessors the read macros expand, and read what following the pointers
  from left to right reads, each pointer and the final member with the helper the variant is
  for; with none or more they do not compile. The variants that read into a given destination
  take ten accessors, and the string variants differ only in the helper of the final read.
\<close>

theorem core_read_follows_pointers:
  "BPF_CORE_READ h sz src accs =
     (if 1 \<le> length accs \<and> length accs \<le> 9
      then Some (snd (arrow (bpf_probe_read_kernel h) (bpf_probe_read_kernel h) sz src accs)) else None) \<and>
   BPF_CORE_READ_USER h sz src accs = BPF_PROBE_READ_USER h sz src accs \<and>
   BPF_PROBE_READ_USER h sz src accs =
     (if 1 \<le> length accs \<and> length accs \<le> 9
      then Some (snd (arrow (bpf_probe_read_user h) (bpf_probe_read_user h) sz src accs)) else None) \<and>
   BPF_PROBE_READ h sz src accs =
     (if 1 \<le> length accs \<and> length accs \<le> 9
      then Some (snd (arrow (bpf_probe_read h) (bpf_probe_read h) sz src accs)) else None) \<and>
   BPF_CORE_READ_STR_INTO h sz src accs =
     (if 1 \<le> length accs \<and> length accs \<le> 10
      then Some (arrow (bpf_probe_read_kernel_str h) (bpf_probe_read_kernel h) sz src accs) else None) \<and>
   BPF_PROBE_READ_STR_INTO h sz src accs =
     (if 1 \<le> length accs \<and> length accs \<le> 10
      then Some (arrow (bpf_probe_read_str h) (bpf_probe_read h) sz src accs) else None) \<and>
   BPF_CORE_READ_USER_STR_INTO h sz src accs = BPF_PROBE_READ_USER_STR_INTO h sz src accs"
  by (simp add: read_value_defs read_into_defs read_value_arrow core_read_arrow)

section \<open>Bit-fields\<close>

text \<open>The relocations of a bit-field, resolved by the loader for the running kernel.\<close>

record core_relo =
  re_byte_offset :: nat
  re_byte_size :: nat
  re_lshift :: nat
  re_rshift :: nat
  re_signed :: bool

definition bitfield_extract :: "core_relo \<Rightarrow> u64 \<Rightarrow> u64" where
  "bitfield_extract r val =
     (let val = push_bit (re_lshift r) val
      in if re_signed r then signed_drop_bit (re_rshift r) val else drop_bit (re_rshift r) val)"

definition BPF_CORE_READ_BITFIELD_PROBED :: "kernel \<Rightarrow> u64 \<Rightarrow> core_relo \<Rightarrow> u64" where
  "BPF_CORE_READ_BITFIELD_PROBED k s r =
     bitfield_extract r (le_word (snd (kread k (s + of_nat (re_byte_offset r)) (re_byte_size r))))"

text \<open>The direct variant loads through a typed pointer; other sizes leave the value undefined.\<close>

definition BPF_CORE_READ_BITFIELD :: "bytes \<Rightarrow> core_relo \<Rightarrow> u64 option" where
  "BPF_CORE_READ_BITFIELD obj r =
     (let p = re_byte_offset r in
      case re_byte_size r of
        n \<Rightarrow> do {
          val \<leftarrow> (if n = 1 then map_option ucast (load8 obj p)
                 else if n = 2 then map_option ucast (load16 obj p)
                 else if n = 4 then map_option ucast (load32 obj p)
                 else if n = 8 then load64 obj p else None);
          Some (bitfield_extract r val)
        })"

text \<open>
  What the loader is documented to put into the relocations of the field of \<open>w\<close> bits at bit \<open>pos\<close>
  of its structure, read as a storage unit of \<open>n\<close> bytes on a little-endian machine.
\<close>

definition relo_of :: "nat \<Rightarrow> nat \<Rightarrow> nat \<Rightarrow> bool \<Rightarrow> core_relo" where
  "relo_of n w pos sg = \<lparr>re_byte_offset = pos div (8 * n) * n, re_byte_size = n,
     re_lshift = 64 - (pos mod (8 * n) + w), re_rshift = 64 - w, re_signed = sg\<rparr>"

lemma extract_unsigned:
  fixes val :: u64
  assumes "0 < w" "off + w \<le> 64"
  shows "drop_bit (64 - w) (push_bit (64 - (off + w)) val) = take_bit w (drop_bit off val)"
  using assms by (intro bit_word_eqI) (auto simp: bit_simps add.commute)

lemma extract_signed:
  fixes val :: u64
  assumes "0 < w" "off + w \<le> 64"
  shows "signed_drop_bit (64 - w) (push_bit (64 - (off + w)) val) =
    signed_take_bit (w - 1) (take_bit w (drop_bit off val))"
  using assms by (intro bit_word_eqI) (auto simp: bit_simps add.commute)

lemma ucast_le_word:
  assumes "8 * length bs \<le> LENGTH('a :: len)" "LENGTH('a) \<le> LENGTH('b :: len)"
  shows "ucast (le_word bs :: 'a word) = (le_word bs :: 'b word)"
  using assms by (simp add: word_unat_eq_iff unat_ucast_up unat_le_word)

lemma unit_bits:
  assumes "0 < w" "off + w \<le> 8 * n" "8 * n \<le> 64" "u + n \<le> length obj"
  shows "take_bit w (drop_bit off (le_word (take n (drop u obj)) :: u64)) = of_nat (bits_at obj (8 * u + off) w)"
proof -
  let ?L = "le_nat obj"
  have N: "unat (le_word (take n (drop u obj)) :: u64) = take_bit (8 * n) (drop_bit (8 * u) ?L)"
    using assms(3,4)
    by (simp add: unat_le_word le_nat_take le_nat_drop [symmetric] take_bit_eq_mod drop_bit_eq_div power_mult)
  have "take_bit w (drop_bit off (take_bit (8 * n) (drop_bit (8 * u) ?L))) =
      take_bit w (drop_bit (8 * u + off) ?L)"
    using assms(2) by (intro bit_eqI) (auto simp: bit_simps ac_simps)
  also have "\<dots> = bits_at obj (8 * u + off) w"
    by (simp add: bits_at_def take_bit_eq_mod drop_bit_eq_div)
  finally have *: "unat (take_bit w (drop_bit off (le_word (take n (drop u obj)) :: u64))) =
      bits_at obj (8 * u + off) w"
    using N assms(3) by (simp add: unsigned_take_bit_eq unsigned_drop_bit_eq min_absorb2)
  show ?thesis using arg_cong [OF *, of "of_nat :: nat \<Rightarrow> u64"] by simp
qed

lemma direct_load:
  assumes "n \<in> {1, 2, 4, 8}" "re_byte_size r = n" "re_byte_offset r + n \<le> length obj"
  shows "BPF_CORE_READ_BITFIELD obj r =
    Some (bitfield_extract r (le_word (take n (drop (re_byte_offset r) obj))))"
proof -
  have "take 1 (drop p obj) = [obj ! p]" if "p < length obj" for p
    using that by (simp add: take_Suc_conv_app_nth hd_drop_conv_nth take_Suc)
  then show ?thesis
    using assms
    by (auto simp: BPF_CORE_READ_BITFIELD_def load8_def load16_def load32_def load64_def
        ucast_le_word le_word_def [of "[_]"])
qed

text \<open>
  \<open>C28\<close>: with the relocations of a bit-field that lies inside its storage unit, both bit-field
  macros return the field's bits of the object's memory image, zero-extended, or sign-extended if
  the field is signed; in particular the probing and the direct variant agree.
\<close>

theorem bitfield_reads_exact:
  assumes "n \<in> {1, 2, 4, 8}" and "0 < w" and "pos mod (8 * n) + w \<le> 8 * n"
    and "pos div (8 * n) * n + n \<le> length obj" and "maps_buffer k s obj"
  shows "BPF_CORE_READ_BITFIELD_PROBED k s (relo_of n w pos sg) =
      (if sg then signed_take_bit (w - 1) (of_nat (bits_at obj pos w)) else of_nat (bits_at obj pos w)) \<and>
    BPF_CORE_READ_BITFIELD obj (relo_of n w pos sg) =
      Some (BPF_CORE_READ_BITFIELD_PROBED k s (relo_of n w pos sg))"
proof -
  let ?u = "pos div (8 * n) * n" and ?off = "pos mod (8 * n)"
  have pos: "8 * ?u + ?off = pos" using mult_div_mod_eq [of "8 * n" pos] by (simp add: ac_simps)
  have n: "8 * n \<le> 64" using assms(1) by auto
  have ex: "bitfield_extract (relo_of n w pos sg) (le_word (take n (drop ?u obj))) =
      (if sg then signed_take_bit (w - 1) (of_nat (bits_at obj pos w)) else of_nat (bits_at obj pos w))"
    using extract_unsigned [of w ?off] extract_signed [of w ?off] unit_bits [OF assms(2,3) n assms(4)] pos
      assms(2,3) n
    by (simp add: bitfield_extract_def relo_of_def Let_def)
  have "BPF_CORE_READ_BITFIELD obj (relo_of n w pos sg) =
      Some (bitfield_extract (relo_of n w pos sg) (le_word (take n (drop ?u obj))))"
    using direct_load [of n "relo_of n w pos sg" obj] assms(1,4) by (simp add: relo_of_def)
  moreover have "BPF_CORE_READ_BITFIELD_PROBED k s (relo_of n w pos sg) =
      bitfield_extract (relo_of n w pos sg) (le_word (take n (drop ?u obj)))"
    using kread_buffer [OF assms(5,4)] by (simp add: BPF_CORE_READ_BITFIELD_PROBED_def relo_of_def)
  ultimately show ?thesis using ex by simp
qed

text \<open>The protocol of a socket under the older layout, where it is an 8-bit field.\<close>

theorem bitfield_reads_exact_witness:
  "BPF_CORE_READ_BITFIELD (sk_raw demo_sock) (relo_of 4 8 (the (bit_offset sock_amd64 ''sk_protocol'')) False)
     = Some 6"
proof -
  have raw: "length (sk_raw demo_sock) = 752" "sk_raw demo_sock ! 529 = 6"
    by (simp_all add: demo_sock_def nth_append)
  have "maps_buffer (buffer_kernel 0 (sk_raw demo_sock) []) 0 (sk_raw demo_sock)"
    by (rule buffer_kernel_maps) (simp add: raw)
  from bitfield_reads_exact [of 4 8 "8 * 529" "sk_raw demo_sock", OF _ _ _ _ this, of False] raw
    bits_at_byte [of 529 "sk_raw demo_sock"]
  show ?thesis by (simp add: sock_layout)
qed

end
