(* ===== verification/Kernel_Abi.thy ===== *)
theory Kernel_Abi
  imports Tracepoint Probe_Env
begin

text \<open>
  The kernel's side of the interface as the headers of \<^verbatim>\<open>bpf/headers\<close> state it, more than once:
  the numbers of the helper functions, in \<^verbatim>\<open>bpf_helper_defs.h\<close> and in the two versions of
  \<^verbatim>\<open>vmlinux.h\<close>; the register frame, the XDP context and the packet headers, in \<^verbatim>\<open>common.h\<close> and
  in \<^verbatim>\<open>vmlinux.h\<close>; and \<open>struct sk_buff\<close> of the two kernels. The statements agree where the programs
  rely on it.
\<close>

section \<open>Helper numbers\<close>






section \<open>The packet buffer\<close>

definition rb_node :: ctype where
  "rb_node = Struct [Member ''__rb_parent_color'' (Scalar 8), Member ''rb_right'' ptr, Member ''rb_left'' ptr]"

text \<open>The members of \<open>struct sk_buff\<close> up to the first that only one of the two kernels has.\<close>

definition sk_buff_head_members :: "string \<Rightarrow> string \<Rightarrow> cmember list" where
  "sk_buff_head_members redirected from_ingress =
    [Member [] (Union [Member [] (Struct [Member ''next'' ptr, Member ''prev'' ptr,
         Member [] (Union [Member ''dev'' ptr, Member ''dev_scratch'' (Scalar 8)])]),
       Member ''rbnode'' rb_node, Member ''list'' list_head]),
     Member [] (Union [Member ''sk'' ptr, Member ''ip_defrag_offset'' (Scalar 4)]),
     Member [] (Union [Member ''tstamp'' (Scalar 8), Member ''skb_mstamp_ns'' (Scalar 8)]),
     Member ''cb'' (Arr 48 (Scalar 1)),
     Member [] (Union [Member [] (Struct [Member ''_skb_refdst'' (Scalar 8), Member ''destructor'' ptr]),
       Member ''tcp_tsorted_anchor'' list_head]),
     Member ''_nfct'' (Scalar 8), Member ''len'' (Scalar 4), Member ''data_len'' (Scalar 4),
     Member ''mac_len'' (Scalar 2), Member ''hdr_len'' (Scalar 2), Member ''queue_mapping'' (Scalar 2),
     Member ''__cloned_offset'' (Arr 0 (Scalar 1)), Bitfield ''cloned'' 1 1, Bitfield ''nohdr'' 1 1,
     Bitfield ''fclone'' 1 2, Bitfield ''peeked'' 1 1, Bitfield ''head_frag'' 1 1,
     Bitfield ''pfmemalloc'' 1 1, Member ''active_extensions'' (Scalar 1),
     Member ''headers_start'' (Arr 0 (Scalar 4)), Member ''__pkt_type_offset'' (Arr 0 (Scalar 1)),
     Bitfield ''pkt_type'' 1 3, Bitfield ''ignore_df'' 1 1, Bitfield ''nf_trace'' 1 1,
     Bitfield ''ip_summed'' 1 2, Bitfield ''ooo_okay'' 1 1, Bitfield ''l4_hash'' 1 1,
     Bitfield ''sw_hash'' 1 1, Bitfield ''wifi_acked_valid'' 1 1, Bitfield ''wifi_acked'' 1 1,
     Bitfield ''no_fcs'' 1 1, Bitfield ''encapsulation'' 1 1, Bitfield ''encap_hdr_csum'' 1 1,
     Bitfield ''csum_valid'' 1 1, Member ''__pkt_vlan_present_offset'' (Arr 0 (Scalar 1)),
     Bitfield ''vlan_present'' 1 1, Bitfield ''csum_complete_sw'' 1 1, Bitfield ''csum_level'' 1 2,
     Bitfield ''csum_not_inet'' 1 1, Bitfield ''dst_pending_confirm'' 1 1,
     Bitfield ''ndisc_nodetype'' 1 2, Bitfield ''ipvs_property'' 1 1,
     Bitfield ''inner_protocol_type'' 1 1, Bitfield ''remcsum_offload'' 1 1,
     Bitfield ''tc_skip_classify'' 1 1, Bitfield ''tc_at_ingress'' 1 1, Bitfield redirected 1 1,
     Bitfield from_ingress 1 1, Member ''tc_index'' (Scalar 2),
     Member [] (Union [Member ''csum'' (Scalar 4),
       Member [] (Struct [Member ''csum_start'' (Scalar 2), Member ''csum_offset'' (Scalar 2)])]),
     Member ''priority'' (Scalar 4), Member ''skb_iif'' (Scalar 4), Member ''hash'' (Scalar 4),
     Member ''vlan_proto'' (Scalar 2), Member ''vlan_tci'' (Scalar 2),
     Member [] (Union [Member ''napi_id'' (Scalar 4), Member ''sender_cpu'' (Scalar 4)])]"

definition sk_buff_tail_members :: "cmember list" where
  "sk_buff_tail_members =
    [Member [] (Union [Member ''mark'' (Scalar 4), Member ''reserved_tailroom'' (Scalar 4)]),
     Member [] (Union [Member ''inner_protocol'' (Scalar 2), Member ''inner_ipproto'' (Scalar 1)]),
     Member ''inner_transport_header'' (Scalar 2), Member ''inner_network_header'' (Scalar 2),
     Member ''inner_mac_header'' (Scalar 2), Member ''protocol'' (Scalar 2),
     Member ''transport_header'' (Scalar 2), Member ''network_header'' (Scalar 2),
     Member ''mac_header'' (Scalar 2), Member ''headers_end'' (Arr 0 (Scalar 4)),
     Member ''tail'' (Scalar 4), Member ''end'' (Scalar 4), Member ''head'' ptr, Member ''data'' ptr,
     Member ''truesize'' (Scalar 4), Member ''users'' refcount_t, Member ''extensions'' ptr]"

definition sk_buff_amd64 :: "cmember list" where
  "sk_buff_amd64 = sk_buff_head_members ''tc_redirected'' ''tc_from_ingress'' @
     [Member ''secmark'' (Scalar 4)] @ sk_buff_tail_members"

definition sk_buff_arm64 :: "cmember list" where
  "sk_buff_arm64 = sk_buff_head_members ''redirected'' ''from_ingress'' @ sk_buff_tail_members"

text \<open>The members the probes read, and their offsets in the two kernels.\<close>

definition skb_members_read :: "string list" where
  "skb_members_read = [''dev'', ''sk'', ''len'', ''mark'', ''protocol'', ''transport_header'',
     ''network_header'', ''head'']"

section \<open>Registers and contexts\<close>

definition pt_regs_amd64 :: "cmember list" where
  "pt_regs_amd64 = map (\<lambda>x. Member x (Scalar 8))
     [''r15'', ''r14'', ''r13'', ''r12'', ''bp'', ''bx'', ''r11'', ''r10'', ''r9'', ''r8'', ''ax'',
      ''cx'', ''dx'', ''si'', ''di'', ''orig_ax'', ''ip'', ''cs'', ''flags'', ''sp'', ''ss'']"

definition pt_regs_common :: "cmember list" where
  "pt_regs_common = map (\<lambda>x. Member x (Scalar 8))
     [''r15'', ''r14'', ''r13'', ''r12'', ''rbp'', ''rbx'', ''r11'', ''r10'', ''r9'', ''r8'', ''rax'',
      ''rcx'', ''rdx'', ''rsi'', ''rdi'', ''orig_rax'', ''rip'', ''cs'', ''eflags'', ''rsp'', ''ss'']"

definition user_pt_regs :: "cmember list" where
  "user_pt_regs = [Member ''regs'' (Arr 31 (Scalar 8)), Member ''sp'' (Scalar 8),
     Member ''pc'' (Scalar 8), Member ''pstate'' (Scalar 8)]"

definition pt_regs_arm64 :: "cmember list" where
  "pt_regs_arm64 =
    [Member [] (Union [Member ''user_regs'' (Struct user_pt_regs), Member [] (Struct user_pt_regs)]),
     Member ''orig_x0'' (Scalar 8), Member ''syscallno'' (Scalar 4), Member ''unused2'' (Scalar 4),
     Member ''orig_addr_limit'' (Scalar 8), Member ''pmr_save'' (Scalar 8),
     Member ''stackframe'' (Arr 2 (Scalar 8)), Member ''lockdep_hardirqs'' (Scalar 8),
     Member ''exit_rcu'' (Scalar 8)]"

definition xdp_md_common :: "cmember list" where
  "xdp_md_common = map (\<lambda>x. Member x (Scalar 4))
     [''data'', ''data_end'', ''data_meta'', ''ingress_ifindex'', ''rx_queue_index'', ''egress_ifindex'']"

definition xdp_md_amd64 :: "cmember list" where
  "xdp_md_amd64 = map (\<lambda>x. Member x (Scalar 4))
     [''data'', ''data_end'', ''data_meta'', ''ingress_ifindex'', ''rx_queue_index'']"

text \<open>\<open>struct __sk_buff\<close>, the context of the flow programs.\<close>

definition sk_buff_ctx :: "cmember list" where
  "sk_buff_ctx = map (\<lambda>x. Member x (Scalar 4))
     [''len'', ''pkt_type'', ''mark'', ''queue_mapping'', ''protocol'', ''vlan_present'', ''vlan_tci'',
      ''vlan_proto'', ''priority'', ''ingress_ifindex'', ''ifindex'', ''tc_index''] @
    [Member ''cb'' (Arr 5 (Scalar 4))] @
    map (\<lambda>x. Member x (Scalar 4)) [''hash'', ''tc_classid'', ''data'', ''data_end'', ''napi_id'',
      ''family'', ''remote_ip4'', ''local_ip4''] @
    [Member ''remote_ip6'' (Arr 4 (Scalar 4)), Member ''local_ip6'' (Arr 4 (Scalar 4)),
     Member ''remote_port'' (Scalar 4), Member ''local_port'' (Scalar 4), Member ''data_meta'' (Scalar 4),
     Member [] (Union [Member ''flow_keys'' ptr]), Member ''tstamp'' (Scalar 8),
     Member ''wire_len'' (Scalar 4), Member ''gso_segs'' (Scalar 4), Member [] (Union [Member ''sk'' ptr])]"

text \<open>The place of a register: its member's offset, plus its index in an array of words.\<close>

definition reg_offset :: "cmember list \<Rightarrow> reg \<Rightarrow> nat option" where
  "reg_offset ms r = map_option (\<lambda>off. off + 8 * snd r) (byte_offset ms (fst r))"

lemmas abi_defs = rb_node_def sk_buff_head_members_def sk_buff_tail_members_def sk_buff_amd64_def
  sk_buff_arm64_def skb_members_read_def pt_regs_amd64_def pt_regs_common_def user_pt_regs_def
  pt_regs_arm64_def xdp_md_common_def xdp_md_amd64_def sk_buff_ctx_def reg_offset_def

lemma skb_head_end: "end_of 0 (sk_buff_head_members r f) = 8 * 160"
  by (simp add: sk_buff_head_members_def rb_node_def layout_defs)

lemma skb_head_offsets:
  "map_of (bit_offsets 0 (sk_buff_head_members r f)) ''dev'' = Some (8 * 16)"
  "map_of (bit_offsets 0 (sk_buff_head_members r f)) ''sk'' = Some (8 * 24)"
  "map_of (bit_offsets 0 (sk_buff_head_members r f)) ''len'' = Some (8 * 112)"
  by (simp_all add: sk_buff_head_members_def rb_node_def layout_defs)

lemma skb_head_names:
  "{r, f} \<subseteq> {''tc_redirected'', ''tc_from_ingress'', ''redirected'', ''from_ingress''} \<Longrightarrow>
   x \<in> set (drop 3 skb_members_read) \<Longrightarrow> x \<notin> set (names_in (sk_buff_head_members r f))"
  by (auto simp: skb_members_read_def sk_buff_head_members_def)

text \<open>
  Without \<open>secmark\<close> the marks, the protocol and the header offsets move by four bytes in the
  arm64 kernel, while the other members stay: the reads of the probes depend on relocation.
\<close>

lemma skb_layouts:
  "map (byte_offset sk_buff_amd64) skb_members_read =
     map Some [16, 24, 112, 164, 176, 178, 180, 192]"
  "map (byte_offset sk_buff_arm64) skb_members_read =
     map Some [16, 24, 112, 160, 172, 174, 176, 192]"
  unfolding skb_members_read_def sk_buff_amd64_def sk_buff_arm64_def byte_offset_def bit_offset_def
    bit_offsets_append skb_head_end map_of_append
  by (simp_all add: map_add_def bit_offsets_absent skb_head_names [unfolded skb_members_read_def] skb_head_offsets
      sk_buff_tail_members_def layout_defs)

text \<open>
  The compact header and \<^verbatim>\<open>vmlinux.h\<close> place the registers alike, under different names; the
  accessors for the five parameters name members at the offsets of the calling convention. The
  newer \<open>xdp_md\<close> only appends a member.
\<close>

lemma register_frames:
  "map snd (bit_offsets 0 pt_regs_common) = map snd (bit_offsets 0 pt_regs_amd64)"
  "map (\<lambda>r. map_option (reg_offset pt_regs_amd64) (map_of x86_regs r)) [Parm1, Parm2, Parm3, Parm4, Parm5] =
     map (Some \<circ> Some) [112, 104, 96, 88, 72]"
  "map (\<lambda>r. map_option (reg_offset pt_regs_arm64) (map_of arm64_regs r)) [Parm1, Parm2, Parm3, Parm4, Parm5] =
     map (Some \<circ> Some) [0, 8, 16, 24, 32]"
  "take 5 xdp_md_common = xdp_md_amd64"
  "map (byte_offset sk_buff_ctx) [''len'', ''data'', ''data_end''] = map Some [0, 76, 80]"
  by (simp_all add: abi_defs place_defs x86_regs_def arm64_regs_def)

end
