(* ===== verification/Prog_Args.thy ===== *)
theory Prog_Args
  imports Core_Read Kernel_Abi
begin

text \<open>
  How a program gets its arguments: the wrappers of \<^verbatim>\<open>bpf/headers/bpf_tracing.h\<close>, which turn
  the words of a raw context or the registers of a probed function into named arguments, its
  relocatable register accessors, and the argument arrays of the printing macros of
  \<^verbatim>\<open>bpf/headers/bpf_helpers.h\<close>. As in \<open>Core_Read\<close>, a macro family indexed by the number of
  arguments is a function on that number, and \<^term>\<open>None\<close> an expansion that does not compile.
\<close>

section \<open>Counting arguments\<close>

text \<open>\<open>___bpf_nth\<close> picks its fourteenth argument, so up to twelve are counted.\<close>

definition bpf_nth :: "'a list \<Rightarrow> 'a option" where
  "bpf_nth xs = (if 14 \<le> length xs then Some (xs ! 13) else None)"

definition bpf_narg :: "'a list \<Rightarrow> nat option" where
  "bpf_narg args = bpf_nth (0 # map (\<lambda>_. 0) args @ [12, 11, 10, 9, 8, 7, 6, 5, 4, 3, 2, 1, 0])"

lemma bpf_narg_length: "length args \<le> 12 \<Longrightarrow> bpf_narg args = Some (length args)"
  by (auto simp: bpf_narg_def bpf_nth_def nth_append nth_Cons' le_Suc_eq numeral_nat)

section \<open>Wrappers\<close>

text \<open>
  \<open>___bpf_ctx_cast\<close>: a program declared with \<open>n\<close> arguments gets the first \<open>n\<close> words of its
  context, at most twelve.
\<close>

fun bpf_ctx_cast :: "nat \<Rightarrow> (nat \<Rightarrow> u64) \<Rightarrow> u64 list option" where
  "bpf_ctx_cast 0 ctx = Some []"
| "bpf_ctx_cast (Suc n) ctx =
     (if 12 \<le> n then None else map_option (\<lambda>xs. xs @ [ctx n]) (bpf_ctx_cast n ctx))"

text \<open>
  \<open>BPF_PROG\<close> defines a program that passes its cast context to the function with the named
  arguments; the names are given as a list and only counted. The raw context, which the function
  gets as well, is the \<open>ctx\<close> that \<open>body\<close> may mention.
\<close>

definition BPF_PROG :: "string list \<Rightarrow> (u64 list \<Rightarrow> 'r) \<Rightarrow> (nat \<Rightarrow> u64) \<Rightarrow> 'r option" where
  "BPF_PROG args body ctx = do { n \<leftarrow> bpf_narg args; xs \<leftarrow> bpf_ctx_cast n ctx; Some (body xs) }"

text \<open>\<open>___bpf_kprobe_args\<close>: the first \<open>n\<close> parameter registers, at most five.\<close>

definition kprobe_parms :: "pt_role list" where
  "kprobe_parms = [Parm1, Parm2, Parm3, Parm4, Parm5]"

fun bpf_kprobe_args :: "bpf_target \<Rightarrow> nat \<Rightarrow> pt_regs \<Rightarrow> u64 list option" where
  "bpf_kprobe_args t 0 ctx = Some []"
| "bpf_kprobe_args t (Suc n) ctx =
     (if 5 \<le> n then None
      else map_option (\<lambda>xs. xs @ [pt_read t (kprobe_parms ! n) ctx]) (bpf_kprobe_args t n ctx))"

definition BPF_KPROBE :: "bpf_target \<Rightarrow> string list \<Rightarrow> (u64 list \<Rightarrow> 'r) \<Rightarrow> pt_regs \<Rightarrow> 'r option" where
  "BPF_KPROBE t args body ctx = do { n \<leftarrow> bpf_narg args; xs \<leftarrow> bpf_kprobe_args t n ctx; Some (body xs) }"

text \<open>\<open>___bpf_kretprobe_args\<close>: nothing, or the return value.\<close>

fun bpf_kretprobe_args :: "bpf_target \<Rightarrow> nat \<Rightarrow> pt_regs \<Rightarrow> u64 list option" where
  "bpf_kretprobe_args t 0 ctx = Some []"
| "bpf_kretprobe_args t (Suc n) ctx = (if 1 \<le> n then None else Some [pt_read t Rc ctx])"

definition BPF_KRETPROBE :: "bpf_target \<Rightarrow> string list \<Rightarrow> (u64 list \<Rightarrow> 'r) \<Rightarrow> pt_regs \<Rightarrow> 'r option" where
  "BPF_KRETPROBE t args body ctx = do { n \<leftarrow> bpf_narg args; xs \<leftarrow> bpf_kretprobe_args t n ctx; Some (body xs) }"

lemma bpf_ctx_cast_words: "n \<le> 12 \<Longrightarrow> bpf_ctx_cast n ctx = Some (map ctx [0..<n])"
  by (induction n) simp_all

lemma bpf_kprobe_args_regs:
  "n \<le> 5 \<Longrightarrow> bpf_kprobe_args t n ctx = Some (map (\<lambda>r. pt_read t r ctx) (take n kprobe_parms))"
proof (induction n)
  case (Suc n)
  have "n < length kprobe_parms" using Suc.prems by (simp add: kprobe_parms_def)
  with Suc show ?case by (simp add: take_Suc_conv_app_nth)
qed simp

text \<open>
  A program declared with at most twelve arguments gets the first words of its context in
  order; a probe with at most five the parameter registers; a return probe with at most one the
  return value. Six named arguments of a probe do not compile.
\<close>

lemma wrapper_arguments:
  "length args \<le> 12 \<Longrightarrow> BPF_PROG args body ctx = Some (body (map ctx [0..<length args]))"
  "length args \<le> 5 \<Longrightarrow> BPF_KPROBE t args body regs =
     Some (body (map (\<lambda>r. pt_read t r regs) (take (length args) kprobe_parms)))"
  "length args = 6 \<Longrightarrow> BPF_KPROBE t args body regs = None"
  "BPF_KRETPROBE t [] body regs = Some (body [])"
  "BPF_KRETPROBE t [x] body regs = Some (body [pt_read t Rc regs])"
  by (simp_all add: BPF_PROG_def BPF_KPROBE_def BPF_KRETPROBE_def bpf_narg_length bpf_ctx_cast_words
      bpf_kprobe_args_regs numeral_nat)

section \<open>Argument arrays\<close>

text \<open>
  \<open>___bpf_fill\<close>: assignments of the arguments to consecutive elements. \<open>BPF_SEQ_PRINTF\<close> and
  \<open>BPF_SNPRINTF\<close> declare an array of as many elements as arguments and fill it; the helper gets
  the array and its size in bytes.
\<close>

fun bpf_fill_from :: "nat \<Rightarrow> u64 list \<Rightarrow> u64 list \<Rightarrow> u64 list" where
  "bpf_fill_from p arr [] = arr"
| "bpf_fill_from p arr (x # args) = bpf_fill_from (p + 1) (arr[p := x]) args"

definition bpf_fill :: "u64 list \<Rightarrow> u64 list \<Rightarrow> u64 list option" where
  "bpf_fill arr args = do { n \<leftarrow> bpf_narg args;
     if n = length args then Some (bpf_fill_from 0 arr args) else None }"

definition BPF_SEQ_PRINTF :: "(u64 list \<Rightarrow> nat \<Rightarrow> 'r) \<Rightarrow> (nat \<Rightarrow> u64) \<Rightarrow> u64 list \<Rightarrow> 'r option" where
  "BPF_SEQ_PRINTF bpf_seq_printf stack args = do {
     n \<leftarrow> bpf_narg args;
     param \<leftarrow> bpf_fill (map stack [0..<n]) args;
     Some (bpf_seq_printf param (8 * n))
   }"

lemma bpf_fill_from_append:
  "length arr = p + length args \<Longrightarrow> bpf_fill_from p arr args = take p arr @ args"
proof (induction args arbitrary: p arr)
  case (Cons x args)
  have "bpf_fill_from (Suc p) (arr[p := x]) args = take (Suc p) (arr[p := x]) @ args"
    using Cons.IH [of "arr[p := x]" "Suc p"] Cons.prems by simp
  then show ?case using Cons.prems by (simp add: take_Suc_conv_app_nth)
qed simp

text \<open>Up to twelve values reach the helper in order, whatever the stack held before.\<close>

lemma printf_arguments:
  "length args \<le> 12 \<Longrightarrow>
   BPF_SEQ_PRINTF bpf_seq_printf stack args = Some (bpf_seq_printf args (8 * length args))"
  by (simp add: BPF_SEQ_PRINTF_def bpf_fill_def bpf_narg_length bpf_fill_from_append)

section \<open>Register accessors\<close>

text \<open>
  The accessors of x86 come in three versions: with the kernel's types, and otherwise for the
  32-bit or the 64-bit user-space frame. \<^term>\<open>None\<close> is a literal 0.
\<close>

definition x86_i386_regs :: "(pt_role \<times> reg option) list" where
  "x86_i386_regs = [(Parm1, Some (''eax'', 0)), (Parm2, Some (''edx'', 0)), (Parm3, Some (''ecx'', 0)),
     (Parm4, None), (Parm5, None), (Ret, Some (''esp'', 0)), (Fp, Some (''ebp'', 0)),
     (Rc, Some (''eax'', 0)), (Sp, Some (''esp'', 0)), (Ip, Some (''eip'', 0))]"

definition x86_user_regs :: "(pt_role \<times> reg option) list" where
  "x86_user_regs = [(Parm1, Some (''rdi'', 0)), (Parm2, Some (''rsi'', 0)), (Parm3, Some (''rdx'', 0)),
     (Parm4, Some (''rcx'', 0)), (Parm5, Some (''r8'', 0)), (Ret, Some (''rsp'', 0)),
     (Fp, Some (''rbp'', 0)), (Rc, Some (''rax'', 0)), (Sp, Some (''rsp'', 0)), (Ip, Some (''rip'', 0))]"

definition x86_accessors :: "string list \<Rightarrow> (pt_role \<times> reg option) list" where
  "x86_accessors defs =
     (if ''__KERNEL__'' \<in> set defs \<or> ''__VMLINUX_H__'' \<in> set defs
      then map (\<lambda>(r, m). (r, Some m)) x86_regs
      else if ''__i386__'' \<in> set defs then x86_i386_regs else x86_user_regs)"

text \<open>
  Compiled against \<^verbatim>\<open>vmlinux.h\<close> or against \<^verbatim>\<open>common.h\<close>, every accessor reads the same bytes of
  the frame.
\<close>

lemma x86_versions_agree:
  "map (\<lambda>(r, m). (r, map_option (reg_offset pt_regs_amd64) m)) (x86_accessors [''__VMLINUX_H__'']) =
   map (\<lambda>(r, m). (r, map_option (reg_offset pt_regs_common) m)) (x86_accessors [])"
  by (simp add: x86_accessors_def x86_regs_def x86_user_regs_def abi_defs place_defs)

text \<open>The accessors with suffix \<open>_CORE\<close> read the frame as kernel memory.\<close>

definition PT_REGS_CORE ::
    "read_helpers \<Rightarrow> cmember list \<Rightarrow> bpf_target \<Rightarrow> pt_role \<Rightarrow> u64 \<Rightarrow> bytes option" where
  "PT_REGS_CORE h frame t r x = do {
     reg \<leftarrow> map_of (target_regs t) r;
     off \<leftarrow> reg_offset frame reg;
     BPF_CORE_READ h 8 x [of_nat off]
   }"

text \<open>
  The return address: a register on powerpc and sparc, elsewhere the word the stack or frame
  pointer leads to.
\<close>

definition BPF_KPROBE_READ_RET_IP :: "read_helpers \<Rightarrow> bpf_target \<Rightarrow> pt_regs \<Rightarrow> u64" where
  "BPF_KPROBE_READ_RET_IP h t ctx =
     (case t of
        Powerpc \<Rightarrow> ctx (''link'', 0)
      | Sparc \<Rightarrow> pt_read t Ret ctx
      | _ \<Rightarrow> le_word (snd (bpf_probe_read_kernel h (pt_read t Ret ctx) 8)))"

definition BPF_KRETPROBE_READ_RET_IP :: "read_helpers \<Rightarrow> bpf_target \<Rightarrow> pt_regs \<Rightarrow> u64" where
  "BPF_KRETPROBE_READ_RET_IP h t ctx =
     (case t of
        Powerpc \<Rightarrow> BPF_KPROBE_READ_RET_IP h t ctx
      | Sparc \<Rightarrow> BPF_KPROBE_READ_RET_IP h t ctx
      | _ \<Rightarrow> le_word (snd (bpf_probe_read_kernel h (pt_read t Fp ctx + 8) 8)))"

text \<open>
  On both shipped architectures the relocatable accessors of the parameters, the return value
  and the stack pointer read the bytes the direct ones read, if the frame is readable.
\<close>

definition frame_word :: "bytes \<Rightarrow> nat \<Rightarrow> u64" where
  "frame_word img off = le_word (take 8 (drop off img))"

lemma core_accessor:
  assumes "map_of (target_regs t) r = Some reg" and "reg_offset frame reg = Some off"
    and "bpf_probe_read_kernel h (x + of_nat off) 8 = (0, take 8 (drop off img))"
    and "pt_regs reg = frame_word img off"
  shows "map_option le_word (PT_REGS_CORE h frame t r x) = Some (pt_read t r pt_regs)"
  using assms
  by (simp add: PT_REGS_CORE_def BPF_CORE_READ_def BPF_CORE_READ_INTO_def arrow_def pt_read_def
      frame_word_def
      read_value_arrow [of _ "bpf_probe_read_kernel h" "bpf_probe_read_kernel h", OF refl])

end
