(* ===== verification/Rt_Guard.thy ===== *)
theory Rt_Guard
  imports Prog_Args Bpf_Maps
begin

text \<open>
  The real-time guard of \<^verbatim>\<open>contrib/sched-ext\<close>: a hook on task switches that puts the tasks of
  the CPU's local queue back to the scheduler when a task of a higher scheduling class takes the
  CPU, and the soak test that runs it. The kernel's queues and the test's system calls are
  arguments. Also the execve counter \<^verbatim>\<open>bpf/kprobe.c\<close>.
\<close>

section \<open>The switch hook\<close>










section \<open>The soak test\<close>

definition SOAK_SEC :: int where "SOAK_SEC = 60"
definition SCX_EXIT_NONE :: u64 where "SCX_EXIT_NONE = 0"

datatype scx_test_status = SCX_TEST_PASS | SCX_TEST_SKIP | SCX_TEST_FAIL

text \<open>
  The polling loop of \<open>run\<close>: \<open>time i\<close> is what the \<open>i\<close>-th call of \<open>time\<close> after the start returns,
  \<open>kind i\<close> the scheduler's exit kind read in iteration \<open>i\<close>. The result is the number of sleeps and
  whether the scheduler was still running throughout.
\<close>

partial_function (option) soak_loop :: "(nat \<Rightarrow> int) \<Rightarrow> (nat \<Rightarrow> u64) \<Rightarrow> int \<Rightarrow> nat \<Rightarrow> (nat \<times> bool) option" where
  "soak_loop time kind start i =
     (if time i - start < SOAK_SEC
      then if kind i \<noteq> SCX_EXIT_NONE then Some (i, False)
           else soak_loop time kind start (Suc i)
      else Some (i, True))"




text \<open>
  The test around the loop: \<open>attach\<close> whether the scheduler could be attached, the results of the
  two \<open>fork\<close> calls in the parent, and the exit kind at the end. \<open>SCX_FAIL_IF\<close> and \<open>SCX_EQ\<close> of the
  test framework return \<open>SCX_TEST_FAIL\<close> at once. The result carries what the test cleans up.
\<close>

datatype soak_action = Kill int | Waitpid int | Destroy_link

definition run_test :: "(nat \<Rightarrow> int) \<Rightarrow> (nat \<Rightarrow> u64) \<Rightarrow> int \<Rightarrow> bool \<Rightarrow> int \<Rightarrow> int \<Rightarrow> u64 \<Rightarrow>
    (scx_test_status \<times> soak_action list) option" where
  "run_test time kind start attach ext_pid rt_pid final =
     (if \<not> attach then Some (SCX_TEST_FAIL, [])
      else if ext_pid < 0 then Some (SCX_TEST_FAIL, [])
      else if rt_pid < 0 then Some (SCX_TEST_FAIL, [])
      else do {
        soak_loop time kind start 0;
        let acts = [Kill ext_pid, Kill rt_pid, Waitpid ext_pid, Waitpid rt_pid] in
        if final \<noteq> SCX_EXIT_NONE then Some (SCX_TEST_FAIL, acts)
        else Some (SCX_TEST_PASS, acts @ [Destroy_link])
      })"





text \<open>If the second \<open>fork\<close> fails the first child, a busy loop, is never killed.\<close>

lemma failed_fork_leaks_child:
  "0 \<le> ext_pid \<Longrightarrow> rt_pid < 0 \<Longrightarrow>
   run_test time kind start True ext_pid rt_pid final = Some (SCX_TEST_FAIL, [])"
  by (simp add: run_test_def)

section \<open>The execve counter\<close>

definition kprobe_execve :: "u64 list \<Rightarrow> u64 list" where
  "kprobe_execve kprobe_map =
     (case array_lookup kprobe_map 0 of
        None \<Rightarrow> array_write 0 1 kprobe_map
      | Some valp \<Rightarrow> array_write 0 (valp + 1) kprobe_map)"

lemma kprobe_execve_counts: "(kprobe_execve ^^ n) [v] = [v + of_nat n]"
  by (induction n) (simp_all add: kprobe_execve_def array_lookup_def array_write_def)

end
