(* ===== verification/Spec2Isabelle.thy ===== *)
theory Spec2Isabelle
  imports Xdp_Guarantees Bucket_Race Block_Virt Flow Kernel_Latency Netif_Tx Softirq Tcp_Trace
    Socket_Latency Connect_Trace Rt_Guard Prog_Args
begin

text \<open>
  \<^bold>\<open>Verification of the eBPF programs of the telemetry agent.\<close>

  \<^bold>\<open>The program.\<close> The kernel side of the agent is a set of eBPF programs under \<^verbatim>\<open>src/bpf\<close>. One
  of them acts on traffic: \<^verbatim>\<open>xdp_mitigator.c\<close> admits, sheds or redirects packets by a policy
  that user space writes into a map (\<^verbatim>\<open>policy_map.h\<close>). The others observe: probes on kernel
  functions and tracepoints measure latencies, count flows and report drops and resets, with the
  shared headers \<^verbatim>\<open>inspector.h\<close>, \<^verbatim>\<open>bpf_core_read.h\<close>, \<^verbatim>\<open>bpf_tracing.h\<close> and
  \<^verbatim>\<open>feature-switch.h\<close>. \<^verbatim>\<open>contrib/sched-ext\<close> adds a hook for schedulers and its soak test. The
  programs do not call each other; they share headers, and each owns its maps.

  \<^bold>\<open>How code becomes definitions.\<close> A program is a function from what it gets (packet bytes,
  registers, tracepoint record, helper answers) and the state of its maps to its result and the
  new state. Words have the width of the source and wrap. Packet bytes, tracepoint records and
  kernel memory are byte lists; a load outside a packet is \<^term>\<open>None\<close>, so that "no out-of-bounds
  read" is a theorem and not an assumption. What the kernel decides (whether an LRU map evicts,
  whether a ring buffer has room, random numbers, the clock, the layout of its structures) is an
  argument of the definitions. Definitions keep the names of the source.

  \<^bold>\<open>Foundations.\<close>
  \<^item> \<open>Elite_Prelude\<close>: word types, little-endian bytes, checked loads, structure layout, and lemmas
    on lists, words and association lists.
  \<^item> \<open>Bpf_Endian\<close> (\<^verbatim>\<open>bpf_endian.h\<close>): the byte-order macros are involutions.
  \<^item> \<open>Bpf_Maps\<close> (\<^verbatim>\<open>bpf_helper_defs.h\<close>, \<^verbatim>\<open>common.h\<close>): hash, LRU, array and per-CPU maps; the
    locales \<open>bpf_kv\<close> and \<open>bpf_hash\<close> state their contract and are interpreted on the models.
  \<^item> \<open>Prog_Run\<close>: the locales \<open>prog\<close> and \<open>tallied\<close>, for a program run on a sequence of inputs
    and for counters that grow by what each step contributes.
  \<^item> \<open>Interval\<close>: the locale \<open>interval_probe\<close>, the contract of every latency probe: hooks open,
    mark, forget and close a measurement per key, and the reports are those of an abstract
    protocol without maps. Its refinement and liveness lemmas are proved once.
  \<^item> \<open>Kernel_Layout\<close>, \<open>Tracepoint\<close>, \<open>Kernel_Abi\<close>: C layout with nested structures, unions and
    bit-fields; \<open>struct sock\<close> and \<open>struct sk_buff\<close> of both shipped kernels, the tracepoint records
    and the structures the programs declare for them, register frames, helper numbers.
  \<^item> \<open>Probe_Env\<close>, \<open>Instances\<close>: target selection, register accessors, helper answers, feature
    switches; and concrete kernels and packets for the witnesses.

  \<^bold>\<open>The admission program.\<close> \<open>Policy_Map\<close> has the constants, structures and map declarations of
  \<^verbatim>\<open>policy_map.h\<close>; \<open>Packet\<close> the header layouts; \<open>Xdp_Mitigator\<close> one definition per function
  of \<^verbatim>\<open>xdp_mitigator.c\<close>, its main function cut at the comments of the source into \<open>xdp_gate\<close>,
  \<open>xdp_v3\<close>, \<open>xdp_v2\<close> and \<open>xdp_legacy\<close>.
  \<^item> \<open>Xdp_Parse\<close>: the parser reads only inside the packet and inverts the frame builder.
  \<^item> \<open>Token_Bucket\<close>: the 64-bit bucket refines one over the naturals, for clocks below
    \<open>2 ^ 61\<close> ns (73 years) and tier shares in parts per million; the locale \<open>metered\<close> gives
    the conformance bound over any sequence of requests.
  \<^item> \<open>Bucket_Race\<close>: the loads and stores of the bucket as an inductive step relation over any
    number of CPUs: what survives interleaving (the bound) and what does not (the rate).
  \<^item> \<open>Xdp_Admission\<close>, \<open>Xdp_Guarantees\<close>: the program is total and keeps the control plane's
    tables, counters match verdicts over any run, who is dropped and with which share.

  \<^bold>\<open>The probes.\<close> \<open>Inspector\<close> and \<open>Inspector_Facts\<close> are \<^verbatim>\<open>inspector.h\<close>; \<open>Core_Read\<close> the
  macros of \<^verbatim>\<open>bpf_core_read.h\<close>, \<open>Prog_Args\<close> the wrappers and register accessors of
  \<^verbatim>\<open>bpf_tracing.h\<close>. \<open>Block_Virt\<close> (\<^verbatim>\<open>tracebiolatency.c\<close>,
  \<^verbatim>\<open>virtcmdlatency.c\<close>), \<open>Kernel_Latency\<close>, \<open>Netif_Tx\<close>, \<open>Softirq\<close> and \<open>Connect_Trace\<close> are
  interval probes: each interprets \<open>interval_probe\<close> on its own steps, and each theory also shows
  where its probe departs from the contract. \<open>Flow\<close> and \<open>Connect_Trace\<close> interpret \<open>tallied\<close>;
  \<open>Socket_Latency\<close> relates its histogram to the measurements of a table of sockets. \<open>Tcp_Trace\<close>
  has \<^verbatim>\<open>packetloss.c\<close>, \<^verbatim>\<open>tcpreset.c\<close> and \<^verbatim>\<open>tcpretrans.c\<close>; \<open>Rt_Guard\<close> the scheduler hook,
  its soak test and \<^verbatim>\<open>kprobe.c\<close>.

  \<^bold>\<open>Bounds.\<close> No definition uses fuel. The one loop of unknown length, the polling loop of the soak
  test, is a partial function whose termination is a theorem. Runs are lists of any length.

  \<^bold>\<open>Not modelled.\<close> The user-space agent in Go, the web interface, deployment and scripts. Of the
  generated kernel headers, the types no program mentions. Helpers no program calls. Files that
  only include headers, and \<^verbatim>\<open>errno.h\<close>, which nothing includes. The instruction-level effects of
  the compiler and the verifier are outside the model, except for the accesses of \<open>Bucket_Race\<close>.
\<close>

end
